(* ===== verification/Prelude.thy ===== *)
theory Prelude
  imports Main "HOL-Library.Word" "HOL-Library.AList" "HOL-Library.Sublist"
begin

text \<open>
  Shared vocabulary of the development: Go strings and byte slices, Go maps as
  enumerations of their entries, the part of package \<open>strings\<close> the operator uses, and
  the lemma collections that the component theories extend.
\<close>

named_theorems names_simps \<open>definitions of object names, label keys and other constants\<close>
named_theorems keeps_intros \<open>introduction rules of the invariant calculus of programs\<close>
named_theorems ensures_intros \<open>introduction rules of the success calculus of programs\<close>

section \<open>Strings and byte slices\<close>

text \<open>A Go \<open>string\<close> and a \<open>[]byte\<close> are sequences of bytes; HOL's \<open>char\<close> is a byte.\<close>

type_synonym bytes = string

text \<open>Go's \<open>strings.Contains(s, substr)\<close>.\<close>

definition strings_Contains :: "string \<Rightarrow> string \<Rightarrow> bool" where
  "strings_Contains s sub = sublist sub s"

lemma strings_Contains_append1 [simp]:
  "strings_Contains s sub \<Longrightarrow> strings_Contains (s @ t) sub"
  by (simp add: strings_Contains_def sublist_appendI sublist_append)

lemma strings_Contains_append2 [simp]:
  "strings_Contains t sub \<Longrightarrow> strings_Contains (s @ t) sub"
  by (simp add: strings_Contains_def sublist_append)

lemma strings_Contains_infix [simp]: "strings_Contains (a @ sub @ b) sub"
  by (simp add: strings_Contains_def)

section \<open>Go maps\<close>

text \<open>
  A Go map is given by the entries in the order in which one \<open>range\<close> loop meets them: a
  list of pairs with distinct keys. Go leaves that order open, so a statement about code
  that ranges over a map holds for every order (see \<open>gomap_ranges_agree\<close>). A nil map is
  \<open>None\<close> where the code tells it from an empty one.
\<close>

type_synonym 'v gomap = "(string \<times> 'v) list"

definition gomap_wf :: "'v gomap \<Rightarrow> bool" where
  "gomap_wf m \<longleftrightarrow> distinct (map fst m)"

text \<open>Reading a key of a possibly nil map; for strings the zero value is the empty string.\<close>

definition gomap_get :: "string gomap option \<Rightarrow> string \<Rightarrow> string" where
  "gomap_get m k = (case m of None \<Rightarrow> [] | Some es \<Rightarrow>
     (case map_of es k of None \<Rightarrow> [] | Some v \<Rightarrow> v))"

text \<open>\<open>len(m)\<close>, with 0 for the nil map.\<close>

definition gomap_len :: "'v gomap option \<Rightarrow> nat" where
  "gomap_len m = (case m of None \<Rightarrow> 0 | Some es \<Rightarrow> length es)"

text \<open>The entries a \<open>range\<close> loop meets: none for the nil map.\<close>

definition gomap_entries :: "'v gomap option \<Rightarrow> 'v gomap" where
  "gomap_entries m = (case m of None \<Rightarrow> [] | Some es \<Rightarrow> es)"

lemma gomap_entries_simps [simp]:
  "gomap_entries None = []" "gomap_entries (Some es) = es"
  by (simp_all add: gomap_entries_def)

text \<open>Storing a key: \<open>m[k] = v\<close>.\<close>

definition gomap_put :: "string \<Rightarrow> 'v \<Rightarrow> 'v gomap \<Rightarrow> 'v gomap" where
  "gomap_put k v m = AList.update k v m"

text \<open>\<open>for k, v := range src { if keep(v) { dst[k] = v } }\<close>\<close>

definition gomap_copy_if :: "('v \<Rightarrow> bool) \<Rightarrow> 'v gomap \<Rightarrow> 'v gomap \<Rightarrow> 'v gomap" where
  "gomap_copy_if keep src dst =
     fold (\<lambda>(k, v) m. if keep v then gomap_put k v m else m) src dst"

lemma map_of_gomap_put [simp]: "map_of (gomap_put k v m) = (map_of m)(k \<mapsto> v)"
  by (simp add: gomap_put_def update_conv')

lemma gomap_wf_put [simp]: "gomap_wf m \<Longrightarrow> gomap_wf (gomap_put k v m)"
  by (simp add: gomap_wf_def gomap_put_def distinct_update)

lemma gomap_wf_copy_if [simp]: "gomap_wf dst \<Longrightarrow> gomap_wf (gomap_copy_if keep src dst)"
  unfolding gomap_copy_if_def
  by (induction src arbitrary: dst) (auto simp: gomap_wf_put)

text \<open>The loop, read as a function of the key: the kept entries win over the target's.\<close>

lemma map_of_gomap_copy_if:
  assumes "gomap_wf src"
  shows "map_of (gomap_copy_if keep src dst) k =
    (case map_of src k of
       Some v \<Rightarrow> if keep v then Some v else map_of dst k
     | None \<Rightarrow> map_of dst k)"
  using assms
proof (induction src arbitrary: dst)
  case Nil
  then show ?case by (simp add: gomap_copy_if_def)
next
  case (Cons e src)
  obtain k' v' where e: "e = (k', v')" by (cases e)
  from Cons.prems e have wf: "gomap_wf src" and fresh: "map_of src k' = None"
    by (auto simp: gomap_wf_def map_of_eq_None_iff)
  have step: "gomap_copy_if keep (e # src) dst =
      gomap_copy_if keep src (if keep v' then gomap_put k' v' dst else dst)"
    by (simp add: gomap_copy_if_def e)
  show ?case
    unfolding step Cons.IH [OF wf]
    using e fresh by (auto split: option.splits)
qed

text \<open>Two enumerations of one map give the same loop result, as a map.\<close>

lemma gomap_ranges_agree:
  assumes "gomap_wf src" and "gomap_wf src'" and "set src = set src'"
  shows "map_of (gomap_copy_if keep src dst) = map_of (gomap_copy_if keep src' dst)"
proof -
  have "map_of src = map_of src'"
    using assms by (simp add: gomap_wf_def map_of_inject_set)
  then show ?thesis
    using assms by (simp add: fun_eq_iff map_of_gomap_copy_if)
qed

end
