(* ===== verification/Kube_Objects.thy ===== *)
theory Kube_Objects
  imports Prelude
begin

text \<open>
  The Kubernetes objects the operator reads and writes, as records with the fields the
  source sets or reads (packages \<open>corev1\<close>, \<open>appsv1\<close>, \<open>metav1\<close> and \<open>unstructured\<close>).
  The types of values the operator only copies from a template into a pod (tolerations,
  affinity) are left opaque. Integers declared \<open>int32\<close> are 32-bit words and \<open>int64\<close>
  64-bit words, read as signed.
\<close>

type_synonym int32 = "32 word"
type_synonym int64 = "64 word"

text \<open>A point in time, in nanoseconds since the Unix epoch.\<close>

type_synonym time = int

typedecl toleration
typedecl affinity

text \<open>A \<open>resource.Quantity\<close>, known by its canonical text.\<close>

datatype quantity = Quantity string

section \<open>Metadata\<close>

record owner_reference =
  or_kind :: string
  or_name :: string
  or_uid :: string
  or_controller :: bool

record object_meta =
  om_namespace :: string
  om_name :: string
  om_uid :: string
  om_resourceVersion :: string
  om_labels :: "string gomap option"
  om_annotations :: "string gomap option"
  om_ownerReferences :: "owner_reference list"
  om_finalizers :: "string list"
  om_deletionTimestamp :: "time option"

text \<open>\<open>metav1.ObjectMeta{Namespace: ns, Name: n}\<close>, all other fields zero.\<close>

definition meta_of :: "string \<Rightarrow> string \<Rightarrow> object_meta" where
  "meta_of ns n = \<lparr>om_namespace = ns, om_name = n, om_uid = [], om_resourceVersion = [],
     om_labels = None, om_annotations = None, om_ownerReferences = [], om_finalizers = [],
     om_deletionTimestamp = None\<rparr>"

text \<open>\<open>client.ObjectKey\<close>: namespace and name.\<close>

datatype obj_key = ObjectKey (key_namespace: string) (key_name: string)

definition meta_key :: "object_meta \<Rightarrow> obj_key" where
  "meta_key m = ObjectKey (om_namespace m) (om_name m)"

lemma meta_of_simps [simp]:
  "om_namespace (meta_of ns n) = ns" "om_name (meta_of ns n) = n"
  "om_annotations (meta_of ns n) = None" "om_ownerReferences (meta_of ns n) = []"
  "om_finalizers (meta_of ns n) = []" "om_resourceVersion (meta_of ns n) = []"
  "om_uid (meta_of ns n) = []" "om_labels (meta_of ns n) = None"
  "om_deletionTimestamp (meta_of ns n) = None"
  by (simp_all add: meta_of_def)

lemma meta_key_simps [simp]:
  "meta_key (meta_of ns n) = ObjectKey ns n"
  "meta_key (m\<lparr>om_resourceVersion := v\<rparr>) = meta_key m"
  "meta_key (m\<lparr>om_annotations := a\<rparr>) = meta_key m"
  "meta_key (m\<lparr>om_finalizers := fs\<rparr>) = meta_key m"
  "meta_key (m\<lparr>om_ownerReferences := os\<rparr>) = meta_key m"
  "meta_key (m\<lparr>om_deletionTimestamp := d\<rparr>) = meta_key m"
  "meta_key (m\<lparr>om_labels := a\<rparr>) = meta_key m"
  by (simp_all add: meta_key_def)

section \<open>Pods\<close>

record pod_security_context =
  psc_runAsNonRoot :: "bool option"
  psc_runAsUser :: "int64 option"
  psc_runAsGroup :: "int64 option"
  psc_fsGroup :: "int64 option"

record security_context =
  sc_runAsNonRoot :: "bool option"
  sc_runAsUser :: "int64 option"
  sc_runAsGroup :: "int64 option"
  sc_seccompProfile :: "string option"
  sc_appArmorProfile :: "string option"

datatype volume_source =
    ConfigMapVolume string
  | SecretVolume string
  | PVCVolume string
  | EmptyDirVolume
  | ProjectedSecretVolume string "(string \<times> string) list"

record volume =
  vol_name :: string
  vol_source :: volume_source

record volume_mount =
  vm_name :: string
  vm_mountPath :: string
  vm_readOnly :: bool

record container_port =
  cp_name :: string
  cp_containerPort :: int32

record probe =
  pr_tcpPort :: int32
  pr_initialDelaySeconds :: int32
  pr_periodSeconds :: int32

record resource_requirements =
  rr_limits :: "quantity gomap option"
  rr_requests :: "quantity gomap option"

record container =
  ct_name :: string
  ct_image :: string
  ct_args :: "string list"
  ct_securityContext :: security_context
  ct_ports :: "container_port list"
  ct_resources :: resource_requirements
  ct_volumeMounts :: "volume_mount list"
  ct_livenessProbe :: probe
  ct_readinessProbe :: probe

record pod_spec =
  ps_securityContext :: pod_security_context
  ps_nodeSelector :: "string gomap"
  ps_tolerations :: "toleration list option"
  ps_affinity :: "affinity option"
  ps_volumes :: "volume list"
  ps_restartPolicy :: string
  ps_imagePullSecrets :: "string list"
  ps_containers :: "container list"

record pod =
  pod_meta :: object_meta
  pod_phase :: string
  pod_ip :: string

section \<open>Namespaced objects\<close>

record config_map =
  cm_meta :: object_meta
  cm_data :: "string gomap"

record service_port =
  sp_name :: string
  sp_port :: int32
  sp_targetPort :: int32
  sp_nodePort :: int32

record service =
  svc_meta :: object_meta
  svc_type :: string
  svc_clusterIP :: string
  svc_selector :: "string gomap"
  svc_ports :: "service_port list"

record pvc =
  pvc_meta :: object_meta
  pvc_accessModes :: "string list"
  pvc_storageClassName :: "string option"
  pvc_requests :: "quantity gomap"

record stateful_set =
  sts_meta :: object_meta
  sts_replicas :: "int32 option"
  sts_serviceName :: string
  sts_matchLabels :: "string gomap"
  sts_templateLabels :: "string gomap"
  sts_podSpec :: pod_spec

record secret =
  sec_meta :: object_meta
  sec_type :: string
  sec_data :: "bytes gomap"

text \<open>An unstructured object: its metadata, and the rest as a JSON tree.\<close>

datatype json =
    JString string
  | JInt int64
  | JBool bool
  | JList "json list"
  | JObject "(string \<times> json) list"

record ingress_route =
  ir_apiVersion :: string
  ir_kind :: string
  ir_meta :: object_meta
  ir_spec :: json

record condition =
  cond_type :: string
  cond_status :: string
  cond_reason :: string
  cond_message :: string
  cond_lastTransitionTime :: time

end
