(* ===== verification/Api_Types.thy ===== *)
theory Api_Types
  imports Kube_Objects
begin

text \<open>
  The custom resources of the operator: \<open>BuildkitBuilderTemplate\<close>
  (\<open>api/buildertemplate/v1alpha1/buildkitbuildertemplate_types.go\<close>) and
  \<open>BuildkitBuilder\<close> (\<open>api/v1alpha1/buildkitbuilder_types.go\<close>), and the label,
  annotation and finalizer keys of \<open>internal/controller/metadata.go\<close>. A pointer field
  is an \<open>option\<close>; an enumeration that Go declares as a string type stays a string, since
  nothing but the API server's schema restricts its values.
\<close>

section \<open>BuildkitBuilderTemplate\<close>

type_synonym CacheType = string

definition CacheTypePVC :: CacheType where [names_simps]: "CacheTypePVC = ''pvc''"
definition CacheTypeNone :: CacheType where [names_simps]: "CacheTypeNone = ''none''"
definition CacheTypeS3 :: CacheType where [names_simps]: "CacheTypeS3 = ''s3''"

record PVCConfig =
  pc_storageClassName :: string
  pc_size :: string
  pc_accessModes :: "string list"

record S3Config =
  s3_bucket :: string
  s3_region :: string
  s3_endpoint :: string
  s3_secretRef :: "string option"

record CacheConfig =
  cc_type :: CacheType
  cc_pvc :: "PVCConfig option"
  cc_s3 :: "S3Config option"

record TemplateSpec =
  ts_buildkitImage :: string
  ts_rootless :: bool
  ts_resources :: resource_requirements
  ts_nodeSelector :: "string gomap option"
  ts_tolerations :: "toleration list option"
  ts_affinity :: "affinity option"
  ts_buildkitdToml :: string
  ts_cacheConfig :: CacheConfig
  ts_arch :: string

text \<open>The zero value of the struct, as Go's \<open>var out BuildkitBuilderTemplateSpec\<close>.\<close>

definition zero_CacheConfig :: CacheConfig where
  "zero_CacheConfig = \<lparr>cc_type = [], cc_pvc = None, cc_s3 = None\<rparr>"

definition zero_TemplateSpec :: TemplateSpec where
  "zero_TemplateSpec = \<lparr>ts_buildkitImage = [], ts_rootless = False,
     ts_resources = \<lparr>rr_limits = None, rr_requests = None\<rparr>, ts_nodeSelector = None,
     ts_tolerations = None, ts_affinity = None, ts_buildkitdToml = [],
     ts_cacheConfig = zero_CacheConfig, ts_arch = []\<rparr>"

record BuilderTemplate =
  bt_meta :: object_meta
  bt_spec :: TemplateSpec

section \<open>BuildkitBuilder\<close>

type_synonym BuilderMode = string

definition BuilderModePersistent :: BuilderMode where
  [names_simps]: "BuilderModePersistent = ''persistent''"
definition BuilderModeSleepy :: BuilderMode where
  [names_simps]: "BuilderModeSleepy = ''sleepy''"

definition IngressControllerTraefik :: string where
  [names_simps]: "IngressControllerTraefik = ''traefik''"

record ExposureConfig =
  ex_enabled :: bool
  ex_host :: string
  ex_ingressController :: string
  ex_entryPoint :: string
  ex_annotations :: "string gomap"

record BuilderSpec =
  bs_templateRef :: "string option"
  bs_template :: "TemplateSpec option"
  bs_mode :: BuilderMode
  bs_replicas :: "int32 option"
  bs_idleTimeoutSeconds :: "int32 option"
  bs_labels :: "string gomap"
  bs_exposure :: "ExposureConfig option"

record BuilderStatus =
  st_endpoint :: string
  st_nodePort :: int32
  st_externalEndpoint :: string
  st_tlsSecretName :: string
  st_conditions :: "condition list"
  st_phase :: string
  st_readyReplicas :: int32
  st_desiredReplicas :: int32
  st_lastScaledAt :: "time option"

record Builder =
  b_meta :: object_meta
  b_spec :: BuilderSpec
  b_status :: BuilderStatus

abbreviation b_name :: "Builder \<Rightarrow> string" where
  "b_name b \<equiv> om_name (b_meta b)"

abbreviation b_namespace :: "Builder \<Rightarrow> string" where
  "b_namespace b \<equiv> om_namespace (b_meta b)"

text \<open>The zero values of the structs, and a builder with a name and a specification alone.\<close>

definition zero_BuilderSpec :: BuilderSpec where
  "zero_BuilderSpec = \<lparr>bs_templateRef = None, bs_template = None, bs_mode = [],
     bs_replicas = None, bs_idleTimeoutSeconds = None, bs_labels = [], bs_exposure = None\<rparr>"

definition zero_BuilderStatus :: BuilderStatus where
  "zero_BuilderStatus = \<lparr>st_endpoint = [], st_nodePort = 0, st_externalEndpoint = [],
     st_tlsSecretName = [], st_conditions = [], st_phase = [], st_readyReplicas = 0,
     st_desiredReplicas = 0, st_lastScaledAt = None\<rparr>"

definition named_builder :: "string \<Rightarrow> string \<Rightarrow> BuilderSpec \<Rightarrow> Builder" where
  "named_builder ns n spec =
     \<lparr>b_meta = meta_of ns n, b_spec = spec, b_status = zero_BuilderStatus\<rparr>"

lemma named_builder_simps [simp]:
  "b_meta (named_builder ns n spec) = meta_of ns n"
  "b_spec (named_builder ns n spec) = spec"
  "b_status (named_builder ns n spec) = zero_BuilderStatus"
  by (simp_all add: named_builder_def)

definition ConditionReady :: string where [names_simps]: "ConditionReady = ''Ready''"
definition ConditionEndpoint :: string where [names_simps]: "ConditionEndpoint = ''Endpoint''"
definition ConditionCacheAttached :: string where
  [names_simps]: "ConditionCacheAttached = ''CacheAttached''"
definition ConditionLastScaled :: string where
  [names_simps]: "ConditionLastScaled = ''LastScaled''"

section \<open>Keys of metadata.go\<close>

definition LabelKeyBuilderName :: string where
  [names_simps]: "LabelKeyBuilderName = ''builder.builder-hub.dev/name''"
definition LabelKeyBuilderMode :: string where
  [names_simps]: "LabelKeyBuilderMode = ''builder.builder-hub.dev/mode''"
definition AnnotationLastUsed :: string where
  [names_simps]: "AnnotationLastUsed = ''builder.builder-hub.dev/last-used''"
definition FinalizerPVC :: string where
  [names_simps]: "FinalizerPVC = ''builder.builder-hub.dev/pvc-finalizer''"

section \<open>Objects of the API server\<close>

datatype kind =
    KBuilder | KTemplate | KConfigMap | KService | KPVC | KStatefulSet | KSecret | KIngressRoute

text \<open>There are finitely many kinds, so that statements about all of them compute.\<close>

instantiation kind :: enum
begin

definition "enum_kind = [KBuilder, KTemplate, KConfigMap, KService, KPVC, KStatefulSet, KSecret, KIngressRoute]"
definition "enum_all_kind P \<longleftrightarrow> list_all P [KBuilder, KTemplate, KConfigMap, KService, KPVC, KStatefulSet, KSecret, KIngressRoute]"
definition "enum_ex_kind P \<longleftrightarrow> list_ex P [KBuilder, KTemplate, KConfigMap, KService, KPVC, KStatefulSet, KSecret, KIngressRoute]"

instance
proof
  show all: "(UNIV :: kind set) = set enum_class.enum"
    by (auto simp: enum_kind_def intro: kind.exhaust)
  show "enum_class.enum_all P \<longleftrightarrow> Ball UNIV P" "enum_class.enum_ex P \<longleftrightarrow> Bex UNIV P" for P :: "kind \<Rightarrow> bool"
    unfolding all by (simp_all add: enum_all_kind_def enum_ex_kind_def enum_kind_def)
qed (simp add: enum_kind_def)

end

datatype kobj =
    OBuilder Builder
  | OTemplate BuilderTemplate
  | OConfigMap config_map
  | OService service
  | OPVC pvc
  | OStatefulSet stateful_set
  | OSecret secret
  | OIngressRoute ingress_route

fun kobj_kind :: "kobj \<Rightarrow> kind" where
  "kobj_kind (OBuilder _) = KBuilder"
| "kobj_kind (OTemplate _) = KTemplate"
| "kobj_kind (OConfigMap _) = KConfigMap"
| "kobj_kind (OService _) = KService"
| "kobj_kind (OPVC _) = KPVC"
| "kobj_kind (OStatefulSet _) = KStatefulSet"
| "kobj_kind (OSecret _) = KSecret"
| "kobj_kind (OIngressRoute _) = KIngressRoute"

fun kobj_meta :: "kobj \<Rightarrow> object_meta" where
  "kobj_meta (OBuilder b) = b_meta b"
| "kobj_meta (OTemplate t) = bt_meta t"
| "kobj_meta (OConfigMap c) = cm_meta c"
| "kobj_meta (OService s) = svc_meta s"
| "kobj_meta (OPVC p) = pvc_meta p"
| "kobj_meta (OStatefulSet s) = sts_meta s"
| "kobj_meta (OSecret s) = sec_meta s"
| "kobj_meta (OIngressRoute i) = ir_meta i"

definition kobj_key :: "kobj \<Rightarrow> obj_key" where
  "kobj_key ob = meta_key (kobj_meta ob)"

lemma kobj_key_simps [simp]:
  "kobj_key (OBuilder b) = meta_key (b_meta b)"
  "kobj_key (OTemplate t) = meta_key (bt_meta t)"
  "kobj_key (OConfigMap c) = meta_key (cm_meta c)"
  "kobj_key (OService s) = meta_key (svc_meta s)"
  "kobj_key (OPVC p) = meta_key (pvc_meta p)"
  "kobj_key (OStatefulSet ss) = meta_key (sts_meta ss)"
  "kobj_key (OSecret sec) = meta_key (sec_meta sec)"
  "kobj_key (OIngressRoute i) = meta_key (ir_meta i)"
  by (simp_all add: kobj_key_def)

end
