(* ===== verification/Labels.thy ===== *)
theory Labels
  imports Api_Types
begin

text \<open>
  Labels of the objects a builder owns (\<open>labelsForBuilder\<close> in
  \<open>internal/controller/buildkitbuilder_controller.go\<close>). The label filter is a regular
  expression, so the part of package \<open>regexp\<close> the source uses is here too: expressions
  over character classes and a matcher by derivatives, shown to decide the language.
\<close>

section \<open>Regular expressions\<close>

text \<open>A character class is a list of ranges, as the class is written in the source.\<close>

datatype rexp =
    Zero
  | One
  | Class "(char \<times> char) list"
  | Alt rexp rexp
  | Seq rexp rexp
  | Star rexp

definition in_class :: "(char \<times> char) list \<Rightarrow> char \<Rightarrow> bool" where
  "in_class rs c \<longleftrightarrow>
     list_ex (\<lambda>(lo, hi). of_char lo \<le> (of_char c :: nat) \<and> (of_char c :: nat) \<le> of_char hi) rs"

inductive matches :: "rexp \<Rightarrow> string \<Rightarrow> bool" where
  m_one: "matches One []"
| m_class: "in_class rs c \<Longrightarrow> matches (Class rs) [c]"
| m_alt1: "matches r s \<Longrightarrow> matches (Alt r q) s"
| m_alt2: "matches q s \<Longrightarrow> matches (Alt r q) s"
| m_seq: "matches r s \<Longrightarrow> matches q t \<Longrightarrow> matches (Seq r q) (s @ t)"
| m_star0: "matches (Star r) []"
| m_star1: "matches r s \<Longrightarrow> s \<noteq> [] \<Longrightarrow> matches (Star r) t \<Longrightarrow> matches (Star r) (s @ t)"

inductive_simps matches_simps [simp]:
  "matches Zero s"
  "matches One s"
  "matches (Class rs) s"
  "matches (Alt r q) s"

inductive_simps matches_Seq_iff: "matches (Seq r q) s"

inductive_cases matches_StarE: "matches (Star r) s"

fun nullable :: "rexp \<Rightarrow> bool" where
  "nullable Zero = False"
| "nullable One = True"
| "nullable (Class rs) = False"
| "nullable (Alt r q) = (nullable r \<or> nullable q)"
| "nullable (Seq r q) = (nullable r \<and> nullable q)"
| "nullable (Star r) = True"

fun deriv :: "char \<Rightarrow> rexp \<Rightarrow> rexp" where
  "deriv c Zero = Zero"
| "deriv c One = Zero"
| "deriv c (Class rs) = (if in_class rs c then One else Zero)"
| "deriv c (Alt r q) = Alt (deriv c r) (deriv c q)"
| "deriv c (Seq r q) =
     (if nullable r then Alt (Seq (deriv c r) q) (deriv c q) else Seq (deriv c r) q)"
| "deriv c (Star r) = Seq (deriv c r) (Star r)"

text \<open>\<open>Regexp.MatchString\<close> for an expression anchored at both ends.\<close>

fun MatchString :: "rexp \<Rightarrow> string \<Rightarrow> bool" where
  "MatchString r [] = nullable r"
| "MatchString r (c # s) = MatchString (deriv c r) s"

lemma nullable_matches: "nullable r \<longleftrightarrow> matches r []"
proof (induction r)
  case (Seq r q)
  then show ?case by (simp add: matches_Seq_iff)
next
  case (Star r)
  then show ?case by (auto intro: m_star0)
qed auto

lemma deriv_sound: "matches (deriv c r) s \<Longrightarrow> matches r (c # s)"
proof (induction r arbitrary: s)
  case (Seq r q)
  have left: "matches (Seq r q) (c # s)" if "matches (Seq (deriv c r) q) s"
    using that Seq.IH(1) by (auto simp: matches_Seq_iff) (metis append_Cons)
  have right: "matches (Seq r q) (c # s)" if "nullable r" "matches (deriv c q) s"
    using that Seq.IH(2) m_seq [of r "[]" q "c # s"] by (simp add: nullable_matches)
  from Seq.prems left right show ?case by (auto split: if_splits)
next
  case (Star r)
  then show ?case
    by (auto simp: matches_Seq_iff dest: m_star1 [of r "c # _", simplified])
qed (auto split: if_splits)

lemma star_head:
  assumes "matches (Star r) w" and "w = c # s"
  shows "\<exists>u v. s = u @ v \<and> matches r (c # u) \<and> matches (Star r) v"
proof -
  from assms obtain u v where "w = u @ v" "u \<noteq> []" "matches r u" "matches (Star r) v"
    by (blast elim: matches_StarE)
  with assms(2) show ?thesis by (cases u) auto
qed

lemma deriv_complete: "matches r (c # s) \<Longrightarrow> matches (deriv c r) s"
proof (induction r arbitrary: s)
  case (Seq r q)
  from Seq.prems obtain u v where uv: "c # s = u @ v" and r: "matches r u" and q: "matches q v"
    by (auto simp: matches_Seq_iff)
  show ?case
  proof (cases u)
    case Nil
    then show ?thesis using uv r q Seq.IH(2) by (auto simp: nullable_matches)
  next
    case (Cons d u')
    then have "matches (Seq (deriv c r) q) s"
      using uv r q Seq.IH(1) by (auto intro: m_seq)
    then show ?thesis by simp
  qed
next
  case (Star r)
  then show ?case using star_head [OF Star.prems refl] by (auto intro: m_seq)
qed auto

lemma MatchString_iff: "MatchString r s \<longleftrightarrow> matches r s"
  by (induction s arbitrary: r) (auto simp: nullable_matches intro: deriv_sound deriv_complete)

section \<open>The label filter\<close>

definition alnum_class :: "(char \<times> char) list" where
  "alnum_class = [(CHR ''A'', CHR ''Z''), (CHR ''a'', CHR ''z''), (CHR ''0'', CHR ''9'')]"

definition inner_class :: "(char \<times> char) list" where
  "inner_class = [(CHR ''-'', CHR ''-''), (CHR ''A'', CHR ''Z''), (CHR ''a'', CHR ''z''),
     (CHR ''0'', CHR ''9''), (CHR ''_'', CHR ''_''), (CHR ''.'', CHR ''.'')]"

definition ropt :: "rexp \<Rightarrow> rexp" where
  "ropt r = Alt r One"

text \<open>\<open>^(([A-Za-z0-9][-A-Za-z0-9_.]*)?[A-Za-z0-9])?$\<close>\<close>

definition validLabelValueRegex :: rexp where
  "validLabelValueRegex =
     ropt (Seq (ropt (Seq (Class alnum_class) (Star (Class inner_class)))) (Class alnum_class))"

definition labelsForBuilder :: "Builder \<Rightarrow> string \<Rightarrow> string gomap" where
  "labelsForBuilder b mode =
     gomap_copy_if (MatchString validLabelValueRegex) (bs_labels (b_spec b))
       [(LabelKeyBuilderName, b_name b), (LabelKeyBuilderMode, mode)]"

text \<open>The same filter without a regular expression.\<close>

definition label_value_ok :: "string \<Rightarrow> bool" where
  "label_value_ok v \<longleftrightarrow> v = [] \<or>
     in_class alnum_class (hd v) \<and> in_class alnum_class (last v) \<and> list_all (in_class inner_class) v"

lemma alnum_inner: "in_class alnum_class c \<Longrightarrow> in_class inner_class c"
  by (auto simp: in_class_def alnum_class_def inner_class_def)

lemma matches_Star_Class: "matches (Star (Class rs)) s \<longleftrightarrow> list_all (in_class rs) s"
proof (induction s)
  case Nil
  then show ?case by (simp add: m_star0)
next
  case (Cons c s)
  have "matches (Star (Class rs)) (c # s) \<longleftrightarrow> in_class rs c \<and> matches (Star (Class rs)) s"
    using star_head [of "Class rs" "c # s" c s] m_star1 [of "Class rs" "[c]" s]
    by auto
  with Cons.IH show ?case by simp
qed

lemma matches_Seq_Class:
  "matches (Seq r (Class rs)) s \<longleftrightarrow> (\<exists>u c. s = u @ [c] \<and> matches r u \<and> in_class rs c)"
  by (auto simp: matches_Seq_iff)

lemma matches_Class_Seq:
  "matches (Seq (Class rs) q) s \<longleftrightarrow> (\<exists>c u. s = c # u \<and> in_class rs c \<and> matches q u)"
  by (auto simp: matches_Seq_iff) (metis append_Cons append_Nil)

lemma MatchString_validLabelValueRegex:
  "MatchString validLabelValueRegex v = label_value_ok v"
proof (cases v rule: rev_cases)
  case Nil
  then show ?thesis
    by (simp add: label_value_ok_def MatchString_iff validLabelValueRegex_def ropt_def)
next
  case (snoc u c)
  have head: "(\<exists>d w. u = d # w \<and> in_class alnum_class d \<and> list_all (in_class inner_class) w)
      \<longleftrightarrow> u \<noteq> [] \<and> in_class alnum_class (hd u) \<and> list_all (in_class inner_class) u"
    by (cases u) (auto simp: alnum_inner)
  have "MatchString validLabelValueRegex v \<longleftrightarrow>
      (u = [] \<or> (\<exists>d w. u = d # w \<and> in_class alnum_class d \<and> list_all (in_class inner_class) w))
      \<and> in_class alnum_class c"
    using snoc
    by (auto simp: MatchString_iff validLabelValueRegex_def ropt_def matches_Seq_Class
        matches_Class_Seq matches_Star_Class)
  then show ?thesis
    using snoc by (auto simp: head label_value_ok_def alnum_inner)
qed

section \<open>What the labels say\<close>

lemma label_value_ok_replicate: "in_class alnum_class c \<Longrightarrow> label_value_ok (replicate n c)"
  by (cases n) (auto simp: label_value_ok_def alnum_inner list_all_iff last_conv_nth simp flip: replicate_Suc)

text \<open>The label a builder has when its own labels are left out.\<close>

definition reserved_label :: "Builder \<Rightarrow> string \<Rightarrow> string \<Rightarrow> string option" where
  "reserved_label b mode k =
     (if k = LabelKeyBuilderName then Some (b_name b)
      else if k = LabelKeyBuilderMode then Some mode else None)"

lemma map_of_labelsForBuilder:
  assumes "gomap_wf (bs_labels (b_spec b))"
  shows "map_of (labelsForBuilder b mode) k =
    (case map_of (bs_labels (b_spec b)) k of
       Some v \<Rightarrow> if label_value_ok v then Some v else reserved_label b mode k
     | None \<Rightarrow> reserved_label b mode k)"
  unfolding labelsForBuilder_def
  by (simp add: map_of_gomap_copy_if [OF assms] MatchString_validLabelValueRegex
      reserved_label_def names_simps split: option.split)

lemma gomap_wf_labelsForBuilder: "gomap_wf (labelsForBuilder b mode)"
  unfolding labelsForBuilder_def
  by (rule gomap_wf_copy_if) (simp add: gomap_wf_def names_simps)

text \<open>
  The filter sets no bound on the length, so it lets values through that are longer than the
  63 characters Kubernetes allows, although its comment says the selectors stay valid.
\<close>

lemma label_filter_no_length_limit:
  "MatchString validLabelValueRegex (replicate n (CHR ''a''))"
  unfolding MatchString_validLabelValueRegex
  by (rule label_value_ok_replicate) (simp add: in_class_def alnum_class_def)

text \<open>The order in which Go ranges over the user's labels makes no difference to the label map.\<close>

lemma labelsForBuilder_order:
  assumes "gomap_wf (bs_labels (b_spec b))" and "gomap_wf ls"
    and "set ls = set (bs_labels (b_spec b))"
  shows "map_of (labelsForBuilder (b\<lparr>b_spec := (b_spec b)\<lparr>bs_labels := ls\<rparr>\<rparr>) mode) =
    map_of (labelsForBuilder b mode)"
  unfolding labelsForBuilder_def
  using gomap_ranges_agree [OF assms(2,1,3)] by simp

section \<open>Properties\<close>

text \<open>The regular expression of the label filter accepts exactly the empty value and the
  values of letters, digits, hyphens, underscores and dots that begin and end with a letter or
  digit, as the syntax of a Kubernetes label value asks, for values of any length.\<close>

lemma label_filter_accepts: "MatchString validLabelValueRegex v = label_value_ok v"
  by (rule MatchString_validLabelValueRegex)

text \<open>C31: The labels of a builder's objects, key by key: a user label with an acceptable value
  wins, also over the two reserved keys; every other key has its reserved label or none, and
  no key occurs twice.\<close>

theorem labelsForBuilder_spec:
  assumes "gomap_wf (bs_labels (b_spec b))"
  shows "gomap_wf (labelsForBuilder b mode) \<and> map_of (labelsForBuilder b mode) k =
    (case map_of (bs_labels (b_spec b)) k of
       Some v \<Rightarrow> if label_value_ok v then Some v else reserved_label b mode k
     | None \<Rightarrow> reserved_label b mode k)"
  using gomap_wf_labelsForBuilder map_of_labelsForBuilder [OF assms] by blast

theorem labelsForBuilder_spec_witness:
  "map_of (labelsForBuilder (named_builder ''ci'' ''web''
      (zero_BuilderSpec\<lparr>bs_labels := [(''team'', ''-x''), (LabelKeyBuilderName, ''other'')]\<rparr>)) ''sleepy'')
     LabelKeyBuilderName = Some ''other''"
proof -
  let ?b = "named_builder ''ci'' ''web''
      (zero_BuilderSpec\<lparr>bs_labels := [(''team'', ''-x''), (LabelKeyBuilderName, ''other'')]\<rparr>)"
  have wf: "gomap_wf (bs_labels (b_spec ?b))" by (simp add: gomap_wf_def LabelKeyBuilderName_def)
  have "label_value_ok ''other''"
    by (simp add: label_value_ok_def in_class_def alnum_class_def inner_class_def)
  then show ?thesis
    by (subst labelsForBuilder_spec [OF wf, THEN conjunct2]) (simp add: LabelKeyBuilderName_def)
qed

end
