(* ===== verification/Exposure.thy ===== *)
theory Exposure
  imports Api_Types
begin

text \<open>
  The pure part of \<open>internal/controller/ingress.go\<close> and the names of
  \<open>internal/controller/tls.go\<close>: whether a builder is exposed, under which external
  address, and the Traefik route that leads there. A nil dereference of
  \<open>b.Spec.Exposure\<close> cannot happen in \<open>ingressRouteForBuilder\<close>, which takes the
  configuration itself here: its only caller has checked \<open>exposureEnabled\<close>.
\<close>

definition tlsMountPath :: string where [names_simps]: "tlsMountPath = ''/etc/buildkit-tls''"
definition caSecretName :: string where [names_simps]: "caSecretName = ''builderhub-builder-ca''"
definition certHostAnnotation :: string where
  [names_simps]: "certHostAnnotation = ''builder-hub.dev/cert-host''"
definition externalDNSHostnameAnnotation :: string where
  [names_simps]: "externalDNSHostnameAnnotation = ''external-dns.alpha.kubernetes.io/hostname''"

definition exposureEnabled :: "Builder \<Rightarrow> bool" where
  "exposureEnabled b =
     (case bs_exposure (b_spec b) of None \<Rightarrow> False | Some e \<Rightarrow> ex_enabled e)"

definition resolvedExposureEntryPoint :: "ExposureConfig \<Rightarrow> string" where
  "resolvedExposureEntryPoint e =
     (if ex_entryPoint e \<noteq> [] then ex_entryPoint e else ''websecure'')"

definition externalEndpointForBuilder :: "Builder \<Rightarrow> string" where
  "externalEndpointForBuilder b =
     (case bs_exposure (b_spec b) of
        None \<Rightarrow> []
      | Some e \<Rightarrow> if \<not> ex_enabled e \<or> ex_host e = [] then []
                  else ''tcp://'' @ ex_host e @ '':443'')"

definition ingressRouteName :: "Builder \<Rightarrow> string" where
  "ingressRouteName b = ''builder-'' @ b_name b"

definition builderTLSSecretName :: "Builder \<Rightarrow> string" where
  "builderTLSSecretName b = ''builder-'' @ b_name b @ ''-tls''"

definition exposureTLSSecretName :: "Builder \<Rightarrow> string" where
  "exposureTLSSecretName b = (if \<not> exposureEnabled b then [] else builderTLSSecretName b)"

text \<open>The match rule is \<open>HostSNI(\<close>, the host between back quotes, \<open>)\<close>.\<close>

definition hostSNI :: "string \<Rightarrow> string" where
  "hostSNI h = ''HostSNI('' @ [CHR 0x60] @ h @ [CHR 0x60] @ '')''"

definition ingressRouteForBuilder :: "Builder \<Rightarrow> ExposureConfig \<Rightarrow> ingress_route" where
  "ingressRouteForBuilder b e =
     (let route = JObject
            [(''match'', JString (hostSNI (ex_host e))),
             (''services'', JList [JObject [(''name'', JString (''builder-'' @ b_name b)),
                                            (''port'', JInt 1234)]])];
          spec = JObject
            [(''entryPoints'', JList [JString (resolvedExposureEntryPoint e)]),
             (''routes'', JList [route]),
             (''tls'', JObject [(''passthrough'', JBool True)])];
          annotations = gomap_copy_if (\<lambda>_. True) (ex_annotations e)
            [(externalDNSHostnameAnnotation, ex_host e)]
      in \<lparr>ir_apiVersion = ''traefik.io/v1alpha1'', ir_kind = ''IngressRouteTCP'',
          ir_meta = (meta_of (b_namespace b) (ingressRouteName b))\<lparr>om_annotations := Some annotations\<rparr>,
          ir_spec = spec\<rparr>)"

lemma exposureEnabledE:
  assumes "exposureEnabled b"
  obtains e where "bs_exposure (b_spec b) = Some e" and "ex_enabled e"
  using assms by (auto simp: exposureEnabled_def split: option.splits)

end
