(* ===== verification/Buildkitd_Config.thy ===== *)
theory Buildkitd_Config
  imports Exposure
begin

text \<open>
  The text of \<open>buildkitd.toml\<close> that \<open>ensureBuildkitdConfigMap\<close> writes
  (\<open>internal/controller/buildkitbuilder_controller.go\<close>): the template's text or the
  default one, with a TCP listener put in front and the mTLS table put behind where they
  are missing. The lines of the literals are joined with newlines.
\<close>

definition NL :: string where "NL = [CHR 0x0A]"
definition DQ :: string where "DQ = [CHR 0x22]"

definition grpcListener :: string where
  "grpcListener = ''[grpc]'' @ NL @ ''  address = [ '' @ DQ @ ''tcp://0.0.0.0:1234'' @ DQ @ '' ]'' @ NL"

definition defaultBuildkitdToml :: string where
  "defaultBuildkitdToml = grpcListener @ NL @
     ''[worker.containerd]'' @ NL @ ''  enabled = false'' @ NL @ NL @
     ''[worker.oci]'' @ NL @ ''  enabled = true'' @ NL"

definition grpcTLSTable :: string where
  "grpcTLSTable = NL @ ''[grpc.tls]'' @ NL
     @ ''  cert = '' @ DQ @ tlsMountPath @ ''/tls.crt'' @ DQ @ NL
     @ ''  key = '' @ DQ @ tlsMountPath @ ''/tls.key'' @ DQ @ NL
     @ ''  ca = '' @ DQ @ tlsMountPath @ ''/ca.crt'' @ DQ @ NL"

definition buildkitdTomlFor :: "Builder \<Rightarrow> TemplateSpec \<Rightarrow> string" where
  "buildkitdTomlFor b spec =
     (let toml = ts_buildkitdToml spec;
          toml = (if toml = [] then defaultBuildkitdToml else toml);
          toml = (if \<not> strings_Contains toml ''tcp://'' then grpcListener @ NL @ toml else toml);
          toml = (if exposureEnabled b \<and> \<not> strings_Contains toml ''[grpc.tls]''
                  then toml @ grpcTLSTable else toml)
      in toml)"

lemma strings_Contains_intro: "s = a @ sub @ c \<Longrightarrow> strings_Contains s sub"
  by simp

lemma grpcListener_tcp [simp]: "strings_Contains grpcListener ''tcp://''"
  unfolding grpcListener_def NL_def DQ_def
  by (rule strings_Contains_intro
      [where a = "''[grpc]'' @ [CHR 0x0A] @ ''  address = [ '' @ [CHR 0x22]"
         and c = "''0.0.0.0:1234'' @ [CHR 0x22] @ '' ]'' @ [CHR 0x0A]"]) simp

lemma default_toml_tcp [simp]: "strings_Contains defaultBuildkitdToml ''tcp://''"
  unfolding defaultBuildkitdToml_def by (rule strings_Contains_append1 [OF grpcListener_tcp])

lemma grpcTLSTable_table [simp]: "strings_Contains grpcTLSTable ''[grpc.tls]''"
  unfolding grpcTLSTable_def by (rule strings_Contains_infix)

lemma default_toml_nonempty [simp]: "defaultBuildkitdToml \<noteq> []"
  by (simp add: defaultBuildkitdToml_def grpcListener_def)

lemma buildkitd_tcp: "strings_Contains (buildkitdTomlFor b spec) ''tcp://''"
  by (simp add: buildkitdTomlFor_def Let_def)

lemma buildkitd_keeps: "strings_Contains (buildkitdTomlFor b spec) (ts_buildkitdToml spec)"
  by (simp add: buildkitdTomlFor_def Let_def strings_Contains_def sublist_append)

lemma buildkitd_tls:
  "exposureEnabled b \<Longrightarrow> strings_Contains (buildkitdTomlFor b spec) ''[grpc.tls]''"
  by (simp add: buildkitdTomlFor_def Let_def)

lemma buildkitd_nonempty: "buildkitdTomlFor b spec \<noteq> []"
  using buildkitd_tcp [of b spec] by (auto simp: strings_Contains_def)

section \<open>Properties\<close>


text \<open>Generating again from the generated text adds nothing.\<close>

lemma buildkitd_config_idempotent:
  "buildkitdTomlFor b (spec\<lparr>ts_buildkitdToml := buildkitdTomlFor b spec\<rparr>) = buildkitdTomlFor b spec"
  using buildkitd_tcp [of b spec] buildkitd_tls [of b spec] buildkitd_nonempty [of b spec]
  by (subst buildkitdTomlFor_def) (auto simp: Let_def)

text \<open>C40: A template that configures \<open>[grpc]\<close> itself without naming a TCP address gets a
  second table of that name in front of its own, which TOML forbids.\<close>

theorem buildkitd_config_duplicate_grpc:
  assumes "strings_Contains (ts_buildkitdToml spec) ''[grpc]''"
    and "\<not> strings_Contains (ts_buildkitdToml spec) ''tcp://''"
  shows "\<exists>p q r. buildkitdTomlFor b spec = p @ ''[grpc]'' @ q @ ''[grpc]'' @ r"
proof -
  obtain u v where toml: "ts_buildkitdToml spec = u @ ''[grpc]'' @ v"
    using assms(1) by (auto simp: strings_Contains_def sublist_def)
  then have ne: "ts_buildkitdToml spec \<noteq> []" by simp
  have "\<exists>t. buildkitdTomlFor b spec = (grpcListener @ NL @ ts_buildkitdToml spec) @ t"
    unfolding buildkitdTomlFor_def Let_def if_not_P [OF ne] if_P [OF assms(2)] by simp
  then obtain t where t: "buildkitdTomlFor b spec = (grpcListener @ NL @ ts_buildkitdToml spec) @ t" ..
  obtain w where w: "grpcListener = [] @ ''[grpc]'' @ w"
    by (simp add: grpcListener_def)
  show ?thesis
    unfolding t toml w
    by (rule exI [of _ "[]"], rule exI [of _ "w @ NL @ u"], rule exI [of _ "v @ t"])
      (simp only: append_assoc)
qed

theorem buildkitd_config_duplicate_grpc_witness:
  "\<exists>p q r. buildkitdTomlFor (named_builder ''ci'' ''web'' zero_BuilderSpec)
      (zero_TemplateSpec\<lparr>ts_buildkitdToml := ''[grpc] # local''\<rparr>) = p @ ''[grpc]'' @ q @ ''[grpc]'' @ r"
  by (rule buildkitd_config_duplicate_grpc) (simp_all add: strings_Contains_def, code_simp+)


end
