(* ===== verification/Codec.thy ===== *)
theory Codec
  imports Prelude
begin

text \<open>
  Self-delimiting encodings into bytes. The world of theory \<open>Cluster\<close> encodes keys,
  certificates and PEM blocks with them, where the source calls the X.509 and PEM
  libraries; the only fact used of an encoding is that its decoder undoes it. The interface
  is the locale \<open>codec\<close>, interpreted on every encoding of the theory.
\<close>

type_synonym 'a decoder = "bytes \<Rightarrow> ('a \<times> bytes) option"

locale codec =
  fixes enc :: "'a \<Rightarrow> bytes"
    and dec :: "'a decoder"
  assumes round: "dec (enc x @ rest) = Some (x, rest)"
begin

lemma dec_enc: "dec (enc x) = Some (x, [])"
  using round [of x "[]"] by simp

lemma enc_inject: "enc x = enc y \<longleftrightarrow> x = y"
  by (metis dec_enc option.inject prod.inject)

text \<open>No encoding is a proper beginning of another.\<close>

lemma enc_prefix_free: "enc x @ r = enc y @ q \<Longrightarrow> x = y \<and> r = q"
  by (metis round option.inject prod.inject)

end

section \<open>Numbers\<close>

text \<open>
  Binary, the lowest digit first, ended by a comma; with a sign in front for integers.
\<close>

function enc_num :: "int \<Rightarrow> bytes" where
  "enc_num n =
     (if n \<le> 0 then '',''
      else (if n mod 2 = 1 then CHR ''1'' else CHR ''0'') # enc_num (n div 2))"
  by pat_completeness auto
termination by (relation "measure nat") auto

declare enc_num.simps [simp del]

fun dec_num :: "int decoder" where
  "dec_num [] = None"
| "dec_num (c # s) =
     (if c = CHR '','' then Some (0, s)
      else
        (case dec_num s of
           None \<Rightarrow> None
         | Some (n, r) \<Rightarrow> Some (2 * n + (if c = CHR ''1'' then 1 else 0), r)))"

lemma num_round: "0 \<le> n \<Longrightarrow> dec_num (enc_num n @ rest) = Some (n, rest)"
proof (induction n rule: enc_num.induct)
  case (1 n)
  show ?case
  proof (cases "n = 0")
    case True
    then show ?thesis by (simp add: enc_num.simps)
  next
    case False
    with 1 have n: "0 < n" "dec_num (enc_num (n div 2) @ rest) = Some (n div 2, rest)" by simp_all
    have halves: "n mod 2 = 1 \<Longrightarrow> 2 * (n div 2) + 1 = n" "n mod 2 \<noteq> 1 \<Longrightarrow> 2 * (n div 2) = n"
      by presburger+
    with n show ?thesis by (simp add: enc_num.simps [of n])
  qed
qed

definition enc_nat :: "nat \<Rightarrow> bytes" where
  "enc_nat n = enc_num (int n)"

definition dec_nat :: "nat decoder" where
  "dec_nat s = map_option (map_prod nat id) (dec_num s)"

interpretation nat_codec: codec enc_nat dec_nat
  by unfold_locales (simp add: enc_nat_def dec_nat_def num_round)

definition enc_int :: "int \<Rightarrow> bytes" where
  "enc_int i = (if i < 0 then CHR ''-'' else CHR ''+'') # enc_num \<bar>i\<bar>"

definition dec_int :: "int decoder" where
  "dec_int s =
     (case s of
        [] \<Rightarrow> None
      | c # t \<Rightarrow> map_option (map_prod (\<lambda>n. if c = CHR ''-'' then - n else n) id) (dec_num t))"

interpretation int_codec: codec enc_int dec_int
  by unfold_locales (simp add: enc_int_def dec_int_def num_round)

definition enc_bool :: "bool \<Rightarrow> bytes" where
  "enc_bool b = (if b then ''1'' else ''0'')"

definition dec_bool :: "bool decoder" where
  "dec_bool s = (case s of [] \<Rightarrow> None | c # r \<Rightarrow> Some (c = CHR ''1'', r))"

interpretation bool_codec: codec enc_bool dec_bool
  by unfold_locales (simp add: enc_bool_def dec_bool_def)

section \<open>Combinations\<close>

definition enc_pair :: "('a \<Rightarrow> bytes) \<Rightarrow> ('b \<Rightarrow> bytes) \<Rightarrow> 'a \<times> 'b \<Rightarrow> bytes" where
  "enc_pair f g p = f (fst p) @ g (snd p)"

definition dec_pair :: "'a decoder \<Rightarrow> 'b decoder \<Rightarrow> ('a \<times> 'b) decoder" where
  "dec_pair f g s =
     (case f s of
        None \<Rightarrow> None
      | Some (x, r) \<Rightarrow> (case g r of None \<Rightarrow> None | Some (y, q) \<Rightarrow> Some ((x, y), q)))"

text \<open>A text is its length and its bytes.\<close>

definition enc_str :: "string \<Rightarrow> bytes" where
  "enc_str s = enc_nat (length s) @ s"

definition dec_str :: "string decoder" where
  "dec_str s =
     (case dec_nat s of
        None \<Rightarrow> None
      | Some (n, r) \<Rightarrow> if n \<le> length r then Some (take n r, drop n r) else None)"

interpretation str_codec: codec enc_str dec_str
  by unfold_locales (simp add: enc_str_def dec_str_def nat_codec.round)

fun dec_times :: "'a decoder \<Rightarrow> nat \<Rightarrow> 'a list decoder" where
  "dec_times d 0 s = Some ([], s)"
| "dec_times d (Suc n) s =
     (case d s of
        None \<Rightarrow> None
      | Some (x, r) \<Rightarrow>
          (case dec_times d n r of None \<Rightarrow> None | Some (xs, q) \<Rightarrow> Some (x # xs, q)))"

definition enc_list :: "('a \<Rightarrow> bytes) \<Rightarrow> 'a list \<Rightarrow> bytes" where
  "enc_list f xs = enc_nat (length xs) @ concat (map f xs)"

definition dec_list :: "'a decoder \<Rightarrow> 'a list decoder" where
  "dec_list d s = (case dec_nat s of None \<Rightarrow> None | Some (n, r) \<Rightarrow> dec_times d n r)"

locale two_codecs = one: codec f f' + two: codec g g'
  for f :: "'a \<Rightarrow> bytes" and f' :: "'a decoder" and g :: "'b \<Rightarrow> bytes" and g' :: "'b decoder"
begin

lemma pair_round: "dec_pair f' g' (enc_pair f g p @ rest) = Some (p, rest)"
  by (simp add: enc_pair_def dec_pair_def one.round two.round)

lemma list_round: "dec_list f' (enc_list f xs @ rest) = Some (xs, rest)"
proof -
  have "dec_times f' (length xs) (concat (map f xs) @ rest) = Some (xs, rest)"
    by (induction xs) (simp_all add: one.round)
  then show ?thesis by (simp add: enc_list_def dec_list_def nat_codec.round)
qed

end

interpretation str_bool: two_codecs enc_str dec_str enc_bool dec_bool ..

interpretation str_str: two_codecs enc_str dec_str enc_str dec_str ..

interpretation strs_codec: codec "enc_list enc_str" "dec_list dec_str"
  by unfold_locales (rule str_bool.list_round)

end
