(* ===== verification/Go_Errors.thy ===== *)
theory Go_Errors
  imports Api_Types
begin

text \<open>
  Errors as values. \<open>api_err\<close> is what a call of the API client can return: the reasons
  the code distinguishes with \<open>errors.IsNotFound\<close> and \<open>errors.IsAlreadyExists\<close>, and
  all the others. \<open>go_err\<close> has one constructor per place where the operator makes an
  error of its own, with the values its message carries, and one that wraps an \<open>api_err\<close>.
\<close>

datatype api_err =
    NotFound
  | AlreadyExists
  | Conflict
  | NoKindMatch
  | OtherApiErr string

datatype go_err =
    ApiError api_err
  | LibError string
  | EitherTemplateRequired
  | TemplateRefEmpty
  | TemplateNotFound string string api_err
  | UnknownMode string
  | ExposureHostRequired
  | UnsupportedIngressController string
  | CacheFieldRequired string
  | ServerCertHostRequired
  | ParsingExistingCA go_err
  | InvalidCertificatePEM
  | InvalidKeyPEM

text \<open>
  How a Go function ends: a value, an error returned with it, or a panic that unwinds every
  caller (the operator recovers from none).
\<close>

datatype 'a outcome = Ok 'a | Err go_err | Panic string

definition IsNotFound :: "api_err \<Rightarrow> bool" where
  "IsNotFound e \<longleftrightarrow> e = NotFound"

definition IsAlreadyExists :: "api_err \<Rightarrow> bool" where
  "IsAlreadyExists e \<longleftrightarrow> e = AlreadyExists"

lemma IsNotFound_simps [simp]:
  "IsNotFound NotFound" "\<not> IsNotFound AlreadyExists" "\<not> IsNotFound Conflict"
  "\<not> IsNotFound NoKindMatch" "\<not> IsNotFound (OtherApiErr m)"
  by (simp_all add: IsNotFound_def)

lemma IsAlreadyExists_simps [simp]:
  "IsAlreadyExists AlreadyExists" "\<not> IsAlreadyExists NotFound" "\<not> IsAlreadyExists Conflict"
  "\<not> IsAlreadyExists NoKindMatch" "\<not> IsAlreadyExists (OtherApiErr m)"
  by (simp_all add: IsAlreadyExists_def)

end
