(* ===== verification/Effects.thy ===== *)
theory Effects
  imports Go_Errors
begin

text \<open>
  Programs with effects. The operator acts on the world through the interfaces it is
  handed (\<open>client.Client\<close>, \<open>record.EventRecorder\<close>, the clock, \<open>crypto/rand\<close>, the X.509
  library). They are not part of the repository, so they are a parameter, the record
  \<open>env\<close>, over a world of any type \<open>'w\<close>. A program takes the world and the log of the calls
  made so far, and returns an outcome with the new world and the longer log. Nothing is
  assumed of the interfaces unless a statement says so; what the statements assume of an
  API server is the predicate \<open>api_laws\<close> of theory \<open>Api_Laws\<close>.
\<close>

section \<open>Certificates and keys, as the source uses them\<close>

datatype rsa_private_key = RSAPrivateKey nat
datatype rsa_public_key = RSAPublicKey nat

fun PublicKey :: "rsa_private_key \<Rightarrow> rsa_public_key" where
  "PublicKey (RSAPrivateKey n) = RSAPublicKey n"

datatype key_usage = KeyUsageCertSign | KeyUsageCRLSign | KeyUsageDigitalSignature
  | KeyUsageKeyEncipherment

datatype ext_key_usage = ExtKeyUsageServerAuth

text \<open>
  \<open>x509.Certificate\<close>: the fields the source sets in a template, and the public key and
  the key that signed it, which a parsed certificate has. Key usage is a set of flags.
\<close>

record certificate =
  crt_serialNumber :: int
  crt_commonName :: string
  crt_notBefore :: time
  crt_notAfter :: time
  crt_keyUsage :: "key_usage list"
  crt_extKeyUsage :: "ext_key_usage list"
  crt_basicConstraintsValid :: bool
  crt_isCA :: bool
  crt_maxPathLenZero :: bool
  crt_dnsNames :: "string list"
  crt_publicKey :: "rsa_public_key option"
  crt_signedBy :: "rsa_public_key option"

section \<open>The environment\<close>

record 'w env =
  cl_get :: "kind \<Rightarrow> obj_key \<Rightarrow> 'w \<Rightarrow> (api_err + kobj) \<times> 'w"
  cl_list_pods :: "string \<Rightarrow> string gomap \<Rightarrow> 'w \<Rightarrow> (api_err + pod list) \<times> 'w"
  cl_create :: "kobj \<Rightarrow> 'w \<Rightarrow> api_err option \<times> 'w"
  cl_update :: "kobj \<Rightarrow> 'w \<Rightarrow> api_err option \<times> 'w"
  cl_delete :: "kind \<Rightarrow> obj_key \<Rightarrow> 'w \<Rightarrow> api_err option \<times> 'w"
  cl_status_update :: "kobj \<Rightarrow> 'w \<Rightarrow> api_err option \<times> 'w"
  clock :: "'w \<Rightarrow> time \<times> 'w"
  rsa_GenerateKey :: "'w \<Rightarrow> (string + rsa_private_key) \<times> 'w"
  rand_Int :: "int \<Rightarrow> 'w \<Rightarrow> (string + int) \<times> 'w"
  x509_CreateCertificate ::
    "certificate \<Rightarrow> certificate \<Rightarrow> rsa_public_key \<Rightarrow> rsa_private_key \<Rightarrow> 'w \<Rightarrow> (string + bytes) \<times> 'w"
  x509_ParseCertificate :: "bytes \<Rightarrow> string + certificate"
  x509_MarshalPKCS1PrivateKey :: "rsa_private_key \<Rightarrow> bytes"
  x509_ParsePKCS1PrivateKey :: "bytes \<Rightarrow> string + rsa_private_key"
  pem_EncodeToMemory :: "string \<Rightarrow> bytes \<Rightarrow> bytes"
  pem_Decode :: "bytes \<Rightarrow> (string \<times> bytes) option"
  lib_SetControllerReference :: "Builder \<Rightarrow> object_meta \<Rightarrow> string + object_meta"
  lib_ParseQuantity :: "string \<Rightarrow> quantity option"
  lib_ContainsFinalizer :: "object_meta \<Rightarrow> string \<Rightarrow> bool"
  lib_RemoveFinalizer :: "object_meta \<Rightarrow> string \<Rightarrow> object_meta"

datatype request =
    ReqGet kind obj_key
  | ReqListPods string "string gomap"
  | ReqCreate kobj
  | ReqUpdate kobj
  | ReqDelete kind obj_key
  | ReqStatusUpdate kobj
  | ReqEvent obj_key string go_err

text \<open>A call is a request with its error, \<open>None\<close> when it succeeded.\<close>

type_synonym call = "request \<times> api_err option"

record 'w sys =
  world :: 'w
  calls :: "call list"

type_synonym ('w, 'a) prog = "'w sys \<Rightarrow> 'a outcome \<times> 'w sys"

section \<open>Sequencing\<close>

definition ret :: "'a \<Rightarrow> ('w, 'a) prog" where
  "ret x s = (Ok x, s)"

definition throw :: "go_err \<Rightarrow> ('w, 'a) prog" where
  "throw e s = (Err e, s)"

definition panic :: "string \<Rightarrow> ('w, 'a) prog" where
  "panic p s = (Panic p, s)"

text \<open>
  \<open>x, err := m(); if err != nil { return err }; f x\<close>. A call whose error the code looks at
  returns it as a value instead.
\<close>

definition bindP :: "('w, 'a) prog \<Rightarrow> ('a \<Rightarrow> ('w, 'b) prog) \<Rightarrow> ('w, 'b) prog" where
  "bindP m f s =
     (case m s of
        (Ok x, s') \<Rightarrow> f x s'
      | (Err e, s') \<Rightarrow> (Err e, s')
      | (Panic p, s') \<Rightarrow> (Panic p, s'))"

definition seqP :: "('w, 'a) prog \<Rightarrow> ('w, 'b) prog \<Rightarrow> ('w, 'b) prog" where
  "seqP m n = bindP m (\<lambda>_. n)"

text \<open>\<open>x, err := m(); if err != nil { h }; f x\<close>, where the code does more with the error.\<close>

definition handleP ::
  "('w, 'a) prog \<Rightarrow> (go_err \<Rightarrow> ('w, 'b) prog) \<Rightarrow> ('a \<Rightarrow> ('w, 'b) prog) \<Rightarrow> ('w, 'b) prog" where
  "handleP m h f s =
     (case m s of
        (Ok x, s') \<Rightarrow> f x s'
      | (Err e, s') \<Rightarrow> h e s'
      | (Panic p, s') \<Rightarrow> (Panic p, s'))"

lemma bindP_ret [simp]: "bindP (ret x) f = f x"
  by (rule ext) (simp add: bindP_def ret_def)

lemma bindP_ret_right [simp]: "bindP m ret = m"
  by (rule ext) (simp add: bindP_def ret_def split: prod.split outcome.split)

lemma bindP_throw [simp]: "bindP (throw e) f = throw e"
  by (rule ext) (simp add: bindP_def throw_def)

lemma bindP_panic [simp]: "bindP (panic e) f = panic e"
  by (rule ext) (simp add: bindP_def panic_def)

lemma bindP_assoc [simp]: "bindP (bindP m f) g = bindP m (\<lambda>x. bindP (f x) g)"
  by (rule ext) (simp add: bindP_def split: prod.split outcome.split)

lemma seqP_ret [simp]: "seqP (ret x) n = n"
  by (simp add: seqP_def)

lemma seqP_assoc: "seqP (seqP l m) n = seqP l (seqP m n)"
  by (simp add: seqP_def)

lemma seqP_throw [simp]: "seqP (throw e) n = throw e"
  by (simp add: seqP_def)

lemma seqP_panic [simp]: "seqP (panic e) n = panic e"
  by (simp add: seqP_def)

section \<open>Calls of the environment\<close>

definition err_of :: "api_err + 'a \<Rightarrow> api_err option" where
  "err_of r = (case r of Inl e \<Rightarrow> Some e | Inr _ \<Rightarrow> None)"

definition client_Get :: "'w env \<Rightarrow> kind \<Rightarrow> obj_key \<Rightarrow> ('w, api_err + kobj) prog" where
  "client_Get E k key s =
     (case cl_get E k key (world s) of (r, w) \<Rightarrow>
        (Ok r, s\<lparr>world := w, calls := calls s @ [(ReqGet k key, err_of r)]\<rparr>))"

definition client_ListPods :: "'w env \<Rightarrow> string \<Rightarrow> string gomap \<Rightarrow> ('w, api_err + pod list) prog" where
  "client_ListPods E ns ls s =
     (case cl_list_pods E ns ls (world s) of (r, w) \<Rightarrow>
        (Ok r, s\<lparr>world := w, calls := calls s @ [(ReqListPods ns ls, err_of r)]\<rparr>))"

definition client_Create :: "'w env \<Rightarrow> kobj \<Rightarrow> ('w, api_err option) prog" where
  "client_Create E ob s =
     (case cl_create E ob (world s) of (r, w) \<Rightarrow>
        (Ok r, s\<lparr>world := w, calls := calls s @ [(ReqCreate ob, r)]\<rparr>))"

definition client_Update :: "'w env \<Rightarrow> kobj \<Rightarrow> ('w, api_err option) prog" where
  "client_Update E ob s =
     (case cl_update E ob (world s) of (r, w) \<Rightarrow>
        (Ok r, s\<lparr>world := w, calls := calls s @ [(ReqUpdate ob, r)]\<rparr>))"

definition client_Delete :: "'w env \<Rightarrow> kind \<Rightarrow> obj_key \<Rightarrow> ('w, api_err option) prog" where
  "client_Delete E k key s =
     (case cl_delete E k key (world s) of (r, w) \<Rightarrow>
        (Ok r, s\<lparr>world := w, calls := calls s @ [(ReqDelete k key, r)]\<rparr>))"

definition client_StatusUpdate :: "'w env \<Rightarrow> kobj \<Rightarrow> ('w, api_err option) prog" where
  "client_StatusUpdate E ob s =
     (case cl_status_update E ob (world s) of (r, w) \<Rightarrow>
        (Ok r, s\<lparr>world := w, calls := calls s @ [(ReqStatusUpdate ob, r)]\<rparr>))"

text \<open>\<open>Recorder.Event\<close> hands the event over and reports nothing back.\<close>

definition recorder_Event :: "obj_key \<Rightarrow> string \<Rightarrow> go_err \<Rightarrow> ('w, unit) prog" where
  "recorder_Event key reason e s = (Ok (), s\<lparr>calls := calls s @ [(ReqEvent key reason e, None)]\<rparr>)"

definition time_Now :: "'w env \<Rightarrow> ('w, time) prog" where
  "time_Now E s = (case clock E (world s) of (t, w) \<Rightarrow> (Ok t, s\<lparr>world := w\<rparr>))"

text \<open>A library call that can fail and changes the world (it draws random bytes).\<close>

definition lib_call :: "('w \<Rightarrow> (string + 'a) \<times> 'w) \<Rightarrow> ('w, 'a) prog" where
  "lib_call f s =
     (case f (world s) of
        (Inl m, w) \<Rightarrow> (Err (LibError m), s\<lparr>world := w\<rparr>)
      | (Inr x, w) \<Rightarrow> (Ok x, s\<lparr>world := w\<rparr>))"

text \<open>\<open>return err\<close> of a client call whose error is returned as it is.\<close>

definition return_err :: "('w, api_err option) prog \<Rightarrow> ('w, unit) prog" where
  "return_err m = bindP m (\<lambda>r. case r of None \<Rightarrow> ret () | Some e \<Rightarrow> throw (ApiError e))"

text \<open>\<open>r.Get\<close> into a struct of a given kind: a client decodes into that struct or fails.\<close>

definition get_as :: "'w env \<Rightarrow> kind \<Rightarrow> (kobj \<Rightarrow> 'o option) \<Rightarrow> obj_key \<Rightarrow> ('w, api_err + 'o) prog" where
  "get_as E k dec key = bindP (client_Get E k key) (\<lambda>r. ret
     (case r of
        Inl e \<Rightarrow> Inl e
      | Inr ob \<Rightarrow> (case dec ob of Some x \<Rightarrow> Inr x | None \<Rightarrow> Inl (OtherApiErr ''decode''))))"

definition SetControllerReference ::
  "'w env \<Rightarrow> Builder \<Rightarrow> object_meta \<Rightarrow> ('w, object_meta) prog" where
  "SetControllerReference E b m =
     (case lib_SetControllerReference E b m of Inl e \<Rightarrow> throw (LibError e) | Inr m' \<Rightarrow> ret m')"

fun as_builder :: "kobj \<Rightarrow> Builder option" where
  "as_builder (OBuilder b) = Some b" | "as_builder _ = None"
fun as_template :: "kobj \<Rightarrow> BuilderTemplate option" where
  "as_template (OTemplate t) = Some t" | "as_template _ = None"
fun as_config_map :: "kobj \<Rightarrow> config_map option" where
  "as_config_map (OConfigMap c) = Some c" | "as_config_map _ = None"
fun as_service :: "kobj \<Rightarrow> service option" where
  "as_service (OService s) = Some s" | "as_service _ = None"
fun as_pvc :: "kobj \<Rightarrow> pvc option" where
  "as_pvc (OPVC p) = Some p" | "as_pvc _ = None"
fun as_stateful_set :: "kobj \<Rightarrow> stateful_set option" where
  "as_stateful_set (OStatefulSet s) = Some s" | "as_stateful_set _ = None"
fun as_secret :: "kobj \<Rightarrow> secret option" where
  "as_secret (OSecret s) = Some s" | "as_secret _ = None"
fun as_ingress_route :: "kobj \<Rightarrow> ingress_route option" where
  "as_ingress_route (OIngressRoute i) = Some i" | "as_ingress_route _ = None"

end
