(* ===== verification/Program_Logic.thy ===== *)
theory Program_Logic
  imports Effects
begin

text \<open>
  Two ways to reason about programs. \<open>emits E P m Q\<close>: \<open>m\<close> acts by calls of \<open>E\<close> whose
  requests satisfy \<open>P\<close>, one after the other, and a value it returns satisfies \<open>Q\<close>, from any
  state and whatever the environment answers. \<open>wp m Q X s\<close>: \<open>m\<close> started in \<open>s\<close> ends in a
  value and state of \<open>Q\<close>, or with an error (a panic for \<open>None\<close>) in a state of \<open>X\<close>.
\<close>

section \<open>What a program asks for\<close>

text \<open>
  One call of the environment, with its effect on the world and the log. The calls that ask
  nothing of the API server (the clock and the libraries) are not restricted.
\<close>

inductive call_step :: "'w env \<Rightarrow> (request \<Rightarrow> bool) \<Rightarrow> 'w sys \<Rightarrow> 'w sys \<Rightarrow> bool" for E P where
  get: "P (ReqGet k key) \<Longrightarrow> call_step E P s (snd (client_Get E k key s))"
| list_pods: "P (ReqListPods ns ls) \<Longrightarrow> call_step E P s (snd (client_ListPods E ns ls s))"
| create: "P (ReqCreate ob) \<Longrightarrow> call_step E P s (snd (client_Create E ob s))"
| update: "P (ReqUpdate ob) \<Longrightarrow> call_step E P s (snd (client_Update E ob s))"
| delete: "P (ReqDelete k key) \<Longrightarrow> call_step E P s (snd (client_Delete E k key s))"
| status: "P (ReqStatusUpdate ob) \<Longrightarrow> call_step E P s (snd (client_StatusUpdate E ob s))"
| event: "P (ReqEvent key reason e) \<Longrightarrow> call_step E P s (snd (recorder_Event key reason e s))"
| now: "call_step E P s (snd (time_Now E s))"
| generate: "call_step E P s (snd (lib_call (rsa_GenerateKey E) s))"
| draw: "call_step E P s (snd (lib_call (rand_Int E n) s))"
| sign: "call_step E P s (snd (lib_call (x509_CreateCertificate E t p pub priv) s))"

abbreviation call_steps :: "'w env \<Rightarrow> (request \<Rightarrow> bool) \<Rightarrow> 'w sys \<Rightarrow> 'w sys \<Rightarrow> bool" where
  "call_steps E P \<equiv> (call_step E P)\<^sup>*\<^sup>*"

lemma call_step_mono: "call_step E P s s' \<Longrightarrow> (\<And>r. P r \<Longrightarrow> P' r) \<Longrightarrow> call_step E P' s s'"
  by (induction rule: call_step.induct) (auto intro: call_step.intros)

lemma call_steps_mono: "call_steps E P s s' \<Longrightarrow> (\<And>r. P r \<Longrightarrow> P' r) \<Longrightarrow> call_steps E P' s s'"
proof (induction rule: rtranclp_induct)
  case (step s' s'')
  have "call_step E P' s' s''" by (rule call_step_mono [OF step.hyps(2) step.prems])
  with step.IH [OF step.prems] show ?case by (rule rtranclp.rtrancl_into_rtrancl)
qed simp

text \<open>The log grows by the calls made.\<close>

lemma call_step_log:
  "call_step E P s s' \<Longrightarrow> \<exists>cs. calls s' = calls s @ cs \<and> (\<forall>c\<in>set cs. P (fst c))"
  by (induction rule: call_step.induct)
    (auto simp: client_Get_def client_ListPods_def client_Create_def client_Update_def
      client_Delete_def client_StatusUpdate_def recorder_Event_def time_Now_def lib_call_def
      split: prod.split sum.split)

lemma call_steps_log:
  "call_steps E P s s' \<Longrightarrow> \<exists>cs. calls s' = calls s @ cs \<and> (\<forall>c\<in>set cs. P (fst c))"
proof (induction rule: rtranclp_induct)
  case (step s' s'')
  from step.IH obtain cs where "calls s' = calls s @ cs" "\<forall>c\<in>set cs. P (fst c)" by blast
  moreover from call_step_log [OF step.hyps(2)] obtain cs' where
    "calls s'' = calls s' @ cs'" "\<forall>c\<in>set cs'. P (fst c)" by blast
  ultimately show ?case by (intro exI [of _ "cs @ cs'"]) auto
qed simp

definition emits ::
  "'w env \<Rightarrow> (request \<Rightarrow> bool) \<Rightarrow> ('w, 'a) prog \<Rightarrow> ('a \<Rightarrow> bool) \<Rightarrow> bool" where
  "emits E P m Q \<longleftrightarrow>
     (\<forall>s. call_steps E P s (snd (m s)) \<and> (\<forall>x. fst (m s) = Ok x \<longrightarrow> Q x))"

lemma emits_steps: "emits E P m Q \<Longrightarrow> call_steps E P s (snd (m s))"
  by (simp add: emits_def)

lemma emits_result: "emits E P m Q \<Longrightarrow> m s = (Ok x, s') \<Longrightarrow> Q x"
  unfolding emits_def by (metis fst_conv)

lemma emits_calls:
  "emits E P m Q \<Longrightarrow> \<exists>cs. calls (snd (m s)) = calls s @ cs \<and> (\<forall>c\<in>set cs. P (fst c))"
  by (rule call_steps_log [OF emits_steps])

lemma emits_ret [keeps_intros]: "Q x \<Longrightarrow> emits E P (ret x) Q"
  by (simp add: emits_def ret_def)

lemma emits_throw [keeps_intros]: "emits E P (throw e) Q"
  by (simp add: emits_def throw_def)

lemma emits_panic [keeps_intros]: "emits E P (panic p) Q"
  by (simp add: emits_def panic_def)

lemma emits_bind:
  assumes m: "emits E P m R" and f: "\<And>x. R x \<Longrightarrow> emits E P (f x) Q"
  shows "emits E P (bindP m f) Q"
  unfolding emits_def
proof (intro allI conjI)
  fix s
  obtain r s1 where ms: "m s = (r, s1)" by (cases "m s")
  have first: "call_steps E P s s1" using emits_steps [OF m, of s] by (simp add: ms)
  show "call_steps E P s (snd (bindP m f s))"
  proof (cases r)
    case (Ok x)
    with m ms have "R x" by (blast intro: emits_result)
    from emits_steps [OF f [OF this], of s1] first show ?thesis
      by (simp add: bindP_def ms Ok)
  qed (use first ms in \<open>auto simp: bindP_def\<close>)
  fix x
  show "fst (bindP m f s) = Ok x \<longrightarrow> Q x"
  proof (cases r)
    case (Ok y)
    with m ms have "R y" by (blast intro: emits_result)
    from f [OF this] show ?thesis by (simp add: bindP_def ms Ok emits_def)
  qed (simp_all add: bindP_def ms)
qed

lemma emits_seq [keeps_intros]:
  "emits E P m (\<lambda>_. True) \<Longrightarrow> emits E P n Q \<Longrightarrow> emits E P (seqP m n) Q"
  by (simp add: seqP_def emits_bind [where R = "\<lambda>_. True"])

lemma emits_bind_any [keeps_intros]:
  "emits E P m (\<lambda>_. True) \<Longrightarrow> (\<And>x. emits E P (f x) Q) \<Longrightarrow> emits E P (bindP m f) Q"
  by (rule emits_bind)

lemma emits_handle_with:
  assumes m: "emits E P m R" and h: "\<And>e. emits E P (h e) Q" and f: "\<And>x. R x \<Longrightarrow> emits E P (f x) Q"
  shows "emits E P (handleP m h f) Q"
  unfolding emits_def
proof (intro allI conjI)
  fix s
  obtain r s1 where ms: "m s = (r, s1)" by (cases "m s")
  have "call_steps E P s s1" using emits_steps [OF m, of s] by (simp add: ms)
  moreover have R: "R x" if "r = Ok x" for x using emits_result [OF m] ms that by simp
  ultimately show "call_steps E P s (snd (handleP m h f s))"
    using emits_steps [OF f] emits_steps [OF h]
    by (cases r) (auto simp: handleP_def ms intro: rtranclp_trans)
  fix x
  show "fst (handleP m h f s) = Ok x \<longrightarrow> Q x"
    using h f R unfolding emits_def by (cases r) (auto simp: handleP_def ms)
qed

lemma emits_handle [keeps_intros]:
  "emits E P m (\<lambda>_. True) \<Longrightarrow> (\<And>e. emits E P (h e) Q) \<Longrightarrow> (\<And>x. emits E P (f x) Q) \<Longrightarrow>
   emits E P (handleP m h f) Q"
  by (rule emits_handle_with)

lemma emits_weaken:
  "emits E P m Q \<Longrightarrow> (\<And>r. P r \<Longrightarrow> P' r) \<Longrightarrow> (\<And>x. Q x \<Longrightarrow> Q' x) \<Longrightarrow> emits E P' m Q'"
  unfolding emits_def by (blast intro: call_steps_mono)

lemma emits_if [keeps_intros]:
  "(c \<Longrightarrow> emits E P m Q) \<Longrightarrow> (\<not> c \<Longrightarrow> emits E P n Q) \<Longrightarrow> emits E P (if c then m else n) Q"
  by simp

lemma emits_case_sum [keeps_intros]:
  "(\<And>e. r = Inl e \<Longrightarrow> emits E P (f e) Q) \<Longrightarrow> (\<And>x. r = Inr x \<Longrightarrow> emits E P (g x) Q) \<Longrightarrow>
   emits E P (case r of Inl e \<Rightarrow> f e | Inr x \<Rightarrow> g x) Q"
  by (cases r) auto

lemma emits_case_option [keeps_intros]:
  "(r = None \<Longrightarrow> emits E P m Q) \<Longrightarrow> (\<And>x. r = Some x \<Longrightarrow> emits E P (g x) Q) \<Longrightarrow>
   emits E P (case r of None \<Rightarrow> m | Some x \<Rightarrow> g x) Q"
  by (cases r) auto

lemma emits_case_outcome [keeps_intros]:
  "(\<And>x. r = Ok x \<Longrightarrow> emits E P (f x) Q) \<Longrightarrow> (\<And>e. r = Err e \<Longrightarrow> emits E P (g e) Q) \<Longrightarrow>
   (\<And>p. r = Panic p \<Longrightarrow> emits E P (h p) Q) \<Longrightarrow>
   emits E P (case r of Ok x \<Rightarrow> f x | Err e \<Rightarrow> g e | Panic p \<Rightarrow> h p) Q"
  by (cases r) auto

lemma emits_case_prod [keeps_intros]:
  "(\<And>x y. r = (x, y) \<Longrightarrow> emits E P (f x y) Q) \<Longrightarrow> emits E P (case r of (x, y) \<Rightarrow> f x y) Q"
  by (cases r) auto

lemma emits_let [keeps_intros]: "(\<And>x. x = t \<Longrightarrow> emits E P (f x) Q) \<Longrightarrow> emits E P (let x = t in f x) Q"
  by simp

lemma emits_client [keeps_intros]:
  "P (ReqGet k key) \<Longrightarrow> emits E P (client_Get E k key) (\<lambda>_. True)"
  "P (ReqListPods ns ls) \<Longrightarrow> emits E P (client_ListPods E ns ls) (\<lambda>_. True)"
  "P (ReqCreate ob) \<Longrightarrow> emits E P (client_Create E ob) (\<lambda>_. True)"
  "P (ReqUpdate ob) \<Longrightarrow> emits E P (client_Update E ob) (\<lambda>_. True)"
  "P (ReqDelete k key) \<Longrightarrow> emits E P (client_Delete E k key) (\<lambda>_. True)"
  "P (ReqStatusUpdate ob) \<Longrightarrow> emits E P (client_StatusUpdate E ob) (\<lambda>_. True)"
  "P (ReqEvent key reason e) \<Longrightarrow> emits E P (recorder_Event key reason e) (\<lambda>_. True)"
  by (auto simp: emits_def intro: call_step.intros)

lemma emits_quiet [keeps_intros]:
  "emits E P (time_Now E) (\<lambda>_. True)"
  "emits E P (lib_call (rsa_GenerateKey E)) (\<lambda>_. True)"
  "emits E P (lib_call (rand_Int E n)) (\<lambda>_. True)"
  "emits E P (lib_call (x509_CreateCertificate E t p pub priv)) (\<lambda>_. True)"
  "emits E P (SetControllerReference E b m) (\<lambda>_. True)"
  by (auto simp: emits_def SetControllerReference_def throw_def ret_def intro: call_step.intros
      split: sum.split)

lemma emits_return_err [keeps_intros]:
  "emits E P m (\<lambda>_. True) \<Longrightarrow> emits E P (return_err m) (\<lambda>_. True)"
  unfolding return_err_def by (intro keeps_intros) auto

lemma emits_get_as [keeps_intros]:
  "P (ReqGet k key) \<Longrightarrow> emits E P (get_as E k dec key) (\<lambda>_. True)"
  unfolding get_as_def by (intro keeps_intros) auto

text \<open>
  What the code relies on where it writes an object back: a client's \<open>Get\<close> returns the
  object it was asked for.
\<close>

definition get_keyed :: "'w env \<Rightarrow> bool" where
  "get_keyed E \<longleftrightarrow> (\<forall>k key w ob. fst (cl_get E k key w) = Inr ob \<longrightarrow>
     kobj_kind ob = k \<and> kobj_key ob = key)"

lemma get_keyedD:
  assumes "get_keyed E" and "fst (cl_get E k key w) = Inr ob"
  shows "kobj_kind ob = k" and "kobj_key ob = key"
  using assms unfolding get_keyed_def by blast+

text \<open>
  And where it owns an object: \<open>SetControllerReference\<close> changes the owner references only.
\<close>

definition owner_refs_only :: "'w env \<Rightarrow> bool" where
  "owner_refs_only E \<longleftrightarrow> (\<forall>b m m'. lib_SetControllerReference E b m = Inr m' \<longrightarrow>
     (\<exists>refs. m' = m\<lparr>om_ownerReferences := refs\<rparr>))"

lemma fst_client_Get: "fst (client_Get E k key s) = Ok (fst (cl_get E k key (world s)))"
  by (simp add: client_Get_def split: prod.split)

lemma emits_post:
  "emits E P m R \<Longrightarrow> (\<And>s x. fst (m s) = Ok x \<Longrightarrow> Q x) \<Longrightarrow> emits E P m Q"
  by (simp add: emits_def)

lemma emits_get_as_keyed:
  assumes "get_keyed E" and "P (ReqGet k key)"
    and dec: "\<And>ob x. dec ob = Some x \<Longrightarrow> ob = wrap x"
  shows "emits E P (get_as E k dec key) (\<lambda>r. \<forall>x. r = Inr x \<longrightarrow> kobj_key (wrap x) = key)"
  unfolding get_as_def
proof (rule emits_bind)
  show "emits E P (client_Get E k key) (\<lambda>r. \<forall>ob. r = Inr ob \<longrightarrow> kobj_key ob = key)"
    by (rule emits_post [OF emits_client(1) [where P = P, OF assms(2)]])
      (use get_keyedD [OF assms(1)] in \<open>auto simp: fst_client_Get\<close>)
qed (auto intro!: emits_ret dest!: dec split: sum.splits option.splits)

lemma emits_owner:
  assumes "owner_refs_only E"
  shows "emits E P (SetControllerReference E b m) (\<lambda>m'. \<exists>refs. m' = m\<lparr>om_ownerReferences := refs\<rparr>)"
  using assms
  by (auto simp: SetControllerReference_def owner_refs_only_def intro!: keeps_intros split: sum.split)

section \<open>Weakest preconditions\<close>

definition wp :: "('w, 'a) prog \<Rightarrow> ('a \<Rightarrow> 'w sys \<Rightarrow> bool) \<Rightarrow> (go_err option \<Rightarrow> 'w sys \<Rightarrow> bool)
    \<Rightarrow> 'w sys \<Rightarrow> bool" where
  "wp m Q X s =
     (case m s of (Ok x, s') \<Rightarrow> Q x s' | (Err e, s') \<Rightarrow> X (Some e) s' | (Panic p, s') \<Rightarrow> X None s')"

lemma wp_ret [simp]: "wp (ret x) Q X = Q x"
  by (rule ext) (simp add: wp_def ret_def)

lemma wp_throw [simp]: "wp (throw e) Q X = X (Some e)"
  by (rule ext) (simp add: wp_def throw_def)

lemma wp_panic [simp]: "wp (panic p) Q X = X None"
  by (rule ext) (simp add: wp_def panic_def)

lemma wp_bind [simp]: "wp (bindP m f) Q X = wp m (\<lambda>x. wp (f x) Q X) X"
  by (rule ext) (simp add: wp_def bindP_def split: prod.split outcome.split)

lemma wp_seq [simp]: "wp (seqP m n) Q X = wp m (\<lambda>_. wp n Q X) X"
  by (simp add: seqP_def)

lemma wp_handle [simp]:
  "wp (handleP m h f) Q X =
     wp m (\<lambda>x. wp (f x) Q X) (\<lambda>e s'. case e of Some e \<Rightarrow> wp (h e) Q X s' | None \<Rightarrow> X None s')"
  by (rule ext) (simp add: wp_def handleP_def split: prod.split outcome.split)

lemma wp_mono:
  "wp m Q X s \<Longrightarrow> (\<And>x s'. Q x s' \<Longrightarrow> Q' x s') \<Longrightarrow> (\<And>e s'. X e s' \<Longrightarrow> X' e s') \<Longrightarrow> wp m Q' X' s"
  by (auto simp: wp_def split: prod.splits outcome.splits)

lemma wp_Ok: "wp m Q X s \<Longrightarrow> m s = (Ok x, s') \<Longrightarrow> Q x s'"
  by (simp add: wp_def)

lemma wp_Err: "wp m Q X s \<Longrightarrow> m s = (Err e, s') \<Longrightarrow> X (Some e) s'"
  by (simp add: wp_def)

lemma wpI:
  "(\<And>x s'. m s = (Ok x, s') \<Longrightarrow> Q x s') \<Longrightarrow> (\<And>e s'. m s = (Err e, s') \<Longrightarrow> X (Some e) s') \<Longrightarrow>
   (\<And>p s'. m s = (Panic p, s') \<Longrightarrow> X None s') \<Longrightarrow> wp m Q X s"
  by (auto simp: wp_def split: prod.split outcome.split)

end
