(* ===== verification/Api_Laws.thy ===== *)
theory Api_Laws
  imports Program_Logic
begin

text \<open>
  What the functional statements assume of an API server and its client. \<open>obs w\<close> is the
  set of stored objects, by kind and key, that the world \<open>w\<close> holds; \<open>api_laws E obs\<close> says
  how the calls of \<open>E\<close> act on it. Reads see the current state (an up-to-date cache), a
  successful write stores what was sent up to the fields the server owns, a failed write
  leaves the store as it was or, when only the reply was lost, is as a successful one, and
  nothing else changes the store.
\<close>

type_synonym store = "kind \<Rightarrow> obj_key \<Rightarrow> kobj option"

definition store_put :: "kind \<Rightarrow> obj_key \<Rightarrow> kobj option \<Rightarrow> store \<Rightarrow> store" where
  "store_put k key v st = st(k := (st k)(key := v))"

lemma store_put_same [simp]: "store_put k key v st k key = v"
  by (simp add: store_put_def)

lemma store_put_id: "store_put k key (st k key) st = st"
  by (simp add: store_put_def)

lemma store_put_self: "\<exists>v. st = store_put k key v st"
  by (metis store_put_id)

lemma store_put_put [simp]: "store_put k key v (store_put k key u st) = store_put k key v st"
  by (simp add: store_put_def)

lemma store_put_other [simp]:
  "(k', key') \<noteq> (k, key) \<Longrightarrow> store_put k key v st k' key' = st k' key'"
  by (auto simp: store_put_def)

section \<open>What the server keeps of an object\<close>

text \<open>
  The server sets \<open>uid\<close> and \<open>resourceVersion\<close>, allocates cluster addresses and node
  ports, and defaults an empty service type. It stores all else as it is sent.
\<close>

definition meta_agrees :: "object_meta \<Rightarrow> object_meta \<Rightarrow> bool" where
  "meta_agrees m m' \<longleftrightarrow> om_namespace m' = om_namespace m \<and> om_name m' = om_name m
     \<and> om_annotations m' = om_annotations m \<and> om_ownerReferences m' = om_ownerReferences m"

definition port_agrees :: "service_port \<Rightarrow> service_port \<Rightarrow> bool" where
  "port_agrees p p' \<longleftrightarrow> sp_name p' = sp_name p \<and> sp_port p' = sp_port p
     \<and> sp_targetPort p' = sp_targetPort p"

definition agrees :: "kobj \<Rightarrow> kobj \<Rightarrow> bool" where
  "agrees ob ob' \<longleftrightarrow> (case ob of
     OConfigMap c \<Rightarrow> (case ob' of
       OConfigMap c' \<Rightarrow> meta_agrees (cm_meta c) (cm_meta c') \<and> cm_data c' = cm_data c | _ \<Rightarrow> False)
   | OService s \<Rightarrow> (case ob' of
       OService s' \<Rightarrow> meta_agrees (svc_meta s) (svc_meta s') \<and> svc_selector s' = svc_selector s
         \<and> (svc_type s = [] \<or> svc_type s' = svc_type s)
         \<and> list_all2 port_agrees (svc_ports s) (svc_ports s') | _ \<Rightarrow> False)
   | OPVC p \<Rightarrow> (case ob' of
       OPVC p' \<Rightarrow> meta_agrees (pvc_meta p) (pvc_meta p') \<and> pvc_accessModes p' = pvc_accessModes p
         \<and> pvc_requests p' = pvc_requests p | _ \<Rightarrow> False)
   | OStatefulSet t \<Rightarrow> (case ob' of
       OStatefulSet t' \<Rightarrow> meta_agrees (sts_meta t) (sts_meta t') \<and> sts_replicas t' = sts_replicas t
         \<and> sts_serviceName t' = sts_serviceName t \<and> sts_matchLabels t' = sts_matchLabels t
         \<and> sts_templateLabels t' = sts_templateLabels t \<and> sts_podSpec t' = sts_podSpec t | _ \<Rightarrow> False)
   | OSecret x \<Rightarrow> (case ob' of
       OSecret x' \<Rightarrow> meta_agrees (sec_meta x) (sec_meta x') \<and> sec_type x' = sec_type x
         \<and> sec_data x' = sec_data x | _ \<Rightarrow> False)
   | OIngressRoute i \<Rightarrow> (case ob' of
       OIngressRoute i' \<Rightarrow> meta_agrees (ir_meta i) (ir_meta i') \<and> ir_spec i' = ir_spec i | _ \<Rightarrow> False)
   | OBuilder b \<Rightarrow> (case ob' of
       OBuilder b' \<Rightarrow> meta_agrees (b_meta b) (b_meta b') \<and> b_spec b' = b_spec b | _ \<Rightarrow> False)
   | OTemplate t \<Rightarrow> (case ob' of
       OTemplate t' \<Rightarrow> meta_agrees (bt_meta t) (bt_meta t') \<and> bt_spec t' = bt_spec t | _ \<Rightarrow> False))"

lemmas agrees_simps [simp] =
  agrees_def [of "OConfigMap c", unfolded kobj.case] agrees_def [of "OService s", unfolded kobj.case]
  agrees_def [of "OPVC p", unfolded kobj.case] agrees_def [of "OStatefulSet t", unfolded kobj.case]
  agrees_def [of "OSecret x", unfolded kobj.case] agrees_def [of "OIngressRoute i", unfolded kobj.case]
  agrees_def [of "OBuilder b", unfolded kobj.case] agrees_def [of "OTemplate t", unfolded kobj.case]
  for c s p t x i b

lemma meta_agrees_refl [simp]: "meta_agrees m m"
  by (simp add: meta_agrees_def)

lemma meta_agrees_rv [simp]:
  "meta_agrees (m\<lparr>om_resourceVersion := v\<rparr>) m' = meta_agrees m m'"
  by (simp add: meta_agrees_def)

lemma agrees_refl: "agrees ob ob"
  by (cases ob) (simp_all add: port_agrees_def list_all2_refl)

section \<open>The laws\<close>

text \<open>What a write of \<open>ob\<close> at its key may do to the store.\<close>

definition written :: "kobj \<Rightarrow> store \<Rightarrow> store \<Rightarrow> bool" where
  "written ob st st' \<longleftrightarrow>
     (\<exists>ob'. agrees ob ob' \<and> st' = store_put (kobj_kind ob) (kobj_key ob) (Some ob') st)"

definition removed :: "kind \<Rightarrow> obj_key \<Rightarrow> store \<Rightarrow> store \<Rightarrow> bool" where
  "removed k key st st' \<longleftrightarrow>
     st' = store_put k key None st
     \<or> (\<exists>ob. st' = store_put k key (Some ob) st \<and> om_deletionTimestamp (kobj_meta ob) \<noteq> None)"


definition get_law :: "'w env \<Rightarrow> ('w \<Rightarrow> store) \<Rightarrow> bool" where
  "get_law E obs \<longleftrightarrow> (\<forall>k key w. obs (snd (cl_get E k key w)) = obs w \<and>
     (case fst (cl_get E k key w) of
        Inr ob \<Rightarrow> obs w k key = Some ob \<and> kobj_kind ob = k \<and> kobj_key ob = key
      | Inl e \<Rightarrow> e = NotFound \<longrightarrow> obs w k key = None))"

definition list_law :: "'w env \<Rightarrow> ('w \<Rightarrow> store) \<Rightarrow> bool" where
  "list_law E obs \<longleftrightarrow> (\<forall>ns ls w. obs (snd (cl_list_pods E ns ls w)) = obs w)"

definition create_law :: "'w env \<Rightarrow> ('w \<Rightarrow> store) \<Rightarrow> bool" where
  "create_law E obs \<longleftrightarrow> (\<forall>ob w.
     (case fst (cl_create E ob w) of
        None \<Rightarrow> obs w (kobj_kind ob) (kobj_key ob) = None \<and> written ob (obs w) (obs (snd (cl_create E ob w)))
      | Some e \<Rightarrow> (e = AlreadyExists \<longrightarrow> obs w (kobj_kind ob) (kobj_key ob) \<noteq> None) \<and>
          (obs (snd (cl_create E ob w)) = obs w \<or>
          e \<noteq> AlreadyExists \<and> obs w (kobj_kind ob) (kobj_key ob) = None
          \<and> written ob (obs w) (obs (snd (cl_create E ob w))))))"

definition update_law :: "'w env \<Rightarrow> ('w \<Rightarrow> store) \<Rightarrow> bool" where
  "update_law E obs \<longleftrightarrow> (\<forall>ob w.
     (case fst (cl_update E ob w) of
        None \<Rightarrow> obs w (kobj_kind ob) (kobj_key ob) \<noteq> None \<and> written ob (obs w) (obs (snd (cl_update E ob w)))
      | Some e \<Rightarrow> obs (snd (cl_update E ob w)) = obs w \<or>
          e \<noteq> Conflict \<and> obs w (kobj_kind ob) (kobj_key ob) \<noteq> None
          \<and> written ob (obs w) (obs (snd (cl_update E ob w)))))"

definition delete_law :: "'w env \<Rightarrow> ('w \<Rightarrow> store) \<Rightarrow> bool" where
  "delete_law E obs \<longleftrightarrow> (\<forall>k key w.
     (case fst (cl_delete E k key w) of
        None \<Rightarrow> removed k key (obs w) (obs (snd (cl_delete E k key w)))
      | Some e \<Rightarrow>
          if e = NotFound then obs w k key = None \<and> obs (snd (cl_delete E k key w)) = obs w
          else obs (snd (cl_delete E k key w)) = obs w
               \<or> removed k key (obs w) (obs (snd (cl_delete E k key w)))))"

text \<open>
  A status update writes the status of the builder it names: the server keeps the stored
  specification and metadata, with a new resource version.
\<close>

definition same_request :: "Builder \<Rightarrow> Builder \<Rightarrow> bool" where
  "same_request b b' \<longleftrightarrow> b_spec b' = b_spec b
     \<and> b_meta b' = (b_meta b)\<lparr>om_resourceVersion := om_resourceVersion (b_meta b')\<rparr>"

lemma same_request_refl [simp]: "same_request b b"
  by (simp add: same_request_def)

definition status_written :: "Builder \<Rightarrow> store \<Rightarrow> store \<Rightarrow> bool" where
  "status_written b st st' \<longleftrightarrow>
     (\<exists>old b'. st KBuilder (meta_key (b_meta b)) = Some (OBuilder old)
        \<and> b_status b' = b_status b \<and> same_request old b'
        \<and> st' = store_put KBuilder (meta_key (b_meta b)) (Some (OBuilder b')) st)"

definition status_law :: "'w env \<Rightarrow> ('w \<Rightarrow> store) \<Rightarrow> bool" where
  "status_law E obs \<longleftrightarrow> (\<forall>b w.
     (case fst (cl_status_update E (OBuilder b) w) of
        None \<Rightarrow> status_written b (obs w) (obs (snd (cl_status_update E (OBuilder b) w)))
      | Some e \<Rightarrow> obs (snd (cl_status_update E (OBuilder b) w)) = obs w
          \<or> status_written b (obs w) (obs (snd (cl_status_update E (OBuilder b) w)))))"

definition quiet_law :: "'w env \<Rightarrow> ('w \<Rightarrow> store) \<Rightarrow> bool" where
  "quiet_law E obs \<longleftrightarrow>
     (\<forall>w. obs (snd (clock E w)) = obs w) \<and>
     (\<forall>w. obs (snd (rsa_GenerateKey E w)) = obs w) \<and>
     (\<forall>n w. obs (snd (rand_Int E n w)) = obs w) \<and>
     (\<forall>t p pub priv w. obs (snd (x509_CreateCertificate E t p pub priv w)) = obs w)"

definition api_laws :: "'w env \<Rightarrow> ('w \<Rightarrow> store) \<Rightarrow> bool" where
  "api_laws E obs \<longleftrightarrow> get_law E obs \<and> list_law E obs \<and> create_law E obs \<and> update_law E obs
     \<and> delete_law E obs \<and> status_law E obs \<and> quiet_law E obs"

lemma api_lawsD:
  assumes "api_laws E obs"
  shows "get_law E obs" "list_law E obs" "create_law E obs" "update_law E obs"
    "delete_law E obs" "status_law E obs" "quiet_law E obs"
  using assms by (simp_all add: api_laws_def)

lemma get_lawD:
  assumes "get_law E obs"
  shows "obs (snd (cl_get E k key w)) = obs w"
    and "fst (cl_get E k key w) = Inr ob \<Longrightarrow> obs w k key = Some ob \<and> kobj_kind ob = k \<and> kobj_key ob = key"
    and "fst (cl_get E k key w) = Inl NotFound \<Longrightarrow> obs w k key = None"
proof -
  have law: "obs (snd (cl_get E k key w)) = obs w \<and>
     (case fst (cl_get E k key w) of
        Inr ob \<Rightarrow> obs w k key = Some ob \<and> kobj_kind ob = k \<and> kobj_key ob = key
      | Inl e \<Rightarrow> e = NotFound \<longrightarrow> obs w k key = None)"
    using assms unfolding get_law_def by (elim allE)
  then show "obs (snd (cl_get E k key w)) = obs w" by (rule conjunct1)
  show "obs w k key = Some ob \<and> kobj_kind ob = k \<and> kobj_key ob = key"
    if "fst (cl_get E k key w) = Inr ob"
    using law by (simp add: that)
  show "obs w k key = None" if "fst (cl_get E k key w) = Inl NotFound"
    using law by (simp add: that)
qed

lemma api_laws_keyed:
  assumes "api_laws E obs"
  shows "get_keyed E"
  unfolding get_keyed_def
proof (intro allI impI)
  fix k key w ob
  assume "fst (cl_get E k key w) = Inr ob"
  with get_lawD(2) [OF api_lawsD(1) [OF assms]]
  show "kobj_kind ob = k \<and> kobj_key ob = key" by blast
qed

lemma create_lawD:
  assumes "create_law E obs" and "cl_create E ob w = (r, w')"
  shows "case r of
      None \<Rightarrow> obs w (kobj_kind ob) (kobj_key ob) = None \<and> written ob (obs w) (obs w')
    | Some e \<Rightarrow> (e = AlreadyExists \<longrightarrow> obs w (kobj_kind ob) (kobj_key ob) \<noteq> None) \<and>
        (obs w' = obs w \<or> e \<noteq> AlreadyExists
         \<and> obs w (kobj_kind ob) (kobj_key ob) = None \<and> written ob (obs w) (obs w'))"
  using assms(1) [unfolded create_law_def, rule_format, of w ob] by (simp only: assms(2) fst_conv snd_conv)

lemma update_lawD:
  assumes "update_law E obs" and "cl_update E ob w = (r, w')"
  shows "case r of
      None \<Rightarrow> obs w (kobj_kind ob) (kobj_key ob) \<noteq> None \<and> written ob (obs w) (obs w')
    | Some e \<Rightarrow> obs w' = obs w \<or> e \<noteq> Conflict
        \<and> obs w (kobj_kind ob) (kobj_key ob) \<noteq> None \<and> written ob (obs w) (obs w')"
  using assms(1) [unfolded update_law_def, rule_format, of w ob] by (simp only: assms(2) fst_conv snd_conv)

lemma delete_lawD:
  assumes "delete_law E obs" and "cl_delete E k key w = (r, w')"
  shows "case r of
      None \<Rightarrow> removed k key (obs w) (obs w')
    | Some e \<Rightarrow> if e = NotFound then obs w k key = None \<and> obs w' = obs w
        else obs w' = obs w \<or> removed k key (obs w) (obs w')"
  using assms(1) [unfolded delete_law_def, rule_format, of k key w] by (simp only: assms(2) fst_conv snd_conv)

lemma status_lawD:
  assumes "status_law E obs" and "cl_status_update E (OBuilder b) w = (r, w')"
  shows "case r of None \<Rightarrow> status_written b (obs w) (obs w')
    | Some e \<Rightarrow> obs w' = obs w \<or> status_written b (obs w) (obs w')"
  using assms(1) [unfolded status_law_def, rule_format, of b w] by (simp only: assms(2) fst_conv snd_conv)

lemma status_written_put:
  "st' = st \<or> status_written b st st' \<Longrightarrow> \<exists>v. st' = store_put KBuilder (meta_key (b_meta b)) v st"
  by (auto simp: status_written_def intro: store_put_self)

lemma written_put:
  "st' = st \<or> written ob st st' \<Longrightarrow> \<exists>v. st' = store_put (kobj_kind ob) (kobj_key ob) v st"
  by (auto simp: written_def intro: store_put_self)

lemma removed_put: "st' = st \<or> removed k key st st' \<Longrightarrow> \<exists>v. st' = store_put k key v st"
  by (auto simp: removed_def intro: store_put_self)

lemma list_lawD: "list_law E obs \<Longrightarrow> obs (snd (cl_list_pods E ns ls w)) = obs w"
  by (simp only: list_law_def)

lemma quiet_lawD:
  assumes "quiet_law E obs"
  shows "obs (snd (clock E w)) = obs w" "obs (snd (rsa_GenerateKey E w)) = obs w"
    "obs (snd (rand_Int E n w)) = obs w" "obs (snd (x509_CreateCertificate E t p pub priv w)) = obs w"
  using assms by (simp_all add: quiet_law_def)

text \<open>
  A mishap is an error the server had no cause for: anything but \<open>NotFound\<close> on a read or a
  delete, a refusal to create what is absent or to update what is present, a pod list or a
  status update of a stored builder that fails. A server without mishaps never times out,
  denies or conflicts.
\<close>

definition mishap :: "'w env \<Rightarrow> ('w \<Rightarrow> store) \<Rightarrow> api_err \<Rightarrow> bool" where
  "mishap E obs e \<longleftrightarrow>
     (\<exists>k key w. fst (cl_get E k key w) = Inl e \<and> e \<noteq> NotFound)
     \<or> (\<exists>ns ls w. fst (cl_list_pods E ns ls w) = Inl e)
     \<or> (\<exists>ob w. fst (cl_create E ob w) = Some e \<and> obs w (kobj_kind ob) (kobj_key ob) = None)
     \<or> (\<exists>ob w. fst (cl_update E ob w) = Some e \<and> obs w (kobj_kind ob) (kobj_key ob) \<noteq> None)
     \<or> (\<exists>k key w. fst (cl_delete E k key w) = Some e \<and> e \<noteq> NotFound)
     \<or> (\<exists>b w. fst (cl_status_update E (OBuilder b) w) = Some e
          \<and> obs w KBuilder (meta_key (b_meta b)) \<noteq> None)"

lemma mishapI:
  "fst (cl_get E k key w) = Inl e \<Longrightarrow> e \<noteq> NotFound \<Longrightarrow> mishap E obs e"
  "fst (cl_list_pods E ns ls w) = Inl e \<Longrightarrow> mishap E obs e"
  "fst (cl_create E ob w) = Some e \<Longrightarrow> obs w (kobj_kind ob) (kobj_key ob) = None \<Longrightarrow> mishap E obs e"
  "fst (cl_update E ob w) = Some e \<Longrightarrow> obs w (kobj_kind ob) (kobj_key ob) \<noteq> None \<Longrightarrow> mishap E obs e"
  "fst (cl_delete E k key w) = Some e \<Longrightarrow> e \<noteq> NotFound \<Longrightarrow> mishap E obs e"
  "fst (cl_status_update E (OBuilder b) w) = Some e \<Longrightarrow>
     obs w KBuilder (meta_key (b_meta b)) \<noteq> None \<Longrightarrow> mishap E obs e"
  unfolding mishap_def by blast+

text \<open>The store a state of a program holds.\<close>

abbreviation stored :: "('w \<Rightarrow> store) \<Rightarrow> 'w sys \<Rightarrow> store" where
  "stored obs s \<equiv> obs (world s)"

section \<open>The calls under the laws\<close>

lemma wp_client_Get:
  assumes "api_laws E obs"
    and found: "\<And>ob s'. stored obs s' = stored obs s \<Longrightarrow> stored obs s k key = Some ob \<Longrightarrow>
           kobj_kind ob = k \<Longrightarrow> kobj_key ob = key \<Longrightarrow> Q (Inr ob) s'"
    and failed: "\<And>e s'. stored obs s' = stored obs s \<Longrightarrow>
           (e = NotFound \<Longrightarrow> stored obs s k key = None) \<Longrightarrow> (e \<noteq> NotFound \<Longrightarrow> mishap E obs e) \<Longrightarrow>
           Q (Inl e) s'"
  shows "wp (client_Get E k key) Q X s"
proof -
  obtain r w' where get: "cl_get E k key (world s) = (r, w')" by fastforce
  note laws = get_lawD [OF api_lawsD(1) [OF assms(1)], of k key "world s", unfolded get, simplified]
  show ?thesis
    using laws mishapI(1) [of E k key "world s"]
    by (cases r) (auto simp: wp_def client_Get_def get intro!: found failed)
qed

text \<open>A write returns nil after storing the object; otherwise its own object alone can differ.\<close>

lemma wp_client_Create:
  assumes "api_laws E obs"
    and stored: "\<And>ob' s'. agrees ob ob' \<Longrightarrow> stored obs s (kobj_kind ob) (kobj_key ob) = None \<Longrightarrow>
      stored obs s' = store_put (kobj_kind ob) (kobj_key ob) (Some ob') (stored obs s) \<Longrightarrow> Q None s'"
    and failed: "\<And>e v s'. stored obs s' = store_put (kobj_kind ob) (kobj_key ob) v (stored obs s) \<Longrightarrow>
      (e = AlreadyExists \<Longrightarrow> stored obs s (kobj_kind ob) (kobj_key ob) \<noteq> None) \<Longrightarrow>
      (stored obs s (kobj_kind ob) (kobj_key ob) = None \<Longrightarrow> mishap E obs e) \<Longrightarrow> Q (Some e) s'"
  shows "wp (client_Create E ob) Q X s"
proof -
  obtain r w' where call: "cl_create E ob (world s) = (r, w')" by fastforce
  note law = create_lawD [OF api_lawsD(3) [OF assms(1)] call]
  show ?thesis
  proof (cases r)
    case None
    with law show ?thesis
      by (auto simp: wp_def client_Create_def call written_def intro!: stored)
  next
    case (Some e)
    then have "obs w' = stored obs s \<or> written ob (stored obs s) (obs w')" using law by auto
    from written_put [OF this]
    obtain v where "obs w' = store_put (kobj_kind ob) (kobj_key ob) v (stored obs s)" ..
    with law Some mishapI(3) [of E ob "world s" e obs] show ?thesis
      by (auto simp: wp_def client_Create_def call intro!: failed [of _ v])
  qed
qed

lemma wp_client_Update:
  assumes "api_laws E obs"
    and stored: "\<And>ob' s'. agrees ob ob' \<Longrightarrow>
      stored obs s' = store_put (kobj_kind ob) (kobj_key ob) (Some ob') (stored obs s) \<Longrightarrow> Q None s'"
    and failed: "\<And>e v s'. stored obs s' = store_put (kobj_kind ob) (kobj_key ob) v (stored obs s) \<Longrightarrow>
      (stored obs s (kobj_kind ob) (kobj_key ob) \<noteq> None \<Longrightarrow> mishap E obs e) \<Longrightarrow> Q (Some e) s'"
  shows "wp (client_Update E ob) Q X s"
proof -
  obtain r w' where call: "cl_update E ob (world s) = (r, w')" by fastforce
  note law = update_lawD [OF api_lawsD(4) [OF assms(1)] call]
  show ?thesis
  proof (cases r)
    case None
    with law show ?thesis
      by (auto simp: wp_def client_Update_def call written_def intro!: stored)
  next
    case (Some e)
    then have "obs w' = stored obs s \<or> written ob (stored obs s) (obs w')" using law by auto
    from written_put [OF this]
    obtain v where "obs w' = store_put (kobj_kind ob) (kobj_key ob) v (stored obs s)" ..
    with law Some mishapI(4) [of E ob "world s" e obs] show ?thesis
      by (auto simp: wp_def client_Update_def call intro!: failed [of _ v])
  qed
qed

lemma wp_client_Delete:
  assumes "api_laws E obs"
    and gone: "\<And>s'. removed k key (stored obs s) (stored obs s') \<Longrightarrow> Q None s'"
    and absent: "\<And>s'. stored obs s k key = None \<Longrightarrow> stored obs s' = stored obs s \<Longrightarrow> Q (Some NotFound) s'"
    and failed: "\<And>e v s'. e \<noteq> NotFound \<Longrightarrow> stored obs s' = store_put k key v (stored obs s) \<Longrightarrow>
      mishap E obs e \<Longrightarrow> Q (Some e) s'"
  shows "wp (client_Delete E k key) Q X s"
proof -
  obtain r w' where call: "cl_delete E k key (world s) = (r, w')" by fastforce
  note law = delete_lawD [OF api_lawsD(5) [OF assms(1)] call]
  show ?thesis
  proof (cases r)
    case None
    with law show ?thesis by (auto simp: wp_def client_Delete_def call intro!: gone)
  next
    case (Some e)
    show ?thesis
    proof (cases "e = NotFound")
      case True
      with law Some show ?thesis by (auto simp: wp_def client_Delete_def call intro!: absent)
    next
      case False
      then have "obs w' = stored obs s \<or> removed k key (stored obs s) (obs w')"
        using law Some by auto
      from removed_put [OF this] obtain v where "obs w' = store_put k key v (stored obs s)" ..
      with False Some mishapI(5) [of E k key "world s" e obs] show ?thesis
        by (auto simp: wp_def client_Delete_def call intro!: failed [of _ _ v])
    qed
  qed
qed

lemma wp_create:
  assumes "api_laws E obs"
    and stored: "\<And>ob' s'. agrees ob ob' \<Longrightarrow>
      stored obs s' = store_put (kobj_kind ob) (kobj_key ob) (Some ob') (stored obs s) \<Longrightarrow> Q () s'"
    and failed: "\<And>e v s'. stored obs s' = store_put (kobj_kind ob) (kobj_key ob) v (stored obs s) \<Longrightarrow>
      (stored obs s (kobj_kind ob) (kobj_key ob) = None \<Longrightarrow> mishap E obs e) \<Longrightarrow> X (Some (ApiError e)) s'"
  shows "wp (return_err (client_Create E ob)) Q X s"
  unfolding return_err_def wp_bind
proof (rule wp_client_Create [OF assms(1)])
  fix ob' s'
  assume "agrees ob ob'"
    and "stored obs s' = store_put (kobj_kind ob) (kobj_key ob) (Some ob') (stored obs s)"
  then show "wp (case None of None \<Rightarrow> ret () | Some e \<Rightarrow> throw (ApiError e)) Q X s'"
    by (simp add: stored)
next
  fix e v s'
  assume "stored obs s' = store_put (kobj_kind ob) (kobj_key ob) v (stored obs s)"
    and "stored obs s (kobj_kind ob) (kobj_key ob) = None \<Longrightarrow> mishap E obs e"
  then show "wp (case Some e of None \<Rightarrow> ret () | Some e \<Rightarrow> throw (ApiError e)) Q X s'"
    by (simp add: failed [of _ v])
qed

lemma wp_update:
  assumes "api_laws E obs"
    and stored: "\<And>ob' s'. agrees ob ob' \<Longrightarrow>
      stored obs s' = store_put (kobj_kind ob) (kobj_key ob) (Some ob') (stored obs s) \<Longrightarrow> Q () s'"
    and failed: "\<And>e v s'. stored obs s' = store_put (kobj_kind ob) (kobj_key ob) v (stored obs s) \<Longrightarrow>
      (stored obs s (kobj_kind ob) (kobj_key ob) \<noteq> None \<Longrightarrow> mishap E obs e) \<Longrightarrow> X (Some (ApiError e)) s'"
  shows "wp (return_err (client_Update E ob)) Q X s"
  unfolding return_err_def wp_bind
proof (rule wp_client_Update [OF assms(1)])
  fix ob' s'
  assume "agrees ob ob'"
    and "stored obs s' = store_put (kobj_kind ob) (kobj_key ob) (Some ob') (stored obs s)"
  then show "wp (case None of None \<Rightarrow> ret () | Some e \<Rightarrow> throw (ApiError e)) Q X s'"
    by (simp add: stored)
next
  fix e v s'
  assume "stored obs s' = store_put (kobj_kind ob) (kobj_key ob) v (stored obs s)"
    and "stored obs s (kobj_kind ob) (kobj_key ob) \<noteq> None \<Longrightarrow> mishap E obs e"
  then show "wp (case Some e of None \<Rightarrow> ret () | Some e \<Rightarrow> throw (ApiError e)) Q X s'"
    by (simp add: failed [of _ v] del: not_None_eq)
qed

lemma wp_get_as:
  assumes "api_laws E obs"
    and dec: "\<And>ob x. dec ob = Some x \<longleftrightarrow> ob = wrap x"
    and kind: "\<forall>ob. kobj_kind ob = k \<longrightarrow> (\<exists>x. ob = wrap x)"
    and "\<And>x s'. stored obs s' = stored obs s \<Longrightarrow> stored obs s k key = Some (wrap x) \<Longrightarrow>
           kobj_key (wrap x) = key \<Longrightarrow> Q (Inr x) s'"
    and "\<And>e s'. stored obs s' = stored obs s \<Longrightarrow>
           (e = NotFound \<Longrightarrow> stored obs s k key = None) \<Longrightarrow> (e \<noteq> NotFound \<Longrightarrow> mishap E obs e) \<Longrightarrow>
           Q (Inl e) s'"
  shows "wp (get_as E k dec key) Q X s"
  unfolding get_as_def wp_bind wp_ret
proof (rule wp_client_Get [OF assms(1)])
  fix ob s'
  assume ob: "stored obs s' = stored obs s" "stored obs s k key = Some ob"
    "kobj_kind ob = k" "kobj_key ob = key"
  then obtain x where "ob = wrap x" and "dec ob = Some x" using kind dec by blast
  with ob show "Q (case Inr ob of Inl e \<Rightarrow> Inl e
      | Inr ob \<Rightarrow> (case dec ob of Some x \<Rightarrow> Inr x | None \<Rightarrow> Inl (OtherApiErr ''decode''))) s'"
    by (simp add: assms(4))
qed (simp add: assms(5))

end
