(* ===== verification/Cluster.thy ===== *)
theory Cluster
  imports Codec Api_Laws
begin

text \<open>
  One world in which everything the statements assume of the environment holds: an API
  server that keeps its objects in memory, a clock that ticks, a random source that counts,
  and libraries for certificates, keys and PEM blocks made of the encodings of \<open>Codec\<close>. The
  witnesses of the development run the operator in it.
\<close>

section \<open>The world\<close>

record mem =
  mem_raw :: store
  mem_pods :: "pod list"
  mem_now :: time
  mem_seed :: nat

text \<open>An entry counts where its object has the kind and the key it is filed under.\<close>

definition mem_objects :: "mem \<Rightarrow> store" where
  "mem_objects w k key =
     (case mem_raw w k key of
        None \<Rightarrow> None
      | Some ob \<Rightarrow> if kobj_kind ob = k \<and> kobj_key ob = key then Some ob else None)"

definition mem_get :: "kind \<Rightarrow> obj_key \<Rightarrow> mem \<Rightarrow> (api_err + kobj) \<times> mem" where
  "mem_get k key w =
     ((case mem_objects w k key of
         None \<Rightarrow> Inl NotFound
       | Some ob \<Rightarrow> Inr ob), w)"

definition pod_selected :: "string \<Rightarrow> string gomap \<Rightarrow> pod \<Rightarrow> bool" where
  "pod_selected ns ls p \<longleftrightarrow> om_namespace (pod_meta p) = ns \<and>
     list_all (\<lambda>(k, v). map_of (gomap_entries (om_labels (pod_meta p))) k = Some v) ls"

definition mem_list_pods :: "string \<Rightarrow> string gomap \<Rightarrow> mem \<Rightarrow> (api_err + pod list) \<times> mem" where
  "mem_list_pods ns ls w = (Inr (filter (pod_selected ns ls) (mem_pods w)), w)"

definition mem_put :: "kobj \<Rightarrow> mem \<Rightarrow> mem" where
  "mem_put ob w =
     w\<lparr>mem_raw := store_put (kobj_kind ob) (kobj_key ob) (Some ob) (mem_raw w)\<rparr>"

definition mem_create :: "kobj \<Rightarrow> mem \<Rightarrow> api_err option \<times> mem" where
  "mem_create ob w =
     (case mem_objects w (kobj_kind ob) (kobj_key ob) of
        Some _ \<Rightarrow> (Some AlreadyExists, w)
      | None \<Rightarrow> (None, mem_put ob w))"

definition mem_update :: "kobj \<Rightarrow> mem \<Rightarrow> api_err option \<times> mem" where
  "mem_update ob w =
     (case mem_objects w (kobj_kind ob) (kobj_key ob) of
        None \<Rightarrow> (Some NotFound, w)
      | Some _ \<Rightarrow> (None, mem_put ob w))"

definition mem_delete :: "kind \<Rightarrow> obj_key \<Rightarrow> mem \<Rightarrow> api_err option \<times> mem" where
  "mem_delete k key w =
     (case mem_objects w k key of
        None \<Rightarrow> (Some NotFound, w)
      | Some _ \<Rightarrow> (None, w\<lparr>mem_raw := store_put k key None (mem_raw w)\<rparr>))"

definition mem_status_update :: "kobj \<Rightarrow> mem \<Rightarrow> api_err option \<times> mem" where
  "mem_status_update ob w =
     (case ob of
        OBuilder b \<Rightarrow>
          (case mem_objects w KBuilder (meta_key (b_meta b)) of
             Some (OBuilder old) \<Rightarrow>
               (None, w\<lparr>mem_raw := store_put KBuilder (meta_key (b_meta b))
                   (Some (OBuilder (old\<lparr>b_status := b_status b\<rparr>))) (mem_raw w)\<rparr>)
           | _ \<Rightarrow> (Some NotFound, w))
      | _ \<Rightarrow> (Some NotFound, w))"

section \<open>Its libraries\<close>

text \<open>A certificate keeps whole seconds.\<close>

definition whole_seconds :: "time \<Rightarrow> time" where
  "whole_seconds t = t div 10 ^ 9 * 10 ^ 9"

definition enc_cert :: "certificate \<Rightarrow> rsa_public_key \<Rightarrow> rsa_public_key \<Rightarrow> bytes" where
  "enc_cert t pub signer =
     enc_int (crt_serialNumber t) @ enc_str (crt_commonName t)
     @ enc_int (whole_seconds (crt_notBefore t)) @ enc_int (whole_seconds (crt_notAfter t))
     @ enc_bool (crt_isCA t) @ enc_list enc_str (crt_dnsNames t)
     @ (case pub of RSAPublicKey n \<Rightarrow> enc_nat n) @ (case signer of RSAPublicKey n \<Rightarrow> enc_nat n)"

definition decode :: "'a decoder \<Rightarrow> bytes \<Rightarrow> ('a \<Rightarrow> bytes \<Rightarrow> string + 'b) \<Rightarrow> string + 'b" where
  "decode d s f = (case d s of None \<Rightarrow> Inl ''malformed'' | Some (x, r) \<Rightarrow> f x r)"

definition dec_cert :: "bytes \<Rightarrow> string + certificate" where
  "dec_cert s =
     decode dec_int s (\<lambda>serial s. decode dec_str s (\<lambda>cn s. decode dec_int s (\<lambda>nb s.
     decode dec_int s (\<lambda>na s. decode dec_bool s (\<lambda>ca s. decode (dec_list dec_str) s (\<lambda>dns s.
     decode dec_nat s (\<lambda>pub s. decode dec_nat s (\<lambda>signer s.
       Inr \<lparr>crt_serialNumber = serial, crt_commonName = cn, crt_notBefore = nb, crt_notAfter = na,
            crt_keyUsage = [], crt_extKeyUsage = [], crt_basicConstraintsValid = ca,
            crt_isCA = ca, crt_maxPathLenZero = ca, crt_dnsNames = dns,
            crt_publicKey = Some (RSAPublicKey pub), crt_signedBy = Some (RSAPublicKey signer)\<rparr>))))))))"

definition mem_SetControllerReference :: "Builder \<Rightarrow> object_meta \<Rightarrow> string + object_meta" where
  "mem_SetControllerReference b m =
     (if list_ex (\<lambda>r. or_controller r \<and> or_uid r \<noteq> om_uid (b_meta b)) (om_ownerReferences m)
      then Inl ''already owned''
      else Inr (m\<lparr>om_ownerReferences :=
        filter (\<lambda>r. or_uid r \<noteq> om_uid (b_meta b)) (om_ownerReferences m)
        @ [\<lparr>or_kind = ''BuildkitBuilder'', or_name = b_name b, or_uid = om_uid (b_meta b),
            or_controller = True\<rparr>]\<rparr>))"

definition mem_ParseQuantity :: "string \<Rightarrow> quantity option" where
  "mem_ParseQuantity s =
     (if s \<noteq> [] \<and> hd s \<in> set ''0123456789'' then Some (Quantity s) else None)"

definition mem_env :: "mem env" where
  "mem_env = \<lparr>
     cl_get = mem_get, cl_list_pods = mem_list_pods, cl_create = mem_create,
     cl_update = mem_update, cl_delete = mem_delete, cl_status_update = mem_status_update,
     clock = (\<lambda>w. (mem_now w, w\<lparr>mem_now := mem_now w + 1\<rparr>)),
     rsa_GenerateKey = (\<lambda>w. (Inr (RSAPrivateKey (mem_seed w)), w\<lparr>mem_seed := mem_seed w + 1\<rparr>)),
     rand_Int = (\<lambda>n w. (Inr (int (mem_seed w) mod n), w\<lparr>mem_seed := mem_seed w + 1\<rparr>)),
     x509_CreateCertificate = (\<lambda>t parent pub priv w. (Inr (enc_cert t pub (PublicKey priv)), w)),
     x509_ParseCertificate = dec_cert,
     x509_MarshalPKCS1PrivateKey = (\<lambda>k. case k of RSAPrivateKey n \<Rightarrow> enc_nat n),
     x509_ParsePKCS1PrivateKey = (\<lambda>s. decode dec_nat s (\<lambda>n s. Inr (RSAPrivateKey n))),
     pem_EncodeToMemory = (\<lambda>t d. enc_pair enc_str enc_str (t, d)),
     pem_Decode = (\<lambda>s. map_option fst (dec_pair dec_str dec_str s)),
     lib_SetControllerReference = mem_SetControllerReference,
     lib_ParseQuantity = mem_ParseQuantity,
     lib_ContainsFinalizer = (\<lambda>m f. List.member (om_finalizers m) f),
     lib_RemoveFinalizer = (\<lambda>m f. m\<lparr>om_finalizers := filter (\<lambda>g. g \<noteq> f) (om_finalizers m)\<rparr>)\<rparr>"

section \<open>The laws hold\<close>

lemma mem_objects_keyed:
  "mem_objects w k key = Some ob \<Longrightarrow> kobj_kind ob = k \<and> kobj_key ob = key"
  by (simp add: mem_objects_def split: option.splits if_splits)

lemma mem_objects_put:
  assumes "pred_option (\<lambda>ob. kobj_kind ob = k \<and> kobj_key ob = key) v"
  shows "mem_objects (w\<lparr>mem_raw := store_put k key v (mem_raw w)\<rparr>) = store_put k key v (mem_objects w)"
  using assms by (auto simp: fun_eq_iff mem_objects_def store_put_def split: option.split)

lemma mem_objects_other [simp]:
  "mem_objects (w\<lparr>mem_now := t\<rparr>) = mem_objects w" "mem_objects (w\<lparr>mem_seed := n\<rparr>) = mem_objects w"
  "mem_objects (w\<lparr>mem_pods := ps\<rparr>) = mem_objects w"
  by (simp_all add: fun_eq_iff mem_objects_def)

lemma mem_get_law: "get_law mem_env mem_objects"
  by (auto simp: get_law_def mem_env_def mem_get_def dest: mem_objects_keyed split: option.split)

lemma mem_put_objects [simp]:
  "mem_objects (mem_put ob w) = store_put (kobj_kind ob) (kobj_key ob) (Some ob) (mem_objects w)"
  by (simp add: mem_put_def mem_objects_put)

lemma mem_put_written: "written ob (mem_objects w) (mem_objects (mem_put ob w))"
  unfolding written_def using agrees_refl [of ob] by auto

lemma mem_create_law: "create_law mem_env mem_objects"
  by (auto simp: create_law_def mem_env_def mem_create_def mem_put_written simp del: mem_put_objects
      split: option.split)

lemma mem_update_law: "update_law mem_env mem_objects"
  by (auto simp: update_law_def mem_env_def mem_update_def mem_put_written simp del: mem_put_objects
      split: option.split)

lemma mem_delete_law: "delete_law mem_env mem_objects"
  by (auto simp: delete_law_def mem_env_def mem_delete_def removed_def mem_objects_put split: option.split)

lemma mem_status_law: "status_law mem_env mem_objects"
  unfolding status_law_def
proof (intro allI)
  fix b :: Builder and w :: mem
  let ?key = "meta_key (b_meta b)"
  show "case fst (cl_status_update mem_env (OBuilder b) w) of
      None \<Rightarrow> status_written b (mem_objects w) (mem_objects (snd (cl_status_update mem_env (OBuilder b) w)))
    | Some e \<Rightarrow> mem_objects (snd (cl_status_update mem_env (OBuilder b) w)) = mem_objects w
        \<or> status_written b (mem_objects w) (mem_objects (snd (cl_status_update mem_env (OBuilder b) w)))"
  proof (cases "\<exists>old. mem_objects w KBuilder ?key = Some (OBuilder old)")
    case True
    then obtain old where old: "mem_objects w KBuilder ?key = Some (OBuilder old)" ..
    have "mem_objects (w\<lparr>mem_raw := store_put KBuilder ?key
          (Some (OBuilder (old\<lparr>b_status := b_status b\<rparr>))) (mem_raw w)\<rparr>)
        = store_put KBuilder ?key (Some (OBuilder (old\<lparr>b_status := b_status b\<rparr>))) (mem_objects w)"
      using mem_objects_keyed [OF old] by (simp add: mem_objects_put)
    then have "status_written b (mem_objects w)
        (mem_objects (snd (cl_status_update mem_env (OBuilder b) w)))"
      unfolding status_written_def using old
      by (intro exI [of _ old] exI [of _ "old\<lparr>b_status := b_status b\<rparr>"])
        (simp add: mem_env_def mem_status_update_def same_request_def)
    then show ?thesis by (simp split: option.split)
  next
    case False
    then show ?thesis
      by (auto simp: mem_env_def mem_status_update_def split: option.split kobj.split)
  qed
qed

lemma mem_api_laws: "api_laws mem_env mem_objects"
  unfolding api_laws_def
  by (intro conjI mem_get_law mem_create_law mem_update_law mem_delete_law mem_status_law)
    (simp_all add: list_law_def quiet_law_def mem_env_def mem_list_pods_def)

lemma mem_owner_refs: "owner_refs_only mem_env"
  by (auto simp: owner_refs_only_def mem_env_def mem_SetControllerReference_def split: if_splits)

text \<open>Neither server nor libraries fail without a cause.\<close>

lemma mem_healthy: "\<not> mishap mem_env mem_objects e"
proof -
  have "mem_objects w KBuilder (meta_key (b_meta b)) = None"
    if failed: "fst (mem_status_update (OBuilder b) w) = Some e" for b w
  proof (rule ccontr)
    assume "mem_objects w KBuilder (meta_key (b_meta b)) \<noteq> None"
    then obtain ob where ob: "mem_objects w KBuilder (meta_key (b_meta b)) = Some ob" by blast
    with mem_objects_keyed [OF ob] obtain old where "ob = OBuilder old" by (cases ob) simp_all
    with ob failed show False by (simp add: mem_status_update_def)
  qed
  then show ?thesis
    unfolding mishap_def
    by (auto simp: mem_env_def mem_get_def mem_list_pods_def mem_create_def mem_update_def
        mem_delete_def split: option.splits)
qed

text \<open>The same world with a clock that stands still.\<close>

definition still_env :: "time \<Rightarrow> mem env" where
  "still_env t = mem_env\<lparr>clock := (\<lambda>w. (t, w))\<rparr>"

lemma still_env_simps [simp]:
  "cl_get (still_env t) = cl_get mem_env" "cl_list_pods (still_env t) = cl_list_pods mem_env"
  "cl_create (still_env t) = cl_create mem_env" "cl_update (still_env t) = cl_update mem_env"
  "cl_delete (still_env t) = cl_delete mem_env"
  "cl_status_update (still_env t) = cl_status_update mem_env"
  "rsa_GenerateKey (still_env t) = rsa_GenerateKey mem_env" "rand_Int (still_env t) = rand_Int mem_env"
  "x509_CreateCertificate (still_env t) = x509_CreateCertificate mem_env"
  "clock (still_env t) w = (t, w)"
  by (simp_all add: still_env_def)

lemma still_api_laws: "api_laws (still_env t) mem_objects"
  unfolding api_laws_def
proof (intro conjI)
  show "get_law (still_env t) mem_objects"
    using mem_get_law unfolding get_law_def still_env_simps .
  show "list_law (still_env t) mem_objects"
    using api_lawsD(2) [OF mem_api_laws] unfolding list_law_def still_env_simps .
  show "create_law (still_env t) mem_objects"
    using mem_create_law unfolding create_law_def still_env_simps .
  show "update_law (still_env t) mem_objects"
    using mem_update_law unfolding update_law_def still_env_simps .
  show "delete_law (still_env t) mem_objects"
    using mem_delete_law unfolding delete_law_def still_env_simps .
  show "status_law (still_env t) mem_objects"
    using mem_status_law unfolding status_law_def still_env_simps .
  show "quiet_law (still_env t) mem_objects"
    using api_lawsD(7) [OF mem_api_laws] unfolding quiet_law_def still_env_simps by simp
qed

lemma still_healthy: "\<not> mishap (still_env t) mem_objects e"
  using mem_healthy unfolding mishap_def still_env_simps .

lemma still_owner_refs: "owner_refs_only (still_env t)"
  using mem_owner_refs by (simp add: still_env_def owner_refs_only_def)

text \<open>A world that holds the given builders and nothing else.\<close>

fun objects_of :: "kobj list \<Rightarrow> store" where
  "objects_of [] = (\<lambda>k key. None)"
| "objects_of (ob # obs) = store_put (kobj_kind ob) (kobj_key ob) (Some ob) (objects_of obs)"

definition start :: "kobj list \<Rightarrow> pod list \<Rightarrow> time \<Rightarrow> mem sys" where
  "start obs pods now = \<lparr>world = \<lparr>mem_raw = objects_of obs, mem_pods = pods,
     mem_now = now, mem_seed = 7\<rparr>, calls = []\<rparr>"

lemma objects_of_keyed: "objects_of obs k key = Some ob \<Longrightarrow> kobj_kind ob = k \<and> kobj_key ob = key"
  by (induction obs) (auto simp: store_put_def split: if_splits)

lemma start_objects [simp]: "mem_objects (world (start obs pods t)) = objects_of obs"
  by (auto simp: fun_eq_iff start_def mem_objects_def dest: objects_of_keyed split: option.split)

end
