(* ===== verification/Workload.thy ===== *)
theory Workload
  imports Labels Buildkitd_Config Cluster
begin

text \<open>
  The desired objects of a builder, as the operator computes them before it talks to the API
  server: services, cache claim and stateful set
  (\<open>internal/controller/helpers.go\<close>) and the pod
  (\<open>buildPodSpec\<close> in \<open>internal/controller/buildkitbuilder_controller.go\<close>).
\<close>

definition builderObjectName :: "Builder \<Rightarrow> string" where
  "builderObjectName b = ''builder-'' @ b_name b"

definition builderSubName :: "Builder \<Rightarrow> string \<Rightarrow> string" where
  "builderSubName b ending = builderObjectName b @ ending"

section \<open>Services\<close>

definition nodePortServiceForBuilder :: "Builder \<Rightarrow> service" where
  "nodePortServiceForBuilder b = \<lparr>
     svc_meta = meta_of (b_namespace b) (builderSubName b ''-client''),
     svc_type = ''NodePort'',
     svc_clusterIP = [],
     svc_selector = labelsForBuilder b (bs_mode (b_spec b)),
     svc_ports =
       [\<lparr>sp_name = ''buildkit'', sp_port = 1234, sp_targetPort = 1234, sp_nodePort = 0\<rparr>,
        \<lparr>sp_name = ''metrics'', sp_port = 1235, sp_targetPort = 1235, sp_nodePort = 0\<rparr>]\<rparr>"

definition headlessServiceForBuilder :: "Builder \<Rightarrow> service" where
  "headlessServiceForBuilder b = \<lparr>
     svc_meta = meta_of (b_namespace b) (builderObjectName b),
     svc_type = [],
     svc_clusterIP = ''None'',
     svc_selector = labelsForBuilder b (bs_mode (b_spec b)),
     svc_ports =
       [\<lparr>sp_name = ''buildkit'', sp_port = 1234, sp_targetPort = 1234, sp_nodePort = 0\<rparr>,
        \<lparr>sp_name = ''metrics'', sp_port = 1235, sp_targetPort = 1235, sp_nodePort = 0\<rparr>]\<rparr>"

section \<open>The cache claim\<close>

definition toAccessModes :: "string list \<Rightarrow> string list" where
  "toAccessModes ss = map (\<lambda>s. s) ss"

definition strPtr :: "string \<Rightarrow> string option" where
  "strPtr s = (if s = [] then None else Some s)"

text \<open>
  Two ways to panic: a nil \<open>PVC\<close> section is dereferenced, and \<open>resource.MustParse\<close>
  panics on a text that is no quantity.
\<close>

definition pvcForBuilder :: "'w env \<Rightarrow> Builder \<Rightarrow> TemplateSpec \<Rightarrow> pvc outcome" where
  "pvcForBuilder E b spec =
     (case cc_pvc (ts_cacheConfig spec) of
        None \<Rightarrow> Panic ''nil pointer dereference''
      | Some p \<Rightarrow>
          let size = (if pc_size p = [] then ''100Gi'' else pc_size p);
              accessModes = (if pc_accessModes p = [] then [''ReadWriteOnce''] else pc_accessModes p)
          in case lib_ParseQuantity E size of
               None \<Rightarrow> Panic ''cannot parse quantity''
             | Some q \<Rightarrow> Ok \<lparr>
                 pvc_meta = meta_of (b_namespace b) (builderSubName b ''-cache''),
                 pvc_accessModes = toAccessModes accessModes,
                 pvc_storageClassName = strPtr (pc_storageClassName p),
                 pvc_requests = [(''storage'', q)]\<rparr>)"

section \<open>The pod\<close>

text \<open>
  Volumes and mounts are appended in pairs, so the four steps of \<open>buildPodSpec\<close> that
  extend the two lists are given as lists of pairs.
\<close>

definition configVolume :: "Builder \<Rightarrow> (volume \<times> volume_mount) list" where
  "configVolume b =
     [(\<lparr>vol_name = ''buildkitd-config'',
        vol_source = ConfigMapVolume (builderSubName b ''-buildkitd'')\<rparr>,
       \<lparr>vm_name = ''buildkitd-config'', vm_mountPath = ''/etc/buildkit'', vm_readOnly = False\<rparr>)]"

definition tlsVolume :: "Builder \<Rightarrow> (volume \<times> volume_mount) list" where
  "tlsVolume b =
     (if exposureEnabled b then
        [(\<lparr>vol_name = ''builder-tls'', vol_source = SecretVolume (builderTLSSecretName b)\<rparr>,
          \<lparr>vm_name = ''builder-tls'', vm_mountPath = tlsMountPath, vm_readOnly = True\<rparr>)]
      else [])"

definition cacheVolume ::
  "TemplateSpec \<Rightarrow> string option \<Rightarrow> string \<Rightarrow> (volume \<times> volume_mount) list" where
  "cacheVolume spec pvcName cacheMountPath =
     (let mount = \<lparr>vm_name = ''cache'', vm_mountPath = cacheMountPath, vm_readOnly = False\<rparr> in
      case pvcName of
        Some n \<Rightarrow>
          if cc_type (ts_cacheConfig spec) = CacheTypePVC
          then [(\<lparr>vol_name = ''cache'', vol_source = PVCVolume n\<rparr>, mount)]
          else [(\<lparr>vol_name = ''cache'', vol_source = EmptyDirVolume\<rparr>, mount)]
      | None \<Rightarrow> [(\<lparr>vol_name = ''cache'', vol_source = EmptyDirVolume\<rparr>, mount)])"

definition s3Volume :: "TemplateSpec \<Rightarrow> (volume \<times> volume_mount) list" where
  "s3Volume spec =
     (if cc_type (ts_cacheConfig spec) = CacheTypeS3 then
        (case cc_s3 (ts_cacheConfig spec) of
           None \<Rightarrow> []
         | Some s3 \<Rightarrow>
             (case s3_secretRef s3 of
                None \<Rightarrow> []
              | Some ref \<Rightarrow>
                  [(\<lparr>vol_name = ''s3-creds'',
                     vol_source = ProjectedSecretVolume ref [(''credentials'', ''credentials'')]\<rparr>,
                    \<lparr>vm_name = ''s3-creds'', vm_mountPath = ''/etc/buildkit/s3-creds'',
                     vm_readOnly = True\<rparr>)]))
      else [])"

definition podVolumes :: "TemplateSpec \<Rightarrow> Builder \<Rightarrow> string option \<Rightarrow> (volume \<times> volume_mount) list" where
  "podVolumes spec b pvcName =
     (let cacheMountPath = (if ts_rootless spec then ''/home/user/.local/share/buildkit''
                            else ''/var/lib/buildkit'')
      in configVolume b @ tlsVolume b @ cacheVolume spec pvcName cacheMountPath @ s3Volume spec)"

definition podNodeSelector :: "TemplateSpec \<Rightarrow> string gomap" where
  "podNodeSelector spec =
     gomap_copy_if (\<lambda>_. True) (gomap_entries (ts_nodeSelector spec))
       (if ts_arch spec \<noteq> [] then [(''kubernetes.io/arch'', ts_arch spec)] else [])"

definition buildPodSpec :: "TemplateSpec \<Rightarrow> Builder \<Rightarrow> string option \<Rightarrow> pod_spec" where
  "buildPodSpec spec b pvcName =
     (let rootless = ts_rootless spec;
          uid = (if rootless then Some 1000 else None);
          flag = (if rootless then Some True else None);
          args = [''--config'', ''/etc/buildkit/buildkitd.toml''];
          args = (if rootless then [''--oci-worker-no-process-sandbox''] @ args else args);
          profile = (if rootless then Some ''Unconfined'' else None);
          vs = podVolumes spec b pvcName
      in \<lparr>ps_securityContext =
            \<lparr>psc_runAsNonRoot = flag, psc_runAsUser = uid, psc_runAsGroup = uid, psc_fsGroup = uid\<rparr>,
          ps_nodeSelector = podNodeSelector spec,
          ps_tolerations = ts_tolerations spec,
          ps_affinity = ts_affinity spec,
          ps_volumes = map fst vs,
          ps_restartPolicy = ''Always'',
          ps_imagePullSecrets = [],
          ps_containers =
            [\<lparr>ct_name = ''buildkitd'',
              ct_image = ts_buildkitImage spec,
              ct_args = args,
              ct_securityContext =
                \<lparr>sc_runAsNonRoot = flag, sc_runAsUser = uid, sc_runAsGroup = uid,
                 sc_seccompProfile = profile, sc_appArmorProfile = profile\<rparr>,
              ct_ports = [\<lparr>cp_name = ''buildkit'', cp_containerPort = 1234\<rparr>,
                          \<lparr>cp_name = ''metrics'', cp_containerPort = 1235\<rparr>],
              ct_resources = ts_resources spec,
              ct_volumeMounts = map snd vs,
              ct_livenessProbe =
                \<lparr>pr_tcpPort = 1234, pr_initialDelaySeconds = 10, pr_periodSeconds = 10\<rparr>,
              ct_readinessProbe =
                \<lparr>pr_tcpPort = 1234, pr_initialDelaySeconds = 5, pr_periodSeconds = 5\<rparr>\<rparr>]\<rparr>)"

section \<open>The stateful set\<close>

text \<open>Whether the cache is a claim of the builder: the guard the code repeats.\<close>

definition cacheIsPVC :: "TemplateSpec \<Rightarrow> bool" where
  "cacheIsPVC spec \<longleftrightarrow>
     cc_type (ts_cacheConfig spec) = CacheTypePVC \<and> cc_pvc (ts_cacheConfig spec) \<noteq> None"

text \<open>The error of \<open>SetControllerReference\<close> is dropped here; its callers set it again.\<close>

definition statefulSetForBuilder ::
  "'w env \<Rightarrow> Builder \<Rightarrow> TemplateSpec \<Rightarrow> int32 \<Rightarrow> stateful_set" where
  "statefulSetForBuilder E b spec replicas =
     (let pvcName = (if cacheIsPVC spec then Some (builderSubName b ''-cache'') else None);
          m = meta_of (b_namespace b) (builderObjectName b)
      in \<lparr>sts_meta = (case lib_SetControllerReference E b m of Inl _ \<Rightarrow> m | Inr m' \<Rightarrow> m'),
          sts_replicas = Some replicas,
          sts_serviceName = builderObjectName b,
          sts_matchLabels = labelsForBuilder b (bs_mode (b_spec b)),
          sts_templateLabels = labelsForBuilder b (bs_mode (b_spec b)),
          sts_podSpec = buildPodSpec spec b pvcName\<rparr>)"

lemma sts_meta_statefulSetForBuilder:
  "sts_meta (statefulSetForBuilder E b spec n) =
     (case lib_SetControllerReference E b (meta_of (b_namespace b) (builderObjectName b)) of
        Inl _ \<Rightarrow> meta_of (b_namespace b) (builderObjectName b) | Inr m \<Rightarrow> m)"
  by (simp add: statefulSetForBuilder_def Let_def)

lemma sts_fields [simp]:
  "sts_replicas (statefulSetForBuilder E b spec n) = Some n"
  "sts_serviceName (statefulSetForBuilder E b spec n) = builderObjectName b"
  "sts_matchLabels (statefulSetForBuilder E b spec n) = labelsForBuilder b (bs_mode (b_spec b))"
  "sts_templateLabels (statefulSetForBuilder E b spec n) = labelsForBuilder b (bs_mode (b_spec b))"
  "sts_podSpec (statefulSetForBuilder E b spec n) =
     buildPodSpec spec b (if cacheIsPVC spec then Some (builderSubName b ''-cache'') else None)"
  by (simp_all add: statefulSetForBuilder_def Let_def)

lemma service_fields [simp]:
  "svc_meta (headlessServiceForBuilder b) = meta_of (b_namespace b) (builderObjectName b)"
  "svc_selector (headlessServiceForBuilder b) = labelsForBuilder b (bs_mode (b_spec b))"
  "svc_meta (nodePortServiceForBuilder b) = meta_of (b_namespace b) (builderSubName b ''-client'')"
  "svc_selector (nodePortServiceForBuilder b) = labelsForBuilder b (bs_mode (b_spec b))"
  "svc_type (nodePortServiceForBuilder b) = ''NodePort''"
  by (simp_all add: headlessServiceForBuilder_def nodePortServiceForBuilder_def)

section \<open>Names of the objects\<close>

text \<open>The objects a builder owns, by kind and key.\<close>

fun own_keys :: "Builder \<Rightarrow> (kind \<times> obj_key) list" where
  "own_keys b =
     [(KConfigMap, ObjectKey (b_namespace b) (builderSubName b ''-buildkitd'')),
      (KService, meta_key (svc_meta (headlessServiceForBuilder b))),
      (KService, meta_key (svc_meta (nodePortServiceForBuilder b))),
      (KIngressRoute, ObjectKey (b_namespace b) (ingressRouteName b)),
      (KSecret, ObjectKey (b_namespace b) (builderTLSSecretName b)),
      (KPVC, ObjectKey (b_namespace b) (builderSubName b ''-cache'')),
      (KStatefulSet, ObjectKey (b_namespace b) (builderObjectName b))]"

lemma builderSubName_eq [simp]:
  "builderSubName b e = builderSubName b' e' \<longleftrightarrow> b_name b @ e = b_name b' @ e'"
  by (simp add: builderSubName_def builderObjectName_def)

lemma builderObjectName_eq [simp]:
  "builderObjectName b = builderObjectName b' \<longleftrightarrow> b_name b = b_name b'"
  "builderObjectName b = builderSubName b' e' \<longleftrightarrow> b_name b = b_name b' @ e'"
  "builderSubName b e = builderObjectName b' \<longleftrightarrow> b_name b @ e = b_name b'"
  by (auto simp: builderSubName_def builderObjectName_def)

lemma other_names_eq [simp]:
  "ingressRouteName b = ingressRouteName b' \<longleftrightarrow> b_name b = b_name b'"
  "builderTLSSecretName b = builderTLSSecretName b' \<longleftrightarrow> b_name b = b_name b'"
  by (simp_all add: ingressRouteName_def builderTLSSecretName_def)

lemma own_keys_distinct: "distinct (own_keys b)"
  by simp

lemma ca_not_own: "(KSecret, ObjectKey ns caSecretName) \<notin> set (own_keys b)"
  by (simp add: builderTLSSecretName_def caSecretName_def)

section \<open>Volumes\<close>

definition cache_source :: "TemplateSpec \<Rightarrow> string option \<Rightarrow> volume_source" where
  "cache_source spec n =
     (case n of Some c \<Rightarrow> if cc_type (ts_cacheConfig spec) = CacheTypePVC then PVCVolume c else EmptyDirVolume
      | None \<Rightarrow> EmptyDirVolume)"

lemma cacheVolume_eq:
  "cacheVolume spec n path =
     [(\<lparr>vol_name = ''cache'', vol_source = cache_source spec n\<rparr>,
       \<lparr>vm_name = ''cache'', vm_mountPath = path, vm_readOnly = False\<rparr>)]"
  by (cases n) (simp_all add: cacheVolume_def cache_source_def Let_def)

definition s3_secret :: "TemplateSpec \<Rightarrow> string option" where
  "s3_secret spec =
     (if cc_type (ts_cacheConfig spec) = CacheTypeS3
      then Option.bind (cc_s3 (ts_cacheConfig spec)) s3_secretRef else None)"

lemma s3Volume_eq:
  "s3Volume spec = (case s3_secret spec of None \<Rightarrow> [] | Some ref \<Rightarrow>
     [(\<lparr>vol_name = ''s3-creds'',
        vol_source = ProjectedSecretVolume ref [(''credentials'', ''credentials'')]\<rparr>,
       \<lparr>vm_name = ''s3-creds'', vm_mountPath = ''/etc/buildkit/s3-creds'', vm_readOnly = True\<rparr>)])"
  by (cases "cc_s3 (ts_cacheConfig spec)") (simp_all add: s3Volume_def s3_secret_def)

lemmas volume_defs = podVolumes_def configVolume_def tlsVolume_def cacheVolume_eq s3Volume_eq Let_def

lemma volume_names:
  "map (vm_name \<circ> snd) (podVolumes spec b n) = map (vol_name \<circ> fst) (podVolumes spec b n)"
  by (cases "exposureEnabled b"; cases "s3_secret spec") (simp_all add: volume_defs)

lemma volume_names_distinct: "distinct (map (vol_name \<circ> fst) (podVolumes spec b n))"
  by (cases "exposureEnabled b"; cases "s3_secret spec") (simp_all add: volume_defs)

lemma mount_paths_distinct: "distinct (map (vm_mountPath \<circ> snd) (podVolumes spec b n))"
  by (cases "exposureEnabled b"; cases "s3_secret spec"; cases "ts_rootless spec")
    (simp_all add: volume_defs tlsMountPath_def)

lemma volume_sources:
  "map (vol_source \<circ> fst) (podVolumes spec b n) =
     ConfigMapVolume (builderSubName b ''-buildkitd'')
     # (if exposureEnabled b then [SecretVolume (builderTLSSecretName b)] else [])
     @ cache_source spec n
     # (case s3_secret spec of None \<Rightarrow> []
        | Some ref \<Rightarrow> [ProjectedSecretVolume ref [(''credentials'', ''credentials'')]])"
  by (cases "s3_secret spec") (simp_all add: volume_defs)

lemma cache_source_iff:
  "cache_source spec n = PVCVolume c \<longleftrightarrow> cc_type (ts_cacheConfig spec) = CacheTypePVC \<and> n = Some c"
  by (cases n) (simp_all add: cache_source_def)

lemma cache_source_not_secret: "cache_source spec n \<noteq> SecretVolume x"
  by (cases n) (simp_all add: cache_source_def)

lemma claim_volume_iff:
  "PVCVolume c \<in> set (map (vol_source \<circ> fst) (podVolumes spec b n)) \<longleftrightarrow>
     cc_type (ts_cacheConfig spec) = CacheTypePVC \<and> n = Some c"
  unfolding volume_sources using cache_source_iff [of spec n c]
  by (cases "s3_secret spec") (auto simp: eq_commute [of _ "cache_source spec n"])

lemma secret_volume_iff:
  "SecretVolume x \<in> set (map (vol_source \<circ> fst) (podVolumes spec b n)) \<longleftrightarrow>
     exposureEnabled b \<and> x = builderTLSSecretName b"
  unfolding volume_sources using cache_source_not_secret [of spec n x]
  by (cases "s3_secret spec") (auto simp: eq_commute [of _ "cache_source spec n"])

section \<open>Properties\<close>

text \<open>C27: Two builders write to a common object exactly when they are in one namespace and one
  is named like the other with \<open>-client\<close> appended: the headless service of the one is the
  client service of the other. All other names keep builders apart.\<close>

theorem own_keys_collide_iff:
  assumes "meta_key (b_meta b) \<noteq> meta_key (b_meta b')"
  shows "set (own_keys b) \<inter> set (own_keys b') \<noteq> {} \<longleftrightarrow>
    b_namespace b = b_namespace b'
    \<and> (b_name b = b_name b' @ ''-client'' \<or> b_name b' = b_name b @ ''-client'')"
  using assms by (auto simp: meta_key_def)

theorem own_keys_collide_iff_witness:
  "set (own_keys (named_builder ''ci'' ''web'' zero_BuilderSpec))
   \<inter> set (own_keys (named_builder ''ci'' ''web-client'' zero_BuilderSpec)) \<noteq> {}"
  by (subst own_keys_collide_iff) simp_all

text \<open>C33: The stateful set, its pods and both services agree: the selectors are the pod
  template's labels, the governing service is the headless one, and each service port leads
  to a port of the container.\<close>

theorem services_select_pods:
  "let sts = statefulSetForBuilder E b spec n;
       ports = map cp_containerPort (ct_ports (hd (ps_containers (sts_podSpec sts))))
   in sts_matchLabels sts = sts_templateLabels sts
      \<and> sts_serviceName sts = om_name (svc_meta (headlessServiceForBuilder b))
      \<and> list_all (\<lambda>svc. svc_selector svc = sts_templateLabels sts
            \<and> list_all (\<lambda>p. sp_targetPort p \<in> set ports) (svc_ports svc))
          [headlessServiceForBuilder b, nodePortServiceForBuilder b]"
  by (simp add: Let_def buildPodSpec_def headlessServiceForBuilder_def nodePortServiceForBuilder_def)

text \<open>In the pod every volume has one mount in the container and every mount has its
  volume; no two volumes share a name and no two mounts a path.\<close>

lemma pod_volumes_and_mounts:
  "let ps = buildPodSpec spec b n; mounts = ct_volumeMounts (hd (ps_containers ps))
   in map vm_name mounts = map vol_name (ps_volumes ps)
      \<and> distinct (map vol_name (ps_volumes ps)) \<and> distinct (map vm_mountPath mounts)"
  using volume_names [of spec b n] volume_names_distinct [of spec b n]
    mount_paths_distinct [of spec b n]
  by (simp add: Let_def buildPodSpec_def)



text \<open>The security settings of pod and container: under a rootless template both run as the
  non-root user 1000 with the group of the volumes, unconfined profiles and buildkitd's own
  sandbox off; otherwise none of this is set.\<close>

lemma pod_security:
  "let ps = buildPodSpec spec b n; psc = ps_securityContext ps;
       c = hd (ps_containers ps); sc = ct_securityContext c;
       uid = (if ts_rootless spec then Some 1000 else None)
   in length (ps_containers ps) = 1
      \<and> (psc_runAsNonRoot psc = Some True \<longleftrightarrow> ts_rootless spec)
      \<and> sc_runAsNonRoot sc = psc_runAsNonRoot psc
      \<and> list_all (\<lambda>i. i = uid) [psc_runAsUser psc, psc_runAsGroup psc, psc_fsGroup psc,
          sc_runAsUser sc, sc_runAsGroup sc]
      \<and> (''--oci-worker-no-process-sandbox'' \<in> set (ct_args c) \<longleftrightarrow> ts_rootless spec)"
  by (simp add: buildPodSpec_def Let_def)

text \<open>The node selector has the template's entries, and the architecture's label where the
  template's own selector does not set that key.\<close>

lemma node_selector_spec:
  assumes "gomap_wf (gomap_entries (ts_nodeSelector spec))"
  shows "map_of (ps_nodeSelector (buildPodSpec spec b n)) k =
    (case map_of (gomap_entries (ts_nodeSelector spec)) k of
       Some v \<Rightarrow> Some v
     | None \<Rightarrow> if k = ''kubernetes.io/arch'' \<and> ts_arch spec \<noteq> [] then Some (ts_arch spec) else None)"
  by (simp add: buildPodSpec_def podNodeSelector_def Let_def map_of_gomap_copy_if [OF assms]
      split: option.split)

end
