(* ===== verification/Upsert.thy ===== *)
theory Upsert
  imports Workload Api_Laws
begin

text \<open>
  The create-or-update operations: \<open>createOrUpdateService\<close>, \<open>createOrUpdatePVC\<close>,
  \<open>createOrUpdateStatefulSet\<close> (\<open>internal/controller/helpers.go\<close>),
  \<open>createOrUpdateIngressRoute\<close>, \<open>deleteIngressRouteIfExists\<close>
  (\<open>internal/controller/ingress.go\<close>) and \<open>ensureBuildkitdConfigMap\<close>
  (\<open>internal/controller/buildkitbuilder_controller.go\<close>). Four of them follow one
  protocol, the locale \<open>upsert\<close>: read, create when absent, else send an update made from
  the object found.
\<close>

section \<open>The operations\<close>

definition createOrUpdateService :: "'w env \<Rightarrow> service \<Rightarrow> ('w, unit) prog" where
  "createOrUpdateService E svc =
     bindP (get_as E KService as_service (meta_key (svc_meta svc))) (\<lambda>r.
       case r of
         Inl e \<Rightarrow> if IsNotFound e then return_err (client_Create E (OService svc))
                  else throw (ApiError e)
       | Inr existing \<Rightarrow>
           let svc = svc\<lparr>svc_meta := (svc_meta svc)
                 \<lparr>om_resourceVersion := om_resourceVersion (svc_meta existing)\<rparr>\<rparr>;
               svc = svc\<lparr>svc_clusterIP := svc_clusterIP existing\<rparr>
           in return_err (client_Update E (OService svc)))"

definition createOrUpdatePVC :: "'w env \<Rightarrow> pvc \<Rightarrow> ('w, unit) prog" where
  "createOrUpdatePVC E p =
     bindP (get_as E KPVC as_pvc (meta_key (pvc_meta p))) (\<lambda>r.
       case r of
         Inl e \<Rightarrow> if IsNotFound e then return_err (client_Create E (OPVC p))
                  else throw (ApiError e)
       | Inr existing \<Rightarrow> ret ())"

definition createOrUpdateStatefulSet :: "'w env \<Rightarrow> stateful_set \<Rightarrow> ('w, unit) prog" where
  "createOrUpdateStatefulSet E sts =
     bindP (get_as E KStatefulSet as_stateful_set (meta_key (sts_meta sts))) (\<lambda>r.
       case r of
         Inl e \<Rightarrow> if IsNotFound e then return_err (client_Create E (OStatefulSet sts))
                  else throw (ApiError e)
       | Inr existing \<Rightarrow>
           let sts = sts\<lparr>sts_meta := (sts_meta sts)
                 \<lparr>om_resourceVersion := om_resourceVersion (sts_meta existing)\<rparr>\<rparr>
           in return_err (client_Update E (OStatefulSet sts)))"

definition createOrUpdateIngressRoute :: "'w env \<Rightarrow> ingress_route \<Rightarrow> ('w, unit) prog" where
  "createOrUpdateIngressRoute E desired =
     bindP (get_as E KIngressRoute as_ingress_route (meta_key (ir_meta desired))) (\<lambda>r.
       case r of
         Inl e \<Rightarrow> if IsNotFound e then return_err (client_Create E (OIngressRoute desired))
                  else throw (ApiError e)
       | Inr existing \<Rightarrow>
           let desired = desired\<lparr>ir_meta := (ir_meta desired)
                 \<lparr>om_resourceVersion := om_resourceVersion (ir_meta existing)\<rparr>\<rparr>
           in return_err (client_Update E (OIngressRoute desired)))"

definition deleteIngressRouteIfExists :: "'w env \<Rightarrow> Builder \<Rightarrow> ('w, unit) prog" where
  "deleteIngressRouteIfExists E b =
     bindP (client_Delete E KIngressRoute (ObjectKey (b_namespace b) (ingressRouteName b))) (\<lambda>err.
       case err of
         None \<Rightarrow> ret ()
       | Some e \<Rightarrow> if \<not> IsNotFound e then throw (ApiError e) else ret ())"

text \<open>
  The part of \<open>ensureBuildkitdConfigMap\<close> after the config map has its owner, and the
  whole.
\<close>

definition createOrUpdateConfigMap :: "'w env \<Rightarrow> config_map \<Rightarrow> ('w, unit) prog" where
  "createOrUpdateConfigMap E cm =
     bindP (get_as E KConfigMap as_config_map (meta_key (cm_meta cm))) (\<lambda>r.
       case r of
         Inl e \<Rightarrow> if IsNotFound e then return_err (client_Create E (OConfigMap cm))
                  else throw (ApiError e)
       | Inr existing \<Rightarrow>
           let existing = existing\<lparr>cm_data := cm_data cm\<rparr>
           in return_err (client_Update E (OConfigMap existing)))"

definition ensureBuildkitdConfigMap :: "'w env \<Rightarrow> Builder \<Rightarrow> TemplateSpec \<Rightarrow> ('w, unit) prog" where
  "ensureBuildkitdConfigMap E b spec =
     (let cm = \<lparr>cm_meta = meta_of (b_namespace b) (builderSubName b ''-buildkitd''),
                cm_data = [(''buildkitd.toml'', buildkitdTomlFor b spec)]\<rparr>
      in bindP (SetControllerReference E b (cm_meta cm)) (\<lambda>m.
           createOrUpdateConfigMap E (cm\<lparr>cm_meta := m\<rparr>)))"

section \<open>Their contract\<close>

text \<open>
  \<open>ensures_object\<close> is what the reconcilers rely on: an operation that asks for its own
  object only, and, when it returns nil, leaves an object in the store that settles the
  request and everything else as it was.
\<close>

fun own_request :: "kind \<Rightarrow> obj_key \<Rightarrow> request \<Rightarrow> bool" where
  "own_request k key (ReqGet k' key') = (k' = k \<and> key' = key)"
| "own_request k key (ReqCreate ob) = (kobj_kind ob = k \<and> kobj_key ob = key)"
| "own_request k key (ReqUpdate ob) = (kobj_kind ob = k \<and> kobj_key ob = key)"
| "own_request k key _ = False"

locale ensures_object =
  fixes op :: "'w env \<Rightarrow> 'o \<Rightarrow> ('w, unit) prog"
    and kind :: kind
    and wrap :: "'o \<Rightarrow> kobj"
    and goal :: "'o \<Rightarrow> kobj \<Rightarrow> bool"
  assumes asks: "get_keyed E \<Longrightarrow> emits E (own_request kind (kobj_key (wrap x))) (op E x) (\<lambda>_. True)"
    and op_wp: "api_laws E obs \<Longrightarrow>
      (\<And>ob s'. goal x ob \<Longrightarrow>
         stored obs s' = store_put kind (kobj_key (wrap x)) (Some ob) (stored obs s) \<Longrightarrow> Q () s') \<Longrightarrow>
      (\<And>e v s'. stored obs s' = store_put kind (kobj_key (wrap x)) v (stored obs s) \<Longrightarrow>
         mishap E obs e \<Longrightarrow> X (Some (ApiError e)) s') \<Longrightarrow>
      wp (op E x) Q X s"
begin

lemma settles:
  assumes "api_laws E obs" and "op E x s = (Ok (), s')"
  shows "\<exists>ob. goal x ob \<and> stored obs s' kind (kobj_key (wrap x)) = Some ob"
  using wp_Ok [OF op_wp [OF assms(1), where X = "\<lambda>_ _. True"] assms(2),
      where Q = "\<lambda>_ s'. \<exists>ob. goal x ob \<and> stored obs s' kind (kobj_key (wrap x)) = Some ob"]
  by force

lemma others_untouched:
  assumes "api_laws E obs" and "op E x s = (r, s')" and "(k, key) \<noteq> (kind, kobj_key (wrap x))"
  shows "stored obs s' k key = stored obs s k key"
proof -
  have "wp (op E x) (\<lambda>_ s'. stored obs s' k key = stored obs s k key)
      (\<lambda>_ s'. stored obs s' k key = stored obs s k key) s"
    by (rule op_wp [OF assms(1)]) (use assms(3) in simp_all)
  then show ?thesis using assms(2) by (simp add: wp_def split: outcome.splits)
qed

lemma fails_by_mishap:
  assumes "api_laws E obs"
  shows "fst (op E x s) = Ok () \<or> (\<exists>e. fst (op E x s) = Err (ApiError e) \<and> mishap E obs e)"
proof -
  have "wp (op E x) (\<lambda>_ _. True) (\<lambda>e _. \<exists>a. e = Some (ApiError a) \<and> mishap E obs a) s"
    by (rule op_wp [OF assms]) simp_all
  then show ?thesis by (auto simp: wp_def split: prod.splits outcome.splits)
qed

lemma never_panics:
  assumes "api_laws E obs"
  shows "fst (op E x s) \<noteq> Panic p"
proof -
  have "wp (op E x) (\<lambda>_ _. True) (\<lambda>e _. e \<noteq> None) s"
    by (rule op_wp [OF assms]) simp_all
  then show ?thesis by (auto simp: wp_def split: prod.splits outcome.splits)
qed

end

text \<open>The create-or-update protocol gives that contract.\<close>

locale upsert =
  fixes op :: "'w env \<Rightarrow> 'o \<Rightarrow> ('w, unit) prog"
    and kind :: kind
    and wrap :: "'o \<Rightarrow> kobj"
    and dec :: "kobj \<Rightarrow> 'o option"
    and carry :: "'o \<Rightarrow> 'o \<Rightarrow> 'o"
    and goal :: "'o \<Rightarrow> kobj \<Rightarrow> bool"
  assumes protocol: "op E x =
      bindP (get_as E kind dec (kobj_key (wrap x))) (\<lambda>r.
        case r of
          Inl e \<Rightarrow> if IsNotFound e then return_err (client_Create E (wrap x)) else throw (ApiError e)
        | Inr old \<Rightarrow> return_err (client_Update E (wrap (carry old x))))"
    and wrap_kind: "kobj_kind (wrap x) = kind"
    and dec_wrap: "dec ob = Some x \<longleftrightarrow> ob = wrap x"
    and wrap_all: "\<forall>ob. kobj_kind ob = kind \<longrightarrow> (\<exists>x. ob = wrap x)"
    and carry_key: "kobj_key (wrap old) = kobj_key (wrap x) \<Longrightarrow>
      kobj_key (wrap (carry old x)) = kobj_key (wrap x)"
    and create_goal: "agrees (wrap x) ob \<Longrightarrow> goal x ob"
    and update_goal: "agrees (wrap (carry old x)) ob \<Longrightarrow> goal x ob"
begin

lemma protocol_asks:
  assumes "get_keyed E"
  shows "emits E (own_request kind (kobj_key (wrap x))) (op E x) (\<lambda>_. True)"
  unfolding protocol
proof (rule emits_bind)
  show "emits E (own_request kind (kobj_key (wrap x))) (get_as E kind dec (kobj_key (wrap x)))
      (\<lambda>r. \<forall>old. r = Inr old \<longrightarrow> kobj_key (wrap old) = kobj_key (wrap x))"
    by (rule emits_get_as_keyed [OF assms]) (simp_all add: dec_wrap)
qed (auto intro!: keeps_intros simp: wrap_kind carry_key)

lemma protocol_wp:
  assumes laws: "api_laws E obs"
    and settled: "\<And>ob s'. goal x ob \<Longrightarrow>
         stored obs s' = store_put kind (kobj_key (wrap x)) (Some ob) (stored obs s) \<Longrightarrow> Q () s'"
    and failed: "\<And>e v s'. stored obs s' = store_put kind (kobj_key (wrap x)) v (stored obs s) \<Longrightarrow>
         mishap E obs e \<Longrightarrow> X (Some (ApiError e)) s'"
  shows "wp (op E x) Q X s"
  unfolding protocol wp_bind
proof (rule wp_get_as [OF laws dec_wrap wrap_all])
  fix old s1
  assume same: "stored obs s1 = stored obs s"
    and found: "stored obs s kind (kobj_key (wrap x)) = Some (wrap old)"
    and key: "kobj_key (wrap old) = kobj_key (wrap x)"
  show "wp (case Inr old of
        Inl e \<Rightarrow> if IsNotFound e then return_err (client_Create E (wrap x)) else throw (ApiError e)
      | Inr old \<Rightarrow> return_err (client_Update E (wrap (carry old x)))) Q X s1"
    unfolding sum.case
    by (rule wp_update [OF laws])
      (auto simp: same found wrap_kind carry_key [OF key] intro: failed settled [OF update_goal])
next
  fix e s1
  assume same: "stored obs s1 = stored obs s"
    and absent: "e = NotFound \<Longrightarrow> stored obs s kind (kobj_key (wrap x)) = None"
    and broken: "e \<noteq> NotFound \<Longrightarrow> mishap E obs e"
  have "X (Some (ApiError e)) s1" if "e \<noteq> NotFound"
    by (rule failed [of _ "stored obs s kind (kobj_key (wrap x))"])
      (simp_all add: same store_put_id broken that)
  moreover have "wp (return_err (client_Create E (wrap x))) Q X s1" if "e = NotFound"
    by (rule wp_create [OF laws])
      (auto simp: same wrap_kind absent [OF that] intro: failed settled [OF create_goal])
  ultimately show "wp (case Inl e of
        Inl e \<Rightarrow> if IsNotFound e then return_err (client_Create E (wrap x)) else throw (ApiError e)
      | Inr old \<Rightarrow> return_err (client_Update E (wrap (carry old x)))) Q X s1"
    by (auto simp: IsNotFound_def)
qed

end

sublocale upsert \<subseteq> ensures_object op kind wrap goal
  by unfold_locales (auto intro: protocol_asks protocol_wp)

text \<open>
  What settles a request: the server's object agrees with the one asked for, or, for a config
  map, whose existing metadata is kept, has its data.
\<close>

definition service_goal :: "service \<Rightarrow> kobj \<Rightarrow> bool" where
  "service_goal svc ob \<longleftrightarrow> agrees (OService svc) ob"

definition sts_goal :: "stateful_set \<Rightarrow> kobj \<Rightarrow> bool" where
  "sts_goal sts ob \<longleftrightarrow> agrees (OStatefulSet sts) ob"

definition route_goal :: "ingress_route \<Rightarrow> kobj \<Rightarrow> bool" where
  "route_goal r ob \<longleftrightarrow> agrees (OIngressRoute r) ob"

fun cm_goal :: "config_map \<Rightarrow> kobj \<Rightarrow> bool" where
  "cm_goal cm (OConfigMap c) = (cm_data c = cm_data cm)"
| "cm_goal cm _ = False"

text \<open>A claim is never updated: any claim under the name settles the request.\<close>

fun pvc_goal :: "pvc \<Rightarrow> kobj \<Rightarrow> bool" where
  "pvc_goal p (OPVC q) = True"
| "pvc_goal p _ = False"

lemma as_service_iff: "as_service ob = Some x \<longleftrightarrow> ob = OService x" by (cases ob) auto
lemma as_stateful_set_iff: "as_stateful_set ob = Some x \<longleftrightarrow> ob = OStatefulSet x" by (cases ob) auto
lemma as_ingress_route_iff: "as_ingress_route ob = Some x \<longleftrightarrow> ob = OIngressRoute x" by (cases ob) auto
lemma as_config_map_iff: "as_config_map ob = Some x \<longleftrightarrow> ob = OConfigMap x" by (cases ob) auto
lemma as_pvc_iff: "as_pvc ob = Some x \<longleftrightarrow> ob = OPVC x" by (cases ob) auto
lemma as_secret_iff: "as_secret ob = Some x \<longleftrightarrow> ob = OSecret x" by (cases ob) auto
lemma as_builder_iff: "as_builder ob = Some x \<longleftrightarrow> ob = OBuilder x" by (cases ob) auto
lemma as_template_iff: "as_template ob = Some x \<longleftrightarrow> ob = OTemplate x" by (cases ob) auto

lemma kind_service: "\<forall>ob. kobj_kind ob = KService \<longrightarrow> (\<exists>x. ob = OService x)"
  by (rule allI, rename_tac ob, case_tac ob) simp_all
lemma kind_stateful_set: "\<forall>ob. kobj_kind ob = KStatefulSet \<longrightarrow> (\<exists>x. ob = OStatefulSet x)"
  by (rule allI, rename_tac ob, case_tac ob) simp_all
lemma kind_ingress_route: "\<forall>ob. kobj_kind ob = KIngressRoute \<longrightarrow> (\<exists>x. ob = OIngressRoute x)"
  by (rule allI, rename_tac ob, case_tac ob) simp_all
lemma kind_config_map: "\<forall>ob. kobj_kind ob = KConfigMap \<longrightarrow> (\<exists>x. ob = OConfigMap x)"
  by (rule allI, rename_tac ob, case_tac ob) simp_all
lemma kind_pvc: "\<forall>ob. kobj_kind ob = KPVC \<longrightarrow> (\<exists>x. ob = OPVC x)"
  by (rule allI, rename_tac ob, case_tac ob) simp_all
lemma kind_secret: "\<forall>ob. kobj_kind ob = KSecret \<longrightarrow> (\<exists>x. ob = OSecret x)"
  by (rule allI, rename_tac ob, case_tac ob) simp_all
lemma kind_builder: "\<forall>ob. kobj_kind ob = KBuilder \<longrightarrow> (\<exists>x. ob = OBuilder x)"
  by (rule allI, rename_tac ob, case_tac ob) simp_all
lemma kind_template: "\<forall>ob. kobj_kind ob = KTemplate \<longrightarrow> (\<exists>x. ob = OTemplate x)"
  by (rule allI, rename_tac ob, case_tac ob) simp_all

interpretation svc_upsert: upsert createOrUpdateService KService OService as_service
  "\<lambda>old svc. svc\<lparr>svc_meta := (svc_meta svc)\<lparr>om_resourceVersion := om_resourceVersion (svc_meta old)\<rparr>,
     svc_clusterIP := svc_clusterIP old\<rparr>" service_goal
proof unfold_locales
  show "service_goal x ob" if "agrees (OService (x\<lparr>svc_meta := (svc_meta x)
      \<lparr>om_resourceVersion := om_resourceVersion (svc_meta old)\<rparr>, svc_clusterIP := svc_clusterIP old\<rparr>)) ob"
    for x old ob
    using that by (cases ob) (simp_all add: service_goal_def)
qed (simp_all add: createOrUpdateService_def as_service_iff kind_service service_goal_def Let_def
    cong: sum.case_cong)

interpretation sts_upsert: upsert createOrUpdateStatefulSet KStatefulSet OStatefulSet as_stateful_set
  "\<lambda>old sts. sts\<lparr>sts_meta := (sts_meta sts)\<lparr>om_resourceVersion := om_resourceVersion (sts_meta old)\<rparr>\<rparr>"
  sts_goal
proof unfold_locales
  show "sts_goal x ob" if "agrees (OStatefulSet (x\<lparr>sts_meta := (sts_meta x)
      \<lparr>om_resourceVersion := om_resourceVersion (sts_meta old)\<rparr>\<rparr>)) ob" for x old ob
    using that by (cases ob) (simp_all add: sts_goal_def)
qed (simp_all add: createOrUpdateStatefulSet_def as_stateful_set_iff kind_stateful_set sts_goal_def Let_def
    cong: sum.case_cong)

interpretation route_upsert: upsert createOrUpdateIngressRoute KIngressRoute OIngressRoute
  as_ingress_route
  "\<lambda>old r. r\<lparr>ir_meta := (ir_meta r)\<lparr>om_resourceVersion := om_resourceVersion (ir_meta old)\<rparr>\<rparr>" route_goal
proof unfold_locales
  show "route_goal x ob" if "agrees (OIngressRoute (x\<lparr>ir_meta := (ir_meta x)
      \<lparr>om_resourceVersion := om_resourceVersion (ir_meta old)\<rparr>\<rparr>)) ob" for x old ob
    using that by (cases ob) (simp_all add: route_goal_def)
qed (simp_all add: createOrUpdateIngressRoute_def as_ingress_route_iff kind_ingress_route route_goal_def Let_def
    cong: sum.case_cong)

interpretation cm_upsert: upsert createOrUpdateConfigMap KConfigMap OConfigMap as_config_map
  "\<lambda>old cm. old\<lparr>cm_data := cm_data cm\<rparr>" cm_goal
proof unfold_locales
  show "cm_goal x ob" if "agrees (OConfigMap x) ob" for x ob
    using that by (cases ob) simp_all
  show "cm_goal x ob" if "agrees (OConfigMap (old\<lparr>cm_data := cm_data x\<rparr>)) ob" for x old ob
    using that by (cases ob) simp_all
qed (simp_all add: createOrUpdateConfigMap_def as_config_map_iff kind_config_map Let_def
    cong: sum.case_cong)

interpretation pvc_ensure: ensures_object createOrUpdatePVC KPVC OPVC pvc_goal
proof unfold_locales
  fix E :: "'a env" and x
  assume "get_keyed E"
  show "emits E (own_request KPVC (kobj_key (OPVC x))) (createOrUpdatePVC E x) (\<lambda>_. True)"
    unfolding createOrUpdatePVC_def by (intro keeps_intros) simp_all
next
  fix E :: "'a env" and obs x s and Q :: "unit \<Rightarrow> 'a sys \<Rightarrow> bool"
    and X :: "go_err option \<Rightarrow> 'a sys \<Rightarrow> bool"
  assume laws: "api_laws E obs"
    and settled: "\<And>ob s'. pvc_goal x ob \<Longrightarrow>
      stored obs s' = store_put KPVC (kobj_key (OPVC x)) (Some ob) (stored obs s) \<Longrightarrow> Q () s'"
    and failed: "\<And>e v s'. stored obs s' = store_put KPVC (kobj_key (OPVC x)) v (stored obs s) \<Longrightarrow>
      mishap E obs e \<Longrightarrow> X (Some (ApiError e)) s'"
  have unchanged: "stored obs s = store_put KPVC key (stored obs s KPVC key) (stored obs s)" for key
    by (rule store_put_id [symmetric])
  show "wp (createOrUpdatePVC E x) Q X s"
    unfolding createOrUpdatePVC_def wp_bind
  proof (rule wp_get_as [OF laws as_pvc_iff kind_pvc])
    fix p s1
    assume "stored obs s1 = stored obs s" and "stored obs s KPVC (meta_key (pvc_meta x)) = Some (OPVC p)"
    then have "Q () s1"
      using unchanged [of "meta_key (pvc_meta x)"] by (intro settled [of "OPVC p"]) simp_all
    then show "wp (case Inr p of
          Inl e \<Rightarrow> if IsNotFound e then return_err (client_Create E (OPVC x)) else throw (ApiError e)
        | Inr existing \<Rightarrow> ret ()) Q X s1" by simp
  next
    fix e s1
    assume same: "stored obs s1 = stored obs s"
      and absent: "e = NotFound \<Longrightarrow> stored obs s KPVC (meta_key (pvc_meta x)) = None"
      and broken: "e \<noteq> NotFound \<Longrightarrow> mishap E obs e"
    have goal: "pvc_goal x ob" if "agrees (OPVC x) ob" for ob
      using that by (cases ob) simp_all
    have "X (Some (ApiError e)) s1" if "e \<noteq> NotFound"
      by (rule failed [of _ "stored obs s KPVC (kobj_key (OPVC x))"])
        (simp_all add: same store_put_id broken that)
    moreover have "wp (return_err (client_Create E (OPVC x))) Q X s1" if "e = NotFound"
      by (rule wp_create [OF laws]) (auto simp: same absent [OF that] intro: failed settled [OF goal])
    ultimately show "wp (case Inl e of
          Inl e \<Rightarrow> if IsNotFound e then return_err (client_Create E (OPVC x)) else throw (ApiError e)
        | Inr existing \<Rightarrow> ret ()) Q X s1"
      by (auto simp: IsNotFound_def)
  qed
qed

end
