(* ===== verification/Tls.thy ===== *)
theory Tls
  imports Upsert
begin

text \<open>
  Certificates (\<open>internal/controller/tls.go\<close>): the certificate authority of a namespace, made
  on demand and kept in a secret of its own, and the server certificate of an exposed
  builder, made again when it is missing, unreadable, for another host or close to expiry.
  Durations are in nanoseconds.
\<close>

section \<open>Constants\<close>

definition time_Hour :: int where "time_Hour = 3600 * 10 ^ 9"
definition time_Minute :: int where "time_Minute = 60 * 10 ^ 9"
definition caValidity :: int where "caValidity = 10 * 365 * 24 * time_Hour"
definition serverValidity :: int where "serverValidity = 365 * 24 * time_Hour"
definition renewBefore :: int where "renewBefore = 30 * 24 * time_Hour"

text \<open>Reading a key of a secret's data: an absent key gives no bytes.\<close>

definition data_get :: "bytes gomap \<Rightarrow> string \<Rightarrow> bytes" where
  "data_get d k = gomap_get (Some d) k"

section \<open>Encoding\<close>

definition encodeCertPEM :: "'w env \<Rightarrow> bytes \<Rightarrow> bytes" where
  "encodeCertPEM E der = pem_EncodeToMemory E ''CERTIFICATE'' der"

definition encodeKeyPEM :: "'w env \<Rightarrow> rsa_private_key \<Rightarrow> bytes" where
  "encodeKeyPEM E key =
     pem_EncodeToMemory E ''RSA PRIVATE KEY'' (x509_MarshalPKCS1PrivateKey E key)"

definition parseCertAndKey ::
  "'w env \<Rightarrow> bytes \<Rightarrow> bytes \<Rightarrow> go_err + certificate \<times> rsa_private_key" where
  "parseCertAndKey E certPEM keyPEM =
     (case pem_Decode E certPEM of
        None \<Rightarrow> Inl InvalidCertificatePEM
      | Some (_, cb) \<Rightarrow>
          (case x509_ParseCertificate E cb of
             Inl m \<Rightarrow> Inl (LibError m)
           | Inr cert \<Rightarrow>
               (case pem_Decode E keyPEM of
                  None \<Rightarrow> Inl InvalidKeyPEM
                | Some (_, kb) \<Rightarrow>
                    (case x509_ParsePKCS1PrivateKey E kb of
                       Inl m \<Rightarrow> Inl (LibError m)
                     | Inr key \<Rightarrow> Inr (cert, key)))))"

section \<open>Making certificates\<close>

definition randSerial :: "'w env \<Rightarrow> ('w, int) prog" where
  "randSerial E = lib_call (rand_Int E (2 ^ 128))"

definition caTemplate :: "string \<Rightarrow> int \<Rightarrow> time \<Rightarrow> time \<Rightarrow> certificate" where
  "caTemplate namespace serial notBefore notAfter = \<lparr>
     crt_serialNumber = serial,
     crt_commonName = ''builderhub-builder-ca:'' @ namespace,
     crt_notBefore = notBefore,
     crt_notAfter = notAfter,
     crt_keyUsage = [KeyUsageCertSign, KeyUsageCRLSign, KeyUsageDigitalSignature],
     crt_extKeyUsage = [],
     crt_basicConstraintsValid = True,
     crt_isCA = True,
     crt_maxPathLenZero = True,
     crt_dnsNames = [],
     crt_publicKey = None, crt_signedBy = None\<rparr>"

definition generateCA ::
  "'w env \<Rightarrow> string \<Rightarrow> ('w, certificate \<times> rsa_private_key \<times> bytes \<times> bytes) prog" where
  "generateCA E namespace =
     bindP (lib_call (rsa_GenerateKey E)) (\<lambda>key.
     bindP (randSerial E) (\<lambda>serial.
     bindP (time_Now E) (\<lambda>now1.
     bindP (time_Now E) (\<lambda>now2.
       let tmpl = caTemplate namespace serial (now1 - 5 * time_Minute) (now2 + caValidity) in
       bindP (lib_call (x509_CreateCertificate E tmpl tmpl (PublicKey key) key)) (\<lambda>der.
         case x509_ParseCertificate E der of
           Inl m \<Rightarrow> throw (LibError m)
         | Inr cert \<Rightarrow> ret (cert, key, encodeCertPEM E der, encodeKeyPEM E key))))))"

definition serverTemplate :: "string \<Rightarrow> int \<Rightarrow> time \<Rightarrow> time \<Rightarrow> certificate" where
  "serverTemplate host serial notBefore notAfter = \<lparr>
     crt_serialNumber = serial,
     crt_commonName = host,
     crt_notBefore = notBefore,
     crt_notAfter = notAfter,
     crt_keyUsage = [KeyUsageDigitalSignature, KeyUsageKeyEncipherment],
     crt_extKeyUsage = [ExtKeyUsageServerAuth],
     crt_basicConstraintsValid = False,
     crt_isCA = False,
     crt_maxPathLenZero = False,
     crt_dnsNames = [host],
     crt_publicKey = None, crt_signedBy = None\<rparr>"

definition signServerCert ::
  "'w env \<Rightarrow> certificate \<Rightarrow> rsa_private_key \<Rightarrow> string \<Rightarrow> ('w, bytes \<times> bytes) prog" where
  "signServerCert E caCert caKey host =
     bindP (lib_call (rsa_GenerateKey E)) (\<lambda>key.
     bindP (randSerial E) (\<lambda>serial.
     bindP (time_Now E) (\<lambda>now1.
     bindP (time_Now E) (\<lambda>now2.
       let tmpl = serverTemplate host serial (now1 - 5 * time_Minute) (now2 + serverValidity) in
       bindP (lib_call (x509_CreateCertificate E tmpl caCert (PublicKey key) caKey)) (\<lambda>der.
         ret (encodeCertPEM E der, encodeKeyPEM E key))))))"

section \<open>The authority of a namespace\<close>

definition caSecret :: "string \<Rightarrow> bytes \<Rightarrow> bytes \<Rightarrow> secret" where
  "caSecret namespace caCertPEM caKeyPEM = \<lparr>
     sec_meta = meta_of namespace caSecretName,
     sec_type = ''Opaque'',
     sec_data = [(''ca.crt'', caCertPEM), (''ca.key'', caKeyPEM)]\<rparr>"

definition ensureNamespaceCA ::
  "'w env \<Rightarrow> string \<Rightarrow> ('w, bytes \<times> certificate \<times> rsa_private_key) prog" where
  "ensureNamespaceCA E namespace =
     bindP (get_as E KSecret as_secret (ObjectKey namespace caSecretName)) (\<lambda>getErr.
       case getErr of
         Inr sec \<Rightarrow>
           (case parseCertAndKey E (data_get (sec_data sec) ''ca.crt'')
                   (data_get (sec_data sec) ''ca.key'') of
              Inl err \<Rightarrow> throw (ParsingExistingCA err)
            | Inr (caCert, caKey) \<Rightarrow> ret (data_get (sec_data sec) ''ca.crt'', caCert, caKey))
       | Inl e \<Rightarrow>
           if \<not> IsNotFound e then throw (ApiError e)
           else
             bindP (generateCA E namespace) (\<lambda>(caCert, caKey, caCertPEM, caKeyPEM).
             bindP (client_Create E (OSecret (caSecret namespace caCertPEM caKeyPEM))) (\<lambda>err.
               case err of
                 None \<Rightarrow> ret (caCertPEM, caCert, caKey)
               | Some e \<Rightarrow>
                   if IsAlreadyExists e then
                     bindP (get_as E KSecret as_secret (ObjectKey namespace caSecretName)) (\<lambda>getErr.
                       case getErr of
                         Inl e \<Rightarrow> throw (ApiError e)
                       | Inr sec \<Rightarrow>
                           (case parseCertAndKey E (data_get (sec_data sec) ''ca.crt'')
                                   (data_get (sec_data sec) ''ca.key'') of
                              Inl err \<Rightarrow> throw err
                            | Inr (caCert, caKey) \<Rightarrow>
                                ret (data_get (sec_data sec) ''ca.crt'', caCert, caKey)))
                   else throw (ApiError e))))"

section \<open>The server certificate of a builder\<close>

definition serverCertNeedsRenewal :: "'w env \<Rightarrow> secret \<Rightarrow> string \<Rightarrow> ('w, bool) prog" where
  "serverCertNeedsRenewal E sec host =
     (if gomap_get (om_annotations (sec_meta sec)) certHostAnnotation \<noteq> host then ret True
      else
        case parseCertAndKey E (data_get (sec_data sec) ''tls.crt'')
               (data_get (sec_data sec) ''tls.key'') of
          Inl err \<Rightarrow> ret True
        | Inr (cert, _) \<Rightarrow>
            bindP (time_Now E) (\<lambda>now. ret (now + renewBefore > crt_notAfter cert)))"

definition serverSecret ::
  "Builder \<Rightarrow> string \<Rightarrow> bytes \<Rightarrow> bytes \<Rightarrow> bytes \<Rightarrow> secret" where
  "serverSecret b host caCertPEM certPEM keyPEM = \<lparr>
     sec_meta = (meta_of (b_namespace b) (builderTLSSecretName b))
       \<lparr>om_annotations := Some [(certHostAnnotation, host)]\<rparr>,
     sec_type = ''Opaque'',
     sec_data = [(''ca.crt'', caCertPEM), (''tls.crt'', certPEM), (''tls.key'', keyPEM)]\<rparr>"

text \<open>
  The second half of \<open>ensureBuilderServerCert\<close>: sign a certificate and store it, in a new
  secret or in the one found.
\<close>

definition issueServerCert ::
  "'w env \<Rightarrow> Builder \<Rightarrow> string \<Rightarrow> bytes \<times> certificate \<times> rsa_private_key \<Rightarrow> secret option
     \<Rightarrow> ('w, string) prog" where
  "issueServerCert E b host ca found =
     (case ca of (caCertPEM, caCert, caKey) \<Rightarrow>
      bindP (signServerCert E caCert caKey host) (\<lambda>(certPEM, keyPEM).
        let name = builderTLSSecretName b;
            desired = serverSecret b host caCertPEM certPEM keyPEM
        in
        bindP (SetControllerReference E b (sec_meta desired)) (\<lambda>m.
          case found of
            None \<Rightarrow>
              bindP (client_Create E (OSecret (desired\<lparr>sec_meta := m\<rparr>))) (\<lambda>err.
                case err of
                  None \<Rightarrow> ret name
                | Some e \<Rightarrow> if \<not> IsAlreadyExists e then throw (ApiError e) else ret name)
          | Some existing \<Rightarrow>
              let annotations = gomap_put certHostAnnotation host
                    (gomap_entries (om_annotations (sec_meta existing)));
                  existing = existing\<lparr>sec_data := sec_data desired,
                    sec_meta := (sec_meta existing)\<lparr>om_annotations := Some annotations\<rparr>\<rparr>
              in seqP (return_err (client_Update E (OSecret existing))) (ret name))))"

definition ensureBuilderServerCert :: "'w env \<Rightarrow> Builder \<Rightarrow> ('w, string) prog" where
  "ensureBuilderServerCert E b =
     (case bs_exposure (b_spec b) of
        None \<Rightarrow> panic ''nil pointer dereference''
      | Some ex \<Rightarrow>
          let host = ex_host ex in
          if host = [] then throw ServerCertHostRequired
          else
            bindP (ensureNamespaceCA E (b_namespace b)) (\<lambda>ca.
            bindP (get_as E KSecret as_secret (ObjectKey (b_namespace b) (builderTLSSecretName b)))
              (\<lambda>getErr.
                case getErr of
                  Inr existing \<Rightarrow>
                    bindP (serverCertNeedsRenewal E existing host) (\<lambda>needs.
                      if \<not> needs then ret (builderTLSSecretName b)
                      else issueServerCert E b host ca (Some existing))
                | Inl e \<Rightarrow>
                    if \<not> IsNotFound e then throw (ApiError e)
                    else issueServerCert E b host ca None)))"

definition deleteBuilderServerCert :: "'w env \<Rightarrow> Builder \<Rightarrow> ('w, unit) prog" where
  "deleteBuilderServerCert E b =
     bindP (client_Delete E KSecret (ObjectKey (b_namespace b) (builderTLSSecretName b))) (\<lambda>err.
       case err of
         None \<Rightarrow> ret ()
       | Some e \<Rightarrow> if \<not> IsNotFound e then throw (ApiError e) else ret ())"

end
