(* ===== verification/Status.thy ===== *)
theory Status
  imports Upsert
begin

text \<open>
  The status of a builder (\<open>internal/controller/helpers.go\<close>): its conditions, the endpoint
  and node port read back from the cluster, and the two status writers. The status writers
  change the builder struct they are given; the model returns what they send, since no
  caller reads the struct afterwards.
\<close>

section \<open>Conditions\<close>

text \<open>The loop of \<open>setCondition\<close>: the first condition of the type, if there is one.\<close>

fun update_first :: "('a \<Rightarrow> bool) \<Rightarrow> ('a \<Rightarrow> 'a) \<Rightarrow> 'a list \<Rightarrow> 'a list option" where
  "update_first p f [] = None"
| "update_first p f (x # xs) =
     (if p x then Some (f x # xs) else map_option (\<lambda>ys. x # ys) (update_first p f xs))"

definition withCondition ::
  "time \<Rightarrow> string \<Rightarrow> bool \<Rightarrow> string \<Rightarrow> string \<Rightarrow> condition list \<Rightarrow> condition list" where
  "withCondition now condType statusVal reason message conds =
     (let statusStr = (if statusVal then ''True'' else ''False'');
          reason = (if reason = [] then ''Unknown'' else reason)
      in case update_first (\<lambda>c. cond_type c = condType)
                (\<lambda>c. c\<lparr>cond_status := statusStr, cond_reason := reason, cond_message := message,
                       cond_lastTransitionTime := now\<rparr>) conds of
           Some cs \<Rightarrow> cs
         | None \<Rightarrow> conds @
             [\<lparr>cond_type = condType, cond_status = statusStr, cond_reason = reason,
               cond_message = message, cond_lastTransitionTime = now\<rparr>])"

definition setCondition ::
  "'w env \<Rightarrow> BuilderStatus \<Rightarrow> string \<Rightarrow> bool \<Rightarrow> string \<Rightarrow> string \<Rightarrow> ('w, BuilderStatus) prog" where
  "setCondition E st condType statusVal reason message =
     bindP (time_Now E) (\<lambda>now. ret
       (st\<lparr>st_conditions := withCondition now condType statusVal reason message (st_conditions st)\<rparr>))"

section \<open>Reading back\<close>

definition resolveNodePort :: "'w env \<Rightarrow> Builder \<Rightarrow> ('w, int32) prog" where
  "resolveNodePort E b =
     bindP (get_as E KService as_service (ObjectKey (b_namespace b) (builderSubName b ''-client''))) (\<lambda>r.
       case r of
         Inl e \<Rightarrow> ret 0
       | Inr svc \<Rightarrow> ret
           (case find (\<lambda>p. sp_name p = ''buildkit'' \<and> 0 <s sp_nodePort p) (svc_ports svc) of
              Some p \<Rightarrow> sp_nodePort p
            | None \<Rightarrow> 0))"

definition podEndpoint :: "pod \<Rightarrow> string" where
  "podEndpoint p = ''tcp://'' @ pod_ip p @ '':1234''"

definition podServes :: "pod \<Rightarrow> bool" where
  "podServes p \<longleftrightarrow> pod_phase p = ''Running'' \<and> pod_ip p \<noteq> []"

text \<open>The loop of \<open>resolveStatefulSetEndpoint\<close>, from the endpoint and count so far.\<close>

fun scanPods :: "string \<Rightarrow> int32 \<Rightarrow> pod list \<Rightarrow> string \<times> int32" where
  "scanPods endpoint ready [] = (endpoint, ready)"
| "scanPods endpoint ready (p # ps) =
     (if podServes p
      then scanPods (if endpoint = [] then podEndpoint p else endpoint) (ready + 1) ps
      else scanPods endpoint ready ps)"

definition resolveStatefulSetEndpoint :: "'w env \<Rightarrow> Builder \<Rightarrow> ('w, string \<times> int32) prog" where
  "resolveStatefulSetEndpoint E b =
     bindP (client_ListPods E (b_namespace b) [(LabelKeyBuilderName, b_name b)]) (\<lambda>r.
       case r of
         Inl e \<Rightarrow> throw (ApiError e)
       | Inr pods \<Rightarrow> ret (scanPods [] 0 pods))"

section \<open>Writing\<close>

text \<open>\<open>ctrl.Result\<close>: how long to wait before the request is queued again, 0 for not at all.\<close>

record result =
  requeueAfter :: int64

definition no_requeue :: result where "no_requeue = \<lparr>requeueAfter = 0\<rparr>"

definition updateStatus ::
  "'w env \<Rightarrow> Builder \<Rightarrow> string \<Rightarrow> string \<Rightarrow> int32 \<Rightarrow> int32 \<Rightarrow> int32 \<Rightarrow> ('w, result) prog" where
  "updateStatus E b phase endpoint readyReplicas desiredReplicas nodePort =
     (let st = (b_status b)\<lparr>st_phase := phase, st_endpoint := endpoint, st_nodePort := nodePort,
             st_externalEndpoint := externalEndpointForBuilder b,
             st_tlsSecretName := exposureTLSSecretName b,
             st_readyReplicas := readyReplicas, st_desiredReplicas := desiredReplicas\<rparr>;
          ready = (phase = ''Ready'');
          readyReason = (if ready then ''Ready'' else ''NotReady'')
      in bindP (setCondition E st ConditionReady ready readyReason ''Builder ready'') (\<lambda>st.
         let epReason = (if endpoint \<noteq> [] then ''EndpointSet'' else ''NotSet'') in
         bindP (setCondition E st ConditionEndpoint (endpoint \<noteq> []) epReason ''Endpoint set'') (\<lambda>st.
         seqP (return_err (client_StatusUpdate E (OBuilder (b\<lparr>b_status := st\<rparr>))))
              (ret no_requeue))))"

definition updateStatusWithLastScaled ::
  "'w env \<Rightarrow> Builder \<Rightarrow> string \<Rightarrow> string \<Rightarrow> int32 \<Rightarrow> int32 \<Rightarrow> int32 \<Rightarrow> time option \<Rightarrow> ('w, result) prog" where
  "updateStatusWithLastScaled E b phase endpoint readyReplicas desiredReplicas nodePort lastScaled =
     (let st = (b_status b)\<lparr>st_phase := phase, st_endpoint := endpoint, st_nodePort := nodePort,
             st_externalEndpoint := externalEndpointForBuilder b,
             st_tlsSecretName := exposureTLSSecretName b,
             st_readyReplicas := readyReplicas, st_desiredReplicas := desiredReplicas,
             st_lastScaledAt := lastScaled\<rparr>;
          ready = (phase = ''Ready'');
          readyReason = (if ready then ''Ready'' else ''NotReady'')
      in bindP (setCondition E st ConditionReady ready readyReason ''Builder ready'') (\<lambda>st.
         bindP (setCondition E st ConditionLastScaled True ''Scaled'' ''Last scaled'') (\<lambda>st.
         seqP (return_err (client_StatusUpdate E (OBuilder (b\<lparr>b_status := st\<rparr>))))
              (ret no_requeue))))"

section \<open>What setCondition leaves\<close>

lemma update_first_None: "update_first p f xs = None \<longleftrightarrow> find p xs = None"
  by (induction xs) auto

lemma update_first_find:
  assumes "update_first p f xs = Some ys" and "\<And>x. p x \<Longrightarrow> p (f x)"
  shows "find p ys = map_option f (find p xs)"
  using assms(1)
  by (induction xs arbitrary: ys) (auto simp: assms(2) split: if_splits)

lemma update_first_other:
  assumes "update_first p f xs = Some ys" and "\<And>x. p x \<Longrightarrow> p (f x)"
  shows "filter (\<lambda>x. \<not> p x) ys = filter (\<lambda>x. \<not> p x) xs"
  using assms(1)
  by (induction xs arbitrary: ys) (auto simp: assms(2) split: if_splits)

lemma update_first_map:
  assumes "update_first p f xs = Some ys" and "\<And>x. g (f x) = g x"
  shows "map g ys = map g xs"
  using assms(1)
  by (induction xs arbitrary: ys) (auto simp: assms(2) split: if_splits)

text \<open>Updating the first element that satisfies a test, or appending one that does.\<close>

lemma upsert_first:
  fixes xs :: "'a list"
  assumes keep: "\<And>y. p y \<Longrightarrow> p (f y)" and new: "p x"
  defines "ys \<equiv> (case update_first p f xs of Some ys \<Rightarrow> ys | None \<Rightarrow> xs @ [x])"
  shows "find p ys = Some (case find p xs of Some y \<Rightarrow> f y | None \<Rightarrow> x)"
    and "filter (\<lambda>y. \<not> p y) ys = filter (\<lambda>y. \<not> p y) xs"
    and "(\<And>y. g (f y) = g y) \<Longrightarrow> map g ys = map g xs @ (if find p xs = None then [g x] else [])"
proof -
  have absent: "find p (xs @ [x]) = Some x" if "find p xs = None"
    using that new by (induction xs) (auto split: if_splits)
  show "find p ys = Some (case find p xs of Some y \<Rightarrow> f y | None \<Rightarrow> x)"
    using absent update_first_None [of p f xs] update_first_find [of p f xs, OF _ keep] keep
    by (auto simp: ys_def split: option.splits)
  show "filter (\<lambda>y. \<not> p y) ys = filter (\<lambda>y. \<not> p y) xs"
    using new by (auto simp: ys_def split: option.split dest: update_first_other [where p = p and f = f, OF _ keep])
  show "map g ys = map g xs @ (if find p xs = None then [g x] else [])" if "\<And>y. g (f y) = g y"
    using update_first_None [of p f xs]
    by (auto simp: ys_def split: option.splits dest: update_first_map [where f = f and g = g, OF _ that])
qed

lemma withCondition_find:
  "find (\<lambda>c. cond_type c = t) (withCondition now t v r m cs) =
     Some \<lparr>cond_type = t, cond_status = (if v then ''True'' else ''False''),
           cond_reason = (if r = [] then ''Unknown'' else r), cond_message = m,
           cond_lastTransitionTime = now\<rparr>"
proof -
  have found: "cond_type c = t" if "find (\<lambda>c. cond_type c = t) cs = Some c" for c
    using that by (auto simp: find_Some_iff)
  have stamp: "c\<lparr>cond_status := s, cond_reason := x, cond_message := m, cond_lastTransitionTime := now\<rparr>
      = \<lparr>cond_type = t, cond_status = s, cond_reason = x, cond_message = m,
         cond_lastTransitionTime = now\<rparr>" if "cond_type c = t" for c s x
    using that by (cases c) simp
  define f where "f = (\<lambda>c :: condition. c\<lparr>cond_status := (if v then ''True'' else ''False''),
    cond_reason := (if r = [] then ''Unknown'' else r), cond_message := m,
    cond_lastTransitionTime := now\<rparr>)"
  define new where "new = \<lparr>cond_type = t, cond_status = (if v then ''True'' else ''False''),
    cond_reason = (if r = [] then ''Unknown'' else r), cond_message = m,
    cond_lastTransitionTime = now\<rparr>"
  have "find (\<lambda>c. cond_type c = t) (withCondition now t v r m cs) =
      Some (case find (\<lambda>c. cond_type c = t) cs of Some c \<Rightarrow> f c | None \<Rightarrow> new)"
    unfolding withCondition_def Let_def f_def [symmetric] new_def [symmetric]
    by (rule upsert_first(1)) (simp_all add: f_def new_def)
  moreover have "f c = new" if "find (\<lambda>c. cond_type c = t) cs = Some c" for c
    unfolding f_def new_def by (rule stamp [OF found [OF that]])
  ultimately show ?thesis
    unfolding new_def [symmetric] by (simp split: option.split)
qed

lemma withCondition_others:
  "filter (\<lambda>c. cond_type c \<noteq> t) (withCondition now t v r m cs) = filter (\<lambda>c. cond_type c \<noteq> t) cs"
  unfolding withCondition_def Let_def by (rule upsert_first) simp_all

lemma withCondition_types:
  "map cond_type (withCondition now t v r m cs) =
     map cond_type cs @ (if t \<in> set (map cond_type cs) then [] else [t])"
proof -
  have "find (\<lambda>c. cond_type c = t) cs = None \<longleftrightarrow> t \<notin> set (map cond_type cs)"
    by (auto simp: find_None_iff)
  then show ?thesis
    unfolding withCondition_def Let_def
    by (subst upsert_first(3)) simp_all
qed

lemma scanPods_spec:
  "scanPods e n ps =
     (if e \<noteq> [] then e else case find podServes ps of None \<Rightarrow> [] | Some p \<Rightarrow> podEndpoint p,
      n + of_nat (length (filter podServes ps)))"
proof (induction ps arbitrary: e n)
  case (Cons p ps)
  have "podEndpoint p \<noteq> []" by (simp add: podEndpoint_def)
  with Cons show ?case by (auto simp: add.assoc)
qed simp


lemma withCondition_find_other:
  assumes "t' \<noteq> t"
  shows "find (\<lambda>c. cond_type c = t') (withCondition now t v r m cs) = find (\<lambda>c. cond_type c = t') cs"
proof -
  have "find (\<lambda>c. cond_type c = t') (filter (\<lambda>c. cond_type c \<noteq> t) xs) =
      find (\<lambda>c. cond_type c = t') xs" for xs :: "condition list"
    using assms by (induction xs) auto
  then show ?thesis by (metis withCondition_others)
qed

text \<open>The status of a condition.\<close>

definition condition_status :: "string \<Rightarrow> BuilderStatus \<Rightarrow> string option" where
  "condition_status t st =
     map_option cond_status (find (\<lambda>c. cond_type c = t) (st_conditions st))"

section \<open>What the writers send\<close>

definition statusFor ::
  "Builder \<Rightarrow> string \<Rightarrow> string \<Rightarrow> int32 \<Rightarrow> int32 \<Rightarrow> int32 \<Rightarrow> condition list \<Rightarrow> BuilderStatus" where
  "statusFor b phase endpoint readyReplicas desiredReplicas nodePort conds =
     \<lparr>st_endpoint = endpoint, st_nodePort = nodePort,
      st_externalEndpoint = externalEndpointForBuilder b,
      st_tlsSecretName = exposureTLSSecretName b, st_conditions = conds, st_phase = phase,
      st_readyReplicas = readyReplicas, st_desiredReplicas = desiredReplicas,
      st_lastScaledAt = st_lastScaledAt (b_status b)\<rparr>"

definition readyCondition :: "string \<Rightarrow> time \<Rightarrow> condition list \<Rightarrow> condition list" where
  "readyCondition phase now = withCondition now ConditionReady (phase = ''Ready'')
     (if phase = ''Ready'' then ''Ready'' else ''NotReady'') ''Builder ready''"

definition endpointCondition :: "string \<Rightarrow> time \<Rightarrow> condition list \<Rightarrow> condition list" where
  "endpointCondition endpoint now = withCondition now ConditionEndpoint (endpoint \<noteq> [])
     (if endpoint \<noteq> [] then ''EndpointSet'' else ''NotSet'') ''Endpoint set''"

definition scaledCondition :: "time \<Rightarrow> condition list \<Rightarrow> condition list" where
  "scaledCondition now = withCondition now ConditionLastScaled True ''Scaled'' ''Last scaled''"

lemma updateStatus_eq:
  "updateStatus E b phase ep ready desired np =
     bindP (time_Now E) (\<lambda>t1. bindP (time_Now E) (\<lambda>t2.
       seqP (return_err (client_StatusUpdate E (OBuilder (b\<lparr>b_status :=
           statusFor b phase ep ready desired np
             (endpointCondition ep t2 (readyCondition phase t1 (st_conditions (b_status b))))\<rparr>))))
         (ret no_requeue)))"
  by (cases "b_status b")
    (simp add: updateStatus_def setCondition_def Let_def statusFor_def endpointCondition_def
      readyCondition_def)

lemma updateStatusWithLastScaled_eq:
  "updateStatusWithLastScaled E b phase ep ready desired np scaled =
     bindP (time_Now E) (\<lambda>t1. bindP (time_Now E) (\<lambda>t2.
       seqP (return_err (client_StatusUpdate E (OBuilder (b\<lparr>b_status :=
           (statusFor b phase ep ready desired np
             (scaledCondition t2 (readyCondition phase t1 (st_conditions (b_status b)))))
             \<lparr>st_lastScaledAt := scaled\<rparr>\<rparr>))))
         (ret no_requeue)))"
  by (cases "b_status b")
    (simp add: updateStatusWithLastScaled_def setCondition_def Let_def statusFor_def
      scaledCondition_def readyCondition_def)

lemma statusFor_simps [simp]:
  "st_endpoint (statusFor b phase ep ready desired np cs) = ep"
  "st_phase (statusFor b phase ep ready desired np cs) = phase"
  "st_conditions (statusFor b phase ep ready desired np cs) = cs"
  "st_readyReplicas (statusFor b phase ep ready desired np cs) = ready"
  "st_desiredReplicas (statusFor b phase ep ready desired np cs) = desired"
  "st_nodePort (statusFor b phase ep ready desired np cs) = np"
  "st_externalEndpoint (statusFor b phase ep ready desired np cs) = externalEndpointForBuilder b"
  "st_tlsSecretName (statusFor b phase ep ready desired np cs) = exposureTLSSecretName b"
  by (simp_all add: statusFor_def)

lemmas condition_defs = readyCondition_def endpointCondition_def scaledCondition_def

lemma condition_names: "ConditionReady \<noteq> ConditionEndpoint" "ConditionReady \<noteq> ConditionLastScaled"
    "ConditionEndpoint \<noteq> ConditionLastScaled" "ConditionEndpoint \<noteq> ConditionReady"
  by (simp_all add: names_simps)

lemma ready_conditions:
  assumes "st_conditions st = endpointCondition ep t2 (readyCondition phase t1 cs)"
  shows "condition_status ConditionReady st = Some (if phase = ''Ready'' then ''True'' else ''False'')"
    and "condition_status ConditionEndpoint st = Some (if ep \<noteq> [] then ''True'' else ''False'')"
  by (simp_all add: condition_status_def assms condition_defs withCondition_find
      withCondition_find_other condition_names)

lemma scaled_conditions:
  assumes "st_conditions st = scaledCondition t2 (readyCondition phase t1 cs)"
  shows "condition_status ConditionReady st = Some (if phase = ''Ready'' then ''True'' else ''False'')"
    and "condition_status ConditionLastScaled st = Some ''True''"
    and "condition_status ConditionEndpoint st =
      map_option cond_status (find (\<lambda>c. cond_type c = ConditionEndpoint) cs)"
  by (simp_all add: condition_status_def assms condition_defs withCondition_find
      withCondition_find_other condition_names)

text \<open>Sending a status, from any state.\<close>

lemma status_sent:
  fixes st :: "time \<Rightarrow> time \<Rightarrow> BuilderStatus"
  shows "\<exists>t1 t2 r. calls (snd (bindP (time_Now E) (\<lambda>t1. bindP (time_Now E) (\<lambda>t2.
       seqP (return_err (client_StatusUpdate E (OBuilder (b\<lparr>b_status := st t1 t2\<rparr>))))
         (ret no_requeue))) s)) = calls s @ [(ReqStatusUpdate (OBuilder (b\<lparr>b_status := st t1 t2\<rparr>)), r)]
     \<and> fst (bindP (time_Now E) (\<lambda>t1. bindP (time_Now E) (\<lambda>t2.
       seqP (return_err (client_StatusUpdate E (OBuilder (b\<lparr>b_status := st t1 t2\<rparr>))))
         (ret no_requeue))) s) = (case r of None \<Rightarrow> Ok no_requeue | Some e \<Rightarrow> Err (ApiError e))"
proof -
  obtain t1 w1 where 1: "clock E (world s) = (t1, w1)" by fastforce
  obtain t2 w2 where 2: "clock E w1 = (t2, w2)" by fastforce
  obtain r w3 where 3: "cl_status_update E (OBuilder (b\<lparr>b_status := st t1 t2\<rparr>)) w2 = (r, w3)"
    by fastforce
  show ?thesis
    by (rule exI [of _ t1], rule exI [of _ t2], rule exI [of _ r])
      (simp add: bindP_def seqP_def time_Now_def return_err_def client_StatusUpdate_def 1 2 3
        ret_def throw_def split: option.split)
qed


lemma selector_finds_pods:
  assumes "gomap_wf (bs_labels (b_spec b))"
    and "om_namespace (pod_meta p) = b_namespace b"
    and "om_labels (pod_meta p) = Some (sts_templateLabels (statefulSetForBuilder E b spec n))"
  shows "pod_selected (b_namespace b) [(LabelKeyBuilderName, b_name b)] p \<longleftrightarrow>
    (case map_of (bs_labels (b_spec b)) LabelKeyBuilderName of
       None \<Rightarrow> True | Some v \<Rightarrow> label_value_ok v \<longrightarrow> v = b_name b)"
  using assms(2,3)
  by (simp add: pod_selected_def map_of_labelsForBuilder [OF assms(1)] reserved_label_def
      split: option.split)

section \<open>Properties\<close>

text \<open>\<open>setCondition\<close> leaves one current condition of the type, with the status given, a
  reason that is never empty and the time of the call; the conditions of other types stay as
  they are and in order, and no type comes to occur twice.\<close>

lemma setCondition_spec:
  "let cs' = withCondition now t v r m cs in
     find (\<lambda>c. cond_type c = t) cs' =
       Some \<lparr>cond_type = t, cond_status = (if v then ''True'' else ''False''),
             cond_reason = (if r = [] then ''Unknown'' else r), cond_message = m,
             cond_lastTransitionTime = now\<rparr>
     \<and> filter (\<lambda>c. cond_type c \<noteq> t) cs' = filter (\<lambda>c. cond_type c \<noteq> t) cs
     \<and> distinct (map cond_type cs') = distinct (map cond_type cs)"
  unfolding Let_def
  using withCondition_find withCondition_others withCondition_types [of now t v r m cs]
  by (cases "t \<in> set (map cond_type cs)") simp_all

text \<open>C34: The endpoint read back is that of the first running pod with an address among the pods
  listed for the builder, and the ready count is the number of such pods; a failed list is
  the error returned.\<close>

theorem resolve_endpoint_spec:
  "fst (resolveStatefulSetEndpoint E b s) =
     (case fst (cl_list_pods E (b_namespace b) [(LabelKeyBuilderName, b_name b)] (world s)) of
        Inl e \<Rightarrow> Err (ApiError e)
      | Inr pods \<Rightarrow>
          Ok (case find podServes pods of None \<Rightarrow> [] | Some p \<Rightarrow> podEndpoint p,
              of_nat (length (filter podServes pods))))"
  by (simp add: resolveStatefulSetEndpoint_def client_ListPods_def bindP_def throw_def ret_def
      scanPods_spec split: prod.split sum.split)



text \<open>The node port read back never fails the reconciliation: it is 0, or the positive port
  of a port named \<open>buildkit\<close> of the client service.\<close>

lemma resolve_node_port_spec:
  "\<exists>n. fst (resolveNodePort E b s) = Ok n \<and>
     (n = 0 \<or> 0 <s n \<and> (\<exists>svc q. fst (cl_get E KService
         (meta_key (svc_meta (nodePortServiceForBuilder b))) (world s)) = Inr (OService svc)
       \<and> q \<in> set (svc_ports svc) \<and> sp_name q = ''buildkit'' \<and> sp_nodePort q = n))"
proof -
  let ?key = "meta_key (svc_meta (nodePortServiceForBuilder b))"
  obtain r w where r: "cl_get E KService ?key (world s) = (r, w)" by fastforce
  show ?thesis
  proof (cases "\<exists>svc q. r = Inr (OService svc) \<and>
      find (\<lambda>p. sp_name p = ''buildkit'' \<and> 0 <s sp_nodePort p) (svc_ports svc) = Some q")
    case True
    then obtain svc q where svc: "r = Inr (OService svc)"
      and q: "find (\<lambda>p. sp_name p = ''buildkit'' \<and> 0 <s sp_nodePort p) (svc_ports svc) = Some q"
      by blast
    have "fst (resolveNodePort E b s) = Ok (sp_nodePort q)"
      using r by (simp add: resolveNodePort_def get_as_def client_Get_def bindP_def ret_def svc q)
    moreover have "q \<in> set (svc_ports svc) \<and> sp_name q = ''buildkit'' \<and> 0 <s sp_nodePort q"
      using q by (auto simp: find_Some_iff)
    ultimately show ?thesis using r svc by auto
  next
    case False
    then have "fst (resolveNodePort E b s) = Ok 0"
      using r by (auto simp: resolveNodePort_def get_as_def client_Get_def bindP_def ret_def
          as_service_iff split: sum.split option.split)
    then show ?thesis by blast
  qed
qed

text \<open>C35: The status a persistent builder is given in one call: phase, endpoint and counts as
  resolved, the external address and TLS secret of its exposure, a \<open>Ready\<close> condition that says
  whether the phase is \<open>Ready\<close> and an \<open>Endpoint\<close> condition that says whether there is an
  endpoint; the call's error is the error returned.\<close>

theorem updateStatus_sends:
  "\<exists>st r. calls (snd (updateStatus E b phase ep ready desired np s)) =
       calls s @ [(ReqStatusUpdate (OBuilder (b\<lparr>b_status := st\<rparr>)), r)]
     \<and> fst (updateStatus E b phase ep ready desired np s) =
       (case r of None \<Rightarrow> Ok no_requeue | Some e \<Rightarrow> Err (ApiError e))
     \<and> st_phase st = phase \<and> st_endpoint st = ep \<and> st_readyReplicas st = ready
     \<and> st_desiredReplicas st = desired \<and> st_nodePort st = np
     \<and> st_externalEndpoint st = externalEndpointForBuilder b
     \<and> st_tlsSecretName st = exposureTLSSecretName b
     \<and> condition_status ConditionReady st = Some (if phase = ''Ready'' then ''True'' else ''False'')
     \<and> condition_status ConditionEndpoint st = Some (if ep \<noteq> [] then ''True'' else ''False'')"
proof -
  let ?st = "\<lambda>t1 t2. statusFor b phase ep ready desired np
      (endpointCondition ep t2 (readyCondition phase t1 (st_conditions (b_status b))))"
  obtain t1 t2 r where
    "calls (snd (updateStatus E b phase ep ready desired np s)) =
       calls s @ [(ReqStatusUpdate (OBuilder (b\<lparr>b_status := ?st t1 t2\<rparr>)), r)]"
    "fst (updateStatus E b phase ep ready desired np s) =
       (case r of None \<Rightarrow> Ok no_requeue | Some e \<Rightarrow> Err (ApiError e))"
    unfolding updateStatus_eq
    using status_sent [where E = E and b = b and st = ?st and s = s] by blast
  moreover note ready_conditions [OF statusFor_simps(3),
      of b phase ep ready desired np ep t2 phase t1 "st_conditions (b_status b)"]
  ultimately show ?thesis by (intro exI conjI) (assumption | simp)+
qed

text \<open>C36: The status a sleepy builder is given: as the other, but with the time passed in as
  the time of scaling and a \<open>LastScaled\<close> condition that is always true; the \<open>Endpoint\<close>
  condition is left as it was, whatever the new endpoint is.\<close>

theorem updateStatusWithLastScaled_sends:
  "\<exists>st r. calls (snd (updateStatusWithLastScaled E b phase ep ready desired np scaled s)) =
       calls s @ [(ReqStatusUpdate (OBuilder (b\<lparr>b_status := st\<rparr>)), r)]
     \<and> fst (updateStatusWithLastScaled E b phase ep ready desired np scaled s) =
       (case r of None \<Rightarrow> Ok no_requeue | Some e \<Rightarrow> Err (ApiError e))
     \<and> st_phase st = phase \<and> st_endpoint st = ep \<and> st_readyReplicas st = ready
     \<and> st_desiredReplicas st = desired \<and> st_nodePort st = np \<and> st_lastScaledAt st = scaled
     \<and> condition_status ConditionReady st = Some (if phase = ''Ready'' then ''True'' else ''False'')
     \<and> condition_status ConditionLastScaled st = Some ''True''
     \<and> condition_status ConditionEndpoint st = condition_status ConditionEndpoint (b_status b)"
proof -
  let ?st = "\<lambda>t1 t2. (statusFor b phase ep ready desired np
      (scaledCondition t2 (readyCondition phase t1 (st_conditions (b_status b)))))\<lparr>st_lastScaledAt := scaled\<rparr>"
  obtain t1 t2 r where
    "calls (snd (updateStatusWithLastScaled E b phase ep ready desired np scaled s)) =
       calls s @ [(ReqStatusUpdate (OBuilder (b\<lparr>b_status := ?st t1 t2\<rparr>)), r)]"
    "fst (updateStatusWithLastScaled E b phase ep ready desired np scaled s) =
       (case r of None \<Rightarrow> Ok no_requeue | Some e \<Rightarrow> Err (ApiError e))"
    unfolding updateStatusWithLastScaled_eq using status_sent [where E = E and b = b and st = ?st and s = s] by blast
  moreover have "st_conditions (?st t1 t2) =
      scaledCondition t2 (readyCondition phase t1 (st_conditions (b_status b)))" by simp
  note scaled_conditions [OF this]
  ultimately show ?thesis
    by (intro exI conjI) (assumption | simp | simp add: condition_status_def)+
qed

end
