(* ===== verification/Spec_Merge.thy ===== *)
theory Spec_Merge
  imports Api_Types
begin

text \<open>
  \<open>mergeSpec\<close> of \<open>internal/controller/buildkitbuilder_controller.go\<close>: the template a
  builder refers to, overridden by the builder's inline template. The model is at the level
  of values: \<open>base.DeepCopy()\<close> copies the struct, so the copy is the same value.
\<close>

definition mergeSpec :: "TemplateSpec option \<Rightarrow> TemplateSpec option \<Rightarrow> TemplateSpec" where
  "mergeSpec base override =
     (let out = (case base of None \<Rightarrow> zero_TemplateSpec | Some b \<Rightarrow> b) in
      case override of
        None \<Rightarrow> out
      | Some ov \<Rightarrow>
          let out = (if ts_buildkitImage ov \<noteq> []
                     then out\<lparr>ts_buildkitImage := ts_buildkitImage ov\<rparr> else out);
              out = out\<lparr>ts_rootless := ts_rootless ov\<rparr>;
              out = (if gomap_len (rr_limits (ts_resources ov)) > 0
                        \<or> gomap_len (rr_requests (ts_resources ov)) > 0
                     then out\<lparr>ts_resources := ts_resources ov\<rparr> else out);
              out = (if ts_nodeSelector ov \<noteq> None
                     then out\<lparr>ts_nodeSelector := ts_nodeSelector ov\<rparr> else out);
              out = (if ts_tolerations ov \<noteq> None
                     then out\<lparr>ts_tolerations := ts_tolerations ov\<rparr> else out);
              out = (if ts_affinity ov \<noteq> None
                     then out\<lparr>ts_affinity := ts_affinity ov\<rparr> else out);
              out = (if ts_buildkitdToml ov \<noteq> []
                     then out\<lparr>ts_buildkitdToml := ts_buildkitdToml ov\<rparr> else out);
              out = (if cc_type (ts_cacheConfig ov) \<noteq> []
                     then out\<lparr>ts_cacheConfig := ts_cacheConfig ov\<rparr> else out);
              out = (if ts_arch ov \<noteq> [] then out\<lparr>ts_arch := ts_arch ov\<rparr> else out)
          in out)"

text \<open>
  The reference: a field of the override wins where the override sets it. \<open>orElse\<close> is
  that choice for one field.
\<close>

definition orElse :: "('a \<Rightarrow> bool) \<Rightarrow> 'a \<Rightarrow> 'a \<Rightarrow> 'a" where
  "orElse set_in x y = (if set_in x then x else y)"

definition resources_set :: "resource_requirements \<Rightarrow> bool" where
  "resources_set r \<longleftrightarrow> gomap_len (rr_limits r) > 0 \<or> gomap_len (rr_requests r) > 0"

definition override_with :: "TemplateSpec \<Rightarrow> TemplateSpec \<Rightarrow> TemplateSpec" where
  "override_with ov b = \<lparr>
     ts_buildkitImage = orElse (\<lambda>x. x \<noteq> []) (ts_buildkitImage ov) (ts_buildkitImage b),
     ts_rootless = ts_rootless ov,
     ts_resources = orElse resources_set (ts_resources ov) (ts_resources b),
     ts_nodeSelector = orElse (\<lambda>x. x \<noteq> None) (ts_nodeSelector ov) (ts_nodeSelector b),
     ts_tolerations = orElse (\<lambda>x. x \<noteq> None) (ts_tolerations ov) (ts_tolerations b),
     ts_affinity = orElse (\<lambda>x. x \<noteq> None) (ts_affinity ov) (ts_affinity b),
     ts_buildkitdToml = orElse (\<lambda>x. x \<noteq> []) (ts_buildkitdToml ov) (ts_buildkitdToml b),
     ts_cacheConfig = orElse (\<lambda>x. cc_type x \<noteq> []) (ts_cacheConfig ov) (ts_cacheConfig b),
     ts_arch = orElse (\<lambda>x. x \<noteq> []) (ts_arch ov) (ts_arch b)\<rparr>"

lemma orElse_assoc: "orElse p x (orElse p y z) = orElse p (orElse p x y) z"
  by (simp add: orElse_def)

lemma mergeSpec_None [simp]: "mergeSpec (Some b) None = b"
  by (simp add: mergeSpec_def)

lemma mergeSpec_override: "mergeSpec (Some b) (Some ov) = override_with ov b"
proof -
  have upd:
    "(if c then r\<lparr>ts_buildkitImage := x1\<rparr> else r) = r\<lparr>ts_buildkitImage := if c then x1 else ts_buildkitImage r\<rparr>"
    "(if c then r\<lparr>ts_resources := x2\<rparr> else r) = r\<lparr>ts_resources := if c then x2 else ts_resources r\<rparr>"
    "(if c then r\<lparr>ts_nodeSelector := x3\<rparr> else r) = r\<lparr>ts_nodeSelector := if c then x3 else ts_nodeSelector r\<rparr>"
    "(if c then r\<lparr>ts_tolerations := x4\<rparr> else r) = r\<lparr>ts_tolerations := if c then x4 else ts_tolerations r\<rparr>"
    "(if c then r\<lparr>ts_affinity := x5\<rparr> else r) = r\<lparr>ts_affinity := if c then x5 else ts_affinity r\<rparr>"
    "(if c then r\<lparr>ts_buildkitdToml := x6\<rparr> else r) = r\<lparr>ts_buildkitdToml := if c then x6 else ts_buildkitdToml r\<rparr>"
    "(if c then r\<lparr>ts_cacheConfig := x7\<rparr> else r) = r\<lparr>ts_cacheConfig := if c then x7 else ts_cacheConfig r\<rparr>"
    "(if c then r\<lparr>ts_arch := x8\<rparr> else r) = r\<lparr>ts_arch := if c then x8 else ts_arch r\<rparr>"
    for c and r :: TemplateSpec and x1 x2 x3 x4 x5 x6 x7 x8
    by simp_all
  show ?thesis
    unfolding mergeSpec_def option.case upd
    by (simp add: override_with_def orElse_def resources_set_def Let_def cong: if_weak_cong)
qed

lemma mergeSpec_no_base: "mergeSpec None ov = mergeSpec (Some zero_TemplateSpec) ov"
  by (simp add: mergeSpec_def)

lemma override_with_assoc:
  "override_with o2 (override_with o1 b) = override_with (override_with o2 o1) b"
  by (simp add: override_with_def orElse_assoc)

text \<open>An inline template that sets nothing still turns a rootless template into a
  privileged one: \<open>Rootless\<close> is always taken from the override, and nothing else changes.\<close>

lemma mergeSpec_empty_override_drops_rootless:
  "mergeSpec (Some b) (Some zero_TemplateSpec) = b\<lparr>ts_rootless := False\<rparr>"
  by (simp add: mergeSpec_def zero_TemplateSpec_def zero_CacheConfig_def gomap_len_def Let_def)

section \<open>Properties\<close>

text \<open>C30: Merging is field-wise overriding: the override's field where the override sets it,
  the base's field otherwise, the zero value when there is no base.\<close>

theorem mergeSpec_spec:
  "mergeSpec base override =
    (let b = (case base of None \<Rightarrow> zero_TemplateSpec | Some b \<Rightarrow> b)
     in case override of None \<Rightarrow> b | Some ov \<Rightarrow> override_with ov b)"
proof (cases override)
  case None
  then show ?thesis by (simp add: mergeSpec_def split: option.split)
next
  case (Some ov)
  then show ?thesis by (cases base) (simp_all add: mergeSpec_no_base mergeSpec_override)
qed

text \<open>Merging is associative: merging two overrides one after the other is merging the
  second into the first and that into the base.\<close>

lemma mergeSpec_assoc:
  "mergeSpec (Some (mergeSpec (Some b) (Some o1))) (Some o2) =
   mergeSpec (Some b) (Some (mergeSpec (Some o1) (Some o2)))"
  unfolding mergeSpec_override by (rule override_with_assoc)

end
