(* ===== verification/Go_Time.thy ===== *)
theory Go_Time
  imports Kube_Objects
begin

text \<open>
  The part of package \<open>time\<close> the operator uses: \<open>time.Duration\<close> as a signed 64-bit count
  of nanoseconds, the saturating difference of two instants (\<open>time.Since\<close>), and
  \<open>time.Parse(time.RFC3339, s)\<close>, with the leniencies of Go's parser: a one-digit hour, a
  fraction after the seconds although the layout has none, and zone offsets up to 24:60.
\<close>

section \<open>Durations\<close>

definition time_Second :: int64 where "time_Second = 1000000000"

text \<open>\<open>time.Duration(n) * time.Second\<close> for an \<open>int32\<close>.\<close>

definition seconds32 :: "int32 \<Rightarrow> int64" where
  "seconds32 n = scast n * time_Second"

text \<open>\<open>t.Sub(u)\<close>: the difference, or the nearest duration when it does not fit.\<close>

definition time_Sub :: "time \<Rightarrow> time \<Rightarrow> int64" where
  "time_Sub t u = word_of_int (max (- (2 ^ 63)) (min (2 ^ 63 - 1) (t - u)))"

text \<open>No builder can overflow the product: an \<open>int32\<close> of seconds fits a duration.\<close>

lemma sint32_bounds: "- (2 ^ 31) \<le> sint (n :: int32)" "sint (n :: int32) < 2 ^ 31"
  using sint_ge [of n] sint_lt [of n] by simp_all

lemma sint_word64: "- (2 ^ 63) \<le> k \<Longrightarrow> k < 2 ^ 63 \<Longrightarrow> sint (word_of_int k :: int64) = k"
  unfolding sint_sbintrunc' by (rule signed_take_bit_int_eq_self) simp_all

lemma seconds32_word: "seconds32 n = word_of_int (sint n * 10 ^ 9)"
  unfolding seconds32_def scast_eq time_Second_def by (simp only: of_int_mult) simp

lemma sint_seconds32: "sint (seconds32 n) = sint n * 10 ^ 9"
  unfolding seconds32_word by (rule sint_word64) (use sint32_bounds [of n] in simp_all)

lemma sint_time_Sub: "sint (time_Sub t u) = max (- (2 ^ 63)) (min (2 ^ 63 - 1) (t - u))"
  unfolding time_Sub_def by (rule sint_word64) simp_all

text \<open>Comparing a saturated difference with such a duration compares the instants.\<close>

lemma time_Sub_less_seconds32:
  "(time_Sub t u <s seconds32 n) \<longleftrightarrow> t - u < sint n * 10 ^ 9"
  unfolding word_sless_alt sint_seconds32 sint_time_Sub using sint32_bounds [of n] by auto

section \<open>The calendar\<close>

definition isLeap :: "int \<Rightarrow> bool" where
  "isLeap y \<longleftrightarrow> y mod 4 = 0 \<and> (y mod 100 \<noteq> 0 \<or> y mod 400 = 0)"

definition monthLength :: "int \<Rightarrow> int \<Rightarrow> int" where
  "monthLength y m =
     (if m = 2 then (if isLeap y then 29 else 28)
      else if m = 4 \<or> m = 6 \<or> m = 9 \<or> m = 11 then 30 else 31)"

text \<open>Days of a common year before its month \<open>m\<close>.\<close>

definition daysBefore :: "int \<Rightarrow> int" where
  "daysBefore m = [0, 31, 59, 90, 120, 151, 181, 212, 243, 273, 304, 334] ! nat (m - 1)"

text \<open>Days from 0000-01-01 to the first day of year \<open>y\<close>.\<close>

definition daysBeforeYear :: "int \<Rightarrow> int" where
  "daysBeforeYear y = 365 * y + (y - 1) div 4 - (y - 1) div 100 + (y - 1) div 400 + 1"

definition unixDay :: "int \<Rightarrow> int \<Rightarrow> int \<Rightarrow> int" where
  "unixDay y m d =
     daysBeforeYear y + daysBefore m + (if isLeap y \<and> 2 < m then 1 else 0) + d - 1 - 719528"

definition unixTime :: "int \<Rightarrow> int \<Rightarrow> int \<Rightarrow> int \<Rightarrow> int \<Rightarrow> int \<Rightarrow> int \<Rightarrow> time" where
  "unixTime y m d hh mm ss ns =
     (unixDay y m d * 86400 + hh * 3600 + mm * 60 + ss) * 10 ^ 9 + ns"

section \<open>Parsing RFC 3339\<close>

definition isDigit :: "char \<Rightarrow> bool" where
  "isDigit c \<longleftrightarrow> 48 \<le> (of_char c :: nat) \<and> (of_char c :: nat) \<le> 57"

definition digitVal :: "char \<Rightarrow> int" where
  "digitVal c = of_char c - 48"

fun numVal :: "int \<Rightarrow> string \<Rightarrow> int" where
  "numVal acc [] = acc"
| "numVal acc (c # s) = numVal (acc * 10 + digitVal c) s"

text \<open>\<open>getnum\<close>: two digits, or one where the layout does not fix the width.\<close>

fun getnum :: "bool \<Rightarrow> string \<Rightarrow> (int \<times> string) option" where
  "getnum fixed [] = None"
| "getnum fixed [c] = (if isDigit c \<and> \<not> fixed then Some (digitVal c, []) else None)"
| "getnum fixed (c # d # s) =
     (if \<not> isDigit c then None
      else if isDigit d then Some (digitVal c * 10 + digitVal d, s)
      else if fixed then None else Some (digitVal c, d # s))"

fun getyear :: "string \<Rightarrow> (int \<times> string) option" where
  "getyear (a # b # c # d # s) =
     (if list_all isDigit [a, b, c, d] then Some (numVal 0 [a, b, c, d], s) else None)"
| "getyear _ = None"

fun skip :: "char \<Rightarrow> string \<Rightarrow> string option" where
  "skip p (c # s) = (if c = p then Some s else None)"
| "skip p [] = None"

text \<open>A two-digit field within bounds, after a separator.\<close>

definition field :: "char \<Rightarrow> bool \<Rightarrow> int \<Rightarrow> int \<Rightarrow> string \<Rightarrow> (int \<times> string) option" where
  "field sep fixed lo hi s =
     (case skip sep s of
        None \<Rightarrow> None
      | Some s \<Rightarrow>
          (case getnum fixed s of
             None \<Rightarrow> None
           | Some (n, s) \<Rightarrow> if lo \<le> n \<and> n \<le> hi then Some (n, s) else None))"

text \<open>
  A fraction needs a digit after the dot or comma. Digits past the ninth are dropped.
\<close>

definition fraction :: "string \<Rightarrow> int \<times> string" where
  "fraction s =
     (case s of
        c # d # t \<Rightarrow>
          if (c = CHR ''.'' \<or> c = CHR '','') \<and> isDigit d then
            (let ds = takeWhile isDigit (d # t); ns = take 9 ds
             in (numVal 0 ns * 10 ^ (9 - length ns), dropWhile isDigit (d # t)))
          else (0, s)
      | _ \<Rightarrow> (0, s))"

text \<open>The zone, as seconds east of UTC.\<close>

fun zone :: "string \<Rightarrow> (int \<times> string) option" where
  "zone (z # s) =
     (if z = CHR ''Z'' then Some (0, s)
      else
        (case s of
           h1 # h2 # col # m1 # m2 # rest \<Rightarrow>
             if col \<noteq> CHR '':'' then None
             else
               (case (getnum True [h1, h2], getnum True [m1, m2]) of
                  (Some (hr, _), Some (mn, _)) \<Rightarrow>
                    if hr > 24 \<or> mn > 60 then None
                    else if z = CHR ''+'' then Some ((hr * 60 + mn) * 60, rest)
                    else if z = CHR ''-'' then Some (- ((hr * 60 + mn) * 60), rest)
                    else None
                | _ \<Rightarrow> None)
         | _ \<Rightarrow> None))"
| "zone [] = None"

definition parseRFC3339 :: "string \<Rightarrow> time option" where
  "parseRFC3339 s =
     Option.bind (getyear s) (\<lambda>(y, s).
     Option.bind (field (CHR ''-'') True 1 12 s) (\<lambda>(m, s).
     Option.bind (field (CHR ''-'') True 0 99 s) (\<lambda>(d, s).
     Option.bind (field (CHR ''T'') False 0 23 s) (\<lambda>(hh, s).
     Option.bind (field (CHR '':'') True 0 59 s) (\<lambda>(mm, s).
     Option.bind (field (CHR '':'') True 0 59 s) (\<lambda>(ss, s).
     case fraction s of (ns, s) \<Rightarrow>
     Option.bind (zone s) (\<lambda>(off, s).
       if s \<noteq> [] \<or> d < 1 \<or> monthLength y m < d then None
       else Some (unixTime y m d hh mm ss ns - off * 10 ^ 9))))))))"

text \<open>The day count is right: the day after any date is one more.\<close>

definition nextDate :: "int \<Rightarrow> int \<Rightarrow> int \<Rightarrow> int \<times> int \<times> int" where
  "nextDate y m d =
     (if d < monthLength y m then (y, m, d + 1)
      else if m < 12 then (y, m + 1, 1) else (y + 1, 1, 1))"

lemma leap_arith:
  assumes "p100 \<Longrightarrow> p4" and "p400 \<Longrightarrow> p100"
  shows "365 * (y + 1) + (a + (if p4 then 1 else 0)) - (b + (if p100 then 1 else 0))
      + (c + (if p400 then 1 else 0)) + 1
    = (365 * y + a - b + c + 1) + (if p4 \<and> (\<not> p100 \<or> p400) then 366 else (365 :: int))"
  using assms by (cases p4; cases p100; cases p400) simp_all

lemma daysBeforeYear_step: "daysBeforeYear (y + 1) = daysBeforeYear y + (if isLeap y then 366 else 365)"
proof -
  have step: "y div k = (y - 1) div k + (if y mod k = 0 then 1 else 0)" if k: "0 < k" for k :: int
  proof (cases "(y - 1) mod k + 1 = k")
    case True
    then have "y = k * ((y - 1) div k) + k"
      using mult_div_mod_eq [of k "y - 1"] by linarith
    then have "y = k * ((y - 1) div k + 1) + 0" by (simp only: distrib_left mult_1_right add_0_right)
    from int_div_pos_eq [OF this] int_mod_pos_eq [OF this] k show ?thesis by simp
  next
    case False
    then have y: "y = k * ((y - 1) div k) + ((y - 1) mod k + 1)" and r: "0 \<le> (y - 1) mod k"
        "(y - 1) mod k + 1 < k"
      using mult_div_mod_eq [of k "y - 1"] pos_mod_bound [OF k, of "y - 1"] pos_mod_sign [OF k, of "y - 1"]
      by linarith+
    then show ?thesis using int_div_pos_eq [OF y] int_mod_pos_eq [OF y] by simp
  qed
  have m: "y mod 100 = 0 \<Longrightarrow> y mod 4 = 0" "y mod 400 = 0 \<Longrightarrow> y mod 100 = 0"
    using mod_mod_cancel [of 4 100 y] mod_mod_cancel [of 100 400 y] by simp_all
  have "daysBeforeYear (y + 1) = 365 * (y + 1) + y div 4 - y div 100 + y div 400 + 1"
    by (simp add: daysBeforeYear_def)
  also have "\<dots> = daysBeforeYear y + (if isLeap y then 366 else 365)"
    unfolding daysBeforeYear_def isLeap_def step [of 4, simplified] step [of 100, simplified]
      step [of 400, simplified]
    by (rule leap_arith) (fact m)+
  finally show ?thesis .
qed

lemma daysBefore_step:
  assumes "1 \<le> m" and "m < 12"
  shows "daysBefore (m + 1) = daysBefore m + (if m = 2 then 28 else monthLength y m)"
proof -
  from assms have "m = 1 \<or> m = 2 \<or> m = 3 \<or> m = 4 \<or> m = 5 \<or> m = 6 \<or> m = 7 \<or> m = 8 \<or> m = 9
      \<or> m = 10 \<or> m = 11" by presburger
  then show ?thesis by (auto simp: daysBefore_def monthLength_def numeral_nat)
qed

lemma unixDay_next:
  assumes "1 \<le> m" and "m \<le> 12" and "d \<le> monthLength y m"
  shows "case nextDate y m d of (y', m', d') \<Rightarrow> unixDay y' m' d' = unixDay y m d + 1"
proof -
  consider "d < monthLength y m" | "d = monthLength y m" "m < 12" | "d = monthLength y m" "m = 12"
    using assms by linarith
  then show ?thesis
  proof cases
    case 1
    then show ?thesis by (simp add: nextDate_def unixDay_def)
  next
    case 2
    then show ?thesis
      using daysBefore_step [OF assms(1), of y]
      by (auto simp: nextDate_def unixDay_def monthLength_def)
  next
    case 3
    then show ?thesis
      using daysBeforeYear_step [of y]
      by (simp add: nextDate_def unixDay_def monthLength_def daysBefore_def)
  qed
qed

section \<open>Writing RFC 3339\<close>

definition digit :: "int \<Rightarrow> char" where
  "digit n = char_of (nat (48 + n))"

definition twoDigits :: "int \<Rightarrow> string" where
  "twoDigits n = [digit (n div 10), digit (n mod 10)]"

definition fourDigits :: "int \<Rightarrow> string" where
  "fourDigits n = twoDigits (n div 100) @ twoDigits (n mod 100)"

text \<open>The text of a time in UTC with whole seconds, as \<open>Format(time.RFC3339)\<close> writes it.\<close>

definition formatRFC3339 :: "int \<Rightarrow> int \<Rightarrow> int \<Rightarrow> int \<Rightarrow> int \<Rightarrow> int \<Rightarrow> string" where
  "formatRFC3339 y m d hh mm ss = fourDigits y @ ''-'' @ twoDigits m @ ''-'' @ twoDigits d @ ''T''
     @ twoDigits hh @ '':'' @ twoDigits mm @ '':'' @ twoDigits ss @ ''Z''"

lemma digit_simps [simp]:
  assumes "0 \<le> n" and "n \<le> 9"
  shows "isDigit (digit n)" and "digitVal (digit n) = n"
proof -
  have code: "(of_char (digit n) :: nat) = nat (48 + n)"
    using assms by (simp add: digit_def)
  moreover have "(of_char (digit n) :: int) = int (of_char (digit n))"
    by (simp only: of_nat_of_char)
  ultimately have "(of_char (digit n) :: int) = 48 + n" using assms by simp
  with assms code show "isDigit (digit n)" "digitVal (digit n) = n"
    by (auto simp: isDigit_def digitVal_def)
qed

lemma div_mod_digits:
  fixes n :: int
  assumes "0 \<le> n" and "n < k * j" and "0 < k"
  shows "0 \<le> n div k" "n div k \<le> j - 1" "0 \<le> n mod k" "n mod k \<le> k - 1"
proof -
  have "n div k < j"
  proof (rule ccontr)
    assume "\<not> n div k < j"
    then have "k * j \<le> k * (n div k)" using assms(3) by simp
    also have "\<dots> \<le> n" using mult_div_mod_eq [of k n] pos_mod_sign [OF assms(3), of n] by linarith
    finally show False using assms(2) by simp
  qed
  with assms show "0 \<le> n div k" "n div k \<le> j - 1" "0 \<le> n mod k" "n mod k \<le> k - 1"
    using pos_mod_bound [of k n] by (simp_all add: pos_imp_zdiv_nonneg_iff)
qed

lemma getnum_twoDigits [simp]:
  assumes "0 \<le> n" and "n \<le> 99"
  shows "getnum fixed (twoDigits n @ s) = Some (n, s)"
  using assms div_mod_digits [of n 10 10] by (simp add: twoDigits_def)

lemma getyear_fourDigits [simp]:
  assumes "0 \<le> n" and "n \<le> 9999"
  shows "getyear (fourDigits n @ s) = Some (n, s)"
proof -
  have pair: "numVal a (twoDigits k @ s) = numVal (a * 100 + k) s \<and> list_all isDigit (twoDigits k)"
    if "0 \<le> k" "k \<le> 99" for a k :: int and s
  proof -
    have "(a * 10 + k div 10) * 10 + k mod 10 = a * 100 + k"
      using mult_div_mod_eq [of 10 k] by (simp add: algebra_simps)
    with that div_mod_digits [of k 10 10] show ?thesis
      by (simp add: twoDigits_def del: distrib_right_numeral)
  qed
  have "getyear (fourDigits n @ s) =
      (if list_all isDigit (fourDigits n) then Some (numVal 0 (fourDigits n), s) else None)"
    by (simp add: fourDigits_def twoDigits_def)
  with pair [of "n div 100" 0] pair [of "n mod 100" "n div 100" "[]"] assms
    div_mod_digits [of n 100 100]
  show ?thesis by (simp add: fourDigits_def)
qed

lemma field_twoDigits [simp]:
  "0 \<le> n \<Longrightarrow> n \<le> 99 \<Longrightarrow> lo \<le> n \<Longrightarrow> n \<le> hi \<Longrightarrow>
   field sep fixed lo hi (sep # twoDigits n @ s) = Some (n, s)"
  by (simp add: field_def)

lemma fraction_Z [simp]: "fraction ''Z'' = (0, ''Z'')"
  by (simp add: fraction_def)

lemma monthLength_le: "monthLength y m \<le> 31"
  by (simp add: monthLength_def)

lemma parse_format:
  assumes "0 \<le> y" "y \<le> 9999" "1 \<le> m" "m \<le> 12" "1 \<le> d" "d \<le> monthLength y m"
    and "0 \<le> hh" "hh \<le> 23" "0 \<le> mm" "mm \<le> 59" "0 \<le> ss" "ss \<le> 59"
  shows "parseRFC3339 (formatRFC3339 y m d hh mm ss) = Some (unixTime y m d hh mm ss 0)"
  using assms monthLength_le [of y m]
  by (simp add: parseRFC3339_def formatRFC3339_def)

end
