(* ===== verification/Reconcile.thy ===== *)
theory Reconcile
  imports Tls Status Spec_Merge Go_Time
begin

text \<open>
  The reconcilers: exposure (\<open>internal/controller/ingress.go\<close>), deletion
  (\<open>internal/controller/helpers.go\<close>) and the main loop with its two modes
  (\<open>internal/controller/buildkitbuilder_controller.go\<close>).
\<close>

section \<open>Exposure\<close>

definition reconcileExposure :: "'w env \<Rightarrow> Builder \<Rightarrow> ('w, unit) prog" where
  "reconcileExposure E b =
     (case bs_exposure (b_spec b) of
        None \<Rightarrow> seqP (deleteIngressRouteIfExists E b) (deleteBuilderServerCert E b)
      | Some ex \<Rightarrow>
          if \<not> ex_enabled ex
          then seqP (deleteIngressRouteIfExists E b) (deleteBuilderServerCert E b)
          else if ex_ingressController ex \<noteq> [] \<and> ex_ingressController ex \<noteq> IngressControllerTraefik
          then throw (UnsupportedIngressController (ex_ingressController ex))
          else
            seqP (ensureBuilderServerCert E b)
              (let desired = ingressRouteForBuilder b ex in
               bindP (SetControllerReference E b (ir_meta desired)) (\<lambda>m.
                 createOrUpdateIngressRoute E (desired\<lparr>ir_meta := m\<rparr>))))"

section \<open>Resolving the specification\<close>

definition resolveSpec :: "'w env \<Rightarrow> Builder \<Rightarrow> ('w, TemplateSpec) prog" where
  "resolveSpec E b =
     bindP
       (case bs_templateRef (b_spec b) of
          None \<Rightarrow> ret None
        | Some ref \<Rightarrow>
            bindP (get_as E KTemplate as_template (ObjectKey (b_namespace b) ref)) (\<lambda>r.
              case r of
                Inl e \<Rightarrow> throw (TemplateNotFound ref (b_namespace b) e)
              | Inr tmpl \<Rightarrow> ret (Some (bt_spec tmpl))))
       (\<lambda>base.
          let base = (case bs_template (b_spec b) of
                        None \<Rightarrow> base
                      | Some t \<Rightarrow> Some (mergeSpec base (Some t)))
          in case base of None \<Rightarrow> throw EitherTemplateRequired | Some spec \<Rightarrow> ret spec)"

section \<open>Deletion\<close>

definition reconcileDelete :: "'w env \<Rightarrow> Builder \<Rightarrow> ('w, result) prog" where
  "reconcileDelete E b =
     (if lib_ContainsFinalizer E (b_meta b) FinalizerPVC then
        let b = b\<lparr>b_meta := lib_RemoveFinalizer E (b_meta b) FinalizerPVC\<rparr>
        in seqP (return_err (client_Update E (OBuilder b))) (ret no_requeue)
      else ret no_requeue)"

section \<open>Persistent mode\<close>

definition reconcilePersistent :: "'w env \<Rightarrow> Builder \<Rightarrow> TemplateSpec \<Rightarrow> ('w, result) prog" where
  "reconcilePersistent E b spec =
     seqP (ensureBuildkitdConfigMap E b spec)
     (let replicas = (case bs_replicas (b_spec b) of None \<Rightarrow> 1 | Some n \<Rightarrow> n) in
      seqP (createOrUpdateService E (headlessServiceForBuilder b))
     (seqP (createOrUpdateService E (nodePortServiceForBuilder b))
     (seqP (reconcileExposure E b)
     (seqP
       (if cacheIsPVC spec then
          (case pvcForBuilder E b spec of
             Panic p \<Rightarrow> panic p
           | Err e \<Rightarrow> throw e
           | Ok p \<Rightarrow> bindP (SetControllerReference E b (pvc_meta p)) (\<lambda>m.
               createOrUpdatePVC E (p\<lparr>pvc_meta := m\<rparr>)))
        else ret ())
      (let sts = statefulSetForBuilder E b spec replicas in
       bindP (SetControllerReference E b (sts_meta sts)) (\<lambda>m.
       seqP (createOrUpdateStatefulSet E (sts\<lparr>sts_meta := m\<rparr>))
      (bindP (resolveStatefulSetEndpoint E b) (\<lambda>(endpoint, readyReplicas).
         if endpoint = [] then ret \<lparr>requeueAfter = 5 * time_Second\<rparr>
         else bindP (resolveNodePort E b) (\<lambda>nodePort.
           updateStatus E b ''Ready'' endpoint readyReplicas replicas nodePort)))))))))"

section \<open>Sleepy mode\<close>

text \<open>
  The number of replicas wanted: the clock is read only when the annotation is there and
  parses.
\<close>

definition sleepyDesiredReplicas :: "'w env \<Rightarrow> Builder \<Rightarrow> int32 \<Rightarrow> ('w, int32) prog" where
  "sleepyDesiredReplicas E b idleTimeout =
     (let lastUsedStr = gomap_get (om_annotations (b_meta b)) AnnotationLastUsed in
      if lastUsedStr = [] then ret 1
      else
        case parseRFC3339 lastUsedStr of
          None \<Rightarrow> ret 0
        | Some lastUsed \<Rightarrow>
            bindP (time_Now E) (\<lambda>now.
              ret (if time_Sub now lastUsed <s seconds32 idleTimeout then 1 else 0)))"

definition reconcileSleepy :: "'w env \<Rightarrow> Builder \<Rightarrow> TemplateSpec \<Rightarrow> ('w, result) prog" where
  "reconcileSleepy E b spec =
     seqP (ensureBuildkitdConfigMap E b spec)
     (let idleTimeout = (case bs_idleTimeoutSeconds (b_spec b) of None \<Rightarrow> 300 | Some n \<Rightarrow> n) in
      seqP (createOrUpdateService E (headlessServiceForBuilder b))
     (seqP (createOrUpdateService E (nodePortServiceForBuilder b))
     (seqP (reconcileExposure E b)
     (seqP
       (if cacheIsPVC spec then
          (case pvcForBuilder E b spec of
             Panic p \<Rightarrow> panic p
           | Err e \<Rightarrow> throw e
           | Ok p \<Rightarrow> bindP (SetControllerReference E b (pvc_meta p)) (\<lambda>m.
               createOrUpdatePVC E (p\<lparr>pvc_meta := m\<rparr>)))
        else ret ())
      (bindP (sleepyDesiredReplicas E b idleTimeout) (\<lambda>desiredReplicas.
       let sts = statefulSetForBuilder E b spec desiredReplicas in
       bindP (SetControllerReference E b (sts_meta sts)) (\<lambda>m.
       seqP (createOrUpdateStatefulSet E (sts\<lparr>sts_meta := m\<rparr>))
      (let phase = (if desiredReplicas = 1 then ''Ready'' else ''ScalingDown'') in
       bindP (if desiredReplicas = 1 then resolveStatefulSetEndpoint E b else ret ([], 0))
         (\<lambda>(endpoint, readyReplicas).
       bindP (time_Now E) (\<lambda>now.
       bindP (resolveNodePort E b) (\<lambda>nodePort.
       seqP (updateStatusWithLastScaled E b phase endpoint readyReplicas desiredReplicas nodePort (Some now))
         (ret \<lparr>requeueAfter = 30 * time_Second\<rparr>)))))))))))) "

section \<open>The main loop\<close>

definition Reconcile :: "'w env \<Rightarrow> obj_key \<Rightarrow> ('w, result) prog" where
  "Reconcile E req =
     bindP (get_as E KBuilder as_builder req) (\<lambda>r.
       case r of
         Inl e \<Rightarrow> if IsNotFound e then ret no_requeue else throw (ApiError e)
       | Inr builder \<Rightarrow>
           handleP (resolveSpec E builder)
             (\<lambda>e. seqP (recorder_Event (meta_key (b_meta builder)) ''SpecResolution'' e) (throw e))
             (\<lambda>spec.
                if om_deletionTimestamp (b_meta builder) \<noteq> None then reconcileDelete E builder
                else if bs_mode (b_spec builder) = BuilderModePersistent
                then reconcilePersistent E builder spec
                else if bs_mode (b_spec builder) = BuilderModeSleepy
                then reconcileSleepy E builder spec
                else throw (UnknownMode (bs_mode (b_spec builder)))))"

end
