(* ===== verification/Tls_Facts.thy ===== *)
theory Tls_Facts
  imports Tls
begin

text \<open>
  What the certificate operations of theory \<open>Tls\<close> leave in the store, for any API server that
  keeps \<open>api_laws\<close> and libraries that keep \<open>crypto_laws\<close>: a weakest-precondition rule per
  operation, each from the rules of the calls it makes.
\<close>


section \<open>What is assumed of the libraries\<close>

text \<open>
  A PEM block and a PKCS#1 key decode to what was encoded, and a certificate made from a
  template parses to one with the template's subject, names, dates to the second, the given
  public key, and the signer's.
\<close>

definition cert_matches ::
  "certificate \<Rightarrow> rsa_public_key \<Rightarrow> rsa_private_key \<Rightarrow> certificate \<Rightarrow> bool" where
  "cert_matches t pub signer c \<longleftrightarrow>
     crt_commonName c = crt_commonName t \<and> crt_dnsNames c = crt_dnsNames t
     \<and> crt_isCA c = crt_isCA t
     \<and> crt_notAfter c \<le> crt_notAfter t \<and> crt_notAfter t < crt_notAfter c + 10 ^ 9
     \<and> crt_publicKey c = Some pub \<and> crt_signedBy c = Some (PublicKey signer)"

definition pem_law :: "'w env \<Rightarrow> bool" where
  "pem_law E \<longleftrightarrow> (\<forall>t d. pem_Decode E (pem_EncodeToMemory E t d) = Some (t, d))"

definition pkcs1_law :: "'w env \<Rightarrow> bool" where
  "pkcs1_law E \<longleftrightarrow> (\<forall>k. x509_ParsePKCS1PrivateKey E (x509_MarshalPKCS1PrivateKey E k) = Inr k)"

definition x509_law :: "'w env \<Rightarrow> bool" where
  "x509_law E \<longleftrightarrow> (\<forall>t parent pub signer w der w'.
     x509_CreateCertificate E t parent pub signer w = (Inr der, w') \<longrightarrow>
     (\<exists>c. x509_ParseCertificate E der = Inr c \<and> cert_matches t pub signer c))"

definition crypto_laws :: "'w env \<Rightarrow> bool" where
  "crypto_laws E \<longleftrightarrow> pem_law E \<and> pkcs1_law E \<and> x509_law E"

lemma x509_lawD:
  assumes "crypto_laws E"
    and "x509_CreateCertificate E t parent pub signer w = (Inr der, w')"
  shows "\<exists>c. x509_ParseCertificate E der = Inr c \<and> cert_matches t pub signer c"
  using assms(1) [unfolded crypto_laws_def] assms(2)
  by (elim conjE) (rule x509_law_def [THEN iffD1, rule_format])

lemma parse_encoded:
  assumes "crypto_laws E" and "x509_ParseCertificate E der = Inr c"
  shows "parseCertAndKey E (encodeCertPEM E der) (encodeKeyPEM E key) = Inr (c, key)"
  using assms by (simp add: crypto_laws_def pem_law_def pkcs1_law_def parseCertAndKey_def
      encodeCertPEM_def encodeKeyPEM_def)

text \<open>The errors that come from outside: they say nothing about the builder.\<close>

fun infra :: "go_err \<Rightarrow> bool" where
  "infra (ApiError e) = True"
| "infra (LibError m) = True"
| "infra (ParsingExistingCA e) = True"
| "infra _ = False"

text \<open>
  And their causes: a mishap of the server; a library that fails to generate, draw, sign, to
  read a certificate it has just made or to own an object without owner, or one it owns; or
  an authority in the store that cannot be read.
\<close>

definition ownable :: "'w env \<Rightarrow> Builder \<Rightarrow> object_meta \<Rightarrow> bool" where
  "ownable E b m \<longleftrightarrow> om_ownerReferences m = []
     \<or> (\<exists>m0. om_ownerReferences m0 = [] \<and> lib_SetControllerReference E b m0 = Inr m)"

lemma ownable_new: "om_ownerReferences m = [] \<Longrightarrow> ownable E b m"
  by (simp add: ownable_def)

definition lib_fault :: "'w env \<Rightarrow> string \<Rightarrow> bool" where
  "lib_fault E m \<longleftrightarrow>
     (\<exists>w. fst (rsa_GenerateKey E w) = Inl m)
     \<or> (\<exists>n w. fst (rand_Int E n w) = Inl m)
     \<or> (\<exists>t p pub priv w. fst (x509_CreateCertificate E t p pub priv w) = Inl m)
     \<or> (\<exists>t p pub priv w d. fst (x509_CreateCertificate E t p pub priv w) = Inr d
          \<and> x509_ParseCertificate E d = Inl m)
     \<or> (\<exists>b meta. lib_SetControllerReference E b meta = Inl m \<and> ownable E b meta)"

lemma lib_faultI:
  "rsa_GenerateKey E w = (Inl m, w') \<Longrightarrow> lib_fault E m"
  "rand_Int E n w = (Inl m, w') \<Longrightarrow> lib_fault E m"
  "x509_CreateCertificate E t p pub priv w = (Inl m, w') \<Longrightarrow> lib_fault E m"
  "x509_CreateCertificate E t p pub priv w = (Inr d, w') \<Longrightarrow> x509_ParseCertificate E d = Inl m \<Longrightarrow> lib_fault E m"
  "lib_SetControllerReference E b meta = Inl m \<Longrightarrow> ownable E b meta \<Longrightarrow> lib_fault E m"
  unfolding lib_fault_def by (metis fst_conv)+

definition hiccup :: "'w env \<Rightarrow> ('w \<Rightarrow> store) \<Rightarrow> go_err \<Rightarrow> bool" where
  "hiccup E obs e \<longleftrightarrow>
     (case e of ApiError a \<Rightarrow> mishap E obs a | LibError m \<Rightarrow> lib_fault E m | _ \<Rightarrow> False)"

lemma hiccup_simps [simp]:
  "hiccup E obs (ApiError a) = mishap E obs a" "hiccup E obs (LibError m) = lib_fault E m"
  by (simp_all add: hiccup_def)

lemma hiccup_infra: "hiccup E obs e \<Longrightarrow> infra e"
  by (cases e) (simp_all add: hiccup_def)

section \<open>Calls that leave the store alone\<close>

lemma wp_time_Now:
  "(\<And>t w'. clock E (world s) = (t, w') \<Longrightarrow> Q t (s\<lparr>world := w'\<rparr>)) \<Longrightarrow> wp (time_Now E) Q X s"
  by (simp add: wp_def time_Now_def split: prod.split)

lemma wp_lib_call:
  "(\<And>x w'. f (world s) = (Inr x, w') \<Longrightarrow> Q x (s\<lparr>world := w'\<rparr>)) \<Longrightarrow>
   (\<And>m w'. f (world s) = (Inl m, w') \<Longrightarrow> X (Some (LibError m)) (s\<lparr>world := w'\<rparr>)) \<Longrightarrow>
   wp (lib_call f) Q X s"
  by (simp add: wp_def lib_call_def split: prod.split sum.split)

lemma wp_time_stored:
  assumes "api_laws E obs"
    and "\<And>t s'. stored obs s' = stored obs s \<Longrightarrow> t = fst (clock E (world s)) \<Longrightarrow> Q t s'"
  shows "wp (time_Now E) Q X s"
proof (rule wp_time_Now, rule assms(2))
  fix t w' assume "clock E (world s) = (t, w')"
  then show "stored obs (s\<lparr>world := w'\<rparr>) = stored obs s" "t = fst (clock E (world s))"
    using quiet_lawD(1) [OF api_lawsD(7) [OF assms(1)], of "world s"] by simp_all
qed

lemma wp_lib_stored:
  assumes "\<And>w. obs (snd (f w)) = obs w"
    and "\<And>x s'. stored obs s' = stored obs s \<Longrightarrow> f (world s) = (Inr x, world s') \<Longrightarrow> Q x s'"
    and "\<And>m s'. stored obs s' = stored obs s \<Longrightarrow> f (world s) = (Inl m, world s') \<Longrightarrow> X (Some (LibError m)) s'"
  shows "wp (lib_call f) Q X s"
proof (rule wp_lib_call)
  fix x w' assume f: "f (world s) = (Inr x, w')"
  then show "Q x (s\<lparr>world := w'\<rparr>)" using assms(1) [of "world s"] by (intro assms(2)) simp_all
next
  fix m w' assume f: "f (world s) = (Inl m, w')"
  then show "X (Some (LibError m)) (s\<lparr>world := w'\<rparr>)"
    using assms(1) [of "world s"] by (intro assms(3)) simp_all
qed

lemma wp_randSerial:
  assumes laws: "api_laws E obs"
    and ok: "\<And>n s'. stored obs s' = stored obs s \<Longrightarrow> Q n s'"
    and fail: "\<And>m s'. stored obs s' = stored obs s \<Longrightarrow> lib_fault E m \<Longrightarrow> X (Some (LibError m)) s'"
  shows "wp (randSerial E) Q X s"
  unfolding randSerial_def
  by (rule wp_lib_stored [where obs = obs, OF quiet_lawD(3) [OF api_lawsD(7) [OF laws]]])
    (auto intro: ok fail lib_faultI)

section \<open>Certificates made\<close>

lemma wp_generateCA:
  assumes laws: "api_laws E obs"
    and ok: "\<And>cert key crtPEM keyPEM s'. stored obs s' = stored obs s \<Longrightarrow>
        (crypto_laws E \<Longrightarrow> parseCertAndKey E crtPEM keyPEM = Inr (cert, key)) \<Longrightarrow>
        Q (cert, key, crtPEM, keyPEM) s'"
    and fail: "\<And>e s'. stored obs s' = stored obs s \<Longrightarrow> hiccup E obs e \<Longrightarrow> X (Some e) s'"
  shows "wp (generateCA E ns) Q X s"
  unfolding generateCA_def wp_bind Let_def
  apply (rule wp_lib_stored [where obs = obs, OF quiet_lawD(2) [OF api_lawsD(7) [OF laws]]])
   apply (rule wp_randSerial [OF laws])
    apply (rule wp_time_stored [OF laws])
    apply (rule wp_time_stored [OF laws])
    apply (rule wp_lib_stored [where obs = obs, OF quiet_lawD(4) [OF api_lawsD(7) [OF laws]]])
  by (auto intro!: fail ok dest: parse_encoded intro: lib_faultI split: sum.split)

lemma wp_signServerCert:
  assumes laws: "api_laws E obs"
    and ok: "\<And>crtPEM keyPEM s'. stored obs s' = stored obs s \<Longrightarrow>
        (crypto_laws E \<Longrightarrow> \<exists>cert key now w. parseCertAndKey E crtPEM keyPEM = Inr (cert, key)
           \<and> now = fst (clock E w) \<and> crt_dnsNames cert = [host]
           \<and> crt_signedBy cert = Some (PublicKey caKey) \<and> crt_publicKey cert = Some (PublicKey key)
           \<and> crt_notAfter cert \<le> now + serverValidity
           \<and> now + serverValidity < crt_notAfter cert + 10 ^ 9) \<Longrightarrow>
        Q (crtPEM, keyPEM) s'"
    and fail: "\<And>e s'. stored obs s' = stored obs s \<Longrightarrow> hiccup E obs e \<Longrightarrow> X (Some e) s'"
  shows "wp (signServerCert E caCert caKey host) Q X s"
  unfolding signServerCert_def wp_bind Let_def
proof (rule wp_lib_stored [where obs = obs, OF quiet_lawD(2) [OF api_lawsD(7) [OF laws]]])
  fix key s1 assume s1: "stored obs s1 = stored obs s"
  show "wp (randSerial E) (\<lambda>serial. wp (time_Now E) (\<lambda>now1. wp (time_Now E) (\<lambda>now2.
      wp (lib_call (x509_CreateCertificate E (serverTemplate host serial (now1 - 5 * time_Minute)
            (now2 + serverValidity)) caCert (PublicKey key) caKey))
        (\<lambda>der. wp (ret (encodeCertPEM E der, encodeKeyPEM E key)) Q X) X) X) X) X s1"
  proof (rule wp_randSerial [OF laws], goal_cases)
    case (1 serial s2)
    show ?case
    proof (rule wp_time_stored [OF laws], rule wp_time_stored [OF laws], goal_cases)
      case (1 now1 s3 now2 s4)
      show ?case
      proof (rule wp_lib_stored [where obs = obs, OF quiet_lawD(4) [OF api_lawsD(7) [OF laws]]], goal_cases)
        case (1 der s5)
        let ?t = "serverTemplate host serial (now1 - 5 * time_Minute) (now2 + serverValidity)"
        have "\<exists>cert key now w. parseCertAndKey E (encodeCertPEM E der) (encodeKeyPEM E key') = Inr (cert, key)
           \<and> now = fst (clock E w) \<and> crt_dnsNames cert = [host]
           \<and> crt_signedBy cert = Some (PublicKey caKey) \<and> crt_publicKey cert = Some (PublicKey key)
           \<and> crt_notAfter cert \<le> now + serverValidity
           \<and> now + serverValidity < crt_notAfter cert + 10 ^ 9"
          if crypto: "crypto_laws E" and same: "key' = key" for key'
        proof -
          obtain c where c: "x509_ParseCertificate E der = Inr c"
            and m: "cert_matches ?t (PublicKey key) caKey c"
            using x509_lawD [OF crypto 1(2)] by blast
          from parse_encoded [OF crypto c] m show ?thesis
            using \<open>now2 = _\<close> same
            by (intro exI [of _ c] exI [of _ key] exI [of _ now2] exI)
              (auto simp: cert_matches_def serverTemplate_def)
        qed
        with 1(1) \<open>stored obs s4 = _\<close> \<open>stored obs s3 = _\<close> \<open>stored obs s2 = _\<close> s1
        show ?case by (simp add: ok)
      qed (use \<open>stored obs s4 = _\<close> \<open>stored obs s3 = _\<close> \<open>stored obs s2 = _\<close> s1 in
          \<open>auto intro!: fail intro: lib_faultI\<close>)
    qed
  qed (use s1 in \<open>simp add: fail\<close>)
qed (auto intro!: fail intro: lib_faultI)


section \<open>The two operations\<close>

abbreviation ca_key :: "string \<Rightarrow> obj_key" where
  "ca_key ns \<equiv> ObjectKey ns caSecretName"

abbreviation tls_key :: "Builder \<Rightarrow> obj_key" where
  "tls_key b \<equiv> ObjectKey (b_namespace b) (builderTLSSecretName b)"

lemma tls_key_not_ca: "tls_key b \<noteq> ca_key ns"
  by (simp add: builderTLSSecretName_def caSecretName_def)

text \<open>The store holds a readable authority.\<close>

definition ca_in :: "'w env \<Rightarrow> store \<Rightarrow> string \<Rightarrow> bytes \<times> certificate \<times> rsa_private_key \<Rightarrow> bool" where
  "ca_in E st ns ca \<longleftrightarrow> (case ca of (pem, cert, key) \<Rightarrow>
     \<exists>sec. st KSecret (ca_key ns) = Some (OSecret sec) \<and> data_get (sec_data sec) ''ca.crt'' = pem
       \<and> parseCertAndKey E pem (data_get (sec_data sec) ''ca.key'') = Inr (cert, key))"

definition ca_unreadable :: "'w env \<Rightarrow> store \<Rightarrow> string \<Rightarrow> bool" where
  "ca_unreadable E st ns \<longleftrightarrow>
     (\<exists>sec e. st KSecret (ca_key ns) = Some (OSecret sec)
        \<and> parseCertAndKey E (data_get (sec_data sec) ''ca.crt'') (data_get (sec_data sec) ''ca.key'') = Inl e)"

definition fault :: "'w env \<Rightarrow> ('w \<Rightarrow> store) \<Rightarrow> store \<Rightarrow> string \<Rightarrow> go_err \<Rightarrow> bool" where
  "fault E obs st ns e \<longleftrightarrow> hiccup E obs e \<or> (\<exists>x. e = ParsingExistingCA x) \<and> ca_unreadable E st ns"

definition ca_known :: "'w env \<Rightarrow> store \<Rightarrow> string \<Rightarrow> bool" where
  "ca_known E st ns \<longleftrightarrow> (\<exists>ca. ca_in E st ns ca)"

lemma ca_known_readable: "ca_known E st ns \<Longrightarrow> \<not> ca_unreadable E st ns"
  by (auto simp: ca_known_def ca_in_def ca_unreadable_def)

lemma ca_known_frame:
  "st' KSecret (ca_key ns) = st KSecret (ca_key ns) \<Longrightarrow> ca_known E st' ns = ca_known E st ns"
  by (simp add: ca_known_def ca_in_def)

lemma hiccup_fault: "hiccup E obs e \<Longrightarrow> fault E obs st ns e"
  by (simp add: fault_def)

lemma fault_simps [simp]:
  "fault E obs st ns (ApiError a) = mishap E obs a" "fault E obs st ns (LibError m) = lib_fault E m"
  by (simp_all add: fault_def)

lemma fault_infra: "fault E obs st ns e \<Longrightarrow> infra e"
  by (auto simp: fault_def hiccup_infra)

lemma data_get_simps [simp]:
  "data_get ((k, v) # d) k' = (if k = k' then v else data_get d k')"
  "data_get [] k' = []"
  by (simp_all add: data_get_def gomap_get_def)

lemma wp_owner:
  assumes "owner_refs_only E"
    and "\<And>refs. lib_SetControllerReference E b m = Inr (m\<lparr>om_ownerReferences := refs\<rparr>) \<Longrightarrow>
        Q (m\<lparr>om_ownerReferences := refs\<rparr>) s"
    and "\<And>e. (ownable E b m \<Longrightarrow> lib_fault E e) \<Longrightarrow> X (Some (LibError e)) s"
  shows "wp (SetControllerReference E b m) Q X s"
proof (cases "lib_SetControllerReference E b m")
  case (Inl e)
  then have "X (Some (LibError e)) s" by (intro assms(3)) (rule lib_faultI(5))
  with Inl show ?thesis by (simp add: SetControllerReference_def)
next
  case (Inr m')
  then obtain refs where "m' = m\<lparr>om_ownerReferences := refs\<rparr>"
    using assms(1) unfolding owner_refs_only_def by blast
  with Inr show ?thesis by (simp add: SetControllerReference_def assms(2))
qed

lemma wp_ensureNamespaceCA:
  assumes laws: "api_laws E obs"
    and ok: "\<And>ca ob s'. stored obs s' = store_put KSecret (ca_key ns) (Some ob) (stored obs s) \<Longrightarrow>
        (\<And>old. stored obs s KSecret (ca_key ns) = Some old \<Longrightarrow> ob = old) \<Longrightarrow>
        (crypto_laws E \<Longrightarrow> ca_in E (stored obs s') ns ca) \<Longrightarrow> Q ca s'"
    and fail: "\<And>e v s'. stored obs s' = store_put KSecret (ca_key ns) v (stored obs s) \<Longrightarrow>
        (\<And>old. stored obs s KSecret (ca_key ns) = Some old \<Longrightarrow> v = Some old) \<Longrightarrow>
        fault E obs (stored obs s) ns e \<Longrightarrow> X (Some e) s'"
  shows "wp (ensureNamespaceCA E ns) Q X s"
  unfolding ensureNamespaceCA_def wp_bind
proof (rule wp_get_as [OF laws as_secret_iff kind_secret])
  fix sec s1
  assume same: "stored obs s1 = stored obs s"
    and found: "stored obs s KSecret (ca_key ns) = Some (OSecret sec)"
  have keep: "stored obs s1 = store_put KSecret (ca_key ns) (Some (OSecret sec)) (stored obs s)"
    using store_put_id [of KSecret "ca_key ns" "stored obs s"] by (simp add: same found)
  have good: "Q (data_get (sec_data sec) ''ca.crt'', cert, key) s1"
    if "parseCertAndKey E (data_get (sec_data sec) ''ca.crt'') (data_get (sec_data sec) ''ca.key'')
        = Inr (cert, key)" for cert key
    by (rule ok [OF keep]) (use found same that in \<open>simp_all add: ca_in_def\<close>)
  have bad: "X (Some (ParsingExistingCA e)) s1"
    if "parseCertAndKey E (data_get (sec_data sec) ''ca.crt'') (data_get (sec_data sec) ''ca.key'') = Inl e" for e
    by (rule fail [OF keep]) (use found that in \<open>simp_all add: fault_def ca_unreadable_def\<close>)
  show "wp (case Inr sec of Inr sec \<Rightarrow>
         (case parseCertAndKey E (data_get (sec_data sec) ''ca.crt'') (data_get (sec_data sec) ''ca.key'') of
            Inl err \<Rightarrow> throw (ParsingExistingCA err)
          | Inr (caCert, caKey) \<Rightarrow> ret (data_get (sec_data sec) ''ca.crt'', caCert, caKey))
     | Inl e \<Rightarrow> G e) Q X s1" for G
    using good bad by (auto split: sum.split)
next
  fix e s1
  assume same: "stored obs s1 = stored obs s"
    and absent: "e = NotFound \<Longrightarrow> stored obs s KSecret (ca_key ns) = None"
    and broken: "e \<noteq> NotFound \<Longrightarrow> mishap E obs e"
  have bad: "X (Some e') s'" if "stored obs s' = stored obs s" and "fault E obs (stored obs s) ns e'" for e' s'
    by (rule fail [of _ "stored obs s KSecret (ca_key ns)"]) (simp_all add: that store_put_id)
  show "wp (case Inl e of Inr sec \<Rightarrow> G sec
     | Inl e \<Rightarrow> if \<not> IsNotFound e then throw (ApiError e)
         else bindP (generateCA E ns) (\<lambda>(caCert, caKey, caCertPEM, caKeyPEM).
             bindP (client_Create E (OSecret (caSecret ns caCertPEM caKeyPEM))) (\<lambda>err.
               case err of
                 None \<Rightarrow> ret (caCertPEM, caCert, caKey)
               | Some e \<Rightarrow> if IsAlreadyExists e then H e else throw (ApiError e)))) Q X s1" for G H
  proof (cases "IsNotFound e")
    case False
    then show ?thesis using broken by (simp add: bad same IsNotFound_def)
  next
    case True
    then have none: "stored obs s KSecret (ca_key ns) = None" using absent by (simp add: IsNotFound_def)
    have "wp (generateCA E ns) (\<lambda>(caCert, caKey, caCertPEM, caKeyPEM).
        wp (client_Create E (OSecret (caSecret ns caCertPEM caKeyPEM))) (\<lambda>err. wp (case err of
                 None \<Rightarrow> ret (caCertPEM, caCert, caKey)
               | Some e \<Rightarrow> if IsAlreadyExists e then H e else throw (ApiError e)) Q X) X) X s1"
    proof (rule wp_generateCA [OF laws], goal_cases)
      case (1 cert key crt pkey s2)
      then have s2: "stored obs s2 = stored obs s" using same by simp
      show ?case
        unfolding prod.case
      proof (rule wp_client_Create [OF laws], goal_cases)
        case (1 ob' s')
        then obtain sec where sec: "ob' = OSecret sec" "sec_data sec = sec_data (caSecret ns crt pkey)"
          by (cases ob') simp_all
        have "Q (crt, cert, key) s'"
          by (rule ok [of _ ob'])
            (use 1 none s2 sec \<open>crypto_laws E \<Longrightarrow> _\<close> in \<open>simp_all add: caSecret_def ca_in_def\<close>)
        then show ?case by simp
      next
        case (2 e' v s')
        have "X (Some (ApiError e')) s'"
          by (rule fail [of _ v]) (use 2 none s2 in \<open>simp_all add: caSecret_def\<close>)
        moreover have "e' \<noteq> AlreadyExists"
          using 2(2) none s2 by (auto simp: caSecret_def)
        ultimately show ?case by (simp add: IsAlreadyExists_def)
      qed
    next
      case (2 e' s2)
      then show ?case using same by (simp add: bad hiccup_fault)
    qed
    then show ?thesis using True by (simp add: case_prod_unfold)
  qed
qed


text \<open>
  A certificate in a secret: it is for the host, signed by the key given, and can be used
  until \<open>t\<close>.
\<close>

definition issued :: "'w env \<Rightarrow> string \<Rightarrow> bytes \<times> certificate \<times> rsa_private_key \<Rightarrow> secret \<Rightarrow> bool" where
  "issued E host ca sec \<longleftrightarrow> (case ca of (pem, caCert, caKey) \<Rightarrow>
     gomap_get (om_annotations (sec_meta sec)) certHostAnnotation = host
     \<and> data_get (sec_data sec) ''ca.crt'' = pem
     \<and> (\<exists>cert key w. parseCertAndKey E (data_get (sec_data sec) ''tls.crt'') (data_get (sec_data sec) ''tls.key'')
            = Inr (cert, key)
          \<and> crt_dnsNames cert = [host] \<and> crt_signedBy cert = Some (PublicKey caKey)
          \<and> crt_publicKey cert = Some (PublicKey key)
          \<and> crt_notAfter cert \<le> fst (clock E w) + serverValidity
          \<and> fst (clock E w) + serverValidity < crt_notAfter cert + 10 ^ 9))"

definition usable :: "'w env \<Rightarrow> string \<Rightarrow> time \<Rightarrow> secret \<Rightarrow> bool" where
  "usable E host t sec \<longleftrightarrow>
     gomap_get (om_annotations (sec_meta sec)) certHostAnnotation = host
     \<and> (\<exists>cert key. parseCertAndKey E (data_get (sec_data sec) ''tls.crt'') (data_get (sec_data sec) ''tls.key'')
            = Inr (cert, key) \<and> t \<le> crt_notAfter cert)"

lemma issued_usable:
  assumes "issued E host ca sec" and "\<And>w. t0 \<le> fst (clock E w)"
  shows "usable E host (t0 + renewBefore) sec"
proof -
  obtain cert key w where p: "parseCertAndKey E (data_get (sec_data sec) ''tls.crt'')
        (data_get (sec_data sec) ''tls.key'') = Inr (cert, key)"
    and late: "fst (clock E w) + serverValidity < crt_notAfter cert + 10 ^ 9"
    and host: "gomap_get (om_annotations (sec_meta sec)) certHostAnnotation = host"
    using assms(1) unfolding issued_def by (auto split: prod.splits)
  from late assms(2) [of w] have "t0 + renewBefore \<le> crt_notAfter cert"
    by (simp add: serverValidity_def renewBefore_def time_Hour_def)
  with p host show ?thesis by (simp add: usable_def)
qed

lemma wp_issueServerCert:
  assumes laws: "api_laws E obs" and owner: "owner_refs_only E"
    and found: "\<And>old. found = Some old \<Longrightarrow> meta_key (sec_meta old) = tls_key b
        \<and> stored obs s KSecret (tls_key b) = Some (OSecret old)"
    and fresh: "found = None \<Longrightarrow> stored obs s KSecret (tls_key b) = None"
    and ok: "\<And>sec s'. stored obs s' = store_put KSecret (tls_key b) (Some (OSecret sec)) (stored obs s) \<Longrightarrow>
        (crypto_laws E \<Longrightarrow> issued E host ca sec) \<Longrightarrow> Q (builderTLSSecretName b) s'"
    and fail: "\<And>e v s'. stored obs s' = store_put KSecret (tls_key b) v (stored obs s) \<Longrightarrow>
        hiccup E obs e \<Longrightarrow> X (Some e) s'"
  shows "wp (issueServerCert E b host ca found) Q X s"
proof -
  obtain pem caCert caKey where ca: "ca = (pem, caCert, caKey)" by (cases ca)
  have bad: "X (Some e) s'" if "stored obs s' = stored obs s" and "hiccup E obs e" for e s'
    by (rule fail [of _ "stored obs s KSecret (tls_key b)"]) (simp_all add: that store_put_id)
  show ?thesis
    unfolding issueServerCert_def ca prod.case wp_bind Let_def
  proof (rule wp_signServerCert [OF laws], goal_cases)
    case (1 crt key s1)
    note s1 = 1(1) and cert = 1(2)
    let ?desired = "serverSecret b host pem crt key"
    have sec_ok: "issued E host (pem, caCert, caKey) sec" if "crypto_laws E"
      and "om_annotations (sec_meta sec) = Some anns" and "map_of anns certHostAnnotation = Some host"
      and "sec_data sec = sec_data ?desired" for sec anns
      using that cert by (auto simp: issued_def serverSecret_def gomap_get_def)
    show ?case
      unfolding prod.case wp_bind
    proof (rule wp_owner [OF owner], goal_cases)
      case (1 refs)
      show ?case
      proof (cases found)
        case None
        show ?thesis
          unfolding None option.case wp_bind
        proof (rule wp_client_Create [OF laws], goal_cases)
          case (1 ob' s')
          then obtain sec where sec: "ob' = OSecret sec" "sec_data sec = sec_data ?desired"
            "om_annotations (sec_meta sec) = Some [(certHostAnnotation, host)]"
            by (cases ob') (simp_all add: meta_agrees_def serverSecret_def)
          have "Q (builderTLSSecretName b) s'"
            by (rule ok [of _ sec])
              (use 1 s1 sec sec_ok [OF _ sec(3) _ sec(2)] in \<open>simp_all add: serverSecret_def ca\<close>)
          then show ?case by simp
        next
          case (2 e v s')
          have "e \<noteq> AlreadyExists"
            using 2(2) fresh [OF None] s1 by (auto simp: serverSecret_def)
          moreover have "X (Some (ApiError e)) s'"
            by (rule fail [of _ v]) (use 2 s1 fresh [OF None] in \<open>simp_all add: serverSecret_def\<close>)
          ultimately show ?case by (simp add: IsAlreadyExists_def)
        qed
      next
        case (Some old)
        let ?anns = "gomap_put certHostAnnotation host (gomap_entries (om_annotations (sec_meta old)))"
        show ?thesis
          unfolding Some option.case wp_seq wp_ret
        proof (rule wp_update [OF laws], goal_cases)
          case (1 ob' s')
          then obtain sec where sec: "ob' = OSecret sec" "sec_data sec = sec_data ?desired"
            "om_annotations (sec_meta sec) = Some ?anns"
            by (cases ob') (simp_all add: meta_agrees_def serverSecret_def)
          show ?case
            by (rule ok [of _ sec])
              (use 1 s1 sec sec_ok [OF _ sec(3) _ sec(2)] found [OF Some] in \<open>simp_all add: ca\<close>)
        next
          case (2 e v s')
          show ?case
            by (rule fail [of _ v]) (use 2 s1 found [OF Some] in simp_all)
        qed
      qed
    next
      case (2 e)
      show ?case by (rule bad) (use 2 in \<open>simp_all add: s1 serverSecret_def ownable_new\<close>)
    qed
  next
    case (2 e s1)
    then show ?case by (rule bad)
  qed
qed


lemma ca_in_put [simp]:
  "ca_in E (store_put KSecret (tls_key b) v st) ns ca = ca_in E st ns ca"
  by (simp add: ca_in_def builderTLSSecretName_def caSecretName_def)

lemma wp_serverCertNeedsRenewal:
  assumes laws: "api_laws E obs"
    and "\<And>s'. stored obs s' = stored obs s \<Longrightarrow> Q True s'"
    and "\<And>s'. stored obs s' = stored obs s \<Longrightarrow>
        (\<And>t0. (\<And>w. t0 \<le> fst (clock E w)) \<Longrightarrow> usable E host (t0 + renewBefore) sec) \<Longrightarrow> Q False s'"
  shows "wp (serverCertNeedsRenewal E sec host) Q X s"
proof (cases "gomap_get (om_annotations (sec_meta sec)) certHostAnnotation \<noteq> host")
  case True
  then show ?thesis by (simp add: serverCertNeedsRenewal_def assms(2))
next
  case host: False
  show ?thesis
  proof (cases "parseCertAndKey E (data_get (sec_data sec) ''tls.crt'') (data_get (sec_data sec) ''tls.key'')")
    case (Inl e)
    then show ?thesis by (simp add: serverCertNeedsRenewal_def assms(2))
  next
    case (Inr ck)
    obtain cert key where ck: "ck = (cert, key)" by (cases ck)
    have "wp (time_Now E) (\<lambda>now. Q (now + renewBefore > crt_notAfter cert)) X s"
    proof (rule wp_time_stored [OF laws])
      fix now s'
      assume same: "stored obs s' = stored obs s" and now: "now = fst (clock E (world s))"
      show "Q (now + renewBefore > crt_notAfter cert) s'"
      proof (cases "now + renewBefore > crt_notAfter cert")
        case True
        then show ?thesis using same by (simp add: assms(2))
      next
        case False
        have "usable E host (t0 + renewBefore) sec" if "\<And>w. t0 \<le> fst (clock E w)" for t0
          using that [of "world s"] False now host Inr ck by (simp add: usable_def)
        with False same show ?thesis by (simp add: assms(3))
      qed
    qed
    then show ?thesis using host Inr ck by (simp add: serverCertNeedsRenewal_def)
  qed
qed

lemma wp_ensureBuilderServerCert:
  assumes laws: "api_laws E obs" and owner: "owner_refs_only E"
    and exposed: "bs_exposure (b_spec b) = Some ex"
    and ok: "\<And>caob sec s'. stored obs s' = store_put KSecret (tls_key b) (Some (OSecret sec))
          (store_put KSecret (ca_key (b_namespace b)) (Some caob) (stored obs s)) \<Longrightarrow>
        (\<And>old. stored obs s KSecret (ca_key (b_namespace b)) = Some old \<Longrightarrow> caob = old) \<Longrightarrow>
        (\<And>t0. crypto_laws E \<Longrightarrow> (\<And>w. t0 \<le> fst (clock E w)) \<Longrightarrow>
           usable E (ex_host ex) (t0 + renewBefore) sec) \<Longrightarrow>
        (crypto_laws E \<Longrightarrow> stored obs s KSecret (tls_key b) = None \<Longrightarrow>
           \<exists>ca. ca_in E (stored obs s') (b_namespace b) ca \<and> issued E (ex_host ex) ca sec) \<Longrightarrow>
        (crypto_laws E \<Longrightarrow> ca_known E (stored obs s') (b_namespace b)) \<Longrightarrow>
        ex_host ex \<noteq> [] \<Longrightarrow> Q (builderTLSSecretName b) s'"
    and fail: "\<And>e v v' s'. stored obs s' = store_put KSecret (tls_key b) v
          (store_put KSecret (ca_key (b_namespace b)) v' (stored obs s)) \<Longrightarrow>
        (\<And>old. stored obs s KSecret (ca_key (b_namespace b)) = Some old \<Longrightarrow> v' = Some old) \<Longrightarrow>
        fault E obs (stored obs s) (b_namespace b) e \<or> e = ServerCertHostRequired \<and> ex_host ex = [] \<Longrightarrow> X (Some e) s'"
  shows "wp (ensureBuilderServerCert E b) Q X s"
proof (cases "ex_host ex = []")
  case True
  have "X (Some ServerCertHostRequired) s"
    by (rule fail [of _ "stored obs s KSecret (tls_key b)" "stored obs s KSecret (ca_key (b_namespace b))"])
      (simp_all add: store_put_id True)
  then show ?thesis by (simp add: ensureBuilderServerCert_def exposed True)
next
  case host: False
  have "wp (ensureNamespaceCA E (b_namespace b)) (\<lambda>ca. wp (get_as E KSecret as_secret (tls_key b))
      (\<lambda>getErr. wp (case getErr of
           Inr existing \<Rightarrow>
             bindP (serverCertNeedsRenewal E existing (ex_host ex)) (\<lambda>needs.
               if \<not> needs then ret (builderTLSSecretName b)
               else issueServerCert E b (ex_host ex) ca (Some existing))
         | Inl e \<Rightarrow>
             if \<not> IsNotFound e then throw (ApiError e)
             else issueServerCert E b (ex_host ex) ca None) Q X) X) X s"
  proof (rule wp_ensureNamespaceCA [OF laws], goal_cases)
    case (1 ca caob s1)
    note s1 = 1(1) and caob = 1(2) and ca_in = 1(3)
    have tls1: "stored obs s1 KSecret (tls_key b) = stored obs s KSecret (tls_key b)"
      unfolding s1 by (rule store_put_other) (simp add: builderTLSSecretName_def caSecretName_def)
    have bad: "X (Some e) s'" if "stored obs s' = store_put KSecret (tls_key b) v (stored obs s1)"
      "hiccup E obs e" for e v s'
      by (rule fail [of _ v "Some caob"]) (use that s1 caob in \<open>simp_all add: hiccup_fault\<close>)
    show ?case
    proof (rule wp_get_as [OF laws as_secret_iff kind_secret], goal_cases)
      case (1 old s2)
      note s2 = 1(1) and old = 1(2) and key = 1(3)
      have keep: "stored obs s1 = store_put KSecret (tls_key b) (Some (OSecret old)) (stored obs s1)"
        using store_put_id [of KSecret "tls_key b" "stored obs s1"] by (simp add: old)
      show ?case
        unfolding sum.case wp_bind
      proof (rule wp_serverCertNeedsRenewal [OF laws], goal_cases)
        case (1 s3)
        have "wp (issueServerCert E b (ex_host ex) ca (Some old)) Q X s3"
        proof (rule wp_issueServerCert [OF laws owner], goal_cases)
          case (3 sec s')
          show ?case
            by (rule ok [of _ sec caob])
              (use 3 1 s2 s1 caob old tls1 host ca_in in \<open>auto intro: issued_usable simp: ca_known_def simp del: split_paired_Ex\<close>)
        next
          case (4 e v s')
          show ?case by (rule bad [of _ v]) (use 4 1 s2 in simp_all)
        qed (use key old 1 s2 in simp_all)
        then show ?case by simp
      next
        case (2 s3)
        have "Q (builderTLSSecretName b) s3"
          by (rule ok [of _ old caob])
            (use 2 s2 s1 keep caob old tls1 host ca_in in \<open>auto simp: ca_known_def simp del: split_paired_Ex\<close>)
        then show ?case by simp
      qed
    next
      case (2 e s2)
      note s2 = 2(1) and absent = 2(2) and broken = 2(3)
      show ?case
      proof (cases "IsNotFound e")
        case False
        have "X (Some (ApiError e)) s2"
          by (rule bad [of _ "stored obs s1 KSecret (tls_key b)"]) (use False broken in \<open>simp_all add: s2 store_put_id IsNotFound_def\<close>)
        with False show ?thesis by simp
      next
        case True
        then have none: "stored obs s1 KSecret (tls_key b) = None"
          using absent by (simp add: IsNotFound_def)
        have "wp (issueServerCert E b (ex_host ex) ca None) Q X s2"
        proof (rule wp_issueServerCert [OF laws owner], goal_cases)
          case (3 sec s')
          show ?case
            by (rule ok [of _ sec caob])
              (use 3 s2 s1 caob host ca_in in \<open>auto intro: issued_usable simp: ca_known_def simp del: split_paired_Ex\<close>)
        next
          case (4 e v s')
          show ?case by (rule bad [of _ v]) (use 4 s2 in simp_all)
        qed (use none s2 in simp_all)
        with True show ?thesis by simp
      qed
    qed
  next
    case (2 e v s1)
    have "stored obs s1 = store_put KSecret (tls_key b) (stored obs s1 KSecret (tls_key b))
        (store_put KSecret (ca_key (b_namespace b)) v (stored obs s))"
      using store_put_id [of KSecret "tls_key b" "stored obs s1"] 2(1) by simp
    then show ?case by (rule fail) (use 2 in simp_all)
  qed
  then show ?thesis by (simp add: ensureBuilderServerCert_def exposed host Let_def)
qed


section \<open>Deleting what may be absent\<close>

text \<open>What a delete leaves: nothing, or an object on its way out.\<close>

definition gone :: "kobj option \<Rightarrow> bool" where
  "gone v \<longleftrightarrow> pred_option (\<lambda>ob. om_deletionTimestamp (kobj_meta ob) \<noteq> None) v"

lemma wp_delete_if_exists:
  assumes laws: "api_laws E obs"
    and ok: "\<And>v s'. gone v \<Longrightarrow> stored obs s' = store_put k key v (stored obs s) \<Longrightarrow> Q () s'"
    and fail: "\<And>e v s'. stored obs s' = store_put k key v (stored obs s) \<Longrightarrow> mishap E obs e \<Longrightarrow>
        X (Some (ApiError e)) s'"
  shows "wp (bindP (client_Delete E k key) (\<lambda>err. case err of
      None \<Rightarrow> ret () | Some e \<Rightarrow> if \<not> IsNotFound e then throw (ApiError e) else ret ())) Q X s"
  unfolding wp_bind
proof (rule wp_client_Delete [OF laws], goal_cases)
  case (1 s')
  then obtain v where "stored obs s' = store_put k key v (stored obs s)" and "gone v"
    by (auto simp: removed_def gone_def)
  then have "Q () s'" by (intro ok [of v])
  then show ?case by simp
next
  case (2 s')
  then have "stored obs s' = store_put k key None (stored obs s)"
    using store_put_id [of k key "stored obs s"] by simp
  then have "Q () s'" by (intro ok [of None]) (simp_all add: gone_def)
  then show ?case by simp
next
  case (3 e v s')
  then show ?case by (auto simp: IsNotFound_def intro: fail)
qed

lemmas wp_deleteBuilderServerCert =
  wp_delete_if_exists [where k = KSecret and key = "ObjectKey (b_namespace b) (builderTLSSecretName b)",
    folded deleteBuilderServerCert_def] for b

lemmas wp_deleteIngressRoute =
  wp_delete_if_exists [where k = KIngressRoute and key = "ObjectKey (b_namespace b) (ingressRouteName b)",
    folded deleteIngressRouteIfExists_def] for b

section \<open>The world of Cluster keeps the laws\<close>

lemma decode_enc:
  "dec (enc x @ r) = Some (x, r) \<Longrightarrow> decode dec (enc x @ r) f = f x r"
  by (simp add: decode_def)

lemma dec_enc_cert:
  "dec_cert (enc_cert t (RSAPublicKey p) (RSAPublicKey q)) =
     Inr \<lparr>crt_serialNumber = crt_serialNumber t, crt_commonName = crt_commonName t,
       crt_notBefore = whole_seconds (crt_notBefore t), crt_notAfter = whole_seconds (crt_notAfter t),
       crt_keyUsage = [], crt_extKeyUsage = [], crt_basicConstraintsValid = crt_isCA t,
       crt_isCA = crt_isCA t, crt_maxPathLenZero = crt_isCA t, crt_dnsNames = crt_dnsNames t,
       crt_publicKey = Some (RSAPublicKey p), crt_signedBy = Some (RSAPublicKey q)\<rparr>"
  by (simp add: dec_cert_def enc_cert_def decode_def int_codec.round str_codec.round
      bool_codec.round strs_codec.round nat_codec.round nat_codec.dec_enc)

lemma whole_seconds_bounds: "whole_seconds t \<le> t" "t < whole_seconds t + 10 ^ 9"
proof -
  have "t div 10 ^ 9 * 10 ^ 9 + t mod 10 ^ 9 = t" "0 \<le> t mod 10 ^ 9" "t mod 10 ^ 9 < (10 ^ 9 :: int)"
    by (rule div_mult_mod_eq, simp_all)
  then show "whole_seconds t \<le> t" "t < whole_seconds t + 10 ^ 9"
    unfolding whole_seconds_def by linarith+
qed

lemma mem_crypto_laws: "crypto_laws mem_env"
proof -
  have "pem_law mem_env"
    using str_str.pair_round [of _ "[]"] by (simp add: pem_law_def mem_env_def)
  moreover have "pkcs1_law mem_env"
    by (auto simp: pkcs1_law_def mem_env_def decode_def nat_codec.dec_enc split: rsa_private_key.split)
  moreover have "cert_matches t pub signer (case dec_cert (enc_cert t pub (PublicKey signer)) of Inr c \<Rightarrow> c)
      \<and> (\<exists>c. dec_cert (enc_cert t pub (PublicKey signer)) = Inr c)" for t pub signer
    using whole_seconds_bounds [of "crt_notAfter t"]
    by (cases pub; cases signer) (simp add: dec_enc_cert cert_matches_def)
  then have "x509_law mem_env"
    unfolding x509_law_def by (fastforce simp: mem_env_def)
  ultimately show ?thesis by (simp add: crypto_laws_def)
qed

lemma still_crypto_laws: "crypto_laws (still_env t)"
  using mem_crypto_laws
  by (simp add: crypto_laws_def pem_law_def pkcs1_law_def x509_law_def still_env_def)

lemma mem_lib_works: "\<not> lib_fault mem_env m"
proof -
  have "dec_cert (enc_cert t pub (PublicKey priv)) \<noteq> Inl m" for t pub priv
    by (cases pub; cases priv) (simp add: dec_enc_cert)
  moreover have "mem_SetControllerReference b meta \<noteq> Inl m" if "ownable mem_env b meta" for b meta
    using that by (auto simp: ownable_def mem_env_def mem_SetControllerReference_def)
  ultimately show ?thesis
    by (auto simp: lib_fault_def mem_env_def)
qed

lemma still_lib_works: "\<not> lib_fault (still_env t) m"
  using mem_lib_works by (simp add: lib_fault_def ownable_def still_env_def)

section \<open>The first certificate\<close>

lemma first_issue:
  assumes "api_laws E obs" and "owner_refs_only E" and "crypto_laws E"
    and "bs_exposure (b_spec b) = Some ex"
    and "stored obs s KSecret (ObjectKey (b_namespace b) (builderTLSSecretName b)) = None"
    and "ensureBuilderServerCert E b s = (Ok name, s')"
  shows "\<exists>sec ca. stored obs s' KSecret (ObjectKey (b_namespace b) name) = Some (OSecret sec)
    \<and> ca_in E (stored obs s') (b_namespace b) ca \<and> issued E (ex_host ex) ca sec"
proof -
  have "wp (ensureBuilderServerCert E b) (\<lambda>name s'. \<exists>sec ca.
      stored obs s' KSecret (ObjectKey (b_namespace b) name) = Some (OSecret sec)
      \<and> ca_in E (stored obs s') (b_namespace b) ca \<and> issued E (ex_host ex) ca sec) (\<lambda>_ _. True) s"
    by (rule wp_ensureBuilderServerCert [OF assms(1,2,4)])
      (use assms(3,5) in \<open>auto simp del: split_paired_Ex\<close>)
  from wp_Ok [OF this assms(6)] show ?thesis .
qed

section \<open>Properties\<close>

text \<open>An exposed builder, for the witnesses.\<close>

definition exposed_web :: Builder where
  "exposed_web = named_builder ''ci'' ''web'' (zero_BuilderSpec\<lparr>bs_mode := ''persistent'',
     bs_template := Some zero_TemplateSpec,
     bs_exposure := Some \<lparr>ex_enabled = True, ex_host = ''b.io'', ex_ingressController = [],
       ex_entryPoint = [], ex_annotations = []\<rparr>\<rparr>)"

definition issue_run :: "string outcome \<times> mem sys" where
  "issue_run = ensureBuilderServerCert (still_env (10 ^ 18)) exposed_web (start [] [] 0)"

lemma issue_run_ok: "fst issue_run = Ok ''builder-web-tls''"
  unfolding issue_run_def by code_simp

lemma issue_run:
  "ensureBuilderServerCert (still_env (10 ^ 18)) exposed_web (start [] [] 0)
     = (Ok ''builder-web-tls'', snd issue_run)"
  unfolding issue_run_def [symmetric] using issue_run_ok by (metis prod.collapse)

lemma exposed_web_fields: "b_namespace exposed_web = ''ci''" "b_name exposed_web = ''web''"
  "exposureEnabled exposed_web"
  "\<exists>ex. bs_exposure (b_spec exposed_web) = Some ex \<and> ex_host ex = ''b.io''"
  by (simp_all add: exposed_web_def exposureEnabled_def)

lemma start_empty [simp]: "mem_objects (world (start [] ps t)) k key = None"
  by simp



text \<open>C16: A certificate issued for a builder that had none is for its host alone, carries the
  key stored beside it, is valid for 365 days to the second, and is signed by the authority
  whose certificate is in the same secret and in the namespace's authority secret.\<close>

theorem first_certificate_issued:
  assumes "api_laws E obs" and "owner_refs_only E" and "crypto_laws E"
    and "bs_exposure (b_spec b) = Some ex"
    and "stored obs s KSecret (ObjectKey (b_namespace b) (builderTLSSecretName b)) = None"
    and "ensureBuilderServerCert E b s = (Ok name, s')"
  shows "\<exists>sec ca. stored obs s' KSecret (ObjectKey (b_namespace b) name) = Some (OSecret sec)
    \<and> ca_in E (stored obs s') (b_namespace b) ca \<and> issued E (ex_host ex) ca sec"
  by (rule first_issue [OF assms])

theorem first_certificate_issued_witness:
  "\<exists>sec ca. mem_objects (world (snd issue_run)) KSecret (ObjectKey ''ci'' ''builder-web-tls'')
      = Some (OSecret sec)
    \<and> ca_in (still_env (10 ^ 18)) (mem_objects (world (snd issue_run))) ''ci'' ca
    \<and> issued (still_env (10 ^ 18)) ''b.io'' ca sec"
proof -
  obtain ex where ex: "bs_exposure (b_spec exposed_web) = Some ex" "ex_host ex = ''b.io''"
    using exposed_web_fields(4) by blast
  from first_certificate_issued [OF still_api_laws still_owner_refs still_crypto_laws ex(1) start_empty
      issue_run] show ?thesis
    by (simp only: ex(2) exposed_web_fields)
qed

text \<open>Whatever comes of it, ensuring a certificate never changes an authority that the
  namespace has.\<close>

lemma authority_never_replaced:
  assumes "api_laws E obs" and "owner_refs_only E" and "bs_exposure (b_spec b) \<noteq> None"
    and "stored obs s KSecret (ObjectKey (b_namespace b) caSecretName) = Some old"
  shows "stored obs (snd (ensureBuilderServerCert E b s)) KSecret
    (ObjectKey (b_namespace b) caSecretName) = Some old"
proof -
  from assms(3) obtain ex where ex: "bs_exposure (b_spec b) = Some ex" by blast
  have other: "(KSecret, ca_key (b_namespace b)) \<noteq> (KSecret, tls_key b)"
    by (simp add: builderTLSSecretName_def caSecretName_def)
  let ?kept = "\<lambda>s'. stored obs s' KSecret (ca_key (b_namespace b)) = Some old"
  have "wp (ensureBuilderServerCert E b) (\<lambda>_. ?kept) (\<lambda>_. ?kept) s"
    by (rule wp_ensureBuilderServerCert [OF assms(1,2) ex])
      (use assms(4) store_put_other [OF other] in auto)
  then show ?thesis
    by (cases "ensureBuilderServerCert E b s") (auto simp: wp_def split: outcome.splits)
qed




end
