(* ===== verification/Requests.thy ===== *)
theory Requests
  imports Reconcile Tls_Facts
begin

text \<open>
  Which requests a reconciliation sends, whatever the API server answers: the predicate
  \<open>allowed\<close> and, for each operation, that it asks for nothing else. The two modes are split
  here into the part they share, \<open>provision\<close>, and the rest.
\<close>


section \<open>What the operator asks for\<close>

text \<open>
  The requests allowed on behalf of a builder: reads of what it refers to, writes of its own
  objects, of the namespace's authority (created, never changed), of its own status and
  finalizers, and its events. Claims are created, never changed or deleted.
\<close>

fun allowed :: "Builder \<Rightarrow> request \<Rightarrow> bool" where
  "allowed b (ReqGet k key) =
     ((k, key) \<in> set (own_keys b) \<or> k = KBuilder \<and> key = meta_key (b_meta b)
      \<or> k = KTemplate \<and> key_namespace key = b_namespace b
      \<or> k = KSecret \<and> key = ca_key (b_namespace b))"
| "allowed b (ReqListPods ns ls) = (ns = b_namespace b)"
| "allowed b (ReqCreate ob) =
     ((kobj_kind ob, kobj_key ob) \<in> set (own_keys b)
      \<or> kobj_kind ob = KSecret \<and> kobj_key ob = ca_key (b_namespace b))"
| "allowed b (ReqUpdate ob) =
     ((kobj_kind ob, kobj_key ob) \<in> set (own_keys b) \<and> kobj_kind ob \<noteq> KPVC
      \<or> kobj_kind ob = KBuilder \<and> kobj_key ob = meta_key (b_meta b))"
| "allowed b (ReqDelete k key) = ((k, key) \<in> set (own_keys b) \<and> k \<in> {KIngressRoute, KSecret})"
| "allowed b (ReqStatusUpdate ob) = (kobj_kind ob = KBuilder \<and> kobj_key ob = meta_key (b_meta b))"
| "allowed b (ReqEvent key reason e) = (key = meta_key (b_meta b))"

lemma allowed_same_key:
  assumes "meta_key (b_meta b) = meta_key (b_meta b')"
  shows "allowed b = allowed b'"
proof (rule ext)
  have same: "b_namespace b = b_namespace b'" "b_name b = b_name b'"
    using assms by (simp_all add: meta_key_def)
  then have keys: "own_keys b = own_keys b'" by (simp add: builderSubName_def builderObjectName_def
      ingressRouteName_def builderTLSSecretName_def)
  show "allowed b r = allowed b' r" for r
    by (cases r) (simp_all only: allowed.simps keys same assms)
qed

lemma own_allowed:
  assumes "own_request k key r" and "(k, key) \<in> set (own_keys b)" and "k \<noteq> KPVC"
  shows "allowed b r"
  using assms by (cases r) (auto simp del: own_keys.simps)

lemma emits_own:
  assumes "emits E (own_request k key) m Q" and "(k, key) \<in> set (own_keys b)" and "k \<noteq> KPVC"
  shows "emits E (allowed b) m (\<lambda>_. True)"
  by (rule emits_weaken [OF assms(1)]) (use own_allowed [OF _ assms(2,3)] in simp_all)

lemmas own_asks =
  emits_own [OF svc_upsert.asks] emits_own [OF sts_upsert.asks]
  emits_own [OF route_upsert.asks] emits_own [OF cm_upsert.asks]

lemma emits_pvc:
  assumes "meta_key (pvc_meta p) = ObjectKey (b_namespace b) (builderSubName b ''-cache'')"
  shows "emits E (allowed b) (createOrUpdatePVC E p) (\<lambda>_. True)"
  unfolding createOrUpdatePVC_def by (intro keeps_intros) (simp_all add: assms)

lemma emits_owned:
  assumes "owner_refs_only E" and "\<And>refs. emits E P (f (m\<lparr>om_ownerReferences := refs\<rparr>)) Q"
  shows "emits E P (bindP (SetControllerReference E b m) f) Q"
  by (rule emits_bind [OF emits_owner [OF assms(1)]]) (use assms(2) in auto)

lemma emits_configmap:
  assumes "get_keyed E" and "owner_refs_only E"
  shows "emits E (allowed b) (ensureBuildkitdConfigMap E b spec) (\<lambda>_. True)"
  unfolding ensureBuildkitdConfigMap_def Let_def
  by (intro emits_owned assms own_asks) simp_all

lemma emits_services:
  assumes "get_keyed E"
  shows "emits E (allowed b) (createOrUpdateService E (headlessServiceForBuilder b)) (\<lambda>_. True)"
    and "emits E (allowed b) (createOrUpdateService E (nodePortServiceForBuilder b)) (\<lambda>_. True)"
  by (intro own_asks assms; simp)+

lemma emits_get_secret:
  assumes "get_keyed E" and "allowed b (ReqGet KSecret key)"
  shows "emits E (allowed b) (get_as E KSecret as_secret key)
    (\<lambda>r. \<forall>x. r = Inr x \<longrightarrow> meta_key (sec_meta x) = key)"
  using emits_get_as_keyed [of E "allowed b" KSecret key as_secret OSecret] assms by (simp add: as_secret_iff)

lemma emits_generateCA: "emits E P (generateCA E ns) (\<lambda>_. True)"
  unfolding generateCA_def randSerial_def Let_def by (intro keeps_intros) simp_all

lemma emits_signServerCert: "emits E P (signServerCert E c k h) (\<lambda>_. True)"
  unfolding signServerCert_def randSerial_def Let_def by (intro keeps_intros) simp_all

lemma emits_ensureNamespaceCA:
  assumes "get_keyed E"
  shows "emits E (allowed b) (ensureNamespaceCA E (b_namespace b)) (\<lambda>_. True)"
  unfolding ensureNamespaceCA_def
  by (intro keeps_intros emits_generateCA) (simp_all add: caSecret_def del: own_keys.simps)

lemma emits_issueServerCert:
  assumes "owner_refs_only E" and "\<And>old. found = Some old \<Longrightarrow> meta_key (sec_meta old) = tls_key b"
  shows "emits E (allowed b) (issueServerCert E b host ca found) (\<lambda>_. True)"
  unfolding issueServerCert_def Let_def
  by (intro keeps_intros emits_signServerCert emits_owned assms(1))
    (simp_all add: serverSecret_def assms(2))

lemma emits_serverCertNeedsRenewal: "emits E P (serverCertNeedsRenewal E sec host) (\<lambda>_. True)"
  unfolding serverCertNeedsRenewal_def by (intro keeps_intros) simp_all

lemma emits_ensureBuilderServerCert:
  assumes "get_keyed E" and "owner_refs_only E"
  shows "emits E (allowed b) (ensureBuilderServerCert E b) (\<lambda>_. True)"
  unfolding ensureBuilderServerCert_def Let_def
  by (intro keeps_intros emits_ensureNamespaceCA emits_bind [OF emits_get_secret] assms
      emits_issueServerCert emits_serverCertNeedsRenewal) simp_all

lemma emits_deletes:
  "emits E (allowed b) (deleteBuilderServerCert E b) (\<lambda>_. True)"
  "emits E (allowed b) (deleteIngressRouteIfExists E b) (\<lambda>_. True)"
  unfolding deleteBuilderServerCert_def deleteIngressRouteIfExists_def
  by (intro keeps_intros; simp)+

lemma emits_reconcileExposure:
  assumes "get_keyed E" and "owner_refs_only E"
  shows "emits E (allowed b) (reconcileExposure E b) (\<lambda>_. True)"
  unfolding reconcileExposure_def Let_def
  by (intro keeps_intros emits_owned own_asks emits_deletes emits_ensureBuilderServerCert assms)
    (simp_all add: ingressRouteForBuilder_def Let_def)


section \<open>The two modes have one beginning\<close>

definition ensureCache :: "'w env \<Rightarrow> Builder \<Rightarrow> TemplateSpec \<Rightarrow> ('w, unit) prog" where
  "ensureCache E b spec =
     (if cacheIsPVC spec then
        (case pvcForBuilder E b spec of
           Panic p \<Rightarrow> panic p
         | Err e \<Rightarrow> throw e
         | Ok p \<Rightarrow> bindP (SetControllerReference E b (pvc_meta p)) (\<lambda>m.
             createOrUpdatePVC E (p\<lparr>pvc_meta := m\<rparr>)))
      else ret ())"

definition provision :: "'w env \<Rightarrow> Builder \<Rightarrow> TemplateSpec \<Rightarrow> ('w, unit) prog" where
  "provision E b spec =
     seqP (ensureBuildkitdConfigMap E b spec)
    (seqP (createOrUpdateService E (headlessServiceForBuilder b))
    (seqP (createOrUpdateService E (nodePortServiceForBuilder b))
    (seqP (reconcileExposure E b) (ensureCache E b spec))))"

definition applyStatefulSet ::
  "'w env \<Rightarrow> Builder \<Rightarrow> TemplateSpec \<Rightarrow> int32 \<Rightarrow> ('w, unit) prog" where
  "applyStatefulSet E b spec n =
     (let sts = statefulSetForBuilder E b spec n in
      bindP (SetControllerReference E b (sts_meta sts)) (\<lambda>m.
        createOrUpdateStatefulSet E (sts\<lparr>sts_meta := m\<rparr>)))"

definition wantedReplicas :: "Builder \<Rightarrow> int32" where
  "wantedReplicas b = (case bs_replicas (b_spec b) of None \<Rightarrow> 1 | Some n \<Rightarrow> n)"

definition idleTimeout :: "Builder \<Rightarrow> int32" where
  "idleTimeout b = (case bs_idleTimeoutSeconds (b_spec b) of None \<Rightarrow> 300 | Some n \<Rightarrow> n)"

definition persistentStatus :: "'w env \<Rightarrow> Builder \<Rightarrow> ('w, result) prog" where
  "persistentStatus E b =
     bindP (resolveStatefulSetEndpoint E b) (\<lambda>(endpoint, readyReplicas).
       if endpoint = [] then ret \<lparr>requeueAfter = 5 * time_Second\<rparr>
       else bindP (resolveNodePort E b) (\<lambda>nodePort.
         updateStatus E b ''Ready'' endpoint readyReplicas (wantedReplicas b) nodePort))"

definition sleepyStatus :: "'w env \<Rightarrow> Builder \<Rightarrow> int32 \<Rightarrow> ('w, result) prog" where
  "sleepyStatus E b n =
     bindP (if n = 1 then resolveStatefulSetEndpoint E b else ret ([], 0))
       (\<lambda>(endpoint, readyReplicas).
     bindP (time_Now E) (\<lambda>now.
     bindP (resolveNodePort E b) (\<lambda>nodePort.
     seqP (updateStatusWithLastScaled E b (if n = 1 then ''Ready'' else ''ScalingDown'')
         endpoint readyReplicas n nodePort (Some now))
       (ret \<lparr>requeueAfter = 30 * time_Second\<rparr>))))"

lemma reconcilePersistent_eq:
  "reconcilePersistent E b spec =
     seqP (provision E b spec) (seqP (applyStatefulSet E b spec (wantedReplicas b)) (persistentStatus E b))"
  unfolding reconcilePersistent_def provision_def ensureCache_def applyStatefulSet_def
    persistentStatus_def wantedReplicas_def seqP_def Let_def bindP_assoc ..

lemma reconcileSleepy_eq:
  "reconcileSleepy E b spec =
     seqP (provision E b spec) (bindP (sleepyDesiredReplicas E b (idleTimeout b)) (\<lambda>n.
       seqP (applyStatefulSet E b spec n) (sleepyStatus E b n)))"
  unfolding reconcileSleepy_def provision_def ensureCache_def applyStatefulSet_def
    sleepyStatus_def idleTimeout_def seqP_def Let_def bindP_assoc ..

section \<open>Requests of a reconciliation\<close>

lemma pvcForBuilder_key:
  "pvcForBuilder E b spec = Ok p \<Longrightarrow> meta_key (pvc_meta p) = ObjectKey (b_namespace b) (builderSubName b ''-cache'')"
  by (auto simp: pvcForBuilder_def Let_def split: option.splits)

lemma emits_provision:
  assumes "get_keyed E" and "owner_refs_only E"
  shows "emits E (allowed b) (provision E b spec) (\<lambda>_. True)"
  unfolding provision_def ensureCache_def
  by (intro keeps_intros emits_configmap emits_services emits_reconcileExposure emits_owned emits_pvc assms)
    (simp_all add: pvcForBuilder_key)

lemma meta_key_sts:
  assumes "owner_refs_only E"
  shows "meta_key (sts_meta (statefulSetForBuilder E b spec n)) =
    ObjectKey (b_namespace b) (builderObjectName b)"
  using assms unfolding owner_refs_only_def
  by (fastforce simp: sts_meta_statefulSetForBuilder split: sum.split)

lemma emits_applyStatefulSet:
  assumes "get_keyed E" and "owner_refs_only E"
  shows "emits E (allowed b) (applyStatefulSet E b spec n) (\<lambda>_. True)"
  unfolding applyStatefulSet_def Let_def
  by (intro emits_owned own_asks assms) (simp_all add: meta_key_sts [OF assms(2)])

lemma emits_readbacks:
  "emits E (allowed b) (resolveStatefulSetEndpoint E b) (\<lambda>_. True)"
  "emits E (allowed b) (resolveNodePort E b) (\<lambda>_. True)"
  unfolding resolveStatefulSetEndpoint_def resolveNodePort_def by (intro keeps_intros; simp)+

lemma emits_status:
  "emits E (allowed b) (updateStatus E b p ep r d np) (\<lambda>_. True)"
  "emits E (allowed b) (updateStatusWithLastScaled E b p ep r d np t) (\<lambda>_. True)"
  unfolding updateStatus_eq updateStatusWithLastScaled_eq by (intro keeps_intros; simp)+

lemma emits_reconcilePersistent:
  assumes "get_keyed E" and "owner_refs_only E"
  shows "emits E (allowed b) (reconcilePersistent E b spec) (\<lambda>_. True)"
  unfolding reconcilePersistent_eq persistentStatus_def
  by (intro keeps_intros emits_provision emits_applyStatefulSet emits_readbacks emits_status assms) simp_all

lemma emits_sleepyDesiredReplicas: "emits E P (sleepyDesiredReplicas E b t) (\<lambda>_. True)"
  unfolding sleepyDesiredReplicas_def Let_def by (intro keeps_intros) simp_all

lemma emits_reconcileSleepy:
  assumes "get_keyed E" and "owner_refs_only E"
  shows "emits E (allowed b) (reconcileSleepy E b spec) (\<lambda>_. True)"
  unfolding reconcileSleepy_eq sleepyStatus_def
  by (intro keeps_intros emits_provision emits_applyStatefulSet emits_readbacks emits_status
      emits_sleepyDesiredReplicas assms) simp_all

text \<open>A finalizer's removal changes the finalizers only.\<close>

definition finalizers_only :: "'w env \<Rightarrow> bool" where
  "finalizers_only E \<longleftrightarrow>
     (\<forall>m f. lib_RemoveFinalizer E m f = m\<lparr>om_finalizers := filter (\<lambda>g. g \<noteq> f) (om_finalizers m)\<rparr>)"

lemma emits_reconcileDelete:
  assumes "finalizers_only E"
  shows "emits E (allowed b) (reconcileDelete E b) (\<lambda>_. True)"
  unfolding reconcileDelete_def Let_def
  by (intro keeps_intros) (use assms in \<open>simp_all add: finalizers_only_def\<close>)

lemma emits_resolveSpec: "emits E (allowed b) (resolveSpec E b) (\<lambda>_. True)"
  unfolding resolveSpec_def Let_def by (intro keeps_intros) simp_all

text \<open>The main loop, once it has the builder.\<close>

definition reconcileFound :: "'w env \<Rightarrow> Builder \<Rightarrow> ('w, result) prog" where
  "reconcileFound E b =
     handleP (resolveSpec E b)
       (\<lambda>e. seqP (recorder_Event (meta_key (b_meta b)) ''SpecResolution'' e) (throw e))
       (\<lambda>spec.
          if om_deletionTimestamp (b_meta b) \<noteq> None then reconcileDelete E b
          else if bs_mode (b_spec b) = BuilderModePersistent then reconcilePersistent E b spec
          else if bs_mode (b_spec b) = BuilderModeSleepy then reconcileSleepy E b spec
          else throw (UnknownMode (bs_mode (b_spec b))))"

lemma Reconcile_eq:
  "Reconcile E req =
     bindP (get_as E KBuilder as_builder req) (\<lambda>r. case r of
         Inl e \<Rightarrow> if IsNotFound e then ret no_requeue else throw (ApiError e)
       | Inr b \<Rightarrow> reconcileFound E b)"
  unfolding Reconcile_def reconcileFound_def ..

lemma emits_reconcileFound:
  assumes "get_keyed E" and "owner_refs_only E" and "finalizers_only E"
  shows "emits E (allowed b) (reconcileFound E b) (\<lambda>_. True)"
  unfolding reconcileFound_def
  by (intro keeps_intros emits_resolveSpec emits_reconcileDelete emits_reconcilePersistent
      emits_reconcileSleepy assms) simp_all

lemma emits_Reconcile:
  assumes "get_keyed E" and "owner_refs_only E" and "finalizers_only E"
    and "meta_key (b_meta b) = req"
  shows "emits E (allowed b) (Reconcile E req) (\<lambda>_. True)"
  unfolding Reconcile_eq
proof (rule emits_bind)
  show "emits E (allowed b) (get_as E KBuilder as_builder req)
      (\<lambda>r. \<forall>x. r = Inr x \<longrightarrow> kobj_key (OBuilder x) = req)"
    by (rule emits_get_as_keyed [OF assms(1)]) (simp_all add: assms(4) as_builder_iff)
next
  fix r :: "api_err + Builder" assume r: "\<forall>x. r = Inr x \<longrightarrow> kobj_key (OBuilder x) = req"
  have "emits E (allowed b) (reconcileFound E x) (\<lambda>_. True)" if "r = Inr x" for x
  proof -
    have "allowed b = allowed x"
      by (rule allowed_same_key) (use r that assms(4) in simp)
    then show ?thesis using emits_reconcileFound [OF assms(1-3)] by simp
  qed
  then show "emits E (allowed b) (case r of
         Inl e \<Rightarrow> if IsNotFound e then ret no_requeue else throw (ApiError e)
       | Inr b \<Rightarrow> reconcileFound E b) (\<lambda>_. True)"
    by (intro keeps_intros) simp_all
qed

end
