(* ===== verification/Admission.thy ===== *)
theory Admission
  imports Go_Errors
begin

text \<open>
  The admission webhooks: \<open>api/v1alpha1/buildkitbuilder_webhook.go\<close> and
  \<open>api/buildertemplate/v1alpha1/buildkitbuildertemplate_webhook.go\<close>. A validator returns
  \<open>None\<close> for Go's nil error. Both kinds share one contract, the locale \<open>admission\<close>:
  defaulting settles at once and never changes the validator's verdict, so the order in
  which the API server runs the two webhooks on a request cannot change its outcome.
\<close>

section \<open>BuildkitBuilder\<close>

definition defaultExposure :: "Builder \<Rightarrow> Builder" where
  "defaultExposure obj =
     (case bs_exposure (b_spec obj) of
        None \<Rightarrow> obj
      | Some e \<Rightarrow>
          if \<not> ex_enabled e then obj
          else
            let e1 = (if ex_ingressController e = []
                      then e\<lparr>ex_ingressController := IngressControllerTraefik\<rparr> else e);
                e2 = (if ex_entryPoint e1 = []
                      then e1\<lparr>ex_entryPoint := ''websecure''\<rparr> else e1)
            in obj\<lparr>b_spec := (b_spec obj)\<lparr>bs_exposure := Some e2\<rparr>\<rparr>)"

definition builder_Default :: "Builder \<Rightarrow> Builder" where
  "builder_Default obj =
     (let o1 = (if bs_replicas (b_spec obj) = None
                then obj\<lparr>b_spec := (b_spec obj)\<lparr>bs_replicas := Some 1\<rparr>\<rparr> else obj);
          o2 = (if bs_mode (b_spec o1) = BuilderModeSleepy
                   \<and> bs_idleTimeoutSeconds (b_spec o1) = None
                then o1\<lparr>b_spec := (b_spec o1)\<lparr>bs_idleTimeoutSeconds := Some 300\<rparr>\<rparr> else o1)
      in defaultExposure o2)"

definition validateExposure :: "Builder \<Rightarrow> go_err option" where
  "validateExposure r =
     (case bs_exposure (b_spec r) of
        None \<Rightarrow> None
      | Some e \<Rightarrow>
          if \<not> ex_enabled e then None
          else if ex_host e = [] then Some ExposureHostRequired
          else if ex_ingressController e = []
                  \<or> ex_ingressController e = IngressControllerTraefik then None
          else Some (UnsupportedIngressController (ex_ingressController e)))"

definition builder_validate :: "Builder \<Rightarrow> go_err option" where
  "builder_validate r =
     (if bs_templateRef (b_spec r) = None \<and> bs_template (b_spec r) = None
      then Some EitherTemplateRequired
      else if bs_templateRef (b_spec r) = Some [] then Some TemplateRefEmpty
      else validateExposure r)"

definition builder_ValidateCreate :: "Builder \<Rightarrow> go_err option" where
  "builder_ValidateCreate obj = builder_validate obj"

definition builder_ValidateUpdate :: "Builder \<Rightarrow> Builder \<Rightarrow> go_err option" where
  "builder_ValidateUpdate old new = builder_validate new"

definition builder_ValidateDelete :: "Builder \<Rightarrow> go_err option" where
  "builder_ValidateDelete obj = None"

section \<open>BuildkitBuilderTemplate\<close>

definition template_Default :: "BuilderTemplate \<Rightarrow> BuilderTemplate" where
  "template_Default obj =
     (let s = bt_spec obj;
          s1 = (if ts_buildkitImage s = []
                then s\<lparr>ts_buildkitImage :=
                   (if ts_rootless s then ''moby/buildkit:master-rootless''
                    else ''moby/buildkit:master'')\<rparr>
                else s);
          cc = ts_cacheConfig s1;
          s2 = (case cc_pvc cc of
                  Some p \<Rightarrow>
                    if cc_type cc = CacheTypePVC \<and> pc_accessModes p = []
                    then s1\<lparr>ts_cacheConfig :=
                           cc\<lparr>cc_pvc := Some (p\<lparr>pc_accessModes := [''ReadWriteOnce'']\<rparr>)\<rparr>\<rparr>
                    else s1
                | None \<Rightarrow> s1)
      in obj\<lparr>bt_spec := s2\<rparr>)"

definition template_validate :: "BuilderTemplate \<Rightarrow> go_err option" where
  "template_validate r =
     (let cc = ts_cacheConfig (bt_spec r) in
      if cc_type cc = CacheTypePVC then
        (case cc_pvc cc of
           None \<Rightarrow> Some (CacheFieldRequired ''cacheConfig.pvc'')
         | Some p \<Rightarrow> if pc_size p = [] then Some (CacheFieldRequired ''cacheConfig.pvc.size'')
                     else None)
      else if cc_type cc = CacheTypeS3 then
        (case cc_s3 cc of
           None \<Rightarrow> Some (CacheFieldRequired ''cacheConfig.s3'')
         | Some q \<Rightarrow> if s3_bucket q = [] then Some (CacheFieldRequired ''cacheConfig.s3.bucket'')
                     else None)
      else None)"

definition template_ValidateCreate :: "BuilderTemplate \<Rightarrow> go_err option" where
  "template_ValidateCreate obj = template_validate obj"

definition template_ValidateUpdate ::
  "BuilderTemplate \<Rightarrow> BuilderTemplate \<Rightarrow> go_err option" where
  "template_ValidateUpdate old new = template_validate new"

definition template_ValidateDelete :: "BuilderTemplate \<Rightarrow> go_err option" where
  "template_ValidateDelete obj = None"

section \<open>The shared contract\<close>

locale admission =
  fixes dflt :: "'o \<Rightarrow> 'o"
    and vcreate :: "'o \<Rightarrow> go_err option"
    and vupdate :: "'o \<Rightarrow> 'o \<Rightarrow> go_err option"
  assumes dflt_idem: "dflt (dflt x) = dflt x"
    and vcreate_dflt: "vcreate (dflt x) = vcreate x"
    and vupdate_new: "vupdate old new = vcreate new"
begin

text \<open>What the API server stores for an accepted create or update request.\<close>

definition admit :: "'o \<Rightarrow> go_err + 'o" where
  "admit x = (case vcreate (dflt x) of None \<Rightarrow> Inr (dflt x) | Some e \<Rightarrow> Inl e)"

lemma admit_iff: "admit x = Inr y \<longleftrightarrow> vcreate x = None \<and> y = dflt x"
  by (auto simp: admit_def vcreate_dflt split: option.splits)

lemma admit_stable: "admit x = Inr y \<Longrightarrow> admit y = Inr y"
  by (auto simp: admit_iff dflt_idem vcreate_dflt)

lemma admitted_update_valid: "admit x = Inr y \<Longrightarrow> vupdate old y = None"
  by (auto simp: admit_iff vupdate_new vcreate_dflt)

end

lemma defaultExposure_idem: "defaultExposure (defaultExposure b) = defaultExposure b"
  by (auto simp: defaultExposure_def Let_def names_simps split: option.splits)

lemma defaultExposure_other [simp]:
  "bs_replicas (b_spec (defaultExposure b)) = bs_replicas (b_spec b)"
  "bs_mode (b_spec (defaultExposure b)) = bs_mode (b_spec b)"
  "bs_idleTimeoutSeconds (b_spec (defaultExposure b)) = bs_idleTimeoutSeconds (b_spec b)"
  "bs_templateRef (b_spec (defaultExposure b)) = bs_templateRef (b_spec b)"
  "bs_template (b_spec (defaultExposure b)) = bs_template (b_spec b)"
  "bs_labels (b_spec (defaultExposure b)) = bs_labels (b_spec b)"
  "b_meta (defaultExposure b) = b_meta b" "b_status (defaultExposure b) = b_status b"
  by (auto simp: defaultExposure_def Let_def split: option.splits)

lemma builder_Default_settled:
  assumes "bs_replicas (b_spec b) \<noteq> None"
    and "bs_mode (b_spec b) = BuilderModeSleepy \<Longrightarrow> bs_idleTimeoutSeconds (b_spec b) \<noteq> None"
  shows "builder_Default b = defaultExposure b"
  using assms by (auto simp: builder_Default_def Let_def)

lemma builder_Default_fields:
  "bs_replicas (b_spec (builder_Default b)) =
     Some (case bs_replicas (b_spec b) of None \<Rightarrow> 1 | Some r \<Rightarrow> r)"
  "bs_mode (b_spec (builder_Default b)) = bs_mode (b_spec b)"
  "bs_idleTimeoutSeconds (b_spec (builder_Default b)) =
     (if bs_mode (b_spec b) = BuilderModeSleepy \<and> bs_idleTimeoutSeconds (b_spec b) = None
      then Some 300 else bs_idleTimeoutSeconds (b_spec b))"
  "bs_templateRef (b_spec (builder_Default b)) = bs_templateRef (b_spec b)"
  "bs_template (b_spec (builder_Default b)) = bs_template (b_spec b)"
  "b_meta (builder_Default b) = b_meta b"
  by (auto simp: builder_Default_def Let_def split: option.splits)

lemma builder_Default_idem: "builder_Default (builder_Default b) = builder_Default b"
proof -
  have "builder_Default (builder_Default b) = defaultExposure (builder_Default b)"
    by (rule builder_Default_settled) (auto simp: builder_Default_fields)
  moreover have "\<exists>o2. builder_Default b = defaultExposure o2"
    unfolding builder_Default_def Let_def by (rule exI, rule refl)
  ultimately show ?thesis by (auto simp only: defaultExposure_idem)
qed

lemma validateExposure_cong:
  "bs_exposure (b_spec a) = bs_exposure (b_spec b) \<Longrightarrow> validateExposure a = validateExposure b"
  by (simp add: validateExposure_def)

lemma validateExposure_default [simp]: "validateExposure (defaultExposure b) = validateExposure b"
  by (auto simp: validateExposure_def defaultExposure_def Let_def names_simps split: option.splits)

lemma validateExposure_Default [simp]: "validateExposure (builder_Default b) = validateExposure b"
  unfolding builder_Default_def Let_def
  by (auto intro: validateExposure_cong)

lemma builder_validate_Default: "builder_validate (builder_Default b) = builder_validate b"
  by (simp add: builder_validate_def builder_Default_fields)

lemma template_Default_settled:
  assumes "ts_buildkitImage (bt_spec t) \<noteq> []"
    and "\<And>p. cc_type (ts_cacheConfig (bt_spec t)) = CacheTypePVC \<Longrightarrow>
           cc_pvc (ts_cacheConfig (bt_spec t)) = Some p \<Longrightarrow> pc_accessModes p \<noteq> []"
  shows "template_Default t = t"
proof (cases "cc_pvc (ts_cacheConfig (bt_spec t))")
  case None
  with assms(1) show ?thesis by (simp add: template_Default_def)
next
  case (Some p)
  with assms(1) assms(2) [OF _ Some] show ?thesis
    by (auto simp: template_Default_def Let_def)
qed

lemma template_Default_image:
  "ts_buildkitImage (bt_spec (template_Default t)) =
     (if ts_buildkitImage (bt_spec t) \<noteq> [] then ts_buildkitImage (bt_spec t)
      else if ts_rootless (bt_spec t) then ''moby/buildkit:master-rootless''
      else ''moby/buildkit:master'')"
  by (simp add: template_Default_def Let_def split: option.split)

lemma template_Default_cache:
  "cc_type (ts_cacheConfig (bt_spec (template_Default t))) = cc_type (ts_cacheConfig (bt_spec t))"
  "cc_s3 (ts_cacheConfig (bt_spec (template_Default t))) = cc_s3 (ts_cacheConfig (bt_spec t))"
  "cc_pvc (ts_cacheConfig (bt_spec (template_Default t))) =
     map_option (\<lambda>p. if cc_type (ts_cacheConfig (bt_spec t)) = CacheTypePVC \<and> pc_accessModes p = []
       then p\<lparr>pc_accessModes := [''ReadWriteOnce'']\<rparr> else p) (cc_pvc (ts_cacheConfig (bt_spec t)))"
  by (simp_all add: template_Default_def Let_def split: option.split)

lemma template_Default_idem: "template_Default (template_Default t) = template_Default t"
proof (rule template_Default_settled)
  fix p
  assume "cc_type (ts_cacheConfig (bt_spec (template_Default t))) = CacheTypePVC"
    and "cc_pvc (ts_cacheConfig (bt_spec (template_Default t))) = Some p"
  then obtain q where "p = (if pc_accessModes q = []
      then q\<lparr>pc_accessModes := [''ReadWriteOnce'']\<rparr> else q)"
    by (auto simp: template_Default_cache)
  then show "pc_accessModes p \<noteq> []" by (cases "pc_accessModes q = []") simp_all
qed (simp add: template_Default_image)

lemma template_validate_Default: "template_validate (template_Default t) = template_validate t"
  by (simp add: template_validate_def template_Default_cache Let_def split: option.split)

interpretation builder_admission:
  admission builder_Default builder_ValidateCreate builder_ValidateUpdate
  by unfold_locales
    (simp_all add: builder_Default_idem builder_ValidateCreate_def builder_ValidateUpdate_def
      builder_validate_Default)

interpretation template_admission:
  admission template_Default template_ValidateCreate template_ValidateUpdate
  by unfold_locales
    (simp_all add: template_Default_idem template_ValidateCreate_def template_ValidateUpdate_def
      template_validate_Default)

text \<open>The exposure section after defaulting.\<close>

definition exposure_default :: "ExposureConfig \<Rightarrow> ExposureConfig" where
  "exposure_default e =
     (if ex_enabled e then e\<lparr>
        ex_ingressController :=
          (if ex_ingressController e = [] then IngressControllerTraefik else ex_ingressController e),
        ex_entryPoint := (if ex_entryPoint e = [] then ''websecure'' else ex_entryPoint e)\<rparr>
      else e)"

lemma defaultExposure_exposure:
  "bs_exposure (b_spec (defaultExposure b)) = map_option exposure_default (bs_exposure (b_spec b))"
  by (cases "bs_exposure (b_spec b)")
    (simp_all add: defaultExposure_def exposure_default_def Let_def)

lemma builder_Default_exposure:
  "bs_exposure (b_spec (builder_Default b)) = map_option exposure_default (bs_exposure (b_spec b))"
  by (simp add: builder_Default_def Let_def defaultExposure_exposure)

section \<open>Properties\<close>

text \<open>C37: The builder webhook admits exactly the builders that name a template or carry one,
  whose template name is not empty, and that, when exposed, have a host and Traefik or no
  controller.\<close>

theorem builder_admitted_iff:
  "builder_ValidateCreate b = None \<longleftrightarrow>
     (bs_templateRef (b_spec b) \<noteq> None \<or> bs_template (b_spec b) \<noteq> None)
     \<and> bs_templateRef (b_spec b) \<noteq> Some []
     \<and> pred_option (\<lambda>e. \<not> ex_enabled e
          \<or> ex_host e \<noteq> [] \<and> ex_ingressController e \<in> {[], IngressControllerTraefik})
         (bs_exposure (b_spec b))"
  by (auto simp: builder_ValidateCreate_def builder_validate_def validateExposure_def
      split: option.split)

theorem builder_admitted_iff_witness:
  "builder_ValidateCreate (named_builder ''ci'' ''web'' (zero_BuilderSpec\<lparr>bs_templateRef := Some ''base''\<rparr>)) = None"
  by (subst builder_admitted_iff) (simp add: zero_BuilderSpec_def)

text \<open>C38: Defaulting a builder settles at once and never changes the validator's verdict, on
  create and on update.\<close>

theorem builder_webhooks_agree:
  "builder_Default (builder_Default b) = builder_Default b
   \<and> builder_ValidateCreate (builder_Default b) = builder_ValidateCreate b
   \<and> builder_ValidateUpdate old (builder_Default b) = builder_ValidateCreate b"
  using builder_admission.dflt_idem builder_admission.vcreate_dflt builder_admission.vupdate_new
  by metis

text \<open>What an admitted builder looks like: it has a number of replicas, an idle timeout
  when it sleeps, and, when exposed, a host, the Traefik controller and an entry point.\<close>

lemma builder_admitted_complete:
  assumes "builder_admission.admit b = Inr b'"
  shows "bs_replicas (b_spec b') \<noteq> None
    \<and> (bs_mode (b_spec b') = BuilderModeSleepy \<longrightarrow> bs_idleTimeoutSeconds (b_spec b') \<noteq> None)
    \<and> pred_option (\<lambda>e. ex_enabled e \<longrightarrow> ex_host e \<noteq> []
          \<and> ex_ingressController e = IngressControllerTraefik \<and> ex_entryPoint e \<noteq> [])
        (bs_exposure (b_spec b'))"
proof -
  from assms have v: "builder_ValidateCreate b = None" and b': "b' = builder_Default b"
    by (simp_all add: builder_admission.admit_iff)
  have "validateExposure b = None"
    using v by (auto simp: builder_ValidateCreate_def builder_validate_def split: if_splits)
  then have "pred_option (\<lambda>e. ex_enabled e \<longrightarrow> ex_host e \<noteq> []
        \<and> ex_ingressController e = IngressControllerTraefik \<and> ex_entryPoint e \<noteq> [])
      (bs_exposure (b_spec b'))"
    by (cases "bs_exposure (b_spec b)")
      (auto simp: b' builder_Default_exposure exposure_default_def validateExposure_def split: if_splits)
  then show ?thesis by (simp add: b' builder_Default_fields)
qed

text \<open>An admitted template has an image; one that caches in a claim has the claim's size
  and access modes; one that caches in S3 has a bucket.\<close>

lemma template_admitted_complete:
  assumes "template_admission.admit t = Inr t'"
  shows "ts_buildkitImage (bt_spec t') \<noteq> []
    \<and> (let cc = ts_cacheConfig (bt_spec t') in
         (cc_type cc = CacheTypePVC \<longrightarrow>
            cc_pvc cc \<noteq> None \<and> pred_option (\<lambda>p. pc_size p \<noteq> [] \<and> pc_accessModes p \<noteq> []) (cc_pvc cc))
         \<and> (cc_type cc = CacheTypeS3 \<longrightarrow>
            cc_s3 cc \<noteq> None \<and> pred_option (\<lambda>q. s3_bucket q \<noteq> []) (cc_s3 cc)))"
proof -
  from assms have v: "template_ValidateCreate t = None" and t': "t' = template_Default t"
    by (simp_all add: template_admission.admit_iff)
  then show ?thesis
    by (cases "cc_pvc (ts_cacheConfig (bt_spec t))"; cases "cc_s3 (ts_cacheConfig (bt_spec t))")
      (auto simp: template_ValidateCreate_def template_validate_def template_Default_image
        template_Default_cache Let_def names_simps split: if_splits)
qed


end
