(* ===== verification/Convergence.thy ===== *)
theory Convergence
  imports Requests Admission
begin

text \<open>
  What a reconciliation leaves in the store, for any API server that keeps \<open>api_laws\<close>: for
  each step a weakest-precondition rule that says what the step settles and which keys it
  can touch, and their composition up to \<open>Reconcile\<close>. \<open>provisioned\<close>, \<open>sts_settled\<close> and the
  two reports say what is settled; \<open>failure\<close> and \<open>reconcile_failure\<close> how it can end
  otherwise.
\<close>


section \<open>Frames\<close>

definition touches :: "(kind \<times> obj_key) set \<Rightarrow> store \<Rightarrow> store \<Rightarrow> bool" where
  "touches K st st' \<longleftrightarrow> (\<forall>k key. (k, key) \<notin> K \<longrightarrow> st' k key = st k key)"

lemma touches_refl [simp]: "touches K st st"
  by (simp add: touches_def)

lemma touches_trans: "touches K st st' \<Longrightarrow> touches K st' st'' \<Longrightarrow> touches K st st''"
  by (simp add: touches_def)

lemma touches_mono: "touches K st st' \<Longrightarrow> K \<subseteq> K' \<Longrightarrow> touches K' st st'"
  by (auto simp: touches_def)

lemma touches_put: "touches K st st' \<Longrightarrow> (k, key) \<in> K \<Longrightarrow> touches K st (store_put k key v st')"
  by (auto simp: touches_def store_put_def)

lemma touchesD: "touches K st st' \<Longrightarrow> (k, key) \<notin> K \<Longrightarrow> st' k key = st k key"
  by (simp add: touches_def)

text \<open>What a reconciliation of a builder can write before it comes to the stateful set.\<close>

definition footprint :: "Builder \<Rightarrow> (kind \<times> obj_key) set" where
  "footprint b = (if exposureEnabled b then {(KSecret, ca_key (b_namespace b))} else {})
     \<union> {kk \<in> set (own_keys b). fst kk \<noteq> KStatefulSet}"

section \<open>The environment assumed\<close>

definition good_env :: "'w env \<Rightarrow> ('w \<Rightarrow> store) \<Rightarrow> time \<Rightarrow> bool" where
  "good_env E obs t0 \<longleftrightarrow>
     api_laws E obs \<and> owner_refs_only E \<and> crypto_laws E \<and> (\<forall>w. t0 \<le> fst (clock E w))"

lemma good_envD:
  assumes "good_env E obs t0"
  shows "api_laws E obs" "owner_refs_only E" "crypto_laws E" "t0 \<le> fst (clock E w)"
  using assms by (simp_all add: good_env_def)

text \<open>A server and libraries that fail only where the request gives them cause.\<close>

definition healthy :: "'w env \<Rightarrow> ('w \<Rightarrow> store) \<Rightarrow> bool" where
  "healthy E obs \<longleftrightarrow> (\<forall>e. \<not> mishap E obs e) \<and> (\<forall>m. \<not> lib_fault E m)"

lemma healthy_faults:
  assumes "healthy E obs"
  shows "\<not> mishap E obs e" "\<not> lib_fault E m" "\<not> hiccup E obs err"
    "fault E obs st ns err \<longleftrightarrow> (\<exists>x. err = ParsingExistingCA x) \<and> ca_unreadable E st ns"
  using assms by (auto simp: healthy_def hiccup_def fault_def split: go_err.split)

section \<open>Exposure\<close>

text \<open>
  The store has the route and a usable certificate of an exposed builder, and the authority
  of its namespace; or neither route nor certificate.
\<close>

definition exposure_settled :: "'w env \<Rightarrow> time \<Rightarrow> Builder \<Rightarrow> store \<Rightarrow> bool" where
  "exposure_settled E t0 b st \<longleftrightarrow>
     (if exposureEnabled b then
        (\<exists>ex i sec. bs_exposure (b_spec b) = Some ex
           \<and> st KIngressRoute (ObjectKey (b_namespace b) (ingressRouteName b)) = Some (OIngressRoute i)
           \<and> ir_spec i = ir_spec (ingressRouteForBuilder b ex)
           \<and> om_annotations (ir_meta i) = om_annotations (ir_meta (ingressRouteForBuilder b ex))
           \<and> st KSecret (tls_key b) = Some (OSecret sec)
           \<and> usable E (ex_host ex) (t0 + renewBefore) sec)
        \<and> ca_known E st (b_namespace b)
      else gone (st KIngressRoute (ObjectKey (b_namespace b) (ingressRouteName b)))
           \<and> gone (st KSecret (tls_key b)))"

definition exposure_keys :: "Builder \<Rightarrow> (kind \<times> obj_key) set" where
  "exposure_keys b = {(KIngressRoute, ObjectKey (b_namespace b) (ingressRouteName b)), (KSecret, tls_key b)}
     \<union> (if exposureEnabled b then {(KSecret, ca_key (b_namespace b))} else {})"

lemma ca_known_put: "k \<noteq> KSecret \<Longrightarrow> ca_known E (store_put k key v st) ns = ca_known E st ns"
  by (rule ca_known_frame) simp

lemma route_meta [simp]:
  "meta_key (ir_meta (ingressRouteForBuilder b ex)) = ObjectKey (b_namespace b) (ingressRouteName b)"
  by (simp add: ingressRouteForBuilder_def Let_def)

lemma route_unowned [simp]: "om_ownerReferences (ir_meta (ingressRouteForBuilder b ex)) = []"
  by (simp add: ingressRouteForBuilder_def Let_def)

lemma route_goalD:
  assumes "route_goal (r\<lparr>ir_meta := (ir_meta r)\<lparr>om_ownerReferences := refs\<rparr>\<rparr>) ob"
  obtains i where "ob = OIngressRoute i" and "ir_spec i = ir_spec r"
    and "om_annotations (ir_meta i) = om_annotations (ir_meta r)"
  using assms by (cases ob) (simp_all add: route_goal_def meta_agrees_def)

lemma wp_unexposed:
  assumes laws: "api_laws E obs" and "\<not> exposureEnabled b"
    and ok: "\<And>s'. exposure_settled E t0 b (stored obs s') \<Longrightarrow>
        touches (exposure_keys b) (stored obs s) (stored obs s') \<Longrightarrow> Q () s'"
    and fail: "\<And>e s'. touches (exposure_keys b) (stored obs s) (stored obs s') \<Longrightarrow> mishap E obs e \<Longrightarrow>
        X (Some (ApiError e)) s'"
  shows "wp (seqP (deleteIngressRouteIfExists E b) (deleteBuilderServerCert E b)) Q X s"
  unfolding wp_seq
proof (rule wp_deleteIngressRoute [OF laws], goal_cases)
  case (1 v s1)
  note s1 = 1
  show ?case
  proof (rule wp_deleteBuilderServerCert [OF laws], goal_cases)
    case (1 v' s')
    show ?case
      by (rule ok) (use 1 s1 assms(2) in
        \<open>auto simp: exposure_settled_def exposure_keys_def intro!: touches_put\<close>)
  next
    case (2 e v' s')
    show ?case
      by (rule fail) (use 2 s1 in \<open>auto simp: exposure_keys_def intro!: touches_put\<close>)
  qed
next
  case (2 e v s1)
  show ?case by (rule fail) (use 2 in \<open>auto simp: exposure_keys_def intro!: touches_put\<close>)
qed

lemma wp_reconcileExposure:
  assumes env: "good_env E obs t0"
    and ok: "\<And>s'. exposure_settled E t0 b (stored obs s') \<Longrightarrow>
        touches (exposure_keys b) (stored obs s) (stored obs s') \<Longrightarrow> Q () s'"
    and fail: "\<And>e s'. touches (exposure_keys b) (stored obs s) (stored obs s') \<Longrightarrow>
        (validateExposure b = None \<Longrightarrow> fault E obs (stored obs s) (b_namespace b) e) \<Longrightarrow> X (Some e) s'"
  shows "wp (reconcileExposure E b) Q X s"
proof (cases "exposureEnabled b")
  case False
  have "wp (seqP (deleteIngressRouteIfExists E b) (deleteBuilderServerCert E b)) Q X s"
    by (rule wp_unexposed [OF good_envD(1) [OF env] False]) (auto intro: ok fail)
  with False show ?thesis
    by (cases "bs_exposure (b_spec b)") (simp_all add: reconcileExposure_def exposureEnabled_def)
next
  case True
  then obtain ex where ex: "bs_exposure (b_spec b) = Some ex" "ex_enabled ex"
    by (rule exposureEnabledE)
  show ?thesis
  proof (cases "ex_ingressController ex \<noteq> [] \<and> ex_ingressController ex \<noteq> IngressControllerTraefik")
    case bad: True
    have "X (Some (UnsupportedIngressController (ex_ingressController ex))) s"
      by (rule fail) (use bad ex in \<open>simp_all add: validateExposure_def split: if_splits\<close>)
    with bad ex show ?thesis by (simp add: reconcileExposure_def)
  next
    case supported: False
    let ?r = "ingressRouteForBuilder b ex"
    have "wp (ensureBuilderServerCert E b) (\<lambda>_. wp (SetControllerReference E b (ir_meta ?r)) (\<lambda>m.
        wp (createOrUpdateIngressRoute E (?r\<lparr>ir_meta := m\<rparr>)) Q X) X) X s"
    proof (rule wp_ensureBuilderServerCert [OF good_envD(1,2) [OF env] ex(1)], goal_cases)
      case (1 caob sec s1)
      note s1 = 1(1) and usable = 1(3) [OF good_envD(3) [OF env] good_envD(4) [OF env]]
        and ca = 1(5) [OF good_envD(3) [OF env]]
      show ?case
      proof (rule wp_owner [OF good_envD(2) [OF env]], goal_cases)
        case (1 refs)
        show ?case
        proof (rule route_upsert.op_wp [OF good_envD(1) [OF env]], goal_cases)
          case (1 ob s')
          from 1(1) obtain i where i: "ob = OIngressRoute i" "ir_spec i = ir_spec ?r"
            "om_annotations (ir_meta i) = om_annotations (ir_meta ?r)"
            by (rule route_goalD)
          show ?case
          proof (rule ok)
            show "exposure_settled E t0 b (stored obs s')"
              using 1(2) s1 i usable ex True ca
              by (simp add: exposure_settled_def ca_known_put)
            show "touches (exposure_keys b) (stored obs s) (stored obs s')"
              using 1(2) s1 True by (auto simp: exposure_keys_def intro!: touches_put)
          qed
        next
          case (2 e v s')
          show ?case
            by (rule fail) (use 2 s1 True in \<open>auto simp: exposure_keys_def intro!: touches_put\<close>)
        qed
      next
        case (2 e)
        show ?case
          by (rule fail) (use s1 2 True in \<open>auto simp: exposure_keys_def ownable_new intro!: touches_put\<close>)
      qed
    next
      case (2 e v v' s')
      show ?case
        by (rule fail) (use 2 ex True in \<open>auto simp: exposure_keys_def validateExposure_def intro!: touches_put\<close>)
    qed
    with supported ex show ?thesis by (auto simp add: reconcileExposure_def Let_def)
  qed
qed


section \<open>Provisioning\<close>

definition config_settled :: "Builder \<Rightarrow> TemplateSpec \<Rightarrow> store \<Rightarrow> bool" where
  "config_settled b spec st \<longleftrightarrow>
     (\<exists>c. st KConfigMap (ObjectKey (b_namespace b) (builderSubName b ''-buildkitd'')) = Some (OConfigMap c)
        \<and> cm_data c = [(''buildkitd.toml'', buildkitdTomlFor b spec)])"

definition service_settled :: "service \<Rightarrow> store \<Rightarrow> bool" where
  "service_settled svc st \<longleftrightarrow>
     (\<exists>ob. st KService (meta_key (svc_meta svc)) = Some ob \<and> agrees (OService svc) ob)"

definition cache_settled :: "Builder \<Rightarrow> TemplateSpec \<Rightarrow> store \<Rightarrow> bool" where
  "cache_settled b spec st \<longleftrightarrow>
     (if cacheIsPVC spec
      then (\<exists>p. st KPVC (ObjectKey (b_namespace b) (builderSubName b ''-cache'')) = Some (OPVC p))
      else True)"

definition provisioned :: "'w env \<Rightarrow> time \<Rightarrow> Builder \<Rightarrow> TemplateSpec \<Rightarrow> store \<Rightarrow> bool" where
  "provisioned E t0 b spec st \<longleftrightarrow> config_settled b spec st
     \<and> service_settled (headlessServiceForBuilder b) st
     \<and> service_settled (nodePortServiceForBuilder b) st
     \<and> exposure_settled E t0 b st \<and> cache_settled b spec st"

text \<open>How a reconciliation can end without a result.\<close>

definition failure ::
  "'w env \<Rightarrow> ('w \<Rightarrow> store) \<Rightarrow> store \<Rightarrow> Builder \<Rightarrow> TemplateSpec \<Rightarrow> go_err option \<Rightarrow> bool" where
  "failure E obs st b spec e \<longleftrightarrow> (case e of
     None \<Rightarrow> cacheIsPVC spec \<and> (\<exists>m. pvcForBuilder E b spec = Panic m)
   | Some err \<Rightarrow> validateExposure b = None \<longrightarrow> fault E obs st (b_namespace b) err)"

lemma failure_hiccup: "hiccup E obs e \<Longrightarrow> failure E obs st b spec (Some e)"
  by (simp add: failure_def hiccup_fault)

lemma failure_mishap: "mishap E obs e \<Longrightarrow> failure E obs st b spec (Some (ApiError e))"
  by (simp add: failure_hiccup)

lemma fault_frame:
  "st' KSecret (ca_key ns) = st KSecret (ca_key ns) \<Longrightarrow> fault E obs st' ns e = fault E obs st ns e"
  by (simp add: fault_def ca_unreadable_def)

lemma wp_configmap:
  assumes laws: "api_laws E obs" and owner: "owner_refs_only E"
    and ok: "\<And>c s'. cm_data c = [(''buildkitd.toml'', buildkitdTomlFor b spec)] \<Longrightarrow>
        stored obs s' = store_put KConfigMap (ObjectKey (b_namespace b) (builderSubName b ''-buildkitd''))
          (Some (OConfigMap c)) (stored obs s) \<Longrightarrow> Q () s'"
    and fail: "\<And>e v s'. stored obs s' = store_put KConfigMap
          (ObjectKey (b_namespace b) (builderSubName b ''-buildkitd'')) v (stored obs s) \<Longrightarrow>
        hiccup E obs e \<Longrightarrow> X (Some e) s'"
  shows "wp (ensureBuildkitdConfigMap E b spec) Q X s"
  unfolding ensureBuildkitdConfigMap_def Let_def wp_bind
proof (rule wp_owner [OF owner], goal_cases)
  case (1 refs)
  show ?case
  proof (rule cm_upsert.op_wp [OF laws], goal_cases)
    case (1 ob s')
    then obtain c where "ob = OConfigMap c" "cm_data c = [(''buildkitd.toml'', buildkitdTomlFor b spec)]"
      by (cases ob) simp_all
    with 1(2) show ?case by (intro ok) simp_all
  next
    case (2 e v s')
    then show ?case by (intro fail [of _ v]) simp_all
  qed
next
  case (2 e)
  show ?case
    by (rule fail [of _ "stored obs s KConfigMap (ObjectKey (b_namespace b) (builderSubName b ''-buildkitd''))"])
      (use 2 in \<open>simp_all add: store_put_id ownable_new\<close>)
qed

lemma pvcForBuilder_ownable: "pvcForBuilder E b spec = Ok p \<Longrightarrow> ownable E b (pvc_meta p)"
  by (auto simp: pvcForBuilder_def Let_def ownable_new split: option.splits)

lemma wp_ensureCache:
  assumes laws: "api_laws E obs" and owner: "owner_refs_only E"
    and ok: "\<And>s'. cache_settled b spec (stored obs s') \<Longrightarrow>
        touches {(KPVC, ObjectKey (b_namespace b) (builderSubName b ''-cache''))} (stored obs s) (stored obs s') \<Longrightarrow>
        Q () s'"
    and fail: "\<And>e s'. touches {(KPVC, ObjectKey (b_namespace b) (builderSubName b ''-cache''))}
          (stored obs s) (stored obs s') \<Longrightarrow> (\<And>st. failure E obs st b spec e) \<Longrightarrow> X e s'"
  shows "wp (ensureCache E b spec) Q X s"
proof (cases "cacheIsPVC spec")
  case False
  then show ?thesis by (simp add: ensureCache_def ok cache_settled_def)
next
  case True
  show ?thesis
  proof (cases "pvcForBuilder E b spec")
    case (Panic m)
    then show ?thesis using True by (simp add: ensureCache_def fail failure_def)
  next
    case (Err e)
    then show ?thesis by (simp add: pvcForBuilder_def Let_def split: option.splits)
  next
    case (Ok p)
    note key = pvcForBuilder_key [OF Ok]
    have "wp (SetControllerReference E b (pvc_meta p)) (\<lambda>m. wp (createOrUpdatePVC E (p\<lparr>pvc_meta := m\<rparr>)) Q X) X s"
    proof (rule wp_owner [OF owner], goal_cases)
      case (1 refs)
      show ?case
      proof (rule pvc_ensure.op_wp [OF laws], goal_cases)
        case (1 ob s')
        then obtain q where "ob = OPVC q" by (cases ob) simp_all
        with 1(2) show ?case
          by (intro ok) (auto simp: key cache_settled_def intro!: touches_put)
      next
        case (2 e v s')
        show ?case by (rule fail) (use 2 in \<open>auto simp: key failure_mishap intro!: touches_put\<close>)
      qed
    next
      case (2 e)
      show ?case
        by (rule fail) (use 2 pvcForBuilder_ownable [OF Ok] in \<open>simp_all add: failure_hiccup\<close>)
    qed
    with True Ok show ?thesis by (simp add: ensureCache_def)
  qed
qed

lemma own_keys_simps [simp]:
  "set (own_keys b) = {(KConfigMap, ObjectKey (b_namespace b) (builderSubName b ''-buildkitd'')),
      (KService, ObjectKey (b_namespace b) (builderObjectName b)),
      (KService, ObjectKey (b_namespace b) (builderSubName b ''-client'')),
      (KIngressRoute, ObjectKey (b_namespace b) (ingressRouteName b)),
      (KSecret, ObjectKey (b_namespace b) (builderTLSSecretName b)),
      (KPVC, ObjectKey (b_namespace b) (builderSubName b ''-cache'')),
      (KStatefulSet, ObjectKey (b_namespace b) (builderObjectName b))}"
  by simp

lemma footprint_parts:
  "exposure_keys b \<subseteq> footprint b"
  "{(KPVC, ObjectKey (b_namespace b) (builderSubName b ''-cache''))} \<subseteq> footprint b"
  by (auto simp: footprint_def exposure_keys_def)

lemma settled_frame:
  assumes "touches K st st'"
  shows "(KConfigMap, ObjectKey (b_namespace b) (builderSubName b ''-buildkitd'')) \<notin> K \<Longrightarrow>
      config_settled b spec st' = config_settled b spec st"
    and "(KService, meta_key (svc_meta svc)) \<notin> K \<Longrightarrow> service_settled svc st' = service_settled svc st"
    and "(KPVC, ObjectKey (b_namespace b) (builderSubName b ''-cache'')) \<notin> K \<Longrightarrow>
      cache_settled b spec st' = cache_settled b spec st"
    and "exposure_keys b \<inter> K = {} \<Longrightarrow> exposure_settled E t0 b st' = exposure_settled E t0 b st"
  using touchesD [OF assms]
  by (auto simp: config_settled_def service_settled_def cache_settled_def exposure_settled_def
      exposure_keys_def ca_known_frame [of st' _ st])

lemma wp_service:
  assumes laws: "api_laws E obs"
    and ok: "\<And>s'. service_settled svc (stored obs s') \<Longrightarrow>
        touches {(KService, meta_key (svc_meta svc))} (stored obs s) (stored obs s') \<Longrightarrow> Q () s'"
    and fail: "\<And>e s'. touches {(KService, meta_key (svc_meta svc))} (stored obs s) (stored obs s') \<Longrightarrow>
        mishap E obs e \<Longrightarrow> X (Some (ApiError e)) s'"
  shows "wp (createOrUpdateService E svc) Q X s"
proof (rule svc_upsert.op_wp [OF laws], goal_cases)
  case (1 ob s')
  then show ?case
    by (intro ok) (auto simp: service_settled_def service_goal_def intro!: touches_put)
next
  case (2 e v s')
  show ?case by (rule fail) (use 2 in \<open>auto intro!: touches_put\<close>)
qed

lemma wp_provision:
  assumes env: "good_env E obs t0"
    and ok: "\<And>s'. provisioned E t0 b spec (stored obs s') \<Longrightarrow>
        touches (footprint b) (stored obs s) (stored obs s') \<Longrightarrow> Q () s'"
    and fail: "\<And>e s'. touches (footprint b) (stored obs s) (stored obs s') \<Longrightarrow>
        failure E obs (stored obs s) b spec e \<Longrightarrow> X e s'"
  shows "wp (provision E b spec) Q X s"
  unfolding provision_def wp_seq
proof (rule wp_configmap [OF good_envD(1,2) [OF env]], goal_cases)
  case (1 c s1)
  note laws = good_envD(1) [OF env] and s1 = 1(2)
  have t1: "touches (footprint b) (stored obs s) (stored obs s1)"
    using 1(2) by (auto simp: footprint_def intro!: touches_put)
  have c1: "config_settled b spec (stored obs s1)" using 1 by (simp add: config_settled_def)
  show ?case
  proof (rule wp_service [OF laws], goal_cases)
    case (1 s2)
    note st2 = 1(2)
    have t2: "touches (footprint b) (stored obs s) (stored obs s2)"
      by (rule touches_trans [OF t1 touches_mono [OF st2]]) (simp add: footprint_def)
    have c2: "config_settled b spec (stored obs s2)" using c1 settled_frame(1) [OF st2] by simp
    note h2 = 1(1)
    show ?case
    proof (rule wp_service [OF laws], goal_cases)
      case (1 s3)
      note st3 = 1(2)
      have t3: "touches (footprint b) (stored obs s) (stored obs s3)"
        by (rule touches_trans [OF t2 touches_mono [OF st3]]) (simp add: footprint_def)
      have c3: "config_settled b spec (stored obs s3)"
        "service_settled (headlessServiceForBuilder b) (stored obs s3)"
        using c2 h2 settled_frame(1,2) [OF st3] by simp_all
      note n3 = 1(1)
      have "stored obs s3 KSecret key = stored obs s KSecret key" for key
        using touchesD [OF st3, of KSecret key] touchesD [OF st2, of KSecret key] s1 by simp
      note same = fault_frame [where st' = "stored obs s3" and st = "stored obs s", OF this]
      show ?case
      proof (rule wp_reconcileExposure [OF env], goal_cases)
        case (1 s4)
        note st4 = 1(2)
        have t4: "touches (footprint b) (stored obs s) (stored obs s4)"
          by (rule touches_trans [OF t3 touches_mono [OF st4 footprint_parts(1)]])
        have c4: "config_settled b spec (stored obs s4)"
          "service_settled (headlessServiceForBuilder b) (stored obs s4)"
          "service_settled (nodePortServiceForBuilder b) (stored obs s4)"
          using c3 n3 settled_frame(1,2) [OF st4] by (simp_all add: exposure_keys_def)
        note e4 = 1(1)
        show ?case
        proof (rule wp_ensureCache [OF laws good_envD(2) [OF env]], goal_cases)
          case (1 s5)
          show ?case
          proof (rule ok)
            show "provisioned E t0 b spec (stored obs s5)"
              using c4 e4 1 settled_frame(1,2) [OF 1(2)] settled_frame(4) [OF 1(2), of b E t0]
              by (simp add: provisioned_def exposure_keys_def)
            show "touches (footprint b) (stored obs s) (stored obs s5)"
              by (rule touches_trans [OF t4 touches_mono [OF 1(2) footprint_parts(2)]])
          qed
        next
          case (2 e s5)
          show ?case
            by (rule fail [OF touches_trans [OF t4 touches_mono [OF 2(1) footprint_parts(2)]] 2(2)])
        qed
      next
        case (2 e s4)
        show ?case
          by (rule fail [OF touches_trans [OF t3 touches_mono [OF 2(1) footprint_parts(1)]]])
            (use 2(2) in \<open>simp add: failure_def same\<close>)
      qed
    next
      case (2 e s3)
      show ?case
        by (rule fail [OF touches_trans [OF t2 touches_mono [OF 2(1)]]])
          (use 2(2) in \<open>simp_all add: footprint_def failure_mishap\<close>)
    qed
  next
    case (2 e s2)
    show ?case
      by (rule fail [OF touches_trans [OF t1 touches_mono [OF 2(1)]]])
        (use 2(2) in \<open>simp_all add: footprint_def failure_mishap\<close>)
  qed
next
  case (2 e v s1)
  show ?case
    by (rule fail [OF _ failure_hiccup [OF 2(2)]]) (use 2(1) in \<open>auto simp: footprint_def intro!: touches_put\<close>)
qed


section \<open>The stateful set\<close>

text \<open>
  In the builder's namespace, with owner references the library's \<open>SetControllerReference\<close>
  gave on its behalf.
\<close>

definition owned_by :: "'w env \<Rightarrow> Builder \<Rightarrow> object_meta \<Rightarrow> bool" where
  "owned_by E b m \<longleftrightarrow> om_namespace m = b_namespace b \<and> (\<exists>m0 m'. lib_SetControllerReference E b m0 = Inr m'
     \<and> om_ownerReferences m = om_ownerReferences m')"

definition sts_settled :: "'w env \<Rightarrow> Builder \<Rightarrow> TemplateSpec \<Rightarrow> int32 \<Rightarrow> store \<Rightarrow> bool" where
  "sts_settled E b spec n st \<longleftrightarrow>
     (\<exists>t. st KStatefulSet (ObjectKey (b_namespace b) (builderObjectName b)) = Some (OStatefulSet t)
        \<and> sts_replicas t = Some n \<and> sts_serviceName t = builderObjectName b
        \<and> sts_matchLabels t = labelsForBuilder b (bs_mode (b_spec b))
        \<and> sts_templateLabels t = labelsForBuilder b (bs_mode (b_spec b))
        \<and> sts_podSpec t = sts_podSpec (statefulSetForBuilder E b spec n) \<and> owned_by E b (sts_meta t))"

lemma sts_ownable: "ownable E b (sts_meta (statefulSetForBuilder E b spec n))"
  by (cases "lib_SetControllerReference E b (meta_of (b_namespace b) (builderObjectName b))")
    (auto simp: ownable_def sts_meta_statefulSetForBuilder intro!: exI [of _ "meta_of (b_namespace b) (builderObjectName b)"])

lemma wp_applyStatefulSet:
  assumes laws: "api_laws E obs" and owner: "owner_refs_only E"
    and ok: "\<And>s'. sts_settled E b spec n (stored obs s') \<Longrightarrow>
        touches {(KStatefulSet, ObjectKey (b_namespace b) (builderObjectName b))}
          (stored obs s) (stored obs s') \<Longrightarrow> Q () s'"
    and fail: "\<And>e s'. touches {(KStatefulSet, ObjectKey (b_namespace b) (builderObjectName b))}
          (stored obs s) (stored obs s') \<Longrightarrow> hiccup E obs e \<Longrightarrow> X (Some e) s'"
  shows "wp (applyStatefulSet E b spec n) Q X s"
  unfolding applyStatefulSet_def Let_def wp_bind
proof (rule wp_owner [OF owner], goal_cases)
  case (1 refs)
  let ?t = "statefulSetForBuilder E b spec n"
  note given = 1
  show ?case
  proof (rule sts_upsert.op_wp [OF laws], goal_cases)
    case (1 ob s')
    from 1(1) obtain t where t: "ob = OStatefulSet t"
      and fields: "sts_replicas t = sts_replicas ?t" "sts_serviceName t = sts_serviceName ?t"
        "sts_matchLabels t = sts_matchLabels ?t" "sts_templateLabels t = sts_templateLabels ?t"
        "sts_podSpec t = sts_podSpec ?t" and "om_ownerReferences (sts_meta t) = refs" "om_namespace (sts_meta t) = om_namespace (sts_meta ?t)"
      by (cases ob) (simp_all add: sts_goal_def meta_agrees_def)
    moreover have "om_namespace (sts_meta ?t) = b_namespace b"
      using meta_key_sts [OF owner] by (simp add: meta_key_def)
    ultimately have owned: "owned_by E b (sts_meta t)"
      unfolding owned_by_def using given by (intro exI conjI) auto
    show ?case
      by (rule ok) (use 1(2) t fields owned in \<open>auto simp: sts_settled_def meta_key_sts [OF owner] intro!: touches_put\<close>)
  next
    case (2 e v s')
    show ?case by (rule fail) (use 2 in \<open>auto simp: meta_key_sts [OF owner] intro!: touches_put\<close>)
  qed
next
  case (2 e)
  show ?case by (rule fail) (use 2 in \<open>simp_all add: sts_ownable\<close>)
qed

section \<open>Reading back and writing the status\<close>

text \<open>The rest of a reconciliation writes nothing but the builder's own status.\<close>

definition listed :: "'w env \<Rightarrow> Builder \<Rightarrow> pod list \<Rightarrow> bool" where
  "listed E b pods \<longleftrightarrow>
     (\<exists>w. fst (cl_list_pods E (b_namespace b) [(LabelKeyBuilderName, b_name b)] w) = Inr pods)"

definition endpoint_of :: "pod list \<Rightarrow> string" where
  "endpoint_of pods = (case find podServes pods of None \<Rightarrow> [] | Some p \<Rightarrow> podEndpoint p)"

definition ready_count :: "pod list \<Rightarrow> int32" where
  "ready_count pods = of_nat (length (filter podServes pods))"

lemma wp_resolveEndpoint:
  assumes laws: "api_laws E obs"
    and ok: "\<And>pods s'. listed E b pods \<Longrightarrow> stored obs s' = stored obs s \<Longrightarrow>
        Q (endpoint_of pods, ready_count pods) s'"
    and fail: "\<And>e s'. stored obs s' = stored obs s \<Longrightarrow> mishap E obs e \<Longrightarrow> X (Some (ApiError e)) s'"
  shows "wp (resolveStatefulSetEndpoint E b) Q X s"
proof -
  obtain r w' where r: "cl_list_pods E (b_namespace b) [(LabelKeyBuilderName, b_name b)] (world s) = (r, w')"
    by fastforce
  have same: "obs w' = stored obs s"
    using list_lawD [OF api_lawsD(2) [OF laws], of "b_namespace b" "[(LabelKeyBuilderName, b_name b)]" "world s"]
    by (simp add: r)
  show ?thesis
    unfolding resolveStatefulSetEndpoint_def wp_bind
  proof (cases r)
    case (Inl e)
    then have "mishap E obs e" using mishapI(2) r by (metis fst_conv)
    with Inl show "wp (client_ListPods E (b_namespace b) [(LabelKeyBuilderName, b_name b)])
        (\<lambda>r. wp (case r of Inl e \<Rightarrow> throw (ApiError e) | Inr pods \<Rightarrow> ret (scanPods [] 0 pods)) Q X) X s"
      using same by (simp add: wp_def client_ListPods_def r throw_def fail)
  next
    case (Inr pods)
    have "listed E b pods" unfolding listed_def using r Inr by (metis fst_conv)
    then show "wp (client_ListPods E (b_namespace b) [(LabelKeyBuilderName, b_name b)])
        (\<lambda>r. wp (case r of Inl e \<Rightarrow> throw (ApiError e) | Inr pods \<Rightarrow> ret (scanPods [] 0 pods)) Q X) X s"
      using same Inr
      by (simp add: wp_def client_ListPods_def r ret_def scanPods_spec flip: endpoint_of_def ready_count_def)
        (rule ok, simp_all)
  qed
qed

lemma wp_resolveNodePort:
  assumes laws: "api_laws E obs"
    and ok: "\<And>n s'. stored obs s' = stored obs s \<Longrightarrow> Q n s'"
  shows "wp (resolveNodePort E b) Q X s"
  unfolding resolveNodePort_def wp_bind
  by (rule wp_get_as [OF laws as_service_iff kind_service]) (simp_all add: ok)

lemma wp_statusUpdate:
  assumes laws: "api_laws E obs"
    and ok: "\<And>b' s'. b_status b' = st \<Longrightarrow>
        (\<And>old. stored obs s KBuilder (meta_key (b_meta b)) = Some (OBuilder old) \<Longrightarrow> same_request old b') \<Longrightarrow>
        stored obs s' = store_put KBuilder (meta_key (b_meta b)) (Some (OBuilder b')) (stored obs s) \<Longrightarrow> Q () s'"
    and fail: "\<And>e v s'. stored obs s' = store_put KBuilder (meta_key (b_meta b)) v (stored obs s) \<Longrightarrow>
        (stored obs s KBuilder (meta_key (b_meta b)) \<noteq> None \<Longrightarrow> mishap E obs e) \<Longrightarrow> X (Some (ApiError e)) s'"
  shows "wp (return_err (client_StatusUpdate E (OBuilder (b\<lparr>b_status := st\<rparr>)))) Q X s"
proof -
  obtain r w' where r: "cl_status_update E (OBuilder (b\<lparr>b_status := st\<rparr>)) (world s) = (r, w')"
    by fastforce
  note law = status_lawD [OF api_lawsD(6) [OF laws] r]
  show ?thesis
  proof (cases r)
    case None
    with law obtain old b' where "stored obs s KBuilder (meta_key (b_meta b)) = Some (OBuilder old)"
      "b_status b' = st" "same_request old b'"
      "obs w' = store_put KBuilder (meta_key (b_meta b)) (Some (OBuilder b')) (stored obs s)"
      by (auto simp: status_written_def)
    then have "Q () (s\<lparr>world := w', calls := c\<rparr>)" for c by (intro ok [of b']) simp_all
    then show ?thesis
      using None by (simp add: wp_def return_err_def bindP_def client_StatusUpdate_def r ret_def)
  next
    case (Some e)
    with law have "obs w' = stored obs s \<or> status_written (b\<lparr>b_status := st\<rparr>) (stored obs s) (obs w')"
      by simp
    from status_written_put [OF this] obtain v where
      "obs w' = store_put KBuilder (meta_key (b_meta b)) v (stored obs s)" by auto
    moreover have "stored obs s KBuilder (meta_key (b_meta b)) \<noteq> None \<Longrightarrow> mishap E obs e"
      using mishapI(6) [of E "b\<lparr>b_status := st\<rparr>" "world s" e obs] by (simp add: r Some)
    ultimately have "X (Some (ApiError e)) (s\<lparr>world := w', calls := c\<rparr>)" for c
      by (intro fail [of _ v]) simp_all
    then show ?thesis
      using Some by (simp add: wp_def return_err_def bindP_def client_StatusUpdate_def r throw_def)
  qed
qed


text \<open>The replicas a sleepy builder should have when the clock shows \<open>now\<close>.\<close>

definition wanted_at :: "Builder \<Rightarrow> time \<Rightarrow> int32" where
  "wanted_at b now =
     (let used = gomap_get (om_annotations (b_meta b)) AnnotationLastUsed in
      if used = [] then 1
      else case parseRFC3339 used of
        None \<Rightarrow> 0
      | Some t \<Rightarrow> if now - t < sint (idleTimeout b) * 10 ^ 9 then 1 else 0)"

lemma wanted_at_values: "wanted_at b now = 0 \<or> wanted_at b now = 1"
  by (simp add: wanted_at_def Let_def split: option.split)

lemma sleepyDesiredReplicas_result:
  "fst (sleepyDesiredReplicas E b (idleTimeout b) s) = Ok (wanted_at b (fst (clock E (world s))))"
  by (simp add: sleepyDesiredReplicas_def wanted_at_def Let_def bindP_def time_Now_def ret_def
      time_Sub_less_seconds32 split: option.split prod.split)

lemma wp_sleepyDesiredReplicas:
  assumes laws: "api_laws E obs"
    and ok: "\<And>w s'. stored obs s' = stored obs s \<Longrightarrow> Q (wanted_at b (fst (clock E w))) s'"
  shows "wp (sleepyDesiredReplicas E b (idleTimeout b)) Q X s"
proof (cases "parseRFC3339 (gomap_get (om_annotations (b_meta b)) AnnotationLastUsed)")
  case None
  then show ?thesis
    using ok [of s] by (auto simp: sleepyDesiredReplicas_def wanted_at_def Let_def)
next
  case (Some t)
  have "wp (time_Now E) (\<lambda>now. Q (if time_Sub now t <s seconds32 (idleTimeout b) then 1 else 0)) X s"
    if "gomap_get (om_annotations (b_meta b)) AnnotationLastUsed \<noteq> []"
  proof (rule wp_time_stored [OF laws], goal_cases)
    case (1 now s')
    then show ?case
      using ok [of s' "world s"] Some that
      by (simp add: wanted_at_def Let_def time_Sub_less_seconds32)
  qed
  with Some show ?thesis
    using ok [of s] by (auto simp: sleepyDesiredReplicas_def wanted_at_def Let_def)
qed

section \<open>The two modes\<close>

definition reach :: "Builder \<Rightarrow> (kind \<times> obj_key) set" where
  "reach b = insert (KBuilder, meta_key (b_meta b))
     (insert (KStatefulSet, ObjectKey (b_namespace b) (builderObjectName b)) (footprint b))"

text \<open>
  What a successful reconciliation reports: the endpoint of the first pod that serves and
  the number of such pods. A persistent builder without one is looked at again in five
  seconds and its status is left alone; a sleepy builder is looked at every thirty seconds.
\<close>

definition persistent_report :: "'w env \<Rightarrow> Builder \<Rightarrow> store \<Rightarrow> store \<Rightarrow> result \<Rightarrow> bool" where
  "persistent_report E b st st' r \<longleftrightarrow> (\<exists>pods. listed E b pods \<and>
     (if endpoint_of pods = []
      then r = \<lparr>requeueAfter = 5 * time_Second\<rparr>
        \<and> st' KBuilder (meta_key (b_meta b)) = st KBuilder (meta_key (b_meta b))
      else r = no_requeue \<and> (\<exists>b'. st' KBuilder (meta_key (b_meta b)) = Some (OBuilder b') \<and> same_request b b'
         \<and> st_phase (b_status b') = ''Ready'' \<and> st_endpoint (b_status b') = endpoint_of pods
         \<and> st_readyReplicas (b_status b') = ready_count pods
         \<and> st_desiredReplicas (b_status b') = wantedReplicas b
         \<and> condition_status ConditionReady (b_status b') = Some ''True''
         \<and> condition_status ConditionEndpoint (b_status b') = Some ''True'')))"

definition sleepy_report :: "'w env \<Rightarrow> Builder \<Rightarrow> int32 \<Rightarrow> store \<Rightarrow> result \<Rightarrow> bool" where
  "sleepy_report E b n st' r \<longleftrightarrow>
     r = \<lparr>requeueAfter = 30 * time_Second\<rparr>
     \<and> (\<exists>b' pods. st' KBuilder (meta_key (b_meta b)) = Some (OBuilder b') \<and> same_request b b'
         \<and> (if n = 1 then listed E b pods else pods = [])
         \<and> st_phase (b_status b') = (if n = 1 then ''Ready'' else ''ScalingDown'')
         \<and> st_endpoint (b_status b') = endpoint_of pods
         \<and> st_readyReplicas (b_status b') = ready_count pods
         \<and> st_desiredReplicas (b_status b') = n
         \<and> condition_status ConditionReady (b_status b') = Some (if n = 1 then ''True'' else ''False''))"

lemma endpoint_of_Nil [simp]: "endpoint_of [] = []" "ready_count [] = 0"
  by (simp_all add: endpoint_of_def ready_count_def)

lemma touches_provisioned:
  assumes "touches K st st'" and "K \<subseteq> {(KStatefulSet, key), (KBuilder, key')}"
  shows "provisioned E t0 b spec st' = provisioned E t0 b spec st"
proof -
  from assms(2) have out: "(k, key) \<notin> K" if "k \<noteq> KStatefulSet" "k \<noteq> KBuilder" for k key
    using that by auto
  then have "exposure_keys b \<inter> K = {}" by (auto simp: exposure_keys_def)
  then show ?thesis
    using settled_frame(1-3) [OF assms(1)] settled_frame(4) [OF assms(1), of b E t0] out
    by (simp add: provisioned_def)
qed

lemmas provisioned_frame =
  touches_provisioned [of "{(KStatefulSet, key)}" _ _ key undefined, simplified]
  touches_provisioned [of "{(KBuilder, key)}" _ _ undefined key, simplified] for key

lemma touches_sts_settled:
  assumes "touches {(KBuilder, key)} st st'"
  shows "sts_settled E b spec n st' = sts_settled E b spec n st"
  using touchesD [OF assms] by (simp add: sts_settled_def)

lemma status_touches:
  "st' = store_put KBuilder key v st \<Longrightarrow> touches {(KBuilder, key)} st st'"
  by (simp add: touches_put)

lemma wp_timed_status:
  fixes st :: "time \<Rightarrow> time \<Rightarrow> BuilderStatus"
  assumes laws: "api_laws E obs"
    and ok: "\<And>t1 t2 b' s'. b_status b' = st t1 t2 \<Longrightarrow>
        (\<And>old. stored obs s KBuilder (meta_key (b_meta b)) = Some (OBuilder old) \<Longrightarrow> same_request old b') \<Longrightarrow>
        stored obs s' = store_put KBuilder (meta_key (b_meta b)) (Some (OBuilder b')) (stored obs s) \<Longrightarrow>
        Q no_requeue s'"
    and fail: "\<And>e v s'. stored obs s' = store_put KBuilder (meta_key (b_meta b)) v (stored obs s) \<Longrightarrow>
        (stored obs s KBuilder (meta_key (b_meta b)) \<noteq> None \<Longrightarrow> mishap E obs e) \<Longrightarrow> X (Some (ApiError e)) s'"
  shows "wp (bindP (time_Now E) (\<lambda>t1. bindP (time_Now E) (\<lambda>t2.
       seqP (return_err (client_StatusUpdate E (OBuilder (b\<lparr>b_status := st t1 t2\<rparr>)))) (ret no_requeue)))) Q X s"
  unfolding wp_bind wp_seq wp_ret
proof (rule wp_time_stored [OF laws], rule wp_time_stored [OF laws], goal_cases)
  case (1 t1 s1 t2 s2)
  show ?case
    by (rule wp_statusUpdate [OF laws]) (use 1 in \<open>auto intro: ok fail\<close>)
qed


lemma wp_persistentStatus:
  assumes laws: "api_laws E obs"
    and present: "stored obs s KBuilder (meta_key (b_meta b)) = Some (OBuilder b)"
    and ok: "\<And>r s'. persistent_report E b (stored obs s) (stored obs s') r \<Longrightarrow>
        touches {(KBuilder, meta_key (b_meta b))} (stored obs s) (stored obs s') \<Longrightarrow> Q r s'"
    and fail: "\<And>e s'. touches {(KBuilder, meta_key (b_meta b))} (stored obs s) (stored obs s') \<Longrightarrow>
        mishap E obs e \<Longrightarrow>
        X (Some (ApiError e)) s'"
  shows "wp (persistentStatus E b) Q X s"
  unfolding persistentStatus_def wp_bind
proof (rule wp_resolveEndpoint [OF laws], goal_cases)
  case (1 pods s1)
  let ?ep = "endpoint_of pods" and ?n = "ready_count pods"
  show ?case
  proof (cases "?ep = []")
    case True
    have "Q \<lparr>requeueAfter = 5 * time_Second\<rparr> s1"
      by (rule ok) (use 1 True in \<open>auto simp: persistent_report_def\<close>)
    with True show ?thesis by simp
  next
    case False
    have "wp (resolveNodePort E b) (\<lambda>np. wp (updateStatus E b ''Ready'' ?ep ?n (wantedReplicas b) np) Q X) X s1"
    proof (rule wp_resolveNodePort [OF laws], goal_cases)
      case (1 np s2)
      note same = \<open>stored obs s1 = stored obs s\<close> 1 and pods = \<open>listed E b pods\<close>
      show ?case
        unfolding updateStatus_eq
      proof (rule wp_timed_status [OF laws], goal_cases)
        case (1 t1 t2 b' s')
        have conds: "st_conditions (b_status b') =
            endpointCondition ?ep t2 (readyCondition ''Ready'' t1 (st_conditions (b_status b)))"
          using 1(1) by simp
        show ?case
        proof (rule ok)
          show "persistent_report E b (stored obs s) (stored obs s') no_requeue"
            unfolding persistent_report_def
          by (rule exI [of _ pods]) (use 1 False ready_conditions [OF conds] pods same present in simp)
          show "touches {(KBuilder, meta_key (b_meta b))} (stored obs s) (stored obs s')"
            using status_touches [OF 1(3)] same by simp
        qed
      next
        case (2 e v s')
        show ?case by (rule fail) (use status_touches [OF 2(1)] 2(2) same present in simp_all)
      qed
    qed
    with False show ?thesis by simp
  qed
next
  case (2 e s1)
  show ?case by (rule fail) (simp_all add: 2)
qed

lemma wp_sleepyStatus:
  assumes laws: "api_laws E obs"
    and present: "stored obs s KBuilder (meta_key (b_meta b)) = Some (OBuilder b)"
    and ok: "\<And>r s'. sleepy_report E b n (stored obs s') r \<Longrightarrow>
        touches {(KBuilder, meta_key (b_meta b))} (stored obs s) (stored obs s') \<Longrightarrow> Q r s'"
    and fail: "\<And>e s'. touches {(KBuilder, meta_key (b_meta b))} (stored obs s) (stored obs s') \<Longrightarrow>
        mishap E obs e \<Longrightarrow>
        X (Some (ApiError e)) s'"
  shows "wp (sleepyStatus E b n) Q X s"
proof -
  have rest: "wp (time_Now E) (\<lambda>now. wp (resolveNodePort E b) (\<lambda>np.
      wp (updateStatusWithLastScaled E b (if n = 1 then ''Ready'' else ''ScalingDown'') ep m n np (Some now))
        (\<lambda>_. Q \<lparr>requeueAfter = 30 * time_Second\<rparr>) X) X) X s1"
    if s1: "stored obs s1 = stored obs s" and pods: "if n = 1 then listed E b pods else pods = []"
      and ep: "ep = endpoint_of pods" "m = ready_count pods" for ep m pods s1
  proof (rule wp_time_stored [OF laws], rule wp_resolveNodePort [OF laws], goal_cases)
    case (1 now s2 np s3)
    have same: "stored obs s3 = stored obs s" using 1 s1 by simp
    show ?case
      unfolding updateStatusWithLastScaled_eq
    proof (rule wp_timed_status [OF laws], goal_cases)
      case (1 t1 t2 b' s')
      let ?p = "if n = 1 then ''Ready'' else ''ScalingDown''"
      have conds: "st_conditions (b_status b') =
          scaledCondition t2 (readyCondition ?p t1 (st_conditions (b_status b)))"
        using 1(1) by simp
      show ?case
      proof (rule ok)
        show "sleepy_report E b n (stored obs s') \<lparr>requeueAfter = 30 * time_Second\<rparr>"
          unfolding sleepy_report_def
          by (intro conjI exI [of _ b'] exI [of _ pods])
            (use 1 pods ep scaled_conditions(1) [OF conds] same present in simp_all)
        show "touches {(KBuilder, meta_key (b_meta b))} (stored obs s) (stored obs s')"
          using status_touches [OF 1(3)] same by simp
      qed
    next
      case (2 e v s')
      show ?case by (rule fail) (use status_touches [OF 2(1)] 2(2) same present in simp_all)
    qed
  qed
  show ?thesis
  proof (cases "n = 1")
    case True
    have "wp (resolveStatefulSetEndpoint E b) (\<lambda>(ep, m). wp (time_Now E) (\<lambda>now.
        wp (resolveNodePort E b) (\<lambda>np.
        wp (updateStatusWithLastScaled E b (if n = 1 then ''Ready'' else ''ScalingDown'') ep m n np (Some now))
        (\<lambda>_. Q \<lparr>requeueAfter = 30 * time_Second\<rparr>) X) X) X) X s"
      by (rule wp_resolveEndpoint [OF laws]) (use rest [OF _ _ refl refl] True in \<open>auto intro: fail\<close>)
    with True show ?thesis by (simp add: sleepyStatus_def case_prod_unfold)
  next
    case False
    with rest [of s "[]"] show ?thesis by (simp add: sleepyStatus_def)
  qed
qed

lemma reach_parts:
  "footprint b \<subseteq> reach b" "{(KBuilder, meta_key (b_meta b))} \<subseteq> reach b"
  "{(KStatefulSet, ObjectKey (b_namespace b) (builderObjectName b))} \<subseteq> reach b"
  "(KBuilder, key) \<notin> footprint b"
  by (auto simp: reach_def footprint_def)

lemma wp_reconcilePersistent:
  assumes env: "good_env E obs t0"
    and present: "stored obs s KBuilder (meta_key (b_meta b)) = Some (OBuilder b)"
    and ok: "\<And>r s'. provisioned E t0 b spec (stored obs s') \<Longrightarrow>
        sts_settled E b spec (wantedReplicas b) (stored obs s') \<Longrightarrow>
        persistent_report E b (stored obs s) (stored obs s') r \<Longrightarrow>
        touches (reach b) (stored obs s) (stored obs s') \<Longrightarrow> Q r s'"
    and fail: "\<And>e s'. touches (reach b) (stored obs s) (stored obs s') \<Longrightarrow>
        failure E obs (stored obs s) b spec e \<Longrightarrow> X e s'"
  shows "wp (reconcilePersistent E b spec) Q X s"
  unfolding reconcilePersistent_eq wp_seq
proof (rule wp_provision [OF env], goal_cases)
  case (1 s1)
  note laws = good_envD(1) [OF env] and t1 = touches_mono [OF 1(2) reach_parts(1)] and p1 = 1(1)
  have b1: "stored obs s1 KBuilder key = stored obs s KBuilder key" for key
    using touchesD [OF 1(2) reach_parts(4)] by simp
  show ?case
  proof (rule wp_applyStatefulSet [OF good_envD(1,2) [OF env]], goal_cases)
    case (1 s2)
    note t2 = touches_trans [OF t1 touches_mono [OF 1(2) reach_parts(3)]] and st2 = 1(1)
    have p2: "provisioned E t0 b spec (stored obs s2)"
      by (simp add: provisioned_frame(1) [OF 1(2)] p1)
    have b2: "stored obs s2 KBuilder key = stored obs s KBuilder key" for key
      using touchesD [OF 1(2)] b1 by simp
    have here: "stored obs s2 KBuilder (meta_key (b_meta b)) = Some (OBuilder b)"
      using present b2 by simp
    show ?case
    proof (rule wp_persistentStatus [OF laws here], goal_cases)
      case (1 r s')
      show ?case
      proof (rule ok)
        show "provisioned E t0 b spec (stored obs s')"
          by (simp add: provisioned_frame(2) [OF 1(2)] p2)
        show "sts_settled E b spec (wantedReplicas b) (stored obs s')"
          by (simp add: touches_sts_settled [OF 1(2)] st2)
        show "persistent_report E b (stored obs s) (stored obs s') r"
          using 1(1) unfolding persistent_report_def b2 .
        show "touches (reach b) (stored obs s) (stored obs s')"
          by (rule touches_trans [OF t2 touches_mono [OF 1(2) reach_parts(2)]])
      qed
    next
      case (2 e s')
      show ?case
        by (rule fail [OF touches_trans [OF t2 touches_mono [OF 2(1) reach_parts(2)]] failure_mishap])
          (use 2(2) present b2 in simp)
    qed
  next
    case (2 e s')
    show ?case
      by (rule fail [OF touches_trans [OF t1 touches_mono [OF 2(1) reach_parts(3)]] failure_hiccup [OF 2(2)]])
  qed
next
  case (2 e s')
  show ?case by (rule fail [OF touches_mono [OF 2(1) reach_parts(1)] 2(2)])
qed

lemma wp_reconcileSleepy:
  assumes env: "good_env E obs t0"
    and present: "stored obs s KBuilder (meta_key (b_meta b)) = Some (OBuilder b)"
    and ok: "\<And>r n w s'. n = wanted_at b (fst (clock E w)) \<Longrightarrow> provisioned E t0 b spec (stored obs s') \<Longrightarrow>
        sts_settled E b spec n (stored obs s') \<Longrightarrow> sleepy_report E b n (stored obs s') r \<Longrightarrow>
        touches (reach b) (stored obs s) (stored obs s') \<Longrightarrow> Q r s'"
    and fail: "\<And>e s'. touches (reach b) (stored obs s) (stored obs s') \<Longrightarrow>
        failure E obs (stored obs s) b spec e \<Longrightarrow> X e s'"
  shows "wp (reconcileSleepy E b spec) Q X s"
  unfolding reconcileSleepy_eq wp_seq wp_bind
proof (rule wp_provision [OF env], rule wp_sleepyDesiredReplicas [OF good_envD(1) [OF env]], goal_cases)
  case (1 s1 w s1')
  note laws = good_envD(1) [OF env]
  let ?n = "wanted_at b (fst (clock E w))"
  have t1: "touches (reach b) (stored obs s) (stored obs s1')"
    using touches_mono [OF 1(2) reach_parts(1)] 1(3) by simp
  have b1: "stored obs s1' KBuilder key = stored obs s KBuilder key" for key
    using touchesD [OF 1(2) reach_parts(4)] 1(3) by simp
  have p1: "provisioned E t0 b spec (stored obs s1')" using 1 by simp
  show ?case
    unfolding wp_seq
  proof (rule wp_applyStatefulSet [OF good_envD(1,2) [OF env]], goal_cases)
    case (1 s2)
    note t2 = touches_trans [OF t1 touches_mono [OF 1(2) reach_parts(3)]] and st2 = 1(1)
    have p2: "provisioned E t0 b spec (stored obs s2)"
      by (simp add: provisioned_frame(1) [OF 1(2)] p1)
    have b2: "stored obs s2 KBuilder key = stored obs s KBuilder key" for key
      using touchesD [OF 1(2)] b1 by simp
    have here: "stored obs s2 KBuilder (meta_key (b_meta b)) = Some (OBuilder b)"
      using present b2 by simp
    show ?case
    proof (rule wp_sleepyStatus [OF laws here], goal_cases)
      case (1 r s')
      show ?case
      proof (rule ok [OF refl])
        show "provisioned E t0 b spec (stored obs s')"
          by (simp add: provisioned_frame(2) [OF 1(2)] p2)
        show "sts_settled E b spec ?n (stored obs s')"
          by (simp add: touches_sts_settled [OF 1(2)] st2)
        show "sleepy_report E b ?n (stored obs s') r" by (rule 1(1))
        show "touches (reach b) (stored obs s) (stored obs s')"
          by (rule touches_trans [OF t2 touches_mono [OF 1(2) reach_parts(2)]])
      qed
    next
      case (2 e s')
      show ?case
        by (rule fail [OF touches_trans [OF t2 touches_mono [OF 2(1) reach_parts(2)]] failure_mishap])
          (use 2(2) present b2 in simp)
    qed
  next
    case (2 e s')
    show ?case
      by (rule fail [OF touches_trans [OF t1 touches_mono [OF 2(1) reach_parts(3)]] failure_hiccup [OF 2(2)]])
  qed
next
  case (2 e s')
  show ?case by (rule fail [OF touches_mono [OF 2(1) reach_parts(1)] 2(2)])
qed


section \<open>The main loop\<close>

text \<open>The specification the store gives a builder: template, inline template, or both merged.\<close>

definition spec_in :: "store \<Rightarrow> Builder \<Rightarrow> TemplateSpec \<Rightarrow> bool" where
  "spec_in st b spec \<longleftrightarrow>
     (case bs_templateRef (b_spec b) of
        None \<Rightarrow> bs_template (b_spec b) \<noteq> None \<and> spec = mergeSpec None (bs_template (b_spec b))
      | Some ref \<Rightarrow> \<exists>t. st KTemplate (ObjectKey (b_namespace b) ref) = Some (OTemplate t)
          \<and> spec = mergeSpec (Some (bt_spec t)) (bs_template (b_spec b)))"

text \<open>Why a template could not be read: it is not there, or the server erred.\<close>

definition template_unread :: "'w env \<Rightarrow> ('w \<Rightarrow> store) \<Rightarrow> store \<Rightarrow> obj_key \<Rightarrow> api_err \<Rightarrow> bool" where
  "template_unread E obs st key a \<longleftrightarrow> (if a = NotFound then st KTemplate key = None else mishap E obs a)"

definition unresolved :: "'w env \<Rightarrow> ('w \<Rightarrow> store) \<Rightarrow> store \<Rightarrow> Builder \<Rightarrow> go_err \<Rightarrow> bool" where
  "unresolved E obs st b e \<longleftrightarrow>
     (case bs_templateRef (b_spec b) of
        None \<Rightarrow> bs_template (b_spec b) = None \<and> e = EitherTemplateRequired
      | Some ref \<Rightarrow> \<exists>a. e = TemplateNotFound ref (b_namespace b) a
          \<and> template_unread E obs st (ObjectKey (b_namespace b) ref) a)"

lemma wp_resolveSpec:
  assumes laws: "api_laws E obs"
    and ok: "\<And>spec s'. spec_in (stored obs s) b spec \<Longrightarrow> stored obs s' = stored obs s \<Longrightarrow> Q spec s'"
    and fail: "\<And>e s'. unresolved E obs (stored obs s) b e \<Longrightarrow> stored obs s' = stored obs s \<Longrightarrow> X (Some e) s'"
  shows "wp (resolveSpec E b) Q X s"
proof (cases "bs_templateRef (b_spec b)")
  case None
  then show ?thesis
    using ok [of "mergeSpec None (bs_template (b_spec b))" s] fail [of EitherTemplateRequired s]
    by (cases "bs_template (b_spec b)") (simp_all add: resolveSpec_def spec_in_def unresolved_def Let_def)
next
  case (Some ref)
  have tail: "wp (let base = (case bs_template (b_spec b) of None \<Rightarrow> Some base
          | Some t \<Rightarrow> Some (mergeSpec (Some base) (Some t)))
        in case base of None \<Rightarrow> throw EitherTemplateRequired | Some spec \<Rightarrow> ret spec) Q X s1
      = Q (mergeSpec (Some base) (bs_template (b_spec b))) s1" for base s1
    by (cases "bs_template (b_spec b)") (simp_all add: Let_def)
  show ?thesis
    unfolding resolveSpec_def Some option.case wp_bind
  proof (rule wp_get_as [OF laws as_template_iff kind_template], goal_cases)
    case (1 t s1)
    then show ?case
      using tail [of "bt_spec t" s1] by (simp add: ok spec_in_def Some)
  next
    case (2 e s1)
    then show ?case by (simp add: fail unresolved_def template_unread_def Some)
  qed
qed

text \<open>How \<open>Reconcile\<close> ends for a builder that is in the store and not being deleted.\<close>

definition settled ::
  "'w env \<Rightarrow> time \<Rightarrow> Builder \<Rightarrow> TemplateSpec \<Rightarrow> store \<Rightarrow> store \<Rightarrow> result \<Rightarrow> bool" where
  "settled E t0 b spec st st' r \<longleftrightarrow> provisioned E t0 b spec st' \<and>
     (if bs_mode (b_spec b) = BuilderModePersistent
      then sts_settled E b spec (wantedReplicas b) st' \<and> persistent_report E b st st' r
      else \<exists>n w. n = wanted_at b (fst (clock E w)) \<and> sts_settled E b spec n st' \<and> sleepy_report E b n st' r)"

definition reconcile_failure ::
  "'w env \<Rightarrow> ('w \<Rightarrow> store) \<Rightarrow> store \<Rightarrow> Builder \<Rightarrow> go_err option \<Rightarrow> bool" where
  "reconcile_failure E obs st b e \<longleftrightarrow>
     (\<exists>spec. spec_in st b spec \<and> failure E obs st b spec e)
     \<or> (\<exists>err. e = Some err \<and> (hiccup E obs err \<or> unresolved E obs st b err \<or> err = UnknownMode (bs_mode (b_spec b))
          \<and> bs_mode (b_spec b) \<noteq> BuilderModePersistent \<and> bs_mode (b_spec b) \<noteq> BuilderModeSleepy))"

lemma wp_Event: "(\<And>s'. world s' = world s \<Longrightarrow> Q () s') \<Longrightarrow> wp (recorder_Event key reason e) Q X s"
  by (simp add: wp_def recorder_Event_def)

lemma wp_reconcileFound:
  assumes env: "good_env E obs t0"
    and present: "stored obs s KBuilder (meta_key (b_meta b)) = Some (OBuilder b)"
    and live: "om_deletionTimestamp (b_meta b) = None"
    and ok: "\<And>spec r s'. spec_in (stored obs s) b spec \<Longrightarrow>
        bs_mode (b_spec b) = BuilderModePersistent \<or> bs_mode (b_spec b) = BuilderModeSleepy \<Longrightarrow>
        settled E t0 b spec (stored obs s) (stored obs s') r \<Longrightarrow>
        touches (reach b) (stored obs s) (stored obs s') \<Longrightarrow> Q r s'"
    and fail: "\<And>e s'. touches (reach b) (stored obs s) (stored obs s') \<Longrightarrow>
        reconcile_failure E obs (stored obs s) b e \<Longrightarrow> X e s'"
  shows "wp (reconcileFound E b) Q X s"
  unfolding reconcileFound_def wp_handle
proof (rule wp_resolveSpec [OF good_envD(1) [OF env]], goal_cases)
  case (1 spec s1)
  have bad: "failure E obs (stored obs s1) b spec e \<Longrightarrow> reconcile_failure E obs (stored obs s) b e" for e
    using 1 by (auto simp: reconcile_failure_def)
  have modes: "BuilderModePersistent \<noteq> BuilderModeSleepy" by (simp add: names_simps)
  consider "bs_mode (b_spec b) = BuilderModePersistent" | "bs_mode (b_spec b) = BuilderModeSleepy"
    | "bs_mode (b_spec b) \<noteq> BuilderModePersistent" "bs_mode (b_spec b) \<noteq> BuilderModeSleepy" by blast
  then show ?case
  proof cases
    case p: 1
    have "wp (reconcilePersistent E b spec) Q X s1"
      by (rule wp_reconcilePersistent [OF env])
        (use 1 p bad present in \<open>auto simp: settled_def intro: ok fail\<close>)
    with p live show ?thesis by simp
  next
    case sl: 2
    have "wp (reconcileSleepy E b spec) Q X s1"
    proof (rule wp_reconcileSleepy [OF env], goal_cases)
      case 1
      then show ?case using present \<open>stored obs s1 = _\<close> by simp
    next
      case (2 r n w s')
      have "settled E t0 b spec (stored obs s1) (stored obs s') r"
        unfolding settled_def using 2 sl modes by (metis (no_types))
      with 2 sl \<open>spec_in _ b spec\<close> \<open>stored obs s1 = _\<close> show ?case by (intro ok) simp_all
    next
      case (3 e s')
      with bad \<open>stored obs s1 = _\<close> show ?case by (intro fail) simp_all
    qed
    with sl live modes show ?thesis by simp
  next
    case 3
    then have "X (Some (UnknownMode (bs_mode (b_spec b)))) s1"
      by (intro fail) (simp_all add: 1 reconcile_failure_def)
    with 3 live show ?thesis by simp
  qed
next
  case (2 e s1)
  have "X (Some e) s'" if "world s' = world s1" for s'
    by (rule fail) (use 2 that in \<open>simp_all add: reconcile_failure_def\<close>)
  then show ?case by (simp add: wp_Event)
qed

lemma wp_Reconcile:
  assumes env: "good_env E obs t0"
    and found: "stored obs s KBuilder req = Some (OBuilder b)"
    and live: "om_deletionTimestamp (b_meta b) = None"
    and ok: "\<And>spec r s'. spec_in (stored obs s) b spec \<Longrightarrow>
        bs_mode (b_spec b) = BuilderModePersistent \<or> bs_mode (b_spec b) = BuilderModeSleepy \<Longrightarrow>
        settled E t0 b spec (stored obs s) (stored obs s') r \<Longrightarrow>
        touches (reach b) (stored obs s) (stored obs s') \<Longrightarrow> Q r s'"
    and fail: "\<And>e s'. touches (reach b) (stored obs s) (stored obs s') \<Longrightarrow>
        reconcile_failure E obs (stored obs s) b e \<Longrightarrow> X e s'"
  shows "wp (Reconcile E req) Q X s"
  unfolding Reconcile_eq wp_bind
proof (rule wp_get_as [OF good_envD(1) [OF env] as_builder_iff kind_builder], goal_cases)
  case (1 x s1)
  then have "x = b" using found by simp
  have "wp (reconcileFound E b) Q X s1"
    by (rule wp_reconcileFound [OF env _ live]) (use 1 \<open>x = b\<close> in \<open>auto intro: ok fail\<close>)
  then show ?case by (simp add: \<open>x = b\<close>)
next
  case (2 e s1)
  have "X (Some (ApiError e)) s1"
    by (rule fail) (use 2 found in \<open>auto simp: reconcile_failure_def\<close>)
  moreover have "e \<noteq> NotFound" using 2 found by auto
  ultimately show ?case by (simp add: IsNotFound_def)
qed

text \<open>
  What a reconciliation needs of the store and of the builder itself, besides a healthy
  environment: an admitted specification in one of the two modes, the template it names, a
  claim size that is a quantity and an authority, if there is one, that can be read.
\<close>

definition claim_size :: "PVCConfig \<Rightarrow> string" where
  "claim_size p = (if pc_size p = [] then ''100Gi'' else pc_size p)"

definition reconcilable :: "'w env \<Rightarrow> Builder \<Rightarrow> store \<Rightarrow> bool" where
  "reconcilable E b st \<longleftrightarrow>
     builder_ValidateCreate b = None
     \<and> bs_mode (b_spec b) \<in> {BuilderModePersistent, BuilderModeSleepy}
     \<and> (case bs_templateRef (b_spec b) of None \<Rightarrow> True
        | Some ref \<Rightarrow> st KTemplate (ObjectKey (b_namespace b) ref) \<noteq> None)
     \<and> (\<forall>spec p. spec_in st b spec \<longrightarrow> cacheIsPVC spec \<longrightarrow> cc_pvc (ts_cacheConfig spec) = Some p \<longrightarrow>
          lib_ParseQuantity E (claim_size p) \<noteq> None)
     \<and> \<not> ca_unreadable E st (b_namespace b)"

lemma builder_ValidateCreateD:
  assumes "builder_ValidateCreate b = None"
  shows "validateExposure b = None"
    and "bs_templateRef (b_spec b) = None \<Longrightarrow> bs_template (b_spec b) \<noteq> None"
  using assms by (auto simp: builder_ValidateCreate_def builder_validate_def split: if_splits)

lemma pvcForBuilder_panics:
  assumes "cacheIsPVC spec" and "pvcForBuilder E b spec = Panic m"
  shows "\<exists>p. cc_pvc (ts_cacheConfig spec) = Some p \<and> lib_ParseQuantity E (claim_size p) = None"
proof -
  obtain q where q: "cc_pvc (ts_cacheConfig spec) = Some q" using assms(1) by (auto simp: cacheIsPVC_def)
  with assms(2) have "lib_ParseQuantity E (claim_size q) = None"
    by (cases "pc_size q = []") (simp_all add: claim_size_def pvcForBuilder_def Let_def split: option.splits)
  with q show ?thesis by blast
qed

lemma reconcilable_never_fails:
  assumes "healthy E obs" and "reconcilable E b st"
  shows "\<not> reconcile_failure E obs st b e"
proof
  note healthy = healthy_faults [OF assms(1)]
  assume "reconcile_failure E obs st b e"
  then consider spec where "spec_in st b spec" "failure E obs st b spec e"
    | err where "e = Some err" "unresolved E obs st b err"
    | "bs_mode (b_spec b) \<noteq> BuilderModePersistent" "bs_mode (b_spec b) \<noteq> BuilderModeSleepy"
    unfolding reconcile_failure_def using healthy(3) by blast
  then show False
  proof cases
    case 1
    have sizes: "lib_ParseQuantity E (claim_size p) \<noteq> None"
      if "cacheIsPVC spec" "cc_pvc (ts_cacheConfig spec) = Some p" for p
      using assms(2) 1(1) that unfolding reconcilable_def by blast
    show False
    proof (cases e)
      case None
      then obtain m where "cacheIsPVC spec" "pvcForBuilder E b spec = Panic m"
        using 1(2) by (auto simp: failure_def)
      with pvcForBuilder_panics [of spec E b m] sizes show False by blast
    next
      case (Some err)
      then show False
        using 1(2) assms(2) builder_ValidateCreateD(1) [of b]
        by (auto simp: failure_def reconcilable_def healthy)
    qed
  next
    case 2
    then show False
      using assms(2) builder_ValidateCreateD(2) [of b]
      by (auto simp: reconcilable_def unresolved_def template_unread_def healthy split: option.splits if_splits)
  next
    case 3
    then show False using assms(2) by (simp add: reconcilable_def)
  qed
qed

lemma reconcile_ends_settled:
  assumes "good_env E obs t0" and "healthy E obs"
    and "stored obs s KBuilder req = Some (OBuilder b)"
    and "om_deletionTimestamp (b_meta b) = None"
    and "reconcilable E b (stored obs s)"
  shows "\<exists>r s' spec. Reconcile E req s = (Ok r, s') \<and> spec_in (stored obs s) b spec
    \<and> settled E t0 b spec (stored obs s) (stored obs s') r
    \<and> touches (reach b) (stored obs s) (stored obs s')"
proof -
  have "wp (Reconcile E req) (\<lambda>r s'. \<exists>spec. spec_in (stored obs s) b spec
      \<and> settled E t0 b spec (stored obs s) (stored obs s') r
      \<and> touches (reach b) (stored obs s) (stored obs s')) (\<lambda>_ _. False) s"
    by (rule wp_Reconcile [OF assms(1,3,4)])
      (use reconcilable_never_fails [OF assms(2,5)] in auto)
  then show ?thesis
    by (cases "Reconcile E req s") (auto simp: wp_def split: outcome.splits)
qed

text \<open>
  What a successful reconciliation leaves can be reconciled again: the builder is there with
  the same specification and metadata, and the operator has spoiled nothing it needs.
\<close>

lemma same_requestD:
  assumes "same_request b b'"
  shows "b_spec b' = b_spec b" "b_namespace b' = b_namespace b" "b_name b' = b_name b"
    "meta_key (b_meta b') = meta_key (b_meta b)" "om_annotations (b_meta b') = om_annotations (b_meta b)"
    "om_deletionTimestamp (b_meta b') = om_deletionTimestamp (b_meta b)"
proof -
  from assms have meta: "b_meta b' = (b_meta b)\<lparr>om_resourceVersion := om_resourceVersion (b_meta b')\<rparr>"
    and "b_spec b' = b_spec b" by (simp_all add: same_request_def)
  then show "b_spec b' = b_spec b" by simp
  show "b_namespace b' = b_namespace b" "b_name b' = b_name b"
    "meta_key (b_meta b') = meta_key (b_meta b)" "om_annotations (b_meta b') = om_annotations (b_meta b)"
    "om_deletionTimestamp (b_meta b') = om_deletionTimestamp (b_meta b)"
    by (subst meta, simp)+
qed

lemma same_request_trans:
  assumes "same_request b b'" and "same_request b' b''"
  shows "same_request b b''"
proof -
  let ?v = "om_resourceVersion (b_meta b'')"
  have "b_meta b'' = (b_meta b')\<lparr>om_resourceVersion := ?v\<rparr>" using assms(2) by (simp add: same_request_def)
  also have "b_meta b' = (b_meta b)\<lparr>om_resourceVersion := om_resourceVersion (b_meta b')\<rparr>"
    using assms(1) by (simp add: same_request_def)
  finally have "b_meta b'' = (b_meta b)\<lparr>om_resourceVersion := ?v\<rparr>" by simp
  with assms show ?thesis by (simp add: same_request_def)
qed

lemma settled_builder:
  assumes "settled E t0 b spec st st' r" and "st KBuilder (meta_key (b_meta b)) = Some (OBuilder b)"
  shows "\<exists>b'. st' KBuilder (meta_key (b_meta b)) = Some (OBuilder b') \<and> same_request b b'"
  using assms
  by (fastforce simp: settled_def persistent_report_def sleepy_report_def split: if_splits)

lemma settled_readable:
  assumes "settled E t0 b spec st st' r" and "touches (reach b) st st'"
    and "\<not> ca_unreadable E st (b_namespace b)"
  shows "\<not> ca_unreadable E st' (b_namespace b)"
proof (cases "exposureEnabled b")
  case True
  with assms(1) have "ca_known E st' (b_namespace b)"
    by (simp add: settled_def provisioned_def exposure_settled_def split: if_splits)
  then show ?thesis by (rule ca_known_readable)
next
  case False
  then have "(KSecret, ca_key (b_namespace b)) \<notin> reach b"
    using ca_not_own by (simp add: reach_def footprint_def del: own_keys.simps own_keys_simps)
  with assms(3) touchesD [OF assms(2) this] show ?thesis by (simp add: ca_unreadable_def)
qed

lemma reconcilable_again:
  assumes "settled E t0 b spec st st' r" and "touches (reach b) st st'"
    and "st KBuilder (meta_key (b_meta b)) = Some (OBuilder b)" and "reconcilable E b st"
  shows "\<exists>b'. st' KBuilder (meta_key (b_meta b)) = Some (OBuilder b') \<and> same_request b b'
    \<and> reconcilable E b' st'"
proof -
  obtain b' where b': "st' KBuilder (meta_key (b_meta b)) = Some (OBuilder b')" "same_request b b'"
    using settled_builder [OF assms(1,3)] by blast
  note same = same_requestD [OF b'(2)]
  have templates: "st' KTemplate key = st KTemplate key" for key
    by (rule touchesD [OF assms(2)]) (auto simp: reach_def footprint_def)
  have spec: "spec_in st' b' = spec_in st b"
    by (rule ext) (simp add: spec_in_def same templates split: option.split)
  have valid: "builder_ValidateCreate b' = builder_ValidateCreate b"
    by (simp add: builder_ValidateCreate_def builder_validate_def validateExposure_def same)
  have "reconcilable E b' st'"
    using assms(4) settled_readable [OF assms(1,2)]
    by (simp add: reconcilable_def valid spec same templates cong: option.case_cong)
  with b' show ?thesis by blast
qed

end
