(* ===== verification/Interleaving.thy ===== *)
theory Interleaving
  imports Requests
begin

text \<open>
  Many reconciliations at once. Their calls of the API server are atomic and can come in any
  order, with the writes of other clients in between (the API of the builder service, users,
  other controllers). \<open>mixed_run\<close> is that machine; its steps are the single calls of theory
  \<open>Program_Logic\<close>, so nothing is assumed of when a reconciliation begins or ends, how many
  there are or whether one of them is cut off.
\<close>

section \<open>What a call can change\<close>

text \<open>The objects a request can put something in place of, if the server has them.\<close>

fun overwrites :: "request \<Rightarrow> kind \<Rightarrow> obj_key \<Rightarrow> bool" where
  "overwrites (ReqUpdate ob) k key = (k = kobj_kind ob \<and> key = kobj_key ob)"
| "overwrites (ReqDelete k' key') k key = (k = k' \<and> key = key')"
| "overwrites (ReqStatusUpdate ob) k key = (k = KBuilder \<and> key = kobj_key ob)"
| "overwrites _ k key = False"

text \<open>And those it can make.\<close>

fun makes :: "request \<Rightarrow> kind \<Rightarrow> obj_key \<Rightarrow> bool" where
  "makes (ReqCreate ob) k key = (k = kobj_kind ob \<and> key = kobj_key ob)"
| "makes _ k key = False"

lemma quiet_call:
  assumes "quiet_law E obs"
  shows "stored obs (snd (time_Now E s)) = stored obs s"
    and "stored obs (snd (lib_call (rsa_GenerateKey E) s)) = stored obs s"
    and "stored obs (snd (lib_call (rand_Int E n) s)) = stored obs s"
    and "stored obs (snd (lib_call (x509_CreateCertificate E t p pub priv) s)) = stored obs s"
  using assms
  by (auto simp: quiet_law_def time_Now_def lib_call_def split: prod.split sum.split)
    (metis snd_conv)+

text \<open>
  A call leaves an object as it is that it does not overwrite: an object that is there also
  when it asks to create it, one that is not there unless it does.
\<close>

lemma call_keeps:
  assumes laws: "api_laws E obs" and step: "call_step E P s s'"
    and "\<And>r. P r \<Longrightarrow> \<not> overwrites r k key"
    and "stored obs s k key = None \<Longrightarrow> (\<And>r. P r \<Longrightarrow> \<not> makes r k key)"
    and builders: "\<And>ob. P (ReqStatusUpdate ob) \<Longrightarrow> kobj_kind ob = KBuilder"
  shows "stored obs s' k key = stored obs s k key"
  using step
proof cases
  case (get k' key')
  then show ?thesis
    using get_lawD(1) [OF api_lawsD(1) [OF laws], of k' key' "world s"]
    by (auto simp: client_Get_def split: prod.splits)
next
  case (list_pods ns ls)
  then show ?thesis
    using list_lawD [OF api_lawsD(2) [OF laws], of ns ls "world s"]
    by (auto simp: client_ListPods_def split: prod.splits)
next
  case (create ob)
  obtain r w' where call: "cl_create E ob (world s) = (r, w')" by fastforce
  note law = create_lawD [OF api_lawsD(3) [OF laws] call]
  then have "obs w' = stored obs s \<or> stored obs s (kobj_kind ob) (kobj_key ob) = None
      \<and> (\<exists>v. obs w' = store_put (kobj_kind ob) (kobj_key ob) v (stored obs s))"
    by (auto simp: written_def split: option.splits)
  moreover have "(k, key) \<noteq> (kobj_kind ob, kobj_key ob)"
    if "stored obs s (kobj_kind ob) (kobj_key ob) = None"
    using assms(4) [OF _ create(2)] that by auto
  ultimately have "obs w' k key = stored obs s k key" by auto
  with create show ?thesis by (simp add: client_Create_def call)
next
  case (update ob)
  obtain r w' where call: "cl_update E ob (world s) = (r, w')" by fastforce
  from update_lawD [OF api_lawsD(4) [OF laws] call]
  have "obs w' = stored obs s \<or> written ob (stored obs s) (obs w')" by (auto split: option.splits)
  from written_put [OF this] assms(3) [OF update(2)]
  have "obs w' k key = stored obs s k key" by auto
  with update show ?thesis by (simp add: client_Update_def call)
next
  case (delete k' key')
  obtain r w' where call: "cl_delete E k' key' (world s) = (r, w')" by fastforce
  from delete_lawD [OF api_lawsD(5) [OF laws] call]
  have "obs w' = stored obs s \<or> removed k' key' (stored obs s) (obs w')"
    by (auto split: option.splits if_splits)
  from removed_put [OF this] assms(3) [OF delete(2)]
  have "obs w' k key = stored obs s k key" by auto
  with delete show ?thesis by (simp add: client_Delete_def call)
next
  case (status ob)
  from builders [OF status(2)] obtain b where ob: "ob = OBuilder b" by (cases ob) simp_all
  obtain r w' where call: "cl_status_update E (OBuilder b) (world s) = (r, w')" by fastforce
  from status_lawD [OF api_lawsD(6) [OF laws] call]
  have "obs w' = stored obs s \<or> status_written b (stored obs s) (obs w')" by (auto split: option.splits)
  from status_written_put [OF this] assms(3) [OF status(2)]
  have "obs w' k key = stored obs s k key" by (auto simp: ob)
  with status ob show ?thesis by (simp add: client_StatusUpdate_def call)
qed (simp_all add: recorder_Event_def quiet_call [OF api_lawsD(7) [OF laws]])

section \<open>The machine\<close>

text \<open>A request the operator may send for some builder.\<close>

definition operator :: "request \<Rightarrow> bool" where
  "operator r \<longleftrightarrow> (\<exists>b. allowed b r)"

text \<open>
  A run starts in \<open>s\<close>. A step is a call of the operator or a change made by others, who leave
  the objects of \<open>K\<close> alone.
\<close>

inductive mixed_run ::
  "'w env \<Rightarrow> ('w \<Rightarrow> store) \<Rightarrow> (kind \<times> obj_key) set \<Rightarrow> 'w sys \<Rightarrow> 'w sys \<Rightarrow> bool"
  for E obs K s where
  begin_run: "mixed_run E obs K s s"
| operator_call: "mixed_run E obs K s s' \<Longrightarrow> call_step E operator s' s'' \<Longrightarrow> mixed_run E obs K s s''"
| others_write: "mixed_run E obs K s s' \<Longrightarrow>
    \<forall>(k, key)\<in>K. stored obs s'' k key = stored obs s' k key \<Longrightarrow> mixed_run E obs K s s''"

lemma mixed_run_calls: "mixed_run E obs K s s' \<Longrightarrow> call_steps E operator s' s'' \<Longrightarrow> mixed_run E obs K s s''"
  by (rotate_tac, induction rule: rtranclp_induct) (auto intro: operator_call)

lemma mixed_run_trans: "mixed_run E obs K s' s'' \<Longrightarrow> mixed_run E obs K s s' \<Longrightarrow> mixed_run E obs K s s''"
  by (induction rule: mixed_run.induct) (auto intro: mixed_run.intros)

text \<open>A reconciliation is a run of the machine, and so are any number of them in a row.\<close>

lemma Reconcile_run:
  assumes "get_keyed E" and "owner_refs_only E" and "finalizers_only E"
  shows "mixed_run E obs K s (snd (Reconcile E req s))"
proof -
  let ?b = "named_builder (key_namespace req) (key_name req) zero_BuilderSpec"
  have "meta_key (b_meta ?b) = req" by (cases req) simp
  from emits_Reconcile [OF assms this] have "call_steps E (allowed ?b) s (snd (Reconcile E req s))"
    by (rule emits_steps)
  then have "call_steps E operator s (snd (Reconcile E req s))"
    by (rule call_steps_mono) (auto simp: operator_def)
  with begin_run show ?thesis by (rule mixed_run_calls)
qed

text \<open>What no request of the operator overwrites stays, if the others leave it alone.\<close>

lemma operator_status: "operator (ReqStatusUpdate ob) \<Longrightarrow> kobj_kind ob = KBuilder"
  by (auto simp: operator_def)

lemma mixed_run_keeps:
  assumes laws: "api_laws E obs" and "(k, key) \<in> K"
    and over: "\<And>r. operator r \<Longrightarrow> \<not> overwrites r k key"
    and make: "stored obs s k key = None \<Longrightarrow> (\<And>r. operator r \<Longrightarrow> \<not> makes r k key)"
    and run: "mixed_run E obs K s s'"
  shows "stored obs s' k key = stored obs s k key"
  using run
proof induction
  case (operator_call s' s'')
  from call_keeps [OF laws operator_call.hyps(2), of k key] over make operator_call.IH operator_status
  show ?case by auto
next
  case (others_write s' s'')
  then show ?case using assms(2) by auto
qed simp

lemma durable_not_overwritten:
  assumes "operator r" and "k = KPVC \<or> k = KSecret \<and> key_name key = caSecretName"
  shows "\<not> overwrites r k key"
  using assms by (cases r) (auto simp: operator_def builderTLSSecretName_def caSecretName_def)

text \<open>The names of the operator's own objects.\<close>

definition operators_name :: "kind \<Rightarrow> string \<Rightarrow> bool" where
  "operators_name k n \<longleftrightarrow> prefix ''builder-'' n \<or> k = KSecret \<and> n = caSecretName"

lemma own_keys_named:
  assumes "(k, key) \<in> set (own_keys b)"
  shows "operators_name k (key_name key)" and "k \<noteq> KBuilder" and "k \<noteq> KTemplate"
  using assms by (auto simp: operators_name_def builderSubName_def builderObjectName_def
      ingressRouteName_def builderTLSSecretName_def)

lemma foreign_not_written:
  assumes "operator r" and "k \<noteq> KBuilder" and "k = KTemplate \<or> \<not> operators_name k (key_name key)"
  shows "\<not> overwrites r k key" and "\<not> makes r k key"
proof -
  obtain b where b: "allowed b r" using assms(1) by (auto simp: operator_def)
  have own: "(k, key) \<notin> set (own_keys b)" using assms(3) own_keys_named [of k key b] by blast
  have ca: "\<not> (k = KSecret \<and> key = ca_key (b_namespace b))"
    using assms(3) by (auto simp: operators_name_def)
  show "\<not> overwrites r k key" "\<not> makes r k key"
    using b own ca assms(2) by (cases r; auto simp del: own_keys.simps)+
qed

section \<open>Properties\<close>

lemma still_finalizers: "finalizers_only (still_env t)"
  by (simp add: finalizers_only_def still_env_def mem_env_def)





end
