(* ===== verification/Samples.thy ===== *)
theory Samples
  imports Convergence Interleaving
begin

text \<open>
  The builders and runs the witnesses of the following theories share, in the world of theory
  \<open>Cluster\<close>.
\<close>

section \<open>Runs of the witnesses\<close>

text \<open>
  A persistent builder with a cache claim and an exposed host, and a sleepy one that was
  last used at 2024-05-01T10:00:00Z, in the world of theory \<open>Cluster\<close> where the clock shows ten minutes
  later. Each has one pod that serves.
\<close>

definition noon :: time where
  "noon = unixTime 2024 5 1 10 10 0 0"

definition claim_template :: TemplateSpec where
  "claim_template = zero_TemplateSpec\<lparr>ts_cacheConfig := \<lparr>cc_type = ''pvc'',
     cc_pvc = Some \<lparr>pc_storageClassName = [], pc_size = ''10Gi'', pc_accessModes = []\<rparr>, cc_s3 = None\<rparr>\<rparr>"

definition web :: Builder where
  "web = named_builder ''ci'' ''web'' (zero_BuilderSpec\<lparr>bs_mode := ''persistent'',
     bs_template := Some claim_template,
     bs_exposure := Some \<lparr>ex_enabled = True, ex_host = ''b.io'', ex_ingressController = [],
       ex_entryPoint = [], ex_annotations = []\<rparr>\<rparr>)"

definition nap :: Builder where
  "nap = (named_builder ''ci'' ''nap'' (zero_BuilderSpec\<lparr>bs_mode := ''sleepy'',
      bs_template := Some zero_TemplateSpec, bs_idleTimeoutSeconds := Some 300\<rparr>))
    \<lparr>b_meta := (meta_of ''ci'' ''nap'')\<lparr>om_annotations :=
      Some [(AnnotationLastUsed, ''2024-05-01T10:00:00Z'')]\<rparr>\<rparr>"

definition big_web :: Builder where
  "big_web = named_builder ''ci'' ''web'' (zero_BuilderSpec\<lparr>bs_mode := ''persistent'',
     bs_template := Some (zero_TemplateSpec\<lparr>ts_cacheConfig := \<lparr>cc_type = ''pvc'',
       cc_pvc = Some \<lparr>pc_storageClassName = [], pc_size = ''big'', pc_accessModes = []\<rparr>,
       cc_s3 = None\<rparr>\<rparr>)\<rparr>)"

definition old_builder :: Builder where
  "old_builder = (named_builder ''ci'' ''old'' (zero_BuilderSpec\<lparr>bs_templateRef := Some ''base''\<rparr>))
     \<lparr>b_meta := (meta_of ''ci'' ''old'')\<lparr>om_finalizers := [FinalizerPVC], om_deletionTimestamp := Some 5\<rparr>\<rparr>"

definition pod_of :: "Builder \<Rightarrow> pod" where
  "pod_of b = \<lparr>pod_meta = (meta_of (b_namespace b) (builderSubName b ''-0''))
     \<lparr>om_labels := Some (labelsForBuilder b (bs_mode (b_spec b)))\<rparr>,
     pod_phase = ''Running'', pod_ip = ''10.0.0.7''\<rparr>"

definition world_of :: "Builder \<Rightarrow> mem sys" where
  "world_of b = start [OBuilder b] [pod_of b] 0"

definition run_of :: "Builder \<Rightarrow> result outcome \<times> mem sys" where
  "run_of b = Reconcile (still_env noon) (meta_key (b_meta b)) (world_of b)"

lemma still_good: "good_env (still_env t) mem_objects t"
  by (simp add: good_env_def still_api_laws still_owner_refs still_crypto_laws)

lemma still_is_healthy: "healthy (still_env t) mem_objects"
  by (simp add: healthy_def still_healthy still_lib_works)

lemma world_of_found: "mem_objects (world (world_of b)) KBuilder (meta_key (b_meta b)) = Some (OBuilder b)"
  by (simp add: world_of_def)

lemma run_web_ok: "fst (run_of web) = Ok no_requeue"
  by code_simp

lemma run_nap_ok: "fst (run_of nap) = Ok \<lparr>requeueAfter = 30 * time_Second\<rparr>"
  by code_simp


lemma run_web: "Reconcile (still_env noon) (meta_key (b_meta web)) (world_of web) = (Ok no_requeue, snd (run_of web))"
  using run_web_ok unfolding run_of_def by (metis prod.collapse)

lemma run_nap: "Reconcile (still_env noon) (meta_key (b_meta nap)) (world_of nap)
    = (Ok \<lparr>requeueAfter = 30 * time_Second\<rparr>, snd (run_of nap))"
  using run_nap_ok unfolding run_of_def by (metis prod.collapse)

lemma web_fields: "om_deletionTimestamp (b_meta web) = None" "bs_mode (b_spec web) = BuilderModePersistent"
    "bs_replicas (b_spec web) = None" "exposureEnabled web"
  by (simp_all add: web_def BuilderModePersistent_def zero_BuilderSpec_def exposureEnabled_def)

lemma web_claim: "map_option claim_size (cc_pvc (ts_cacheConfig (mergeSpec None (Some claim_template)))) = Some ''10Gi''"
  by code_simp

lemma web_spec: "spec_in st web spec \<longleftrightarrow> spec = mergeSpec None (Some claim_template)"
  by (simp add: spec_in_def web_def zero_BuilderSpec_def)

lemma web_reconcilable: "reconcilable (still_env noon) web (mem_objects (world (world_of web)))"
  unfolding reconcilable_def
proof (intro conjI allI impI)
  show "builder_ValidateCreate web = None" by code_simp
  show "bs_mode (b_spec web) \<in> {BuilderModePersistent, BuilderModeSleepy}" by (simp add: web_fields)
  show "case bs_templateRef (b_spec web) of None \<Rightarrow> True
      | Some ref \<Rightarrow> mem_objects (world (world_of web)) KTemplate (ObjectKey (b_namespace web) ref) \<noteq> None"
    by (simp add: web_def zero_BuilderSpec_def)
  show "lib_ParseQuantity (still_env noon) (claim_size p) \<noteq> None"
    if "spec_in (mem_objects (world (world_of web))) web spec" "cc_pvc (ts_cacheConfig spec) = Some p" for spec p
    using that web_claim by (simp add: web_spec still_env_def mem_env_def mem_ParseQuantity_def)
  show "\<not> ca_unreadable (still_env noon) (mem_objects (world (world_of web))) (b_namespace web)"
    by (simp add: ca_unreadable_def world_of_def)
qed

lemma nap_fields: "om_deletionTimestamp (b_meta nap) = None" "bs_mode (b_spec nap) = BuilderModeSleepy"
  by (simp_all add: nap_def BuilderModeSleepy_def)

lemma modes_differ: "BuilderModePersistent \<noteq> BuilderModeSleepy"
  by (simp add: names_simps)

end
