(* ===== verification/Lifecycle.thy ===== *)
theory Lifecycle
  imports Samples
begin

text \<open>
  The life of a sleepy builder over many reconciliations. A watch is an unending sequence of
  reconciliations of one builder, as the controller's work queue makes it: each starts in a
  state that others may have changed since the last one, and a reconciliation that asks to be
  repeated after some time is repeated no later than that and some slack. Time is what the
  clocks of the reconciliations show.
\<close>

section \<open>Watches\<close>

record 'w watch =
  wt_env :: "nat \<Rightarrow> 'w env"
  wt_state :: "nat \<Rightarrow> 'w sys"
  wt_from :: "nat \<Rightarrow> time"
  wt_until :: "nat \<Rightarrow> time"

definition round_of :: "'w watch \<Rightarrow> obj_key \<Rightarrow> nat \<Rightarrow> result outcome \<times> 'w sys" where
  "round_of W req i = Reconcile (wt_env W i) req (wt_state W i)"

text \<open>The builder of \<open>b\<close> is in the state of round \<open>i\<close> and can be reconciled there.\<close>

definition ready_in :: "('w \<Rightarrow> store) \<Rightarrow> Builder \<Rightarrow> 'w env \<Rightarrow> 'w sys \<Rightarrow> bool" where
  "ready_in obs b E s \<longleftrightarrow> (\<exists>b'. stored obs s KBuilder (meta_key (b_meta b)) = Some (OBuilder b')
     \<and> same_request b b' \<and> reconcilable E b' (stored obs s))"

text \<open>
  The environment is healthy, the clock of a round stays within its bounds, which are at most
  \<open>delay\<close> apart; what the others do between two rounds leaves the builder's specification and
  metadata, and what its reconciliation needs; a round that asks for a requeue is followed by
  another in time; and time passes.
\<close>

definition watching :: "('w \<Rightarrow> store) \<Rightarrow> Builder \<Rightarrow> time \<Rightarrow> time \<Rightarrow> 'w watch \<Rightarrow> bool" where
  "watching obs b delay slack W \<longleftrightarrow>
     (\<forall>i. good_env (wt_env W i) obs (wt_from W i) \<and> healthy (wt_env W i) obs)
     \<and> (\<forall>i w. fst (clock (wt_env W i) w) \<le> wt_until W i)
     \<and> (\<forall>i. wt_until W i \<le> wt_from W i + delay)
     \<and> (\<forall>i. ready_in obs b (wt_env W i) (snd (round_of W (meta_key (b_meta b)) i)) \<longrightarrow>
          ready_in obs b (wt_env W (Suc i)) (wt_state W (Suc i)))
     \<and> (\<forall>i r. fst (round_of W (meta_key (b_meta b)) i) = Ok r \<longrightarrow> 0 < sint (requeueAfter r) \<longrightarrow>
          wt_from W (Suc i) \<le> wt_until W i + sint (requeueAfter r) + slack)
     \<and> (\<forall>t. \<exists>i. t \<le> wt_from W i)"

lemma watchingD:
  assumes "watching obs b delay slack W"
  shows "good_env (wt_env W i) obs (wt_from W i)" "healthy (wt_env W i) obs"
    "fst (clock (wt_env W i) w) \<le> wt_until W i" "wt_until W i \<le> wt_from W i + delay"
    "ready_in obs b (wt_env W i) (snd (round_of W (meta_key (b_meta b)) i)) \<Longrightarrow>
      ready_in obs b (wt_env W (Suc i)) (wt_state W (Suc i))"
    "fst (round_of W (meta_key (b_meta b)) i) = Ok r \<Longrightarrow> 0 < sint (requeueAfter r) \<Longrightarrow>
      wt_from W (Suc i) \<le> wt_until W i + sint (requeueAfter r) + slack"
    "\<exists>i. t \<le> wt_from W i"
  using assms unfolding watching_def by blast+

section \<open>Every round succeeds\<close>

lemma round_settles:
  assumes "good_env E obs t0" and "healthy E obs" and "ready_in obs b E s"
    and "om_deletionTimestamp (b_meta b) = None"
  shows "\<exists>b' r s' spec. Reconcile E (meta_key (b_meta b)) s = (Ok r, s') \<and> same_request b b'
    \<and> settled E t0 b' spec (stored obs s) (stored obs s') r \<and> ready_in obs b E s'"
proof -
  obtain b' where b': "stored obs s KBuilder (meta_key (b_meta b)) = Some (OBuilder b')"
    "same_request b b'" "reconcilable E b' (stored obs s)"
    using assms(3) by (auto simp: ready_in_def)
  note same = same_requestD [OF b'(2)]
  have "om_deletionTimestamp (b_meta b') = None" using assms(4) same(6) by simp
  from reconcile_ends_settled [OF assms(1,2) b'(1) this b'(3)] obtain r s' spec where
    run: "Reconcile E (meta_key (b_meta b)) s = (Ok r, s')"
    and settled: "settled E t0 b' spec (stored obs s) (stored obs s') r"
    and touches: "touches (reach b') (stored obs s) (stored obs s')" by blast
  have "stored obs s KBuilder (meta_key (b_meta b')) = Some (OBuilder b')" using b'(1) same(4) by simp
  from reconcilable_again [OF settled touches this b'(3)] obtain b'' where
    "stored obs s' KBuilder (meta_key (b_meta b)) = Some (OBuilder b'')" "same_request b' b''"
    "reconcilable E b'' (stored obs s')" unfolding same(4) by blast
  then have "ready_in obs b E s'"
    unfolding ready_in_def using same_request_trans [OF b'(2)] by blast
  with run settled b'(2) show ?thesis by blast
qed

lemma watched_ready:
  assumes "watching obs b delay slack W" and "ready_in obs b (wt_env W 0) (wt_state W 0)"
    and "om_deletionTimestamp (b_meta b) = None"
  shows "ready_in obs b (wt_env W i) (wt_state W i)"
proof (induction i)
  case (Suc i)
  from round_settles [OF watchingD(1,2) [OF assms(1)] Suc.IH assms(3)]
  have "ready_in obs b (wt_env W i) (snd (round_of W (meta_key (b_meta b)) i))"
    by (auto simp: round_of_def)
  then show ?case by (rule watchingD(5) [OF assms(1)])
qed (rule assms(2))

section \<open>The stateful set after a round\<close>

definition scaled_to :: "('w \<Rightarrow> store) \<Rightarrow> Builder \<Rightarrow> int32 \<Rightarrow> 'w sys \<Rightarrow> bool" where
  "scaled_to obs b n s \<longleftrightarrow>
     (\<exists>t. stored obs s KStatefulSet (ObjectKey (b_namespace b) (builderObjectName b)) = Some (OStatefulSet t)
        \<and> sts_replicas t = Some n)"

lemma wanted_at_same:
  assumes "same_request b b'"
  shows "wanted_at b' t = wanted_at b t"
proof -
  have "idleTimeout b' = idleTimeout b" by (simp add: idleTimeout_def same_requestD [OF assms])
  then show ?thesis unfolding wanted_at_def Let_def same_requestD [OF assms] by (simp only:)
qed

lemma half_minute: "sint (30 * time_Second) = 30 * 10 ^ 9"
  by (simp add: time_Second_def)

lemma parse_empty: "parseRFC3339 [] = None"
  by code_simp

lemma wanted_at_used:
  assumes "parseRFC3339 (gomap_get (om_annotations (b_meta b)) AnnotationLastUsed) = Some u"
  shows "wanted_at b now = (if now < u + sint (idleTimeout b) * 10 ^ 9 then 1 else 0)"
proof -
  have "gomap_get (om_annotations (b_meta b)) AnnotationLastUsed \<noteq> []" using assms parse_empty by auto
  with assms show ?thesis by (simp add: wanted_at_def Let_def algebra_simps)
qed

lemma sleepy_round:
  assumes "watching obs b delay slack W" and "ready_in obs b (wt_env W 0) (wt_state W 0)"
    and "om_deletionTimestamp (b_meta b) = None" and "bs_mode (b_spec b) = BuilderModeSleepy"
  shows "\<exists>t. wt_from W i \<le> t \<and> t \<le> wt_until W i
    \<and> scaled_to obs b (wanted_at b t) (snd (round_of W (meta_key (b_meta b)) i))
    \<and> fst (round_of W (meta_key (b_meta b)) i) = Ok \<lparr>requeueAfter = 30 * time_Second\<rparr>"
proof -
  let ?E = "wt_env W i"
  have modes: "BuilderModeSleepy \<noteq> BuilderModePersistent" by (simp add: names_simps)
  from round_settles [OF watchingD(1,2) [OF assms(1)] watched_ready [OF assms(1-3)] assms(3)]
  obtain b' r s' spec where run: "Reconcile ?E (meta_key (b_meta b)) (wt_state W i) = (Ok r, s')"
    and same: "same_request b b'"
    and settled: "settled ?E (wt_from W i) b' spec (stored obs (wt_state W i)) (stored obs s') r"
    by blast
  then obtain n w where n: "n = wanted_at b' (fst (clock ?E w))"
    and sts: "sts_settled ?E b' spec n (stored obs s')" and report: "sleepy_report ?E b' n (stored obs s') r"
    using assms(4) modes by (auto simp: settled_def same_requestD(1) [OF same])
  have "wt_from W i \<le> fst (clock ?E w)" by (rule good_envD(4) [OF watchingD(1) [OF assms(1)]])
  moreover have "fst (clock ?E w) \<le> wt_until W i" by (rule watchingD(3) [OF assms(1)])
  moreover have "scaled_to obs b (wanted_at b (fst (clock ?E w))) s'"
    using sts n by (auto simp: sts_settled_def scaled_to_def wanted_at_same [OF same]
        builderObjectName_def same_requestD [OF same])
  moreover have "r = \<lparr>requeueAfter = 30 * time_Second\<rparr>" using report by (simp add: sleepy_report_def)
  ultimately show ?thesis using run by (auto simp: round_of_def)
qed

section \<open>A watch for the witnesses\<close>

text \<open>
  The sleepy builder of theory \<open>Samples\<close>, reconciled every thirty seconds from its last use
  on; nobody else does anything.
\<close>

definition nap_from :: "nat \<Rightarrow> time" where
  "nap_from i = noon - 600 * 10 ^ 9 + 30 * 10 ^ 9 * int i"

primrec nap_state :: "nat \<Rightarrow> mem sys" where
  "nap_state 0 = world_of nap"
| "nap_state (Suc i) = snd (Reconcile (still_env (nap_from i)) (meta_key (b_meta nap)) (nap_state i))"

definition nap_watch :: "mem watch" where
  "nap_watch = \<lparr>wt_env = (\<lambda>i. still_env (nap_from i)), wt_state = nap_state,
     wt_from = nap_from, wt_until = nap_from\<rparr>"

lemma still_reconcilable: "reconcilable (still_env t) b st = reconcilable (still_env t') b st"
proof -
  have "parseCertAndKey (still_env t) c k = parseCertAndKey (still_env t') c k" for c k
    by (simp add: parseCertAndKey_def still_env_def cong: option.case_cong sum.case_cong prod.case_cong)
  moreover have "lib_ParseQuantity (still_env t) = lib_ParseQuantity (still_env t')"
    by (simp add: still_env_def)
  ultimately show ?thesis by (simp add: reconcilable_def ca_unreadable_def)
qed

lemma nap_watching: "watching mem_objects nap 0 (30 * 10 ^ 9) nap_watch"
  unfolding watching_def
proof (intro conjI allI impI)
  show "\<exists>i. t \<le> wt_from nap_watch i" for t
    by (rule exI [of _ "nat (t - nap_from 0)"]) (simp add: nap_watch_def nap_from_def)
  show "ready_in mem_objects nap (wt_env nap_watch (Suc i)) (wt_state nap_watch (Suc i))"
    if "ready_in mem_objects nap (wt_env nap_watch i) (snd (round_of nap_watch (meta_key (b_meta nap)) i))" for i
    using that still_reconcilable [of "nap_from i" _ _ "nap_from (Suc i)"]
    by (simp add: nap_watch_def round_of_def ready_in_def)
  show "good_env (wt_env nap_watch i) mem_objects (wt_from nap_watch i)" for i
    by (simp add: nap_watch_def still_good)
  show "healthy (wt_env nap_watch i) mem_objects" for i
    by (simp add: nap_watch_def still_is_healthy)
qed (simp_all add: nap_watch_def nap_from_def)

lemma nap_ready: "ready_in mem_objects nap (wt_env nap_watch 0) (wt_state nap_watch 0)"
proof -
  have valid: "builder_ValidateCreate nap = None" by code_simp
  have "\<not> cacheIsPVC spec" if "spec_in st nap spec" for st spec
  proof -
    have "\<not> cacheIsPVC (mergeSpec None (Some zero_TemplateSpec))" by code_simp
    moreover have "spec = mergeSpec None (Some zero_TemplateSpec)"
      using that by (simp add: spec_in_def nap_def zero_BuilderSpec_def)
    ultimately show ?thesis by simp
  qed
  then have "reconcilable (still_env t) nap (mem_objects (world (world_of nap)))" for t
    by (auto simp: reconcilable_def valid nap_fields ca_unreadable_def world_of_def)
      (simp add: nap_def zero_BuilderSpec_def)
  then show ?thesis
    using world_of_found [of nap] by (auto simp: ready_in_def nap_watch_def)
qed

lemma nap_used: "parseRFC3339 (gomap_get (om_annotations (b_meta nap)) AnnotationLastUsed) = Some (noon - 600 * 10 ^ 9)"
  by code_simp

lemma nap_asleep: "noon - 300 * 10 ^ 9 = (noon - 600 * 10 ^ 9) + sint (idleTimeout nap) * 10 ^ 9"
  by (simp add: idleTimeout_def nap_def)

section \<open>Properties\<close>





end
