(* ===== verification/Manager.thy ===== *)
theory Manager
  imports Samples
begin

text \<open>
  How the operator is put together: the API groups
  (\<open>api/*/v1alpha1/groupversion_info.go\<close>), the scheme and the start of the manager
  (\<open>cmd/main.go\<close>), the objects the controller watches and the permissions its markers ask for
  (\<open>internal/controller/buildkitbuilder_controller.go\<close>). The manager, its builder and the
  API server's authorizer are library code: they are parameters here.
\<close>

section \<open>Groups, kinds and resources\<close>

record group_version =
  gv_group :: string
  gv_version :: string

definition builder_GroupVersion :: group_version where
  "builder_GroupVersion = \<lparr>gv_group = ''builder-hub.dev'', gv_version = ''v1alpha1''\<rparr>"

definition template_GroupVersion :: group_version where
  "template_GroupVersion = \<lparr>gv_group = ''builder-template.builder-hub.dev'', gv_version = ''v1alpha1''\<rparr>"

text \<open>What the \<open>init\<close> functions of the type packages register with their scheme builders.\<close>

type_synonym gvk = "group_version \<times> string"

definition builder_types :: "gvk list" where
  "builder_types = map (Pair builder_GroupVersion) [''BuildkitBuilder'', ''BuildkitBuilderList'']"

definition template_types :: "gvk list" where
  "template_types = map (Pair template_GroupVersion)
     [''BuildkitBuilderTemplate'', ''BuildkitBuilderTemplateList'']"

text \<open>\<open>init\<close> of \<open>cmd/main.go\<close>: the types of \<open>client-go\<close>, of which there is a list, and these.\<close>

definition main_scheme :: "gvk list \<Rightarrow> gvk list" where
  "main_scheme clientgo = clientgo @ builder_types @ template_types"

text \<open>The group and the name under which the API server serves a kind.\<close>

fun kind_resource :: "kind \<Rightarrow> string \<times> string" where
  "kind_resource KBuilder = (gv_group builder_GroupVersion, ''buildkitbuilders'')"
| "kind_resource KTemplate = (gv_group template_GroupVersion, ''buildkitbuildertemplates'')"
| "kind_resource KConfigMap = ([], ''configmaps'')"
| "kind_resource KService = ([], ''services'')"
| "kind_resource KPVC = ([], ''persistentvolumeclaims'')"
| "kind_resource KStatefulSet = (''apps'', ''statefulsets'')"
| "kind_resource KSecret = ([], ''secrets'')"
| "kind_resource KIngressRoute = (''traefik.io'', ''ingressroutetcps'')"

section \<open>Permissions\<close>

record policy_rule =
  pr_groups :: "string list"
  pr_resources :: "string list"
  pr_verbs :: "string list"

abbreviation every_verb :: "string list" where
  "every_verb \<equiv> [''get'', ''list'', ''watch'', ''create'', ''update'', ''patch'', ''delete'']"

text \<open>The \<open>+kubebuilder:rbac\<close> markers of the controller, in their order.\<close>

definition rbac_markers :: "policy_rule list" where
  "rbac_markers = map (\<lambda>(g, rs, vs). \<lparr>pr_groups = [g], pr_resources = rs, pr_verbs = vs\<rparr>)
     [(''builder-hub.dev'', [''buildkitbuilders''], every_verb),
      (''builder-hub.dev'', [''buildkitbuilders/status''], [''get'', ''update'', ''patch'']),
      (''builder-hub.dev'', [''buildkitbuilders/finalizers''], [''update'']),
      (''builder-template.builder-hub.dev'', [''buildkitbuildertemplates''], [''get'', ''list'', ''watch'']),
      ([], [''pods''], every_verb),
      (''apps'', [''statefulsets''], every_verb),
      ([], [''services''], every_verb),
      ([], [''persistentvolumeclaims''], every_verb),
      ([], [''secrets''], every_verb),
      ([], [''configmaps''], every_verb),
      ([], [''events''], [''create'', ''patch'']),
      (''traefik.io'', [''ingressroutes'', ''ingressroutetcps''], every_verb)]"

definition granted :: "policy_rule list \<Rightarrow> string \<times> string \<Rightarrow> string \<Rightarrow> bool" where
  "granted rules resource verb \<longleftrightarrow> list_ex (\<lambda>r. List.member (pr_groups r) (fst resource)
     \<and> List.member (pr_resources r) (snd resource) \<and> List.member (pr_verbs r) verb) rules"

text \<open>
  The permissions a request takes. The manager's client reads through a cache, which lists and
  watches what is read; an object that is created with an owner to be blocked takes the
  right to update the owner's finalizers; an event may be patched into an earlier one.
\<close>

definition builder_sub :: "string \<Rightarrow> string \<times> string" where
  "builder_sub sub = (case kind_resource KBuilder of (g, r) \<Rightarrow> (g, r @ sub))"

fun takes :: "request \<Rightarrow> ((string \<times> string) \<times> string) list" where
  "takes (ReqGet k key) = map (Pair (kind_resource k)) [''get'', ''list'', ''watch'']"
| "takes (ReqListPods ns ls) = map (Pair ([], ''pods'')) [''list'', ''watch'']"
| "takes (ReqCreate ob) = [(kind_resource (kobj_kind ob), ''create''), (builder_sub ''/finalizers'', ''update'')]"
| "takes (ReqUpdate ob) = [(kind_resource (kobj_kind ob), ''update'')]"
| "takes (ReqDelete k key) = [(kind_resource k, ''delete'')]"
| "takes (ReqStatusUpdate ob) = [(builder_sub ''/status'', ''update'')]"
| "takes (ReqEvent key reason e) = map (Pair ([], ''events'')) [''create'', ''patch'']"

definition may :: "policy_rule list \<Rightarrow> request \<Rightarrow> bool" where
  "may rules r \<longleftrightarrow> list_all (\<lambda>(resource, verb). granted rules resource verb) (takes r)"

text \<open>What the markers grant, kind by kind.\<close>

lemma markers_get: "\<forall>k. list_all (\<lambda>v. granted rbac_markers (kind_resource k) v) [''get'', ''list'', ''watch'']"
  by code_simp

lemma markers_write:
  "\<forall>k. k = KTemplate \<or> list_all (\<lambda>v. granted rbac_markers (kind_resource k) v) [''create'', ''update'', ''delete'']"
  by code_simp

lemma markers_rest:
  "granted rbac_markers (builder_sub ''/finalizers'') ''update''"
  "granted rbac_markers (builder_sub ''/status'') ''update''"
  "granted rbac_markers ([], ''pods'') ''list''" "granted rbac_markers ([], ''pods'') ''watch''"
  "granted rbac_markers ([], ''events'') ''create''" "granted rbac_markers ([], ''events'') ''patch''"
  by code_simp+

lemma own_kind: "(k, key) \<in> set (own_keys b) \<Longrightarrow> k \<noteq> KTemplate"
  by auto

lemma allowed_may: "allowed b r \<Longrightarrow> may rbac_markers r"
  using markers_get markers_write markers_rest
  by (cases r) (auto simp: may_def dest: own_kind simp del: own_keys.simps own_keys_simps kind_resource.simps)

text \<open>C10: The permissions the markers ask for are enough: whatever the API server answers, a
  reconciliation makes no request that takes a permission they do not grant, and the one
  thing they withhold, writing templates, it never does.\<close>

theorem requests_granted:
  assumes "get_keyed E" and "owner_refs_only E" and "finalizers_only E"
  shows "\<exists>cs. calls (snd (Reconcile E req s)) = calls s @ cs
    \<and> list_all (\<lambda>c. may rbac_markers (fst c)) cs"
proof -
  obtain b :: Builder where "meta_key (b_meta b) = req"
      using that [of "named_builder (key_namespace req) (key_name req) zero_BuilderSpec"] by simp
  from emits_calls [OF emits_Reconcile [OF assms this], of s] obtain cs where
    "calls (snd (Reconcile E req s)) = calls s @ cs" and "\<forall>c\<in>set cs. allowed b (fst c)" by blast
  then show ?thesis by (auto simp: list_all_iff intro: allowed_may)
qed

theorem requests_granted_witness:
  "\<exists>cs. calls (snd (Reconcile (still_env 5) (ObjectKey ''ci'' ''web'') (start [OBuilder web] [] 0))) = cs
    \<and> list_all (\<lambda>c. may rbac_markers (fst c)) cs"
  using requests_granted [OF api_laws_keyed [OF still_api_laws] still_owner_refs still_finalizers,
      of 5 "ObjectKey ''ci'' ''web''" "start [OBuilder web] [] 0"]
  by (auto simp: start_def)

section \<open>Watches\<close>

datatype watched = WPod | WKind kind

record controller_setup =
  cs_for :: watched
  cs_owns :: "watched list"

definition builder_controller :: controller_setup where
  "builder_controller = \<lparr>cs_for = WKind KBuilder,
     cs_owns = [WPod, WKind KStatefulSet, WKind KService, WKind KPVC, WKind KSecret]\<rparr>"

text \<open>
  What the library does with such a set-up, \<open>enq\<close>: a change of a builder asks for its
  reconciliation, a change of an owned kind for that of the builder which controls the object,
  and a change of another kind for none.
\<close>

definition follows_setup :: "(watched \<Rightarrow> object_meta \<Rightarrow> obj_key set) \<Rightarrow> controller_setup \<Rightarrow> bool" where
  "follows_setup enq c \<longleftrightarrow> (\<forall>w m. enq w m =
     (if w = cs_for c then {meta_key m}
      else if w \<in> set (cs_owns c)
      then (\<lambda>r. ObjectKey (om_namespace m) (or_name r)) `
        {r \<in> set (om_ownerReferences m). or_controller r \<and> or_kind r = ''BuildkitBuilder''}
      else {}))"

text \<open>\<open>SetControllerReference\<close> leaves the builder as the one controller of the object.\<close>

definition controls :: "'w env \<Rightarrow> bool" where
  "controls E \<longleftrightarrow> (\<forall>b m m'. lib_SetControllerReference E b m = Inr m' \<longrightarrow>
     list_ex or_controller (om_ownerReferences m')
     \<and> list_all (\<lambda>r. or_controller r \<longrightarrow> or_kind r = ''BuildkitBuilder'' \<and> or_name r = b_name b)
         (om_ownerReferences m'))"

text \<open>A library that does so, and an environment that owns objects so, for the witnesses.\<close>

definition library_enqueues :: "controller_setup \<Rightarrow> watched \<Rightarrow> object_meta \<Rightarrow> obj_key set" where
  "library_enqueues c w m =
     (if w = cs_for c then {meta_key m}
      else if w \<in> set (cs_owns c)
      then (\<lambda>r. ObjectKey (om_namespace m) (or_name r)) `
        {r \<in> set (om_ownerReferences m). or_controller r \<and> or_kind r = ''BuildkitBuilder''}
      else {})"

lemma library_follows: "follows_setup (library_enqueues c) c"
  by (simp add: follows_setup_def library_enqueues_def)

lemma still_controls: "controls (still_env t)"
  by (auto simp: controls_def still_env_def mem_env_def mem_SetControllerReference_def
      list_all_iff list_ex_iff split: if_splits)

lemma owned_enqueues:
  assumes "follows_setup enq builder_controller" and "controls E" and "owned_by E b m"
    and "w \<in> set (cs_owns builder_controller)"
  shows "enq w m = {meta_key (b_meta b)}"
proof -
  let ?C = "{r \<in> set (om_ownerReferences m). or_controller r \<and> or_kind r = ''BuildkitBuilder''}"
  have "w \<noteq> cs_for builder_controller" using assms(4) by (auto simp: builder_controller_def)
  then have "enq w m = (\<lambda>r. ObjectKey (om_namespace m) (or_name r)) ` ?C"
    using assms(1,4) by (simp add: follows_setup_def)
  moreover obtain m0 m' where "lib_SetControllerReference E b m0 = Inr m'"
    and refs: "om_ownerReferences m = om_ownerReferences m'" and ns: "om_namespace m = b_namespace b"
    using assms(3) by (auto simp: owned_by_def)
  then have some: "list_ex or_controller (om_ownerReferences m)"
    and all: "list_all (\<lambda>r. or_controller r \<longrightarrow> or_kind r = ''BuildkitBuilder'' \<and> or_name r = b_name b)
      (om_ownerReferences m)" using assms(2) unfolding controls_def refs by blast+
  then have "?C \<noteq> {}" and "\<forall>r\<in>?C. ObjectKey (om_namespace m) (or_name r) = meta_key (b_meta b)"
    by (auto simp: list_ex_iff list_all_iff meta_key_def ns)
  ultimately show ?thesis by auto
qed

text \<open>Neither service of a builder ever has an owner: whenever a reconciliation returns
  without error the stored services have no owner reference, so the garbage collector does
  not remove them with the builder, although the manager is set up to own services.\<close>

lemma services_have_no_owner:
  assumes "good_env E obs t0"
    and "stored obs s KBuilder req = Some (OBuilder b)"
    and "om_deletionTimestamp (b_meta b) = None"
    and "Reconcile E req s = (Ok r, s')"
  shows "\<exists>svc svc'. stored obs s' KService (ObjectKey (b_namespace b) (builderObjectName b)) = Some (OService svc)
    \<and> stored obs s' KService (ObjectKey (b_namespace b) (builderSubName b ''-client'')) = Some (OService svc')
    \<and> om_ownerReferences (svc_meta svc) = [] \<and> om_ownerReferences (svc_meta svc') = []"
proof -
  have "wp (Reconcile E req) (\<lambda>r s'. service_settled (headlessServiceForBuilder b) (stored obs s')
      \<and> service_settled (nodePortServiceForBuilder b) (stored obs s')) (\<lambda>_ _. True) s"
    by (rule wp_Reconcile [OF assms(1-3)]) (auto simp: settled_def provisioned_def)
  note both = wp_Ok [OF this assms(4)]
  have owned: "\<exists>svc'. ob = OService svc' \<and> om_ownerReferences (svc_meta svc') = []"
    if "agrees (OService svc) ob" "om_ownerReferences (svc_meta svc) = []" for svc ob
    using that by (cases ob) (simp_all add: meta_agrees_def)
  from both show ?thesis
    unfolding service_settled_def by (fastforce dest: owned)
qed

text \<open>C25: What the controller notices. After a reconciliation without error a change of the
  stateful set asks for another reconciliation of the same builder, but a change of either
  service, of the configuration, of the route or of any template asks for none.\<close>

theorem changes_noticed:
  assumes "good_env E obs t0" and "controls E" and "follows_setup enq builder_controller"
    and "stored obs s KBuilder req = Some (OBuilder b)"
    and "om_deletionTimestamp (b_meta b) = None"
    and "Reconcile E req s = (Ok r, s')"
  shows "\<exists>t svc svc'.
      stored obs s' KStatefulSet (ObjectKey (b_namespace b) (builderObjectName b)) = Some (OStatefulSet t)
    \<and> enq (WKind KStatefulSet) (sts_meta t) = {meta_key (b_meta b)}
    \<and> stored obs s' KService (ObjectKey (b_namespace b) (builderObjectName b)) = Some (OService svc)
    \<and> stored obs s' KService (ObjectKey (b_namespace b) (builderSubName b ''-client'')) = Some (OService svc')
    \<and> enq (WKind KService) (svc_meta svc) = {} \<and> enq (WKind KService) (svc_meta svc') = {}
    \<and> (\<forall>m. enq (WKind KConfigMap) m = {} \<and> enq (WKind KIngressRoute) m = {} \<and> enq (WKind KTemplate) m = {})"
proof -
  have "wp (Reconcile E req) (\<lambda>r s'. \<exists>spec n. sts_settled E b spec n (stored obs s')) (\<lambda>_ _. True) s"
    by (rule wp_Reconcile [OF assms(1,4,5)]) (auto simp: settled_def split: if_splits)
  from wp_Ok [OF this assms(6)] obtain spec n where "sts_settled E b spec n (stored obs s')" by blast
  then obtain t where t: "stored obs s' KStatefulSet (ObjectKey (b_namespace b) (builderObjectName b)) = Some (OStatefulSet t)"
    and owned: "owned_by E b (sts_meta t)" by (auto simp: sts_settled_def)
  from owned have "enq (WKind KStatefulSet) (sts_meta t) = {meta_key (b_meta b)}"
    by (intro owned_enqueues [OF assms(3,2)]) (simp_all add: builder_controller_def)
  moreover obtain svc svc' where
    "stored obs s' KService (ObjectKey (b_namespace b) (builderObjectName b)) = Some (OService svc)"
    "stored obs s' KService (ObjectKey (b_namespace b) (builderSubName b ''-client'')) = Some (OService svc')"
    "om_ownerReferences (svc_meta svc) = []" "om_ownerReferences (svc_meta svc') = []"
    using services_have_no_owner [OF assms(1,4-6)] by blast
  moreover have "enq (WKind KService) m = {}" if "om_ownerReferences m = []" for m
    using assms(3) that by (simp add: follows_setup_def builder_controller_def)
  moreover have "\<forall>m. enq (WKind KConfigMap) m = {} \<and> enq (WKind KIngressRoute) m = {} \<and> enq (WKind KTemplate) m = {}"
    using assms(3) by (simp add: follows_setup_def builder_controller_def)
  ultimately show ?thesis using t by blast
qed

theorem changes_noticed_witness:
  "\<exists>t. mem_objects (world (snd (run_of web))) KStatefulSet (ObjectKey ''ci'' ''builder-web'') = Some (OStatefulSet t)
    \<and> library_enqueues builder_controller (WKind KStatefulSet) (sts_meta t) = {ObjectKey ''ci'' ''web''}"
  using changes_noticed [OF still_good still_controls library_follows world_of_found web_fields(1) run_web]
  by (auto simp: web_def builderObjectName_def)

section \<open>The start of the manager\<close>

text \<open>
  What \<open>main\<close> and the set-up functions ask of the library. Every request can fail; the state
  is the library's, with the requests made so far.
\<close>

record manager_options =
  mo_scheme :: "gvk list"
  mo_metricsBindAddress :: string
  mo_healthProbeBindAddress :: string
  mo_leaderElection :: bool
  mo_leaderElectionID :: string

datatype setup_call =
    GetConfigOrDie
  | NewManager manager_options
  | CompleteController controller_setup
  | CompleteWebhook gvk
  | AddHealthzCheck string
  | AddReadyzCheck string
  | StartManager

type_synonym 'm setup_lib = "setup_call \<Rightarrow> 'm \<Rightarrow> string option \<times> 'm"

record 'm boot =
  bo_lib :: 'm
  bo_asked :: "setup_call list"

definition ask :: "'m setup_lib \<Rightarrow> setup_call \<Rightarrow> 'm boot \<Rightarrow> string option \<times> 'm boot" where
  "ask L c s = (case L c (bo_lib s) of (err, m) \<Rightarrow>
     (err, \<lparr>bo_lib = m, bo_asked = bo_asked s @ [c]\<rparr>))"

definition SetupWithManager :: "'m setup_lib \<Rightarrow> 'm boot \<Rightarrow> string option \<times> 'm boot" where
  "SetupWithManager L = ask L (CompleteController builder_controller)"

definition builder_SetupWebhookWithManager :: "'m setup_lib \<Rightarrow> 'm boot \<Rightarrow> string option \<times> 'm boot" where
  "builder_SetupWebhookWithManager L = ask L (CompleteWebhook (builder_GroupVersion, ''BuildkitBuilder''))"

definition template_SetupWebhookWithManager :: "'m setup_lib \<Rightarrow> 'm boot \<Rightarrow> string option \<times> 'm boot" where
  "template_SetupWebhookWithManager L =
     ask L (CompleteWebhook (template_GroupVersion, ''BuildkitBuilderTemplate''))"

text \<open>The command line as \<open>flag.Parse\<close> leaves it: the values given to string and boolean flags.\<close>

record command_line =
  cmd_string :: "string \<Rightarrow> string option"
  cmd_bool :: "string \<Rightarrow> bool option"

definition flag_StringVar :: "command_line \<Rightarrow> string \<Rightarrow> string \<Rightarrow> string" where
  "flag_StringVar cmd name val = (case cmd_string cmd name of None \<Rightarrow> val | Some v \<Rightarrow> v)"

definition flag_BoolVar :: "command_line \<Rightarrow> string \<Rightarrow> bool \<Rightarrow> bool" where
  "flag_BoolVar cmd name val = (case cmd_bool cmd name of None \<Rightarrow> val | Some v \<Rightarrow> v)"

definition main_options :: "gvk list \<Rightarrow> command_line \<Rightarrow> manager_options" where
  "main_options clientgo cmd =
     (let metricsAddr = flag_StringVar cmd ''metrics-bind-address'' '':8080'';
          probeAddr = flag_StringVar cmd ''health-probe-bind-address'' '':8081'';
          enableLeaderElection = flag_BoolVar cmd ''leader-elect'' True
      in \<lparr>mo_scheme = main_scheme clientgo, mo_metricsBindAddress = metricsAddr, mo_healthProbeBindAddress = probeAddr,
          mo_leaderElection = enableLeaderElection,
          mo_leaderElectionID = ''build-operator.builder-hub.dev''\<rparr>)"

text \<open>\<open>main\<close> returns or calls \<open>os.Exit(1)\<close>, after logging what failed.\<close>

datatype exit = Returned | Exit1 string

definition main :: "'m setup_lib \<Rightarrow> gvk list \<Rightarrow> command_line \<Rightarrow> 'm boot \<Rightarrow> exit \<times> 'm boot" where
  "main L clientgo cmd s =
     (case ask L GetConfigOrDie s of
        (Some e, s) \<Rightarrow> (Exit1 ''unable to get kubeconfig'', s)
      | (None, s) \<Rightarrow>
     (case ask L (NewManager (main_options clientgo cmd)) s of
        (Some e, s) \<Rightarrow> (Exit1 ''unable to start manager'', s)
      | (None, s) \<Rightarrow>
     (case SetupWithManager L s of
        (Some e, s) \<Rightarrow> (Exit1 ''unable to create controller'', s)
      | (None, s) \<Rightarrow>
     (case ask L (AddHealthzCheck ''healthz'') s of
        (Some e, s) \<Rightarrow> (Exit1 ''unable to set up health check'', s)
      | (None, s) \<Rightarrow>
     (case ask L (AddReadyzCheck ''readyz'') s of
        (Some e, s) \<Rightarrow> (Exit1 ''unable to set up ready check'', s)
      | (None, s) \<Rightarrow>
     (case ask L StartManager s of
        (Some e, s) \<Rightarrow> (Exit1 ''problem running manager'', s)
      | (None, s) \<Rightarrow> (Returned, s)))))))"

text \<open>A specification: the calls of a list, up to the first that fails.\<close>

fun ask_all :: "'m setup_lib \<Rightarrow> (setup_call \<times> string) list \<Rightarrow> 'm boot \<Rightarrow> exit \<times> 'm boot" where
  "ask_all L [] s = (Returned, s)"
| "ask_all L ((c, msg) # cs) s =
     (case ask L c s of (Some e, s) \<Rightarrow> (Exit1 msg, s) | (None, s) \<Rightarrow> ask_all L cs s)"

definition main_steps :: "gvk list \<Rightarrow> command_line \<Rightarrow> (setup_call \<times> string) list" where
  "main_steps clientgo cmd =
     [(GetConfigOrDie, ''unable to get kubeconfig''),
      (NewManager (main_options clientgo cmd), ''unable to start manager''),
      (CompleteController builder_controller, ''unable to create controller''),
      (AddHealthzCheck ''healthz'', ''unable to set up health check''),
      (AddReadyzCheck ''readyz'', ''unable to set up ready check''),
      (StartManager, ''problem running manager'')]"

lemma main_asks: "main L clientgo cmd s = ask_all L (main_steps clientgo cmd) s"
  by (simp add: main_def main_steps_def SetupWithManager_def split: prod.split option.split)

lemma ask_logs: "bo_asked (snd (ask L c s)) = bo_asked s @ [c]"
  by (simp add: ask_def split: prod.split)

lemma ask_all_logs:
  "\<exists>n \<le> length cs. bo_asked (snd (ask_all L cs s)) = bo_asked s @ map fst (take n cs)
     \<and> (case fst (ask_all L cs s) of Returned \<Rightarrow> n = length cs
          | Exit1 msg \<Rightarrow> 0 < n \<and> msg = snd (cs ! (n - 1)))"
proof (induction cs arbitrary: s)
  case (Cons c cs)
  obtain call msg where c: "c = (call, msg)" by (cases c)
  obtain err s1 where step: "ask L call s = (err, s1)" by (cases "ask L call s")
  have log: "bo_asked s1 = bo_asked s @ [call]" using ask_logs [of L call s] by (simp add: step)
  show ?case
  proof (cases err)
    case None
    from Cons.IH [of s1] obtain n where "n \<le> length cs"
      "bo_asked (snd (ask_all L cs s1)) = bo_asked s1 @ map fst (take n cs)"
      "case fst (ask_all L cs s1) of Returned \<Rightarrow> n = length cs
         | Exit1 msg \<Rightarrow> 0 < n \<and> msg = snd (cs ! (n - 1))" by blast
    then show ?thesis
      by (intro exI [of _ "Suc n"]) (simp add: c step None log nth_Cons' split: exit.splits)
  next
    case (Some e)
    then show ?thesis by (intro exI [of _ 1]) (simp add: c step log)
  qed
qed simp


end
