(* ===== verification/Go_Memory.thy ===== *)
theory Go_Memory
  imports Api_Types
begin

text \<open>
  Go memory as the generated deep copies need it: the structs of the API packages with their
  pointers, slices and maps, the memory that holds what these point to, and what it means to
  copy deeply. Elsewhere the development takes structs as values; theory \<open>Deep_Copy\<close> shows
  what that rests on.

  A memory is the list of all cells ever allocated, an address is a position in it. Nothing is
  freed (a garbage collector is not observable), so allocation appends. Structs of library
  types (\<open>ObjectMeta\<close>, \<open>ListMeta\<close>, \<open>ResourceRequirements\<close>, \<open>Toleration\<close>, \<open>Affinity\<close>,
  \<open>Condition\<close>, \<open>Time\<close>) may hold pointers of their own; they are of a type \<open>'l\<close> of which only
  the record \<open>go_lib\<close> is known.
\<close>

section \<open>Structs with pointers\<close>

type_synonym addr = nat

datatype slice = Slice (sl_array: addr) (sl_off: nat) (sl_len: nat)

text \<open>A pointer or map may be nil, \<open>None\<close>, and so may a slice. \<open>TypeMeta\<close> is kind and version.\<close>

type_synonym type_meta = "string \<times> string"

record PVCConfig_mem =
  mpc_storageClassName :: string
  mpc_size :: string
  mpc_accessModes :: "slice option"

record S3Config_mem =
  ms3_bucket :: string
  ms3_region :: string
  ms3_endpoint :: string
  ms3_secretRef :: "addr option"

record CacheConfig_mem =
  mcc_type :: CacheType
  mcc_pvc :: "addr option"
  mcc_s3 :: "addr option"

record 'l TemplateSpec_mem =
  mts_buildkitImage :: string
  mts_rootless :: bool
  mts_resources :: 'l
  mts_nodeSelector :: "addr option"
  mts_tolerations :: "slice option"
  mts_affinity :: "addr option"
  mts_buildkitdToml :: string
  mts_cacheConfig :: CacheConfig_mem
  mts_arch :: string

record 'l BuilderTemplate_mem =
  mbt_type :: type_meta
  mbt_meta :: 'l
  mbt_spec :: "'l TemplateSpec_mem"

record ExposureConfig_mem =
  mex_enabled :: bool
  mex_host :: string
  mex_ingressController :: string
  mex_entryPoint :: string
  mex_annotations :: "addr option"

record BuilderSpec_mem =
  mbs_templateRef :: "addr option"
  mbs_template :: "addr option"
  mbs_mode :: BuilderMode
  mbs_replicas :: "addr option"
  mbs_idleTimeoutSeconds :: "addr option"
  mbs_labels :: "addr option"
  mbs_exposure :: "addr option"

record BuilderStatus_mem =
  mst_endpoint :: string
  mst_nodePort :: int32
  mst_externalEndpoint :: string
  mst_tlsSecretName :: string
  mst_conditions :: "slice option"
  mst_phase :: string
  mst_readyReplicas :: int32
  mst_desiredReplicas :: int32
  mst_lastScaledAt :: "addr option"

record 'l Builder_mem =
  mb_type :: type_meta
  mb_meta :: 'l
  mb_spec :: BuilderSpec_mem
  mb_status :: BuilderStatus_mem

text \<open>The two list types, \<open>BuildkitBuilderList\<close> and \<open>BuildkitBuilderTemplateList\<close>.\<close>

record 'l list_mem =
  ml_type :: type_meta
  ml_meta :: 'l
  ml_items :: "slice option"

section \<open>Memory\<close>

text \<open>A cell is what a pointer points to, the array of a slice, or a map.\<close>

datatype 'l cell =
    StringCell string
  | Int32Cell int32
  | StringsCell "string list"
  | MapCell "string gomap"
  | LibCell 'l
  | LibsCell "'l list"
  | PVCConfigCell PVCConfig_mem
  | S3ConfigCell S3Config_mem
  | CacheConfigCell CacheConfig_mem
  | TemplateSpecCell "'l TemplateSpec_mem"
  | TemplateCell "'l BuilderTemplate_mem"
  | TemplatesCell "'l BuilderTemplate_mem list"
  | ExposureConfigCell ExposureConfig_mem
  | BuilderSpecCell BuilderSpec_mem
  | BuilderStatusCell BuilderStatus_mem
  | BuilderCell "'l Builder_mem"
  | BuildersCell "'l Builder_mem list"
  | ListCell "'l list_mem"

type_synonym 'l memory = "'l cell list"

text \<open>
  The type of a cell, by its constructor and what reads it; Go's typed pointers never meet a
  cell of another type, so what \<open>load\<close> gives there does not matter.
\<close>

record ('a, 'l) cell_type =
  ct_put :: "'a \<Rightarrow> 'l cell"
  ct_get :: "'l cell \<Rightarrow> 'a option"

definition ct_ok :: "('a, 'l) cell_type \<Rightarrow> bool" where
  "ct_ok ct \<longleftrightarrow> (\<forall>x. ct_get ct (ct_put ct x) = Some x)"

definition load :: "('a, 'l) cell_type \<Rightarrow> 'l memory \<Rightarrow> addr \<Rightarrow> 'a option" where
  "load ct h a = (if a < length h then ct_get ct (h ! a) else None)"

text \<open>Two memories have the same cells at the addresses of a set.\<close>

definition same_on :: "addr set \<Rightarrow> 'l memory \<Rightarrow> 'l memory \<Rightarrow> bool" where
  "same_on A h h' \<longleftrightarrow> (\<forall>a\<in>A. a < length h \<and> a < length h' \<and> h' ! a = h ! a)"

lemma same_on_load: "same_on A h h' \<Longrightarrow> a \<in> A \<Longrightarrow> load ct h' a = load ct h a"
  by (auto simp: same_on_def load_def)

lemma same_on_mono: "same_on A h h' \<Longrightarrow> B \<subseteq> A \<Longrightarrow> same_on B h h'"
  by (auto simp: same_on_def)

lemma same_on_Un: "same_on (A \<union> B) h h' \<longleftrightarrow> same_on A h h' \<and> same_on B h h'"
  by (auto simp: same_on_def)

lemma same_on_prefix: "A \<subseteq> {..<length h} \<Longrightarrow> prefix h h' \<Longrightarrow> same_on A h h'"
  by (auto simp: same_on_def prefix_def nth_append)

lemma load_new [simp]: "ct_ok ct \<Longrightarrow> load ct (h @ [ct_put ct x]) (length h) = Some x"
  by (simp add: load_def ct_ok_def)

lemma load_bound: "load ct h a = Some x \<Longrightarrow> a < length h"
  by (simp add: load_def split: if_splits)

text \<open>Later writes that leave alone what is not in a set; memory may grow.\<close>

definition writes_only :: "addr set \<Rightarrow> 'l memory \<Rightarrow> 'l memory \<Rightarrow> bool" where
  "writes_only A h h' \<longleftrightarrow> (\<forall>a < length h. a \<notin> A \<longrightarrow> a < length h' \<and> h' ! a = h ! a)"

section \<open>Deep copies\<close>

text \<open>
  The contract of \<open>DeepCopyInto\<close> of a type: \<open>copy x h\<close> is the struct written to the target and
  the memory after it. For an \<open>x\<close> whose pointers are valid in \<open>h\<close>, with \<open>cells h x\<close> the cells
  it reaches and \<open>view h x\<close> the value it stands for, the copy stands for the same value and
  reaches new cells only. What \<open>x\<close> stands for depends on the cells it reaches alone.
\<close>

locale deep_copier =
  fixes valid :: "'l memory \<Rightarrow> 'a \<Rightarrow> bool"
    and cells :: "'l memory \<Rightarrow> 'a \<Rightarrow> addr set"
    and view :: "'l memory \<Rightarrow> 'a \<Rightarrow> 'v"
    and copy :: "'a \<Rightarrow> 'l memory \<Rightarrow> 'a \<times> 'l memory"
  assumes bounded: "valid h x \<Longrightarrow> cells h x \<subseteq> {..<length h}"
    and footing: "valid h x \<Longrightarrow> same_on (cells h x) h h' \<Longrightarrow>
      valid h' x \<and> cells h' x = cells h x \<and> view h' x = view h x"
    and extends: "valid h x \<Longrightarrow> prefix h (snd (copy x h))"
    and copy_valid: "valid h x \<Longrightarrow> valid (snd (copy x h)) (fst (copy x h))"
    and copy_view: "valid h x \<Longrightarrow> view (snd (copy x h)) (fst (copy x h)) = view h x"
    and copy_fresh: "valid h x \<Longrightarrow> a \<in> cells (snd (copy x h)) (fst (copy x h)) \<Longrightarrow> length h \<le> a"
begin

lemma bound: "valid h x \<Longrightarrow> a \<in> cells h x \<Longrightarrow> a < length h"
  using bounded by auto

text \<open>What is there stays as it is while memory grows.\<close>

lemma stable:
  assumes "valid h x" and "prefix h h'"
  shows "valid h' x" "cells h' x = cells h x" "view h' x = view h x"
  using footing [OF assms(1) same_on_prefix [OF bounded [OF assms(1)] assms(2)]] by simp_all

text \<open>Any later writes to old memory leave the copy as it is.\<close>

lemma copy_survives:
  assumes "valid h x" and "copy x h = (y, h')"
    and "writes_only {..<length h} h' h''"
  shows "view h'' y = view h x"
proof -
  have y: "valid h' y" "view h' y = view h x" "\<And>a. a \<in> cells h' y \<Longrightarrow> length h \<le> a"
    using copy_valid [OF assms(1)] copy_view [OF assms(1)] copy_fresh [OF assms(1)] assms(2) by auto
  with bounded [OF y(1)] assms(3) have "same_on (cells h' y) h' h''"
    by (fastforce simp: same_on_def writes_only_def)
  from footing [OF y(1) this] y(2) show ?thesis by simp
qed

text \<open>Any later writes through the copy leave the original as it is.\<close>

lemma original_survives:
  assumes "valid h x" and "copy x h = (y, h')"
    and "writes_only (cells h' y) h' h''"
  shows "view h'' x = view h x"
proof -
  have ext: "prefix h h'" and fresh: "\<And>a. a \<in> cells h' y \<Longrightarrow> length h \<le> a"
    using extends [OF assms(1)] copy_fresh [OF assms(1)] assms(2) by auto
  have "same_on (cells h x) h h''"
    unfolding same_on_def
  proof (intro ballI)
    fix a assume "a \<in> cells h x"
    then have a: "a < length h" using bounded [OF assms(1)] by auto
    with ext have "a < length h'" and "h' ! a = h ! a" by (auto simp: prefix_def nth_append)
    with assms(3) fresh [of a] a show "a < length h \<and> a < length h'' \<and> h'' ! a = h ! a"
      by (auto simp: writes_only_def)
  qed
  from footing [OF assms(1) this] show ?thesis by simp
qed

end

named_theorems copier_intros \<open>composing deep copies\<close>

lemma copier_flat [copier_intros]: "deep_copier (\<lambda>_ _. True) (\<lambda>_ _. {}) (\<lambda>_. f) (\<lambda>x h. (x, h))"
  by unfold_locales simp_all

text \<open>A coarser view.\<close>

lemma copier_view:
  assumes "deep_copier valid cells view copy"
  shows "deep_copier valid cells (\<lambda>h x. f (view h x)) copy"
proof (rule deep_copier.intro)
  note c = assms [THEN deep_copier.footing] assms [THEN deep_copier.copy_view]
  show "valid h' x \<and> cells h' x = cells h x \<and> f (view h' x) = f (view h x)"
    if "valid h x" "same_on (cells h x) h h'" for h h' x using c(1) [OF that] by simp
  show "f (view (snd (copy x h)) (fst (copy x h))) = f (view h x)" if "valid h x" for h x
    using c(2) [OF that] by simp
qed (fact assms [THEN deep_copier.bounded] assms [THEN deep_copier.extends]
  assms [THEN deep_copier.copy_valid] assms [THEN deep_copier.copy_fresh])+

section \<open>Pointers\<close>

text \<open>
  \<open>if in != nil { *out = new(T); (*in).DeepCopyInto(*out) }\<close>, and \<open>DeepCopy\<close> itself. The model
  allocates the cell when its content is known; Go does so before, which differs only in
  the addresses.
\<close>

definition copy_ptr :: "('a, 'l) cell_type \<Rightarrow> ('a \<Rightarrow> 'l memory \<Rightarrow> 'a \<times> 'l memory) \<Rightarrow>
    addr option \<Rightarrow> 'l memory \<Rightarrow> addr option \<times> 'l memory" where
  "copy_ptr ct cp p h =
     (case p of
        None \<Rightarrow> (None, h)
      | Some a \<Rightarrow> (case load ct h a of
          None \<Rightarrow> (None, h)
        | Some x \<Rightarrow> (let (y, h) = cp x h in (Some (length h), h @ [ct_put ct y]))))"

definition valid_ptr :: "('a, 'l) cell_type \<Rightarrow> ('l memory \<Rightarrow> 'a \<Rightarrow> bool) \<Rightarrow> 'l memory \<Rightarrow> addr option \<Rightarrow> bool" where
  "valid_ptr ct valid h p \<longleftrightarrow>
     (case p of None \<Rightarrow> True | Some a \<Rightarrow> (case load ct h a of None \<Rightarrow> False | Some x \<Rightarrow> valid h x))"

definition cells_ptr :: "('a, 'l) cell_type \<Rightarrow> ('l memory \<Rightarrow> 'a \<Rightarrow> addr set) \<Rightarrow> 'l memory \<Rightarrow> addr option \<Rightarrow> addr set" where
  "cells_ptr ct cells h p =
     (case p of None \<Rightarrow> {} | Some a \<Rightarrow> insert a (case load ct h a of None \<Rightarrow> {} | Some x \<Rightarrow> cells h x))"

definition view_ptr :: "('a, 'l) cell_type \<Rightarrow> ('l memory \<Rightarrow> 'a \<Rightarrow> 'v) \<Rightarrow> 'l memory \<Rightarrow> addr option \<Rightarrow> 'v option" where
  "view_ptr ct view h p = (case p of None \<Rightarrow> None | Some a \<Rightarrow> map_option (view h) (load ct h a))"

lemmas ptr_defs = copy_ptr_def valid_ptr_def cells_ptr_def view_ptr_def

lemma copier_ptr [copier_intros]:
  assumes "ct_ok ct" and "deep_copier valid cells view copy"
  shows "deep_copier (valid_ptr ct valid) (cells_ptr ct cells) (view_ptr ct view) (copy_ptr ct copy)"
proof (rule deep_copier.intro)
  note c = deep_copier.bound [OF assms(2)] deep_copier.footing [OF assms(2)]
    deep_copier.stable [OF assms(2)]
  note d = deep_copier.extends [OF assms(2)] deep_copier.copy_valid [OF assms(2)]
    deep_copier.copy_view [OF assms(2)] deep_copier.copy_fresh [OF assms(2)]
  show "cells_ptr ct cells h p \<subseteq> {..<length h}" if "valid_ptr ct valid h p" for h p
    using that c(1) by (auto simp: ptr_defs dest: load_bound split: option.splits)
  show "valid_ptr ct valid h' p \<and> cells_ptr ct cells h' p = cells_ptr ct cells h p
      \<and> view_ptr ct view h' p = view_ptr ct view h p"
    if valid: "valid_ptr ct valid h p" and same: "same_on (cells_ptr ct cells h p) h h'" for h h' p
  proof (cases p)
    case (Some a)
    with valid obtain x where x: "load ct h a = Some x" "valid h x"
      by (auto simp: valid_ptr_def split: option.splits)
    then have "same_on (cells h x) h h'" and "load ct h' a = Some x"
      using same same_on_load [OF same, of a ct] by (auto simp: Some cells_ptr_def elim: same_on_mono)
    with c(2) [OF x(2)] x show ?thesis by (simp add: Some ptr_defs)
  qed (simp add: ptr_defs)
  fix h p assume valid: "valid_ptr ct valid h p"
  have cases: "p = None \<and> copy_ptr ct copy p h = (None, h)
    \<or> (\<exists>a x y h1 h2. p = Some a \<and> load ct h a = Some x \<and> h2 = h1 @ [ct_put ct y]
        \<and> copy_ptr ct copy p h = (Some (length h1), h2) \<and> prefix h h2 \<and> length h \<le> length h1
        \<and> valid h2 y \<and> view h2 y = view h x \<and> (\<forall>b\<in>cells h2 y. length h \<le> b))"
  proof (cases p)
    case (Some a)
    with valid obtain x where x: "load ct h a = Some x" "valid h x"
      by (auto simp: valid_ptr_def split: option.splits)
    obtain y h1 where y: "copy x h = (y, h1)" by (cases "copy x h")
    have y1: "valid h1 y" "view h1 y = view h x" "prefix h h1" "\<And>b. b \<in> cells h1 y \<Longrightarrow> length h \<le> b"
      using d [OF x(2)] by (simp_all add: y)
    with c(3-5) [OF y1(1), of "h1 @ [ct_put ct y]"] have "valid (h1 @ [ct_put ct y]) y"
      "view (h1 @ [ct_put ct y]) y = view h x" "\<forall>b\<in>cells (h1 @ [ct_put ct y]) y. length h \<le> b"
      by simp_all
    with y1(3) x y Some show ?thesis
      by (auto simp: copy_ptr_def dest: prefix_length_le intro: prefix_prefix)
  qed (simp add: copy_ptr_def)
  then show "prefix h (snd (copy_ptr ct copy p h))" by auto
  from cases show "valid_ptr ct valid (snd (copy_ptr ct copy p h)) (fst (copy_ptr ct copy p h))"
    by (auto simp: valid_ptr_def assms(1))
  from cases show "view_ptr ct view (snd (copy_ptr ct copy p h)) (fst (copy_ptr ct copy p h)) = view_ptr ct view h p"
    by (auto simp: view_ptr_def assms(1))
  from cases show "length h \<le> a"
    if "a \<in> cells_ptr ct cells (snd (copy_ptr ct copy p h)) (fst (copy_ptr ct copy p h))" for a
    using that by (auto simp: cells_ptr_def assms(1))
qed

section \<open>Maps\<close>

text \<open>\<open>*out = make(map[string]string, len(*in)); for key, val := range *in { (*out)[key] = val }\<close>\<close>

definition copy_entries :: "string gomap \<Rightarrow> 'l memory \<Rightarrow> string gomap \<times> 'l memory" where
  "copy_entries m h = (gomap_copy_if (\<lambda>_. True) m [], h)"

lemma gomap_copy_all: "gomap_wf (dst @ src) \<Longrightarrow> gomap_copy_if (\<lambda>_. True) src dst = dst @ src"
proof (induction src arbitrary: dst)
  case (Cons e src)
  obtain k v where e: "e = (k, v)" by (cases e)
  have new: "k \<notin> set (map fst dst)" using Cons.prems e by (auto simp: gomap_wf_def)
  have "gomap_copy_if (\<lambda>_. True) (e # src) dst = gomap_copy_if (\<lambda>_. True) src (gomap_put k v dst)"
    by (simp add: gomap_copy_if_def e)
  also have "gomap_put k v dst = dst @ [(k, v)]"
    using new by (induction dst) (auto simp: gomap_put_def)
  also have "gomap_copy_if (\<lambda>_. True) src (dst @ [(k, v)]) = (dst @ [(k, v)]) @ src"
    by (rule Cons.IH) (use Cons.prems e in \<open>simp add: gomap_wf_def\<close>)
  finally show ?case by (simp add: e)
qed (simp add: gomap_copy_if_def)

lemma copier_entries [copier_intros]:
  "deep_copier (\<lambda>_. gomap_wf) (\<lambda>_ _. {}) (\<lambda>_ m. m) copy_entries"
  by unfold_locales (simp_all add: copy_entries_def gomap_copy_all)

section \<open>Slices\<close>

text \<open>\<open>for i := range *in { (*in)[i].DeepCopyInto(&(*out)[i]) }\<close>, and for plain elements \<open>copy\<close>.\<close>

fun copy_list :: "('a \<Rightarrow> 'l memory \<Rightarrow> 'a \<times> 'l memory) \<Rightarrow> 'a list \<Rightarrow> 'l memory \<Rightarrow> 'a list \<times> 'l memory" where
  "copy_list cp [] h = ([], h)"
| "copy_list cp (x # xs) h = (let (y, h) = cp x h; (ys, h) = copy_list cp xs h in (y # ys, h))"

definition cells_list :: "('l memory \<Rightarrow> 'a \<Rightarrow> addr set) \<Rightarrow> 'l memory \<Rightarrow> 'a list \<Rightarrow> addr set" where
  "cells_list cells h xs = \<Union> (cells h ` set xs)"

lemma length_copy_list [simp]: "length (fst (copy_list cp xs h)) = length xs"
  by (induction xs arbitrary: h) (simp_all add: Let_def split: prod.split, metis fst_conv)

lemma copier_list:
  assumes "deep_copier valid cells view copy"
  shows "deep_copier (\<lambda>h. list_all (valid h)) (cells_list cells) (\<lambda>h. map (view h)) (copy_list copy)"
proof (rule deep_copier.intro)
  note c = deep_copier.bound [OF assms] deep_copier.footing [OF assms] deep_copier.stable [OF assms]
  note d = deep_copier.extends [OF assms] deep_copier.copy_valid [OF assms]
    deep_copier.copy_view [OF assms] deep_copier.copy_fresh [OF assms]
  show "cells_list cells h xs \<subseteq> {..<length h}" if "list_all (valid h) xs" for h xs
    using that c(1) by (auto simp: cells_list_def list_all_iff)
  show "list_all (valid h') xs \<and> cells_list cells h' xs = cells_list cells h xs \<and> map (view h') xs = map (view h) xs"
    if "list_all (valid h) xs" "same_on (cells_list cells h xs) h h'" for h h' xs
  proof -
    have "same_on (cells h x) h h'" if "x \<in> set xs" for x
      using \<open>same_on (cells_list cells h xs) h h'\<close> that by (auto simp: cells_list_def elim: same_on_mono)
    with c(2) \<open>list_all (valid h) xs\<close>
    have "\<forall>x\<in>set xs. valid h' x \<and> cells h' x = cells h x \<and> view h' x = view h x"
      unfolding list_all_iff by blast
    then show ?thesis by (simp add: list_all_iff cells_list_def)
  qed
  have all: "prefix h (snd (copy_list copy xs h)) \<and> list_all (valid (snd (copy_list copy xs h))) (fst (copy_list copy xs h))
      \<and> map (view (snd (copy_list copy xs h))) (fst (copy_list copy xs h)) = map (view h) xs
      \<and> (\<forall>a\<in>cells_list cells (snd (copy_list copy xs h)) (fst (copy_list copy xs h)). length h \<le> a)"
    if "list_all (valid h) xs" for h xs
    using that
  proof (induction xs arbitrary: h)
    case (Cons x xs)
    obtain y h1 where y: "copy x h = (y, h1)" by (cases "copy x h")
    obtain ys h2 where ys: "copy_list copy xs h1 = (ys, h2)" by (cases "copy_list copy xs h1")
    from Cons.prems have x: "valid h x" by simp
    have y1: "prefix h h1" "valid h1 y" "view h1 y = view h x" "\<forall>a\<in>cells h1 y. length h \<le> a"
      using d [OF x] by (simp_all add: y)
    have old: "list_all (valid h1) xs" "map (view h1) xs = map (view h) xs"
      using Cons.prems c(3,5) y1(1) by (auto simp: list_all_iff)
    from Cons.IH [OF this(1)] ys have rest: "prefix h1 h2" "list_all (valid h2) ys"
      "map (view h2) ys = map (view h1) xs" "\<forall>a\<in>cells_list cells h2 ys. length h1 \<le> a" by simp_all
    moreover have "valid h2 y" "cells h2 y = cells h1 y" "view h2 y = view h1 y"
      using c(3-5) [OF y1(2) rest(1)] by simp_all
    moreover from rest(4) have "\<forall>a\<in>cells_list cells h2 ys. length h \<le> a"
      using prefix_length_le [OF y1(1)] by auto
    ultimately show ?case
      using y1 old y ys by (auto simp: cells_list_def intro: prefix_order.order_trans)
  qed (simp add: cells_list_def)
  show "prefix h (snd (copy_list copy xs h))" "list_all (valid (snd (copy_list copy xs h))) (fst (copy_list copy xs h))"
    "map (view (snd (copy_list copy xs h))) (fst (copy_list copy xs h)) = map (view h) xs"
    "a \<in> cells_list cells (snd (copy_list copy xs h)) (fst (copy_list copy xs h)) \<Longrightarrow> length h \<le> a"
    if "list_all (valid h) xs" for h xs a using all [OF that] by blast+
qed

text \<open>The part of its array a slice shows, and \<open>if in != nil { *out = make([]T, len(*in)); ... }\<close>.\<close>

definition shown :: "slice \<Rightarrow> 'a list \<Rightarrow> 'a list" where
  "shown sl xs = take (sl_len sl) (drop (sl_off sl) xs)"

definition copy_slice :: "('a list, 'l) cell_type \<Rightarrow> ('a \<Rightarrow> 'l memory \<Rightarrow> 'a \<times> 'l memory) \<Rightarrow>
    slice option \<Rightarrow> 'l memory \<Rightarrow> slice option \<times> 'l memory" where
  "copy_slice ct cp s h =
     (case s of
        None \<Rightarrow> (None, h)
      | Some sl \<Rightarrow> (case load ct h (sl_array sl) of
          None \<Rightarrow> (None, h)
        | Some xs \<Rightarrow> (let (ys, h) = copy_list cp (shown sl xs) h
                     in (Some (Slice (length h) 0 (sl_len sl)), h @ [ct_put ct ys]))))"

definition valid_slice :: "('a list, 'l) cell_type \<Rightarrow> ('l memory \<Rightarrow> 'a \<Rightarrow> bool) \<Rightarrow> 'l memory \<Rightarrow> slice option \<Rightarrow> bool" where
  "valid_slice ct valid h s \<longleftrightarrow>
     (case s of None \<Rightarrow> True | Some sl \<Rightarrow> (case load ct h (sl_array sl) of None \<Rightarrow> False
      | Some xs \<Rightarrow> sl_off sl + sl_len sl \<le> length xs \<and> list_all (valid h) (shown sl xs)))"

definition cells_slice :: "('a list, 'l) cell_type \<Rightarrow> ('l memory \<Rightarrow> 'a \<Rightarrow> addr set) \<Rightarrow> 'l memory \<Rightarrow> slice option \<Rightarrow> addr set" where
  "cells_slice ct cells h s =
     (case s of None \<Rightarrow> {} | Some sl \<Rightarrow> insert (sl_array sl)
       (case load ct h (sl_array sl) of None \<Rightarrow> {} | Some xs \<Rightarrow> cells_list cells h (shown sl xs)))"

definition view_slice :: "('a list, 'l) cell_type \<Rightarrow> ('l memory \<Rightarrow> 'a \<Rightarrow> 'v) \<Rightarrow> 'l memory \<Rightarrow> slice option \<Rightarrow> 'v list option" where
  "view_slice ct view h s =
     (case s of None \<Rightarrow> None
      | Some sl \<Rightarrow> map_option (\<lambda>xs. map (view h) (shown sl xs)) (load ct h (sl_array sl)))"

lemmas slice_defs = copy_slice_def valid_slice_def cells_slice_def view_slice_def

lemma copier_slice [copier_intros]:
  assumes "ct_ok ct" and "deep_copier valid cells view copy"
  shows "deep_copier (valid_slice ct valid) (cells_slice ct cells) (view_slice ct view) (copy_slice ct copy)"
proof (rule deep_copier.intro)
  note l = copier_list [OF assms(2)]
  note c = deep_copier.bound [OF l] deep_copier.footing [OF l] deep_copier.stable [OF l]
  note d = deep_copier.extends [OF l] deep_copier.copy_valid [OF l]
    deep_copier.copy_view [OF l] deep_copier.copy_fresh [OF l]
  show "cells_slice ct cells h s \<subseteq> {..<length h}" if "valid_slice ct valid h s" for h s
    using that c(1) by (auto simp: slice_defs dest: load_bound split: option.splits)
  show "valid_slice ct valid h' s \<and> cells_slice ct cells h' s = cells_slice ct cells h s
      \<and> view_slice ct view h' s = view_slice ct view h s"
    if valid: "valid_slice ct valid h s" and same: "same_on (cells_slice ct cells h s) h h'" for h h' s
  proof (cases s)
    case (Some sl)
    with valid obtain xs where x: "load ct h (sl_array sl) = Some xs" "list_all (valid h) (shown sl xs)"
      and len: "sl_off sl + sl_len sl \<le> length xs"
      by (auto simp: valid_slice_def split: option.splits)
    then have "same_on (cells_list cells h (shown sl xs)) h h'" and "load ct h' (sl_array sl) = Some xs"
      using same same_on_load [OF same, of "sl_array sl" ct]
      by (auto simp: Some cells_slice_def elim: same_on_mono)
    with c(2) [OF x(2)] x len show ?thesis by (simp add: Some slice_defs)
  qed (simp add: slice_defs)
  fix h s assume valid: "valid_slice ct valid h s"
  have cases: "s = None \<and> copy_slice ct copy s h = (None, h)
    \<or> (\<exists>sl xs ys h1 h2. s = Some sl \<and> load ct h (sl_array sl) = Some xs \<and> h2 = h1 @ [ct_put ct ys]
        \<and> copy_slice ct copy s h = (Some (Slice (length h1) 0 (length ys)), h2) \<and> prefix h h2 \<and> length h \<le> length h1
        \<and> list_all (valid h2) ys \<and> map (view h2) ys = map (view h) (shown sl xs)
        \<and> (\<forall>b\<in>cells_list cells h2 ys. length h \<le> b))"
  proof (cases s)
    case (Some sl)
    with valid obtain xs where x: "load ct h (sl_array sl) = Some xs" "list_all (valid h) (shown sl xs)"
      and len: "sl_off sl + sl_len sl \<le> length xs"
      by (auto simp: valid_slice_def split: option.splits)
    obtain ys h1 where y: "copy_list copy (shown sl xs) h = (ys, h1)" by (cases "copy_list copy (shown sl xs) h")
    have y1: "list_all (valid h1) ys" "map (view h1) ys = map (view h) (shown sl xs)" "prefix h h1"
      "\<And>b. b \<in> cells_list cells h1 ys \<Longrightarrow> length h \<le> b"
      using d [OF x(2)] by (simp_all add: y)
    have "length ys = sl_len sl"
      using length_copy_list [of copy "shown sl xs" h, unfolded y] len by (simp add: shown_def)
    moreover from c(3-5) [OF y1(1), of "h1 @ [ct_put ct ys]"] y1 have "list_all (valid (h1 @ [ct_put ct ys])) ys"
      "map (view (h1 @ [ct_put ct ys])) ys = map (view h) (shown sl xs)"
      "\<forall>b\<in>cells_list cells (h1 @ [ct_put ct ys]) ys. length h \<le> b" by simp_all
    ultimately show ?thesis
      using y1(3) x y Some
      by (intro disjI2 exI [of _ sl] exI [of _ xs] exI [of _ ys] exI [of _ h1] exI conjI)
        (auto simp: copy_slice_def dest: prefix_length_le intro: prefix_prefix)
  qed (simp add: copy_slice_def)
  then show "prefix h (snd (copy_slice ct copy s h))" by auto
  from cases show "valid_slice ct valid (snd (copy_slice ct copy s h)) (fst (copy_slice ct copy s h))"
    by (auto simp: valid_slice_def shown_def assms(1))
  from cases show "view_slice ct view (snd (copy_slice ct copy s h)) (fst (copy_slice ct copy s h)) = view_slice ct view h s"
    by (auto simp: view_slice_def shown_def assms(1))
  from cases show "length h \<le> a"
    if "a \<in> cells_slice ct cells (snd (copy_slice ct copy s h)) (fst (copy_slice ct copy s h))" for a
    using that by (auto simp: cells_slice_def shown_def assms(1))
qed

section \<open>Structs\<close>

text \<open>Two fields one after the other.\<close>

definition copy_pair :: "('a \<Rightarrow> 'l memory \<Rightarrow> 'a \<times> 'l memory) \<Rightarrow> ('b \<Rightarrow> 'l memory \<Rightarrow> 'b \<times> 'l memory) \<Rightarrow>
    'a \<times> 'b \<Rightarrow> 'l memory \<Rightarrow> ('a \<times> 'b) \<times> 'l memory" where
  "copy_pair c1 c2 p h = (let (y1, h) = c1 (fst p) h; (y2, h) = c2 (snd p) h in ((y1, y2), h))"

lemma copier_pair [copier_intros]:
  assumes "deep_copier v1 c1 s1 k1" and "deep_copier v2 c2 s2 k2"
  shows "deep_copier (\<lambda>h p. v1 h (fst p) \<and> v2 h (snd p)) (\<lambda>h p. c1 h (fst p) \<union> c2 h (snd p))
    (\<lambda>h p. (s1 h (fst p), s2 h (snd p))) (copy_pair k1 k2)"
proof (rule deep_copier.intro)
  note one = deep_copier.bound [OF assms(1)] deep_copier.footing [OF assms(1)]
    deep_copier.stable [OF assms(1)]
  note two = deep_copier.bound [OF assms(2)] deep_copier.footing [OF assms(2)]
    deep_copier.stable [OF assms(2)]
  note copies = assms [THEN deep_copier.extends] assms [THEN deep_copier.copy_valid]
    assms [THEN deep_copier.copy_view] assms [THEN deep_copier.copy_fresh]
  show "c1 h (fst p) \<union> c2 h (snd p) \<subseteq> {..<length h}" if "v1 h (fst p) \<and> v2 h (snd p)" for h p
    using that one(1) two(1) by auto
  show "(v1 h' (fst p) \<and> v2 h' (snd p)) \<and> c1 h' (fst p) \<union> c2 h' (snd p) = c1 h (fst p) \<union> c2 h (snd p)
      \<and> (s1 h' (fst p), s2 h' (snd p)) = (s1 h (fst p), s2 h (snd p))"
    if "v1 h (fst p) \<and> v2 h (snd p)" "same_on (c1 h (fst p) \<union> c2 h (snd p)) h h'" for h h' p
    using that one(2) [of h "fst p" h'] two(2) [of h "snd p" h'] by (simp add: same_on_Un)
  fix h p assume valid: "v1 h (fst p) \<and> v2 h (snd p)"
  obtain y1 h1 where y1: "k1 (fst p) h = (y1, h1)" by (cases "k1 (fst p) h")
  obtain y2 h2 where y2: "k2 (snd p) h1 = (y2, h2)" by (cases "k2 (snd p) h1")
  have first: "prefix h h1" "v1 h1 y1" "s1 h1 y1 = s1 h (fst p)" "\<And>a. a \<in> c1 h1 y1 \<Longrightarrow> length h \<le> a"
    using valid copies(1,3,5,7) [of h "fst p"] by (simp_all add: y1)
  then have "v2 h1 (snd p)" and old: "s2 h1 (snd p) = s2 h (snd p)" using valid two(3,5) by blast+
  then have second: "prefix h1 h2" "v2 h2 y2" "s2 h2 y2 = s2 h (snd p)" "\<And>a. a \<in> c2 h2 y2 \<Longrightarrow> length h1 \<le> a"
    using copies(2,4,6,8) [of h1 "snd p"] by (simp_all add: y2)
  have newer: "length h \<le> a" if "a \<in> c2 h2 y2" for a
    using second(4) [OF that] prefix_length_le [OF first(1)] by simp
  have "v1 h2 y1" "c1 h2 y1 = c1 h1 y1" "s1 h2 y1 = s1 h (fst p)"
    using one(3-5) [OF first(2) second(1)] first(3) by simp_all
  moreover have "copy_pair k1 k2 p h = ((y1, y2), h2)" by (simp add: copy_pair_def y1 y2)
  ultimately show "prefix h (snd (copy_pair k1 k2 p h))"
    "v1 (snd (copy_pair k1 k2 p h)) (fst (fst (copy_pair k1 k2 p h)))
      \<and> v2 (snd (copy_pair k1 k2 p h)) (snd (fst (copy_pair k1 k2 p h)))"
    "(s1 (snd (copy_pair k1 k2 p h)) (fst (fst (copy_pair k1 k2 p h))),
      s2 (snd (copy_pair k1 k2 p h)) (snd (fst (copy_pair k1 k2 p h)))) = (s1 h (fst p), s2 h (snd p))"
    "\<And>a. a \<in> c1 (snd (copy_pair k1 k2 p h)) (fst (fst (copy_pair k1 k2 p h)))
      \<union> c2 (snd (copy_pair k1 k2 p h)) (snd (fst (copy_pair k1 k2 p h))) \<Longrightarrow> length h \<le> a"
    using first second newer by (auto intro: prefix_order.order_trans)
qed

text \<open>
  A struct that is copied as a whole and then field by field: \<open>proj\<close> takes the fields with
  pointers out of it and \<open>upd\<close> puts the copied ones in.
\<close>

lemma copier_struct:
  assumes "deep_copier vp cp sp kp"
    and "\<And>h x. valid h x = vp h (proj x)" and "\<And>h x. cells h x = cp h (proj x)"
    and "\<And>h x. view h x = g x (sp h (proj x))"
    and "\<And>x h. copy x h = (upd x (fst (kp (proj x) h)), snd (kp (proj x) h))"
    and "\<And>x p. proj (upd x p) = p" and "\<And>x p v. g (upd x p) v = g x v"
  shows "deep_copier valid cells view copy"
proof (rule deep_copier.intro, unfold assms(2-5) fst_conv snd_conv assms(6,7))
  show "vp h' (proj x) \<and> cp h' (proj x) = cp h (proj x) \<and> g x (sp h' (proj x)) = g x (sp h (proj x))"
    if "vp h (proj x)" "same_on (cp h (proj x)) h h'" for h h' x
    using deep_copier.footing [OF assms(1) that] by simp
  show "g x (sp (snd (kp (proj x) h)) (fst (kp (proj x) h))) = g x (sp h (proj x))"
    if "vp h (proj x)" for h x
    by (simp add: deep_copier.copy_view [OF assms(1) that])
qed (fact assms(1) [THEN deep_copier.bounded] assms(1) [THEN deep_copier.extends]
  assms(1) [THEN deep_copier.copy_valid] assms(1) [THEN deep_copier.copy_fresh])+

end
