(* ===== verification/Deep_Copy.thy ===== *)
theory Deep_Copy
  imports Go_Memory Spec_Merge
begin

text \<open>
  The generated deep copies (\<open>zz_generated.deepcopy.go\<close> of the two API packages), function by
  function over the memory of theory \<open>Go_Memory\<close>, and \<open>mergeSpec\<close> as it shares and copies
  memory. Each \<open>DeepCopyInto\<close> meets the contract \<open>deep_copier\<close>; the views are the structs as
  values that the rest of the development works on.
\<close>

section \<open>Cell types\<close>

definition ct_string :: "(string, 'l) cell_type" where
  "ct_string = \<lparr>ct_put = StringCell, ct_get = (\<lambda>c. case c of StringCell x \<Rightarrow> Some x | _ \<Rightarrow> None)\<rparr>"
definition ct_int32 :: "(int32, 'l) cell_type" where
  "ct_int32 = \<lparr>ct_put = Int32Cell, ct_get = (\<lambda>c. case c of Int32Cell x \<Rightarrow> Some x | _ \<Rightarrow> None)\<rparr>"
definition ct_strings :: "(string list, 'l) cell_type" where
  "ct_strings = \<lparr>ct_put = StringsCell, ct_get = (\<lambda>c. case c of StringsCell x \<Rightarrow> Some x | _ \<Rightarrow> None)\<rparr>"
definition ct_map :: "(string gomap, 'l) cell_type" where
  "ct_map = \<lparr>ct_put = MapCell, ct_get = (\<lambda>c. case c of MapCell x \<Rightarrow> Some x | _ \<Rightarrow> None)\<rparr>"
definition ct_lib :: "('l, 'l) cell_type" where
  "ct_lib = \<lparr>ct_put = LibCell, ct_get = (\<lambda>c. case c of LibCell x \<Rightarrow> Some x | _ \<Rightarrow> None)\<rparr>"
definition ct_libs :: "('l list, 'l) cell_type" where
  "ct_libs = \<lparr>ct_put = LibsCell, ct_get = (\<lambda>c. case c of LibsCell x \<Rightarrow> Some x | _ \<Rightarrow> None)\<rparr>"
definition ct_PVCConfig :: "(PVCConfig_mem, 'l) cell_type" where
  "ct_PVCConfig = \<lparr>ct_put = PVCConfigCell, ct_get = (\<lambda>c. case c of PVCConfigCell x \<Rightarrow> Some x | _ \<Rightarrow> None)\<rparr>"
definition ct_S3Config :: "(S3Config_mem, 'l) cell_type" where
  "ct_S3Config = \<lparr>ct_put = S3ConfigCell, ct_get = (\<lambda>c. case c of S3ConfigCell x \<Rightarrow> Some x | _ \<Rightarrow> None)\<rparr>"
definition ct_CacheConfig :: "(CacheConfig_mem, 'l) cell_type" where
  "ct_CacheConfig = \<lparr>ct_put = CacheConfigCell, ct_get = (\<lambda>c. case c of CacheConfigCell x \<Rightarrow> Some x | _ \<Rightarrow> None)\<rparr>"
definition ct_TemplateSpec :: "('l TemplateSpec_mem, 'l) cell_type" where
  "ct_TemplateSpec = \<lparr>ct_put = TemplateSpecCell, ct_get = (\<lambda>c. case c of TemplateSpecCell x \<Rightarrow> Some x | _ \<Rightarrow> None)\<rparr>"
definition ct_Template :: "('l BuilderTemplate_mem, 'l) cell_type" where
  "ct_Template = \<lparr>ct_put = TemplateCell, ct_get = (\<lambda>c. case c of TemplateCell x \<Rightarrow> Some x | _ \<Rightarrow> None)\<rparr>"
definition ct_Templates :: "('l BuilderTemplate_mem list, 'l) cell_type" where
  "ct_Templates = \<lparr>ct_put = TemplatesCell, ct_get = (\<lambda>c. case c of TemplatesCell x \<Rightarrow> Some x | _ \<Rightarrow> None)\<rparr>"
definition ct_ExposureConfig :: "(ExposureConfig_mem, 'l) cell_type" where
  "ct_ExposureConfig = \<lparr>ct_put = ExposureConfigCell, ct_get = (\<lambda>c. case c of ExposureConfigCell x \<Rightarrow> Some x | _ \<Rightarrow> None)\<rparr>"
definition ct_BuilderSpec :: "(BuilderSpec_mem, 'l) cell_type" where
  "ct_BuilderSpec = \<lparr>ct_put = BuilderSpecCell, ct_get = (\<lambda>c. case c of BuilderSpecCell x \<Rightarrow> Some x | _ \<Rightarrow> None)\<rparr>"
definition ct_BuilderStatus :: "(BuilderStatus_mem, 'l) cell_type" where
  "ct_BuilderStatus = \<lparr>ct_put = BuilderStatusCell, ct_get = (\<lambda>c. case c of BuilderStatusCell x \<Rightarrow> Some x | _ \<Rightarrow> None)\<rparr>"
definition ct_Builder :: "('l Builder_mem, 'l) cell_type" where
  "ct_Builder = \<lparr>ct_put = BuilderCell, ct_get = (\<lambda>c. case c of BuilderCell x \<Rightarrow> Some x | _ \<Rightarrow> None)\<rparr>"
definition ct_Builders :: "('l Builder_mem list, 'l) cell_type" where
  "ct_Builders = \<lparr>ct_put = BuildersCell, ct_get = (\<lambda>c. case c of BuildersCell x \<Rightarrow> Some x | _ \<Rightarrow> None)\<rparr>"
definition ct_List :: "('l list_mem, 'l) cell_type" where
  "ct_List = \<lparr>ct_put = ListCell, ct_get = (\<lambda>c. case c of ListCell x \<Rightarrow> Some x | _ \<Rightarrow> None)\<rparr>"

lemmas ct_defs = ct_string_def ct_int32_def ct_strings_def ct_map_def ct_lib_def ct_libs_def ct_PVCConfig_def ct_S3Config_def ct_CacheConfig_def ct_TemplateSpec_def ct_Template_def ct_Templates_def ct_ExposureConfig_def ct_BuilderSpec_def ct_BuilderStatus_def ct_Builder_def ct_Builders_def ct_List_def

lemma ct_oks [copier_intros]:
  "ct_ok ct_string"
  "ct_ok ct_int32"
  "ct_ok ct_strings"
  "ct_ok ct_map"
  "ct_ok ct_lib"
  "ct_ok ct_libs"
  "ct_ok ct_PVCConfig"
  "ct_ok ct_S3Config"
  "ct_ok ct_CacheConfig"
  "ct_ok ct_TemplateSpec"
  "ct_ok ct_Template"
  "ct_ok ct_Templates"
  "ct_ok ct_ExposureConfig"
  "ct_ok ct_BuilderSpec"
  "ct_ok ct_BuilderStatus"
  "ct_ok ct_Builder"
  "ct_ok ct_Builders"
  "ct_ok ct_List"
  by (simp_all add: ct_ok_def ct_defs)

section \<open>Library structs\<close>

text \<open>
  What is relied on of the structs of the library packages: their \<open>DeepCopyInto\<close> (for \<open>Time\<close>,
  \<open>DeepCopy\<close>) meets the contract, for whatever the struct stands for, and the zero value of
  \<open>ResourceRequirements\<close> has two nil maps.
\<close>

record 'l go_lib =
  gl_DeepCopyInto :: "'l \<Rightarrow> 'l memory \<Rightarrow> 'l \<times> 'l memory"
  gl_valid :: "'l memory \<Rightarrow> 'l \<Rightarrow> bool"
  gl_cells :: "'l memory \<Rightarrow> 'l \<Rightarrow> addr set"
  gl_meta :: "'l memory \<Rightarrow> 'l \<Rightarrow> object_meta"
  gl_list_meta :: "'l memory \<Rightarrow> 'l \<Rightarrow> string"
  gl_resources :: "'l memory \<Rightarrow> 'l \<Rightarrow> resource_requirements"
  gl_toleration :: "'l memory \<Rightarrow> 'l \<Rightarrow> toleration"
  gl_affinity :: "'l memory \<Rightarrow> 'l \<Rightarrow> affinity"
  gl_condition :: "'l memory \<Rightarrow> 'l \<Rightarrow> condition"
  gl_time :: "'l memory \<Rightarrow> 'l \<Rightarrow> time"
  gl_zero_resources :: 'l

definition lib_copies :: "'l go_lib \<Rightarrow> bool" where
  "lib_copies L \<longleftrightarrow> deep_copier (gl_valid L) (gl_cells L)
     (\<lambda>h x. (gl_meta L h x, gl_list_meta L h x, gl_resources L h x, gl_toleration L h x,
        gl_affinity L h x, gl_condition L h x, gl_time L h x)) (gl_DeepCopyInto L)
     \<and> (\<forall>h. gl_valid L h (gl_zero_resources L) \<and> gl_cells L h (gl_zero_resources L) = {}
        \<and> gl_resources L h (gl_zero_resources L) = \<lparr>rr_limits = None, rr_requests = None\<rparr>)"

lemma lib_copiers:
  assumes "lib_copies L"
  shows "deep_copier (gl_valid L) (gl_cells L) (gl_meta L) (gl_DeepCopyInto L)"
    "deep_copier (gl_valid L) (gl_cells L) (gl_list_meta L) (gl_DeepCopyInto L)"
    "deep_copier (gl_valid L) (gl_cells L) (gl_resources L) (gl_DeepCopyInto L)"
    "deep_copier (gl_valid L) (gl_cells L) (gl_toleration L) (gl_DeepCopyInto L)"
    "deep_copier (gl_valid L) (gl_cells L) (gl_affinity L) (gl_DeepCopyInto L)"
    "deep_copier (gl_valid L) (gl_cells L) (gl_condition L) (gl_DeepCopyInto L)"
    "deep_copier (gl_valid L) (gl_cells L) (gl_time L) (gl_DeepCopyInto L)"
  using copier_view [OF conjunct1 [OF assms [unfolded lib_copies_def]], of "\<lambda>(m, l, r, t, a, c, i). m"]
    copier_view [OF conjunct1 [OF assms [unfolded lib_copies_def]], of "\<lambda>(m, l, r, t, a, c, i). l"]
    copier_view [OF conjunct1 [OF assms [unfolded lib_copies_def]], of "\<lambda>(m, l, r, t, a, c, i). r"]
    copier_view [OF conjunct1 [OF assms [unfolded lib_copies_def]], of "\<lambda>(m, l, r, t, a, c, i). t"]
    copier_view [OF conjunct1 [OF assms [unfolded lib_copies_def]], of "\<lambda>(m, l, r, t, a, c, i). a"]
    copier_view [OF conjunct1 [OF assms [unfolded lib_copies_def]], of "\<lambda>(m, l, r, t, a, c, i). c"]
    copier_view [OF conjunct1 [OF assms [unfolded lib_copies_def]], of "\<lambda>(m, l, r, t, a, c, i). i"]
  by simp_all

section \<open>BuildkitBuilderTemplate\<close>

text \<open>\<open>**out = **in\<close> and \<open>copy\<close> of plain values.\<close>

abbreviation (input) copy_plain :: "'a \<Rightarrow> 'l memory \<Rightarrow> 'a \<times> 'l memory" where
  "copy_plain \<equiv> (\<lambda>x h. (x, h))"

abbreviation (input) valid_plain :: "'l memory \<Rightarrow> 'a \<Rightarrow> bool" where
  "valid_plain \<equiv> (\<lambda>_ _. True)"

abbreviation (input) cells_plain :: "'l memory \<Rightarrow> 'a \<Rightarrow> addr set" where
  "cells_plain \<equiv> (\<lambda>_ _. {})"

abbreviation (input) view_plain :: "'l memory \<Rightarrow> 'a \<Rightarrow> 'a" where
  "view_plain \<equiv> (\<lambda>_ x. x)"

lemmas copier_plain = copier_flat [where f = "\<lambda>x. x"]

abbreviation "copy_map \<equiv> copy_ptr ct_map copy_entries"
abbreviation "valid_map \<equiv> valid_ptr ct_map (\<lambda>_. gomap_wf)"
abbreviation "cells_map \<equiv> cells_ptr ct_map cells_plain"
abbreviation "view_map \<equiv> view_ptr ct_map view_plain"

subsection \<open>S3Config\<close>

definition S3Config_DeepCopyInto :: "S3Config_mem \<Rightarrow> 'l memory \<Rightarrow> S3Config_mem \<times> 'l memory" where
  "S3Config_DeepCopyInto v h =
     (let (secretRef, h) = copy_ptr ct_string copy_plain (ms3_secretRef v) h
      in (v\<lparr>ms3_secretRef := secretRef\<rparr>, h))"

definition S3Config_DeepCopy :: "addr option \<Rightarrow> 'l memory \<Rightarrow> addr option \<times> 'l memory" where
  "S3Config_DeepCopy = copy_ptr ct_S3Config S3Config_DeepCopyInto"

definition S3Config_valid :: "'l memory \<Rightarrow> S3Config_mem \<Rightarrow> bool" where
  "S3Config_valid h v \<longleftrightarrow> valid_ptr ct_string valid_plain h (ms3_secretRef v)"

definition S3Config_cells :: "'l memory \<Rightarrow> S3Config_mem \<Rightarrow> addr set" where
  "S3Config_cells h v = cells_ptr ct_string cells_plain h (ms3_secretRef v)"

definition S3Config_view :: "'l memory \<Rightarrow> S3Config_mem \<Rightarrow> S3Config" where
  "S3Config_view h v = \<lparr>s3_bucket = ms3_bucket v, s3_region = ms3_region v, s3_endpoint = ms3_endpoint v,
     s3_secretRef = view_ptr ct_string view_plain h (ms3_secretRef v)\<rparr>"

lemma copier_S3Config [copier_intros]:
  "deep_copier S3Config_valid S3Config_cells S3Config_view S3Config_DeepCopyInto"
  by (rule copier_struct [where proj = ms3_secretRef and upd = "\<lambda>v p. v\<lparr>ms3_secretRef := p\<rparr>"
        and g = "\<lambda>v s. \<lparr>s3_bucket = ms3_bucket v, s3_region = ms3_region v,
          s3_endpoint = ms3_endpoint v, s3_secretRef = s\<rparr>",
      OF copier_ptr [OF ct_oks(1) copier_plain]])
    (simp_all add: S3Config_DeepCopyInto_def S3Config_valid_def S3Config_cells_def S3Config_view_def
      split: prod.split)

subsection \<open>PVCConfig\<close>

text \<open>The elements of a possibly nil slice, where nothing tells nil from empty.\<close>

definition elements :: "'a list option \<Rightarrow> 'a list" where
  "elements s = (case s of None \<Rightarrow> [] | Some xs \<Rightarrow> xs)"

definition PVCConfig_DeepCopyInto :: "PVCConfig_mem \<Rightarrow> 'l memory \<Rightarrow> PVCConfig_mem \<times> 'l memory" where
  "PVCConfig_DeepCopyInto v h =
     (let (accessModes, h) = copy_slice ct_strings copy_plain (mpc_accessModes v) h
      in (v\<lparr>mpc_accessModes := accessModes\<rparr>, h))"

definition PVCConfig_DeepCopy :: "addr option \<Rightarrow> 'l memory \<Rightarrow> addr option \<times> 'l memory" where
  "PVCConfig_DeepCopy = copy_ptr ct_PVCConfig PVCConfig_DeepCopyInto"

definition PVCConfig_valid :: "'l memory \<Rightarrow> PVCConfig_mem \<Rightarrow> bool" where
  "PVCConfig_valid h v \<longleftrightarrow> valid_slice ct_strings valid_plain h (mpc_accessModes v)"

definition PVCConfig_cells :: "'l memory \<Rightarrow> PVCConfig_mem \<Rightarrow> addr set" where
  "PVCConfig_cells h v = cells_slice ct_strings cells_plain h (mpc_accessModes v)"

definition PVCConfig_view :: "'l memory \<Rightarrow> PVCConfig_mem \<Rightarrow> PVCConfig" where
  "PVCConfig_view h v = \<lparr>pc_storageClassName = mpc_storageClassName v, pc_size = mpc_size v,
     pc_accessModes = elements (view_slice ct_strings view_plain h (mpc_accessModes v))\<rparr>"

lemma copier_PVCConfig [copier_intros]:
  "deep_copier PVCConfig_valid PVCConfig_cells PVCConfig_view PVCConfig_DeepCopyInto"
  by (rule copier_struct [where proj = mpc_accessModes and upd = "\<lambda>v p. v\<lparr>mpc_accessModes := p\<rparr>"
        and g = "\<lambda>v s. \<lparr>pc_storageClassName = mpc_storageClassName v, pc_size = mpc_size v,
          pc_accessModes = elements s\<rparr>",
      OF copier_slice [OF ct_oks(3) copier_plain]])
    (simp_all add: PVCConfig_DeepCopyInto_def PVCConfig_valid_def PVCConfig_cells_def PVCConfig_view_def
      split: prod.split)

subsection \<open>CacheConfig\<close>

definition CacheConfig_DeepCopyInto :: "CacheConfig_mem \<Rightarrow> 'l memory \<Rightarrow> CacheConfig_mem \<times> 'l memory" where
  "CacheConfig_DeepCopyInto v h =
     (let (pvc, h) = copy_ptr ct_PVCConfig PVCConfig_DeepCopyInto (mcc_pvc v) h;
          (s3, h) = copy_ptr ct_S3Config S3Config_DeepCopyInto (mcc_s3 v) h
      in (v\<lparr>mcc_pvc := pvc, mcc_s3 := s3\<rparr>, h))"

definition CacheConfig_DeepCopy :: "addr option \<Rightarrow> 'l memory \<Rightarrow> addr option \<times> 'l memory" where
  "CacheConfig_DeepCopy = copy_ptr ct_CacheConfig CacheConfig_DeepCopyInto"

definition CacheConfig_valid :: "'l memory \<Rightarrow> CacheConfig_mem \<Rightarrow> bool" where
  "CacheConfig_valid h v \<longleftrightarrow>
     valid_ptr ct_PVCConfig PVCConfig_valid h (mcc_pvc v) \<and> valid_ptr ct_S3Config S3Config_valid h (mcc_s3 v)"

definition CacheConfig_cells :: "'l memory \<Rightarrow> CacheConfig_mem \<Rightarrow> addr set" where
  "CacheConfig_cells h v =
     cells_ptr ct_PVCConfig PVCConfig_cells h (mcc_pvc v) \<union> cells_ptr ct_S3Config S3Config_cells h (mcc_s3 v)"

definition CacheConfig_view :: "'l memory \<Rightarrow> CacheConfig_mem \<Rightarrow> CacheConfig" where
  "CacheConfig_view h v = \<lparr>cc_type = mcc_type v, cc_pvc = view_ptr ct_PVCConfig PVCConfig_view h (mcc_pvc v),
     cc_s3 = view_ptr ct_S3Config S3Config_view h (mcc_s3 v)\<rparr>"

lemma copier_CacheConfig [copier_intros]:
  "deep_copier CacheConfig_valid CacheConfig_cells CacheConfig_view CacheConfig_DeepCopyInto"
  by (rule copier_struct [where proj = "\<lambda>v. (mcc_pvc v, mcc_s3 v)"
        and upd = "\<lambda>v (p, s). v\<lparr>mcc_pvc := p, mcc_s3 := s\<rparr>"
        and g = "\<lambda>v (p, s). \<lparr>cc_type = mcc_type v, cc_pvc = p, cc_s3 = s\<rparr>",
      OF copier_pair [OF copier_ptr [OF ct_oks(7) copier_PVCConfig] copier_ptr [OF ct_oks(8) copier_S3Config]]])
    (simp_all add: CacheConfig_DeepCopyInto_def CacheConfig_valid_def CacheConfig_cells_def CacheConfig_view_def
      copy_pair_def split: prod.split)

subsection \<open>BuildkitBuilderTemplateSpec\<close>

definition TemplateSpec_DeepCopyInto ::
  "'l go_lib \<Rightarrow> 'l TemplateSpec_mem \<Rightarrow> 'l memory \<Rightarrow> 'l TemplateSpec_mem \<times> 'l memory" where
  "TemplateSpec_DeepCopyInto L v h =
     (let (resources, h) = gl_DeepCopyInto L (mts_resources v) h;
          (nodeSelector, h) = copy_map (mts_nodeSelector v) h;
          (tolerations, h) = copy_slice ct_libs (gl_DeepCopyInto L) (mts_tolerations v) h;
          (affinity, h) = copy_ptr ct_lib (gl_DeepCopyInto L) (mts_affinity v) h;
          (cacheConfig, h) = CacheConfig_DeepCopyInto (mts_cacheConfig v) h
      in (v\<lparr>mts_resources := resources, mts_nodeSelector := nodeSelector, mts_tolerations := tolerations,
            mts_affinity := affinity, mts_cacheConfig := cacheConfig\<rparr>, h))"

definition TemplateSpec_DeepCopy :: "'l go_lib \<Rightarrow> addr option \<Rightarrow> 'l memory \<Rightarrow> addr option \<times> 'l memory" where
  "TemplateSpec_DeepCopy L = copy_ptr ct_TemplateSpec (TemplateSpec_DeepCopyInto L)"

definition TemplateSpec_valid :: "'l go_lib \<Rightarrow> 'l memory \<Rightarrow> 'l TemplateSpec_mem \<Rightarrow> bool" where
  "TemplateSpec_valid L h v \<longleftrightarrow> gl_valid L h (mts_resources v) \<and> valid_map h (mts_nodeSelector v)
     \<and> valid_slice ct_libs (gl_valid L) h (mts_tolerations v)
     \<and> valid_ptr ct_lib (gl_valid L) h (mts_affinity v) \<and> CacheConfig_valid h (mts_cacheConfig v)"

definition TemplateSpec_cells :: "'l go_lib \<Rightarrow> 'l memory \<Rightarrow> 'l TemplateSpec_mem \<Rightarrow> addr set" where
  "TemplateSpec_cells L h v = gl_cells L h (mts_resources v) \<union> (cells_map h (mts_nodeSelector v)
     \<union> (cells_slice ct_libs (gl_cells L) h (mts_tolerations v)
     \<union> (cells_ptr ct_lib (gl_cells L) h (mts_affinity v) \<union> CacheConfig_cells h (mts_cacheConfig v))))"

definition TemplateSpec_view :: "'l go_lib \<Rightarrow> 'l memory \<Rightarrow> 'l TemplateSpec_mem \<Rightarrow> TemplateSpec" where
  "TemplateSpec_view L h v = \<lparr>ts_buildkitImage = mts_buildkitImage v, ts_rootless = mts_rootless v,
     ts_resources = gl_resources L h (mts_resources v), ts_nodeSelector = view_map h (mts_nodeSelector v),
     ts_tolerations = view_slice ct_libs (gl_toleration L) h (mts_tolerations v),
     ts_affinity = view_ptr ct_lib (gl_affinity L) h (mts_affinity v),
     ts_buildkitdToml = mts_buildkitdToml v, ts_cacheConfig = CacheConfig_view h (mts_cacheConfig v),
     ts_arch = mts_arch v\<rparr>"

lemma copier_TemplateSpec:
  assumes "lib_copies L"
  shows "deep_copier (TemplateSpec_valid L) (TemplateSpec_cells L) (TemplateSpec_view L) (TemplateSpec_DeepCopyInto L)"
  by (rule copier_struct [where
        proj = "\<lambda>v. (mts_resources v, mts_nodeSelector v, mts_tolerations v, mts_affinity v, mts_cacheConfig v)"
        and upd = "\<lambda>v (r, n, t, a, c). v\<lparr>mts_resources := r, mts_nodeSelector := n, mts_tolerations := t,
          mts_affinity := a, mts_cacheConfig := c\<rparr>"
        and g = "\<lambda>v (r, n, t, a, c). \<lparr>ts_buildkitImage = mts_buildkitImage v, ts_rootless = mts_rootless v,
          ts_resources = r, ts_nodeSelector = n, ts_tolerations = t, ts_affinity = a,
          ts_buildkitdToml = mts_buildkitdToml v, ts_cacheConfig = c, ts_arch = mts_arch v\<rparr>",
      OF copier_pair [OF lib_copiers(3) [OF assms] copier_pair [OF copier_ptr [OF ct_oks(4) copier_entries]
        copier_pair [OF copier_slice [OF ct_oks(6) lib_copiers(4) [OF assms]]
        copier_pair [OF copier_ptr [OF ct_oks(5) lib_copiers(5) [OF assms]] copier_CacheConfig]]]]])
    (simp_all add: TemplateSpec_DeepCopyInto_def TemplateSpec_valid_def TemplateSpec_cells_def
      TemplateSpec_view_def copy_pair_def split: prod.split)

subsection \<open>BuildkitBuilderTemplate and its list\<close>

text \<open>\<open>out.TypeMeta = in.TypeMeta\<close> is part of \<open>*out = *in\<close>. A view keeps the type's name beside the value.\<close>

definition Template_DeepCopyInto ::
  "'l go_lib \<Rightarrow> 'l BuilderTemplate_mem \<Rightarrow> 'l memory \<Rightarrow> 'l BuilderTemplate_mem \<times> 'l memory" where
  "Template_DeepCopyInto L v h =
     (let (meta, h) = gl_DeepCopyInto L (mbt_meta v) h;
          (spec, h) = TemplateSpec_DeepCopyInto L (mbt_spec v) h
      in (v\<lparr>mbt_meta := meta, mbt_spec := spec\<rparr>, h))"

definition Template_DeepCopy :: "'l go_lib \<Rightarrow> addr option \<Rightarrow> 'l memory \<Rightarrow> addr option \<times> 'l memory" where
  "Template_DeepCopy L = copy_ptr ct_Template (Template_DeepCopyInto L)"

text \<open>\<open>DeepCopyObject\<close> returns the copy as an interface value, nil if there is none.\<close>

definition copy_object ::
  "(addr option \<Rightarrow> 'l memory \<Rightarrow> addr option \<times> 'l memory) \<Rightarrow> addr option \<Rightarrow> 'l memory \<Rightarrow> addr option \<times> 'l memory" where
  "copy_object DeepCopy p h =
     (case DeepCopy p h of (c, h) \<Rightarrow> (case c of Some a \<Rightarrow> (Some a, h) | None \<Rightarrow> (None, h)))"

lemma copy_object [simp]: "copy_object DeepCopy = DeepCopy"
  by (simp add: copy_object_def fun_eq_iff split: prod.split option.split)

definition Template_DeepCopyObject :: "'l go_lib \<Rightarrow> addr option \<Rightarrow> 'l memory \<Rightarrow> addr option \<times> 'l memory" where
  "Template_DeepCopyObject L = copy_object (Template_DeepCopy L)"

definition Template_valid :: "'l go_lib \<Rightarrow> 'l memory \<Rightarrow> 'l BuilderTemplate_mem \<Rightarrow> bool" where
  "Template_valid L h v \<longleftrightarrow> gl_valid L h (mbt_meta v) \<and> TemplateSpec_valid L h (mbt_spec v)"

definition Template_cells :: "'l go_lib \<Rightarrow> 'l memory \<Rightarrow> 'l BuilderTemplate_mem \<Rightarrow> addr set" where
  "Template_cells L h v = gl_cells L h (mbt_meta v) \<union> TemplateSpec_cells L h (mbt_spec v)"

definition Template_view :: "'l go_lib \<Rightarrow> 'l memory \<Rightarrow> 'l BuilderTemplate_mem \<Rightarrow> type_meta \<times> BuilderTemplate" where
  "Template_view L h v =
     (mbt_type v, \<lparr>bt_meta = gl_meta L h (mbt_meta v), bt_spec = TemplateSpec_view L h (mbt_spec v)\<rparr>)"

lemma copier_Template:
  assumes "lib_copies L"
  shows "deep_copier (Template_valid L) (Template_cells L) (Template_view L) (Template_DeepCopyInto L)"
  by (rule copier_struct [where proj = "\<lambda>v. (mbt_meta v, mbt_spec v)"
        and upd = "\<lambda>v (m, s). v\<lparr>mbt_meta := m, mbt_spec := s\<rparr>"
        and g = "\<lambda>v (m, s). (mbt_type v, \<lparr>bt_meta = m, bt_spec = s\<rparr>)",
      OF copier_pair [OF lib_copiers(1) [OF assms] copier_TemplateSpec [OF assms]]])
    (simp_all add: Template_DeepCopyInto_def Template_valid_def Template_cells_def Template_view_def
      copy_pair_def split: prod.split)

text \<open>The two list types differ in their items alone.\<close>

definition list_DeepCopyInto ::
  "'l go_lib \<Rightarrow> ('a list, 'l) cell_type \<Rightarrow> ('a \<Rightarrow> 'l memory \<Rightarrow> 'a \<times> 'l memory) \<Rightarrow>
     'l list_mem \<Rightarrow> 'l memory \<Rightarrow> 'l list_mem \<times> 'l memory" where
  "list_DeepCopyInto L ct cp v h =
     (let (meta, h) = gl_DeepCopyInto L (ml_meta v) h;
          (items, h) = copy_slice ct cp (ml_items v) h
      in (v\<lparr>ml_meta := meta, ml_items := items\<rparr>, h))"

definition list_valid :: "'l go_lib \<Rightarrow> ('a list, 'l) cell_type \<Rightarrow> ('l memory \<Rightarrow> 'a \<Rightarrow> bool) \<Rightarrow>
    'l memory \<Rightarrow> 'l list_mem \<Rightarrow> bool" where
  "list_valid L ct valid h v \<longleftrightarrow> gl_valid L h (ml_meta v) \<and> valid_slice ct valid h (ml_items v)"

definition list_cells :: "'l go_lib \<Rightarrow> ('a list, 'l) cell_type \<Rightarrow> ('l memory \<Rightarrow> 'a \<Rightarrow> addr set) \<Rightarrow>
    'l memory \<Rightarrow> 'l list_mem \<Rightarrow> addr set" where
  "list_cells L ct cells h v = gl_cells L h (ml_meta v) \<union> cells_slice ct cells h (ml_items v)"

definition list_view :: "'l go_lib \<Rightarrow> ('a list, 'l) cell_type \<Rightarrow> ('l memory \<Rightarrow> 'a \<Rightarrow> 'v) \<Rightarrow>
    'l memory \<Rightarrow> 'l list_mem \<Rightarrow> type_meta \<times> string \<times> 'v list option" where
  "list_view L ct view h v = (ml_type v, gl_list_meta L h (ml_meta v), view_slice ct view h (ml_items v))"

lemma copier_items:
  assumes "lib_copies L" and "ct_ok ct" and "deep_copier valid cells view copy"
  shows "deep_copier (list_valid L ct valid) (list_cells L ct cells) (list_view L ct view) (list_DeepCopyInto L ct copy)"
  by (rule copier_struct [where proj = "\<lambda>v. (ml_meta v, ml_items v)"
        and upd = "\<lambda>v (m, s). v\<lparr>ml_meta := m, ml_items := s\<rparr>"
        and g = "\<lambda>v (m, s). (ml_type v, m, s)",
      OF copier_pair [OF lib_copiers(2) [OF assms(1)] copier_slice [OF assms(2,3)]]])
    (simp_all add: list_DeepCopyInto_def list_valid_def list_cells_def list_view_def copy_pair_def
      split: prod.split)

definition TemplateList_DeepCopyInto :: "'l go_lib \<Rightarrow> 'l list_mem \<Rightarrow> 'l memory \<Rightarrow> 'l list_mem \<times> 'l memory" where
  "TemplateList_DeepCopyInto L = list_DeepCopyInto L ct_Templates (Template_DeepCopyInto L)"

definition TemplateList_DeepCopy :: "'l go_lib \<Rightarrow> addr option \<Rightarrow> 'l memory \<Rightarrow> addr option \<times> 'l memory" where
  "TemplateList_DeepCopy L = copy_ptr ct_List (TemplateList_DeepCopyInto L)"

definition TemplateList_DeepCopyObject :: "'l go_lib \<Rightarrow> addr option \<Rightarrow> 'l memory \<Rightarrow> addr option \<times> 'l memory" where
  "TemplateList_DeepCopyObject L = copy_object (TemplateList_DeepCopy L)"

section \<open>BuildkitBuilder\<close>

subsection \<open>ExposureConfig\<close>

definition ExposureConfig_DeepCopyInto :: "ExposureConfig_mem \<Rightarrow> 'l memory \<Rightarrow> ExposureConfig_mem \<times> 'l memory" where
  "ExposureConfig_DeepCopyInto v h =
     (let (annotations, h) = copy_map (mex_annotations v) h in (v\<lparr>mex_annotations := annotations\<rparr>, h))"

definition ExposureConfig_DeepCopy :: "addr option \<Rightarrow> 'l memory \<Rightarrow> addr option \<times> 'l memory" where
  "ExposureConfig_DeepCopy = copy_ptr ct_ExposureConfig ExposureConfig_DeepCopyInto"

definition ExposureConfig_valid :: "'l memory \<Rightarrow> ExposureConfig_mem \<Rightarrow> bool" where
  "ExposureConfig_valid h v \<longleftrightarrow> valid_map h (mex_annotations v)"

definition ExposureConfig_cells :: "'l memory \<Rightarrow> ExposureConfig_mem \<Rightarrow> addr set" where
  "ExposureConfig_cells h v = cells_map h (mex_annotations v)"

definition ExposureConfig_view :: "'l memory \<Rightarrow> ExposureConfig_mem \<Rightarrow> ExposureConfig" where
  "ExposureConfig_view h v = \<lparr>ex_enabled = mex_enabled v, ex_host = mex_host v,
     ex_ingressController = mex_ingressController v, ex_entryPoint = mex_entryPoint v,
     ex_annotations = gomap_entries (view_map h (mex_annotations v))\<rparr>"

lemma copier_ExposureConfig [copier_intros]:
  "deep_copier ExposureConfig_valid ExposureConfig_cells ExposureConfig_view ExposureConfig_DeepCopyInto"
  by (rule copier_struct [where proj = mex_annotations and upd = "\<lambda>v p. v\<lparr>mex_annotations := p\<rparr>"
        and g = "\<lambda>v s. \<lparr>ex_enabled = mex_enabled v, ex_host = mex_host v,
          ex_ingressController = mex_ingressController v, ex_entryPoint = mex_entryPoint v,
          ex_annotations = gomap_entries s\<rparr>",
      OF copier_ptr [OF ct_oks(4) copier_entries]])
    (simp_all add: ExposureConfig_DeepCopyInto_def ExposureConfig_valid_def ExposureConfig_cells_def
      ExposureConfig_view_def split: prod.split)

subsection \<open>BuildkitBuilderSpec\<close>

definition BuilderSpec_DeepCopyInto ::
  "'l go_lib \<Rightarrow> BuilderSpec_mem \<Rightarrow> 'l memory \<Rightarrow> BuilderSpec_mem \<times> 'l memory" where
  "BuilderSpec_DeepCopyInto L v h =
     (let (templateRef, h) = copy_ptr ct_string copy_plain (mbs_templateRef v) h;
          (template, h) = copy_ptr ct_TemplateSpec (TemplateSpec_DeepCopyInto L) (mbs_template v) h;
          (replicas, h) = copy_ptr ct_int32 copy_plain (mbs_replicas v) h;
          (idleTimeoutSeconds, h) = copy_ptr ct_int32 copy_plain (mbs_idleTimeoutSeconds v) h;
          (labels, h) = copy_map (mbs_labels v) h;
          (exposure, h) = copy_ptr ct_ExposureConfig ExposureConfig_DeepCopyInto (mbs_exposure v) h
      in (v\<lparr>mbs_templateRef := templateRef, mbs_template := template, mbs_replicas := replicas,
            mbs_idleTimeoutSeconds := idleTimeoutSeconds, mbs_labels := labels, mbs_exposure := exposure\<rparr>, h))"

definition BuilderSpec_DeepCopy :: "'l go_lib \<Rightarrow> addr option \<Rightarrow> 'l memory \<Rightarrow> addr option \<times> 'l memory" where
  "BuilderSpec_DeepCopy L = copy_ptr ct_BuilderSpec (BuilderSpec_DeepCopyInto L)"

definition BuilderSpec_valid :: "'l go_lib \<Rightarrow> 'l memory \<Rightarrow> BuilderSpec_mem \<Rightarrow> bool" where
  "BuilderSpec_valid L h v \<longleftrightarrow> valid_ptr ct_string valid_plain h (mbs_templateRef v)
     \<and> valid_ptr ct_TemplateSpec (TemplateSpec_valid L) h (mbs_template v)
     \<and> valid_ptr ct_int32 valid_plain h (mbs_replicas v)
     \<and> valid_ptr ct_int32 valid_plain h (mbs_idleTimeoutSeconds v)
     \<and> valid_map h (mbs_labels v) \<and> valid_ptr ct_ExposureConfig ExposureConfig_valid h (mbs_exposure v)"

definition BuilderSpec_cells :: "'l go_lib \<Rightarrow> 'l memory \<Rightarrow> BuilderSpec_mem \<Rightarrow> addr set" where
  "BuilderSpec_cells L h v = cells_ptr ct_string cells_plain h (mbs_templateRef v)
     \<union> (cells_ptr ct_TemplateSpec (TemplateSpec_cells L) h (mbs_template v)
     \<union> (cells_ptr ct_int32 cells_plain h (mbs_replicas v)
     \<union> (cells_ptr ct_int32 cells_plain h (mbs_idleTimeoutSeconds v)
     \<union> (cells_map h (mbs_labels v) \<union> cells_ptr ct_ExposureConfig ExposureConfig_cells h (mbs_exposure v)))))"

definition BuilderSpec_view :: "'l go_lib \<Rightarrow> 'l memory \<Rightarrow> BuilderSpec_mem \<Rightarrow> BuilderSpec" where
  "BuilderSpec_view L h v = \<lparr>bs_templateRef = view_ptr ct_string view_plain h (mbs_templateRef v),
     bs_template = view_ptr ct_TemplateSpec (TemplateSpec_view L) h (mbs_template v), bs_mode = mbs_mode v,
     bs_replicas = view_ptr ct_int32 view_plain h (mbs_replicas v),
     bs_idleTimeoutSeconds = view_ptr ct_int32 view_plain h (mbs_idleTimeoutSeconds v),
     bs_labels = gomap_entries (view_map h (mbs_labels v)),
     bs_exposure = view_ptr ct_ExposureConfig ExposureConfig_view h (mbs_exposure v)\<rparr>"

lemma copier_BuilderSpec:
  assumes "lib_copies L"
  shows "deep_copier (BuilderSpec_valid L) (BuilderSpec_cells L) (BuilderSpec_view L) (BuilderSpec_DeepCopyInto L)"
  by (rule copier_struct [where
        proj = "\<lambda>v. (mbs_templateRef v, mbs_template v, mbs_replicas v, mbs_idleTimeoutSeconds v, mbs_labels v, mbs_exposure v)"
        and upd = "\<lambda>v (r, t, n, i, l, e). v\<lparr>mbs_templateRef := r, mbs_template := t, mbs_replicas := n,
          mbs_idleTimeoutSeconds := i, mbs_labels := l, mbs_exposure := e\<rparr>"
        and g = "\<lambda>v (r, t, n, i, l, e). \<lparr>bs_templateRef = r, bs_template = t, bs_mode = mbs_mode v,
          bs_replicas = n, bs_idleTimeoutSeconds = i, bs_labels = gomap_entries l, bs_exposure = e\<rparr>",
      OF copier_pair [OF copier_ptr [OF ct_oks(1) copier_plain]
        copier_pair [OF copier_ptr [OF ct_oks(10) copier_TemplateSpec [OF assms]]
        copier_pair [OF copier_ptr [OF ct_oks(2) copier_plain]
        copier_pair [OF copier_ptr [OF ct_oks(2) copier_plain]
        copier_pair [OF copier_ptr [OF ct_oks(4) copier_entries]
          copier_ptr [OF ct_oks(13) copier_ExposureConfig]]]]]]])
    (simp_all add: BuilderSpec_DeepCopyInto_def BuilderSpec_valid_def BuilderSpec_cells_def
      BuilderSpec_view_def copy_pair_def split: prod.split)

subsection \<open>BuildkitBuilderStatus\<close>

definition BuilderStatus_DeepCopyInto ::
  "'l go_lib \<Rightarrow> BuilderStatus_mem \<Rightarrow> 'l memory \<Rightarrow> BuilderStatus_mem \<times> 'l memory" where
  "BuilderStatus_DeepCopyInto L v h =
     (let (conditions, h) = copy_slice ct_libs (gl_DeepCopyInto L) (mst_conditions v) h;
          (lastScaledAt, h) = copy_ptr ct_lib (gl_DeepCopyInto L) (mst_lastScaledAt v) h
      in (v\<lparr>mst_conditions := conditions, mst_lastScaledAt := lastScaledAt\<rparr>, h))"

definition BuilderStatus_DeepCopy :: "'l go_lib \<Rightarrow> addr option \<Rightarrow> 'l memory \<Rightarrow> addr option \<times> 'l memory" where
  "BuilderStatus_DeepCopy L = copy_ptr ct_BuilderStatus (BuilderStatus_DeepCopyInto L)"

definition BuilderStatus_valid :: "'l go_lib \<Rightarrow> 'l memory \<Rightarrow> BuilderStatus_mem \<Rightarrow> bool" where
  "BuilderStatus_valid L h v \<longleftrightarrow> valid_slice ct_libs (gl_valid L) h (mst_conditions v)
     \<and> valid_ptr ct_lib (gl_valid L) h (mst_lastScaledAt v)"

definition BuilderStatus_cells :: "'l go_lib \<Rightarrow> 'l memory \<Rightarrow> BuilderStatus_mem \<Rightarrow> addr set" where
  "BuilderStatus_cells L h v = cells_slice ct_libs (gl_cells L) h (mst_conditions v)
     \<union> cells_ptr ct_lib (gl_cells L) h (mst_lastScaledAt v)"

definition BuilderStatus_view :: "'l go_lib \<Rightarrow> 'l memory \<Rightarrow> BuilderStatus_mem \<Rightarrow> BuilderStatus" where
  "BuilderStatus_view L h v = \<lparr>st_endpoint = mst_endpoint v, st_nodePort = mst_nodePort v,
     st_externalEndpoint = mst_externalEndpoint v, st_tlsSecretName = mst_tlsSecretName v,
     st_conditions = elements (view_slice ct_libs (gl_condition L) h (mst_conditions v)),
     st_phase = mst_phase v, st_readyReplicas = mst_readyReplicas v,
     st_desiredReplicas = mst_desiredReplicas v,
     st_lastScaledAt = view_ptr ct_lib (gl_time L) h (mst_lastScaledAt v)\<rparr>"

lemma copier_BuilderStatus:
  assumes "lib_copies L"
  shows "deep_copier (BuilderStatus_valid L) (BuilderStatus_cells L) (BuilderStatus_view L) (BuilderStatus_DeepCopyInto L)"
  by (rule copier_struct [where proj = "\<lambda>v. (mst_conditions v, mst_lastScaledAt v)"
        and upd = "\<lambda>v (c, t). v\<lparr>mst_conditions := c, mst_lastScaledAt := t\<rparr>"
        and g = "\<lambda>v (c, t). \<lparr>st_endpoint = mst_endpoint v, st_nodePort = mst_nodePort v,
          st_externalEndpoint = mst_externalEndpoint v, st_tlsSecretName = mst_tlsSecretName v,
          st_conditions = elements c, st_phase = mst_phase v, st_readyReplicas = mst_readyReplicas v,
          st_desiredReplicas = mst_desiredReplicas v, st_lastScaledAt = t\<rparr>",
      OF copier_pair [OF copier_slice [OF ct_oks(6) lib_copiers(6) [OF assms]]
        copier_ptr [OF ct_oks(5) lib_copiers(7) [OF assms]]]])
    (simp_all add: BuilderStatus_DeepCopyInto_def BuilderStatus_valid_def BuilderStatus_cells_def
      BuilderStatus_view_def copy_pair_def split: prod.split)

subsection \<open>BuildkitBuilder and its list\<close>

definition Builder_DeepCopyInto ::
  "'l go_lib \<Rightarrow> 'l Builder_mem \<Rightarrow> 'l memory \<Rightarrow> 'l Builder_mem \<times> 'l memory" where
  "Builder_DeepCopyInto L v h =
     (let (meta, h) = gl_DeepCopyInto L (mb_meta v) h;
          (spec, h) = BuilderSpec_DeepCopyInto L (mb_spec v) h;
          (status, h) = BuilderStatus_DeepCopyInto L (mb_status v) h
      in (v\<lparr>mb_meta := meta, mb_spec := spec, mb_status := status\<rparr>, h))"

definition Builder_DeepCopy :: "'l go_lib \<Rightarrow> addr option \<Rightarrow> 'l memory \<Rightarrow> addr option \<times> 'l memory" where
  "Builder_DeepCopy L = copy_ptr ct_Builder (Builder_DeepCopyInto L)"

definition Builder_DeepCopyObject :: "'l go_lib \<Rightarrow> addr option \<Rightarrow> 'l memory \<Rightarrow> addr option \<times> 'l memory" where
  "Builder_DeepCopyObject L = copy_object (Builder_DeepCopy L)"

definition Builder_valid :: "'l go_lib \<Rightarrow> 'l memory \<Rightarrow> 'l Builder_mem \<Rightarrow> bool" where
  "Builder_valid L h v \<longleftrightarrow>
     gl_valid L h (mb_meta v) \<and> BuilderSpec_valid L h (mb_spec v) \<and> BuilderStatus_valid L h (mb_status v)"

definition Builder_cells :: "'l go_lib \<Rightarrow> 'l memory \<Rightarrow> 'l Builder_mem \<Rightarrow> addr set" where
  "Builder_cells L h v =
     gl_cells L h (mb_meta v) \<union> (BuilderSpec_cells L h (mb_spec v) \<union> BuilderStatus_cells L h (mb_status v))"

definition Builder_view :: "'l go_lib \<Rightarrow> 'l memory \<Rightarrow> 'l Builder_mem \<Rightarrow> type_meta \<times> Builder" where
  "Builder_view L h v = (mb_type v, \<lparr>b_meta = gl_meta L h (mb_meta v), b_spec = BuilderSpec_view L h (mb_spec v),
     b_status = BuilderStatus_view L h (mb_status v)\<rparr>)"

lemma copier_Builder:
  assumes "lib_copies L"
  shows "deep_copier (Builder_valid L) (Builder_cells L) (Builder_view L) (Builder_DeepCopyInto L)"
  by (rule copier_struct [where proj = "\<lambda>v. (mb_meta v, mb_spec v, mb_status v)"
        and upd = "\<lambda>v (m, s, t). v\<lparr>mb_meta := m, mb_spec := s, mb_status := t\<rparr>"
        and g = "\<lambda>v (m, s, t). (mb_type v, \<lparr>b_meta = m, b_spec = s, b_status = t\<rparr>)",
      OF copier_pair [OF lib_copiers(1) [OF assms]
        copier_pair [OF copier_BuilderSpec [OF assms] copier_BuilderStatus [OF assms]]]])
    (simp_all add: Builder_DeepCopyInto_def Builder_valid_def Builder_cells_def Builder_view_def
      copy_pair_def split: prod.split)

definition BuilderList_DeepCopyInto :: "'l go_lib \<Rightarrow> 'l list_mem \<Rightarrow> 'l memory \<Rightarrow> 'l list_mem \<times> 'l memory" where
  "BuilderList_DeepCopyInto L = list_DeepCopyInto L ct_Builders (Builder_DeepCopyInto L)"

definition BuilderList_DeepCopy :: "'l go_lib \<Rightarrow> addr option \<Rightarrow> 'l memory \<Rightarrow> addr option \<times> 'l memory" where
  "BuilderList_DeepCopy L = copy_ptr ct_List (BuilderList_DeepCopyInto L)"

definition BuilderList_DeepCopyObject :: "'l go_lib \<Rightarrow> addr option \<Rightarrow> 'l memory \<Rightarrow> addr option \<times> 'l memory" where
  "BuilderList_DeepCopyObject L = copy_object (BuilderList_DeepCopy L)"

text \<open>The types without library structs meet the contract as they are.\<close>

interpretation string_map: deep_copier "\<lambda>_. gomap_wf" cells_plain view_plain copy_entries
  by (rule copier_entries)

interpretation s3_config: deep_copier S3Config_valid S3Config_cells S3Config_view S3Config_DeepCopyInto
  by (rule copier_S3Config)

interpretation pvc_config: deep_copier PVCConfig_valid PVCConfig_cells PVCConfig_view PVCConfig_DeepCopyInto
  by (rule copier_PVCConfig)

interpretation cache_config: deep_copier CacheConfig_valid CacheConfig_cells CacheConfig_view CacheConfig_DeepCopyInto
  by (rule copier_CacheConfig)

interpretation exposure_config: deep_copier ExposureConfig_valid ExposureConfig_cells ExposureConfig_view
  ExposureConfig_DeepCopyInto
  by (rule copier_ExposureConfig)

section \<open>Merging in memory\<close>

text \<open>
  \<open>mergeSpec\<close> with its pointers: the base is copied deeply, the fields taken from the override
  are assigned, so slices, maps and pointers among them are shared with it.
\<close>

definition zero_TemplateSpec_mem :: "'l go_lib \<Rightarrow> 'l TemplateSpec_mem" where
  "zero_TemplateSpec_mem L = \<lparr>mts_buildkitImage = [], mts_rootless = False,
     mts_resources = gl_zero_resources L, mts_nodeSelector = None, mts_tolerations = None,
     mts_affinity = None, mts_buildkitdToml = [],
     mts_cacheConfig = \<lparr>mcc_type = [], mcc_pvc = None, mcc_s3 = None\<rparr>, mts_arch = []\<rparr>"

definition merge_over :: "'l go_lib \<Rightarrow> 'l memory \<Rightarrow> 'l TemplateSpec_mem \<Rightarrow> 'l TemplateSpec_mem \<Rightarrow> 'l TemplateSpec_mem" where
  "merge_over L h ov out =
     (let out = (if mts_buildkitImage ov \<noteq> []
                 then out\<lparr>mts_buildkitImage := mts_buildkitImage ov\<rparr> else out);
          out = out\<lparr>mts_rootless := mts_rootless ov\<rparr>;
          out = (if gomap_len (rr_limits (gl_resources L h (mts_resources ov))) > 0
                    \<or> gomap_len (rr_requests (gl_resources L h (mts_resources ov))) > 0
                 then out\<lparr>mts_resources := mts_resources ov\<rparr> else out);
          out = (if mts_nodeSelector ov \<noteq> None
                 then out\<lparr>mts_nodeSelector := mts_nodeSelector ov\<rparr> else out);
          out = (if mts_tolerations ov \<noteq> None
                 then out\<lparr>mts_tolerations := mts_tolerations ov\<rparr> else out);
          out = (if mts_affinity ov \<noteq> None
                 then out\<lparr>mts_affinity := mts_affinity ov\<rparr> else out);
          out = (if mts_buildkitdToml ov \<noteq> []
                 then out\<lparr>mts_buildkitdToml := mts_buildkitdToml ov\<rparr> else out);
          out = (if mcc_type (mts_cacheConfig ov) \<noteq> []
                 then out\<lparr>mts_cacheConfig := mts_cacheConfig ov\<rparr> else out);
          out = (if mts_arch ov \<noteq> [] then out\<lparr>mts_arch := mts_arch ov\<rparr> else out)
      in out)"

text \<open>\<open>if base != nil { out = *base.DeepCopy() }\<close>\<close>

definition merge_base :: "'l go_lib \<Rightarrow> addr option \<Rightarrow> 'l memory \<Rightarrow> 'l TemplateSpec_mem \<times> 'l memory" where
  "merge_base L base h =
     (if base \<noteq> None then
        (case TemplateSpec_DeepCopy L base h of (p, h) \<Rightarrow>
          (case p of
             None \<Rightarrow> (zero_TemplateSpec_mem L, h)
           | Some a \<Rightarrow> (case load ct_TemplateSpec h a of
               None \<Rightarrow> (zero_TemplateSpec_mem L, h)
             | Some v \<Rightarrow> (v, h))))
      else (zero_TemplateSpec_mem L, h))"

definition mergeSpec_mem ::
  "'l go_lib \<Rightarrow> addr option \<Rightarrow> addr option \<Rightarrow> 'l memory \<Rightarrow> 'l TemplateSpec_mem \<times> 'l memory" where
  "mergeSpec_mem L base override h =
     (case merge_base L base h of (out, h) \<Rightarrow>
       (case override of
          None \<Rightarrow> (out, h)
        | Some a \<Rightarrow> (case load ct_TemplateSpec h a of
            None \<Rightarrow> (out, h)
          | Some ov \<Rightarrow> (merge_over L h ov out, h))))"

lemma merge_over_fields:
  "merge_over L h ov out = \<lparr>
     mts_buildkitImage = orElse (\<lambda>x. x \<noteq> []) (mts_buildkitImage ov) (mts_buildkitImage out),
     mts_rootless = mts_rootless ov,
     mts_resources = orElse (\<lambda>x. resources_set (gl_resources L h x)) (mts_resources ov) (mts_resources out),
     mts_nodeSelector = orElse (\<lambda>x. x \<noteq> None) (mts_nodeSelector ov) (mts_nodeSelector out),
     mts_tolerations = orElse (\<lambda>x. x \<noteq> None) (mts_tolerations ov) (mts_tolerations out),
     mts_affinity = orElse (\<lambda>x. x \<noteq> None) (mts_affinity ov) (mts_affinity out),
     mts_buildkitdToml = orElse (\<lambda>x. x \<noteq> []) (mts_buildkitdToml ov) (mts_buildkitdToml out),
     mts_cacheConfig = orElse (\<lambda>x. mcc_type x \<noteq> []) (mts_cacheConfig ov) (mts_cacheConfig out),
     mts_arch = orElse (\<lambda>x. x \<noteq> []) (mts_arch ov) (mts_arch out)\<rparr>"
proof -
  have upd:
    "(if c then r\<lparr>mts_buildkitImage := x1\<rparr> else r) = r\<lparr>mts_buildkitImage := if c then x1 else mts_buildkitImage r\<rparr>"
    "(if c then r\<lparr>mts_resources := x2\<rparr> else r) = r\<lparr>mts_resources := if c then x2 else mts_resources r\<rparr>"
    "(if c then r\<lparr>mts_nodeSelector := x3\<rparr> else r) = r\<lparr>mts_nodeSelector := if c then x3 else mts_nodeSelector r\<rparr>"
    "(if c then r\<lparr>mts_tolerations := x4\<rparr> else r) = r\<lparr>mts_tolerations := if c then x4 else mts_tolerations r\<rparr>"
    "(if c then r\<lparr>mts_affinity := x5\<rparr> else r) = r\<lparr>mts_affinity := if c then x5 else mts_affinity r\<rparr>"
    "(if c then r\<lparr>mts_buildkitdToml := x6\<rparr> else r) = r\<lparr>mts_buildkitdToml := if c then x6 else mts_buildkitdToml r\<rparr>"
    "(if c then r\<lparr>mts_cacheConfig := x7\<rparr> else r) = r\<lparr>mts_cacheConfig := if c then x7 else mts_cacheConfig r\<rparr>"
    "(if c then r\<lparr>mts_arch := x8\<rparr> else r) = r\<lparr>mts_arch := if c then x8 else mts_arch r\<rparr>"
    for c and r :: "'l TemplateSpec_mem" and x1 x2 x3 x4 x5 x6 x7 x8
    by simp_all
  show ?thesis
    unfolding merge_over_def upd
    by (simp add: orElse_def resources_set_def Let_def cong: if_weak_cong)
qed

end
