(* ===== verification/Memory_Facts.thy ===== *)
theory Memory_Facts
  imports Deep_Copy
begin

text \<open>
  What the deep copies guarantee: for pointers, for the object lists of the two API groups, and
  for \<open>mergeSpec\<close>, whose result shares memory with the builder's inline template only. That is
  why the rest of the development may take structs as values.
\<close>

section \<open>Pointers\<close>

lemma view_ptr_None: "valid_ptr ct valid h p \<Longrightarrow> view_ptr ct view h p = None \<longleftrightarrow> p = None"
  by (auto simp: view_ptr_def valid_ptr_def split: option.splits)

lemma view_slice_None: "valid_slice ct valid h s \<Longrightarrow> view_slice ct view h s = None \<longleftrightarrow> s = None"
  by (auto simp: view_slice_def valid_slice_def split: option.splits)

text \<open>
  \<open>DeepCopy\<close> of a pointer: nil for nil; otherwise a pointer to a new cell from which new cells
  only are reached, that stands for the same value, whatever is later written through the one
  or the other.
\<close>

lemma pointer_copy:
  assumes "ct_ok ct" and "deep_copier valid cells view copy"
    and "valid_ptr ct valid h p" and "copy_ptr ct copy p h = (q, h')"
  shows "q = None \<longleftrightarrow> p = None" "prefix h h'" "view_ptr ct view h' q = view_ptr ct view h p"
    "cells_ptr ct cells h' q \<inter> {..<length h} = {}"
    "\<And>h''. writes_only (cells_ptr ct cells h' q) h' h'' \<Longrightarrow> view_ptr ct view h'' p = view_ptr ct view h p"
    "\<And>h''. writes_only {..<length h} h' h'' \<Longrightarrow> view_ptr ct view h'' q = view_ptr ct view h p"
proof -
  note ptr = copier_ptr [OF assms(1,2)]
  have new: "valid_ptr ct valid h' q" "prefix h h'" "view_ptr ct view h' q = view_ptr ct view h p"
    using deep_copier.copy_valid [OF ptr assms(3)] deep_copier.extends [OF ptr assms(3)]
      deep_copier.copy_view [OF ptr assms(3)] assms(4) by simp_all
  then show "prefix h h'" "view_ptr ct view h' q = view_ptr ct view h p" by simp_all
  with new(1) assms(3) show "q = None \<longleftrightarrow> p = None" by (metis view_ptr_None)
  show "cells_ptr ct cells h' q \<inter> {..<length h} = {}"
    using deep_copier.copy_fresh [OF ptr assms(3)] assms(4) by fastforce
  show "view_ptr ct view h'' p = view_ptr ct view h p" if "writes_only (cells_ptr ct cells h' q) h' h''" for h''
    by (rule deep_copier.original_survives [OF ptr assms(3,4) that])
  show "view_ptr ct view h'' q = view_ptr ct view h p" if "writes_only {..<length h} h' h''" for h''
    by (rule deep_copier.copy_survives [OF ptr assms(3,4) that])
qed

section \<open>A library for the witnesses\<close>

text \<open>Its structs hold one map of strings, which is what each of them stands for.\<close>

definition map_lib :: "addr option go_lib" where
  "map_lib = \<lparr>gl_DeepCopyInto = copy_map, gl_valid = valid_map, gl_cells = cells_map,
     gl_meta = (\<lambda>h x. (meta_of [] [])\<lparr>om_labels := view_map h x\<rparr>),
     gl_list_meta = (\<lambda>h x. gomap_get (view_map h x) ''resourceVersion''),
     gl_resources = (\<lambda>h x. \<lparr>rr_limits = map_option (map (map_prod id Quantity)) (view_map h x), rr_requests = None\<rparr>),
     gl_toleration = (\<lambda>h x. undefined), gl_affinity = (\<lambda>h x. undefined),
     gl_condition = (\<lambda>h x. \<lparr>cond_type = gomap_get (view_map h x) ''type'', cond_status = [], cond_reason = [],
        cond_message = [], cond_lastTransitionTime = 0\<rparr>),
     gl_time = (\<lambda>h x. 0), gl_zero_resources = None\<rparr>"

lemma map_lib_copies: "lib_copies map_lib"
proof -
  have "deep_copier valid_map cells_map view_map copy_map" by (intro copier_intros)
  note view = copier_view [OF this, of "\<lambda>m. ((meta_of [] [])\<lparr>om_labels := m\<rparr>, gomap_get m ''resourceVersion'',
      \<lparr>rr_limits = map_option (map (map_prod id Quantity)) m, rr_requests = None\<rparr>, undefined, undefined,
      \<lparr>cond_type = gomap_get m ''type'', cond_status = [], cond_reason = [], cond_message = [],
        cond_lastTransitionTime = 0\<rparr>, 0)"]
  show ?thesis
    by (simp add: lib_copies_def map_lib_def view) (simp add: ptr_defs)
qed

section \<open>Merging\<close>

lemma merge_over_view:
  assumes "TemplateSpec_valid L h ov" and "TemplateSpec_valid L h out"
  shows "TemplateSpec_view L h (merge_over L h ov out)
      = override_with (TemplateSpec_view L h ov) (TemplateSpec_view L h out)"
    "TemplateSpec_valid L h (merge_over L h ov out)"
    "TemplateSpec_cells L h (merge_over L h ov out) \<subseteq> TemplateSpec_cells L h ov \<union> TemplateSpec_cells L h out"
proof -
  have nil: "view_map h (mts_nodeSelector ov) = None \<longleftrightarrow> mts_nodeSelector ov = None"
    "view_slice ct_libs (gl_toleration L) h (mts_tolerations ov) = None \<longleftrightarrow> mts_tolerations ov = None"
    "view_ptr ct_lib (gl_affinity L) h (mts_affinity ov) = None \<longleftrightarrow> mts_affinity ov = None"
    using assms(1) by (auto simp: TemplateSpec_valid_def intro!: view_ptr_None view_slice_None)
  have field:
    "view_map h (orElse (\<lambda>x. x \<noteq> None) (mts_nodeSelector ov) p) =
       orElse (\<lambda>x. x \<noteq> None) (view_map h (mts_nodeSelector ov)) (view_map h p)"
    "view_slice ct_libs (gl_toleration L) h (orElse (\<lambda>x. x \<noteq> None) (mts_tolerations ov) t) =
       orElse (\<lambda>x. x \<noteq> None) (view_slice ct_libs (gl_toleration L) h (mts_tolerations ov))
         (view_slice ct_libs (gl_toleration L) h t)"
    "view_ptr ct_lib (gl_affinity L) h (orElse (\<lambda>x. x \<noteq> None) (mts_affinity ov) p) =
       orElse (\<lambda>x. x \<noteq> None) (view_ptr ct_lib (gl_affinity L) h (mts_affinity ov))
         (view_ptr ct_lib (gl_affinity L) h p)"
    "gl_resources L h (orElse (\<lambda>x. resources_set (gl_resources L h x)) r r') =
       orElse resources_set (gl_resources L h r) (gl_resources L h r')"
    "CacheConfig_view h (orElse (\<lambda>x. mcc_type x \<noteq> []) c c') =
       orElse (\<lambda>x. cc_type x \<noteq> []) (CacheConfig_view h c) (CacheConfig_view h c')" for p t r r' c c'
    unfolding orElse_def using nil by (simp_all add: CacheConfig_view_def)
  show "TemplateSpec_view L h (merge_over L h ov out)
      = override_with (TemplateSpec_view L h ov) (TemplateSpec_view L h out)"
    by (simp only: TemplateSpec_view_def override_with_def merge_over_fields TemplateSpec_mem.simps
        TemplateSpec.simps field)
  show "TemplateSpec_valid L h (merge_over L h ov out)"
    using assms by (simp add: TemplateSpec_valid_def merge_over_fields orElse_def)
  show "TemplateSpec_cells L h (merge_over L h ov out) \<subseteq> TemplateSpec_cells L h ov \<union> TemplateSpec_cells L h out"
    by (simp add: TemplateSpec_cells_def merge_over_fields orElse_def) blast
qed

lemma zero_TemplateSpec_mem:
  assumes "lib_copies L"
  shows "TemplateSpec_valid L h (zero_TemplateSpec_mem L)"
    "TemplateSpec_cells L h (zero_TemplateSpec_mem L) = {}"
    "TemplateSpec_view L h (zero_TemplateSpec_mem L) = zero_TemplateSpec"
  using assms
  by (simp_all add: lib_copies_def zero_TemplateSpec_mem_def TemplateSpec_valid_def TemplateSpec_cells_def
      TemplateSpec_view_def CacheConfig_valid_def CacheConfig_cells_def CacheConfig_view_def ptr_defs
      slice_defs zero_TemplateSpec_def zero_CacheConfig_def)

lemma merge_base:
  assumes "lib_copies L" and "valid_ptr ct_TemplateSpec (TemplateSpec_valid L) h base"
    and "merge_base L base h = (o0, h0)"
  shows "prefix h h0" "TemplateSpec_valid L h0 o0" "TemplateSpec_cells L h0 o0 \<inter> {..<length h} = {}"
    "TemplateSpec_view L h0 o0 = (case view_ptr ct_TemplateSpec (TemplateSpec_view L) h base of
        None \<Rightarrow> zero_TemplateSpec | Some b \<Rightarrow> b)"
proof -
  note spec = copier_TemplateSpec [OF assms(1)]
  have "prefix h h0 \<and> TemplateSpec_valid L h0 o0 \<and> TemplateSpec_cells L h0 o0 \<inter> {..<length h} = {}
    \<and> TemplateSpec_view L h0 o0 = (case view_ptr ct_TemplateSpec (TemplateSpec_view L) h base of
        None \<Rightarrow> zero_TemplateSpec | Some b \<Rightarrow> b)"
  proof (cases base)
    case None
    then show ?thesis
      using assms(3) zero_TemplateSpec_mem [OF assms(1)] by (simp add: merge_base_def view_ptr_def)
  next
    case (Some a)
    obtain q h1 where q: "TemplateSpec_DeepCopy L base h = (q, h1)" by (cases "TemplateSpec_DeepCopy L base h")
    note copied = pointer_copy [OF ct_oks(10) spec assms(2) q [unfolded TemplateSpec_DeepCopy_def]]
    have "valid_ptr ct_TemplateSpec (TemplateSpec_valid L) h1 q"
      using deep_copier.copy_valid [OF copier_ptr [OF ct_oks(10) spec] assms(2)] q
      by (simp add: TemplateSpec_DeepCopy_def)
    with copied(1) Some obtain a' v where v: "q = Some a'" "load ct_TemplateSpec h1 a' = Some v"
      "TemplateSpec_valid L h1 v" by (auto simp: valid_ptr_def split: option.splits)
    have "view_ptr ct_TemplateSpec (TemplateSpec_view L) h1 q = Some (TemplateSpec_view L h1 v)"
      and "TemplateSpec_cells L h1 v \<subseteq> cells_ptr ct_TemplateSpec (TemplateSpec_cells L) h1 q"
      using v by (auto simp: view_ptr_def cells_ptr_def)
    moreover have "o0 = v" "h0 = h1" using assms(3) v q Some by (auto simp: merge_base_def)
    ultimately show ?thesis using v(3) copied(2-4) by auto
  qed
  then show "prefix h h0" "TemplateSpec_valid L h0 o0" "TemplateSpec_cells L h0 o0 \<inter> {..<length h} = {}"
    "TemplateSpec_view L h0 o0 = (case view_ptr ct_TemplateSpec (TemplateSpec_view L) h base of
        None \<Rightarrow> zero_TemplateSpec | Some b \<Rightarrow> b)" by blast+
qed

lemma load_prefix: "load ct h a = Some x \<Longrightarrow> prefix h h' \<Longrightarrow> load ct h' a = Some x"
  by (auto simp: load_def prefix_def nth_append split: if_splits)

section \<open>Properties\<close>

text \<open>C22: Merging in memory. \<open>mergeSpec\<close> stands for the merged value of theory
  \<open>Spec_Merge\<close>, changes no memory there was, and its result reaches, of that memory,
  only what the override reaches: nothing is shared with the base, a template that may
  belong to a cache.\<close>

theorem mergeSpec_in_memory:
  assumes "lib_copies L"
    and "valid_ptr ct_TemplateSpec (TemplateSpec_valid L) h base"
    and "valid_ptr ct_TemplateSpec (TemplateSpec_valid L) h override"
    and "mergeSpec_mem L base override h = (out, h')"
  shows "TemplateSpec_view L h' out =
      mergeSpec (view_ptr ct_TemplateSpec (TemplateSpec_view L) h base)
        (view_ptr ct_TemplateSpec (TemplateSpec_view L) h override)
    \<and> prefix h h'
    \<and> TemplateSpec_cells L h' out \<inter> {..<length h}
        \<subseteq> cells_ptr ct_TemplateSpec (TemplateSpec_cells L) h override"
proof -
  note spec = copier_TemplateSpec [OF assms(1)]
  obtain o0 h0 where o0: "merge_base L base h = (o0, h0)" by (cases "merge_base L base h")
  note base = merge_base [OF assms(1,2) o0]
  show ?thesis
  proof (cases override)
    case None
    then have "out = o0" "h' = h0" using assms(4) o0 by (simp_all add: mergeSpec_mem_def)
    moreover have "mergeSpec b None = (case b of None \<Rightarrow> zero_TemplateSpec | Some b \<Rightarrow> b)" for b
      by (simp add: mergeSpec_def)
    moreover have "view_ptr ct_TemplateSpec (TemplateSpec_view L) h None = None" by (simp add: view_ptr_def)
    ultimately show ?thesis using base by (auto simp: None)
  next
    case (Some a)
    with assms(3) obtain ov where ov: "load ct_TemplateSpec h a = Some ov" "TemplateSpec_valid L h ov"
      by (auto simp: valid_ptr_def split: option.splits)
    note later = deep_copier.stable [OF spec ov(2) base(1)]
    with load_prefix [OF ov(1) base(1)] assms(4) o0 have out: "out = merge_over L h0 ov o0" "h' = h0"
      by (auto simp: mergeSpec_mem_def Some)
    note merged = merge_over_view [OF later(1) base(2)]
    have "mergeSpec b (Some (TemplateSpec_view L h ov)) =
        override_with (TemplateSpec_view L h ov) (case b of None \<Rightarrow> zero_TemplateSpec | Some b \<Rightarrow> b)" for b
      by (cases b) (simp_all add: mergeSpec_no_base mergeSpec_override)
    moreover have "view_ptr ct_TemplateSpec (TemplateSpec_view L) h override = Some (TemplateSpec_view L h ov)"
      using ov(1) by (simp add: Some view_ptr_def)
    moreover have "cells_ptr ct_TemplateSpec (TemplateSpec_cells L) h override = insert a (TemplateSpec_cells L h ov)"
      using ov(1) by (simp add: Some cells_ptr_def)
    ultimately show ?thesis
      using merged base later by (auto simp: out)
  qed
qed

text \<open>A memory with a template at 1, whose node selector is at 0, and an override of it at 3.\<close>

definition sample_template :: "addr option TemplateSpec_mem" where
  "sample_template = (zero_TemplateSpec_mem map_lib)\<lparr>mts_rootless := True, mts_nodeSelector := Some 0,
     mts_arch := ''amd64''\<rparr>"

definition sample_memory :: "addr option memory" where
  "sample_memory = [MapCell [(''disk'', ''ssd'')], TemplateSpecCell sample_template,
     MapCell [(''disk'', ''nvme'')],
     TemplateSpecCell ((zero_TemplateSpec_mem map_lib)\<lparr>mts_nodeSelector := Some 2\<rparr>)]"

theorem mergeSpec_in_memory_witness:
  "\<exists>out h'. mergeSpec_mem map_lib (Some 1) (Some 3) sample_memory = (out, h')
    \<and> ts_nodeSelector (TemplateSpec_view map_lib h' out) = Some [(''disk'', ''nvme'')]
    \<and> 0 \<notin> TemplateSpec_cells map_lib h' out"
proof -
  obtain out h' where run: "mergeSpec_mem map_lib (Some 1) (Some 3) sample_memory = (out, h')"
    by (cases "mergeSpec_mem map_lib (Some 1) (Some 3) sample_memory")
  have base: "valid_ptr ct_TemplateSpec (TemplateSpec_valid map_lib) sample_memory (Some 1)"
    and override: "valid_ptr ct_TemplateSpec (TemplateSpec_valid map_lib) sample_memory (Some 3)"
    by code_simp+
  have "ts_nodeSelector (mergeSpec (view_ptr ct_TemplateSpec (TemplateSpec_view map_lib) sample_memory (Some 1))
      (view_ptr ct_TemplateSpec (TemplateSpec_view map_lib) sample_memory (Some 3))) = Some [(''disk'', ''nvme'')]"
    by code_simp
  moreover have "0 \<notin> cells_ptr ct_TemplateSpec (TemplateSpec_cells map_lib) sample_memory (Some 3)"
    by code_simp
  moreover have "0 < length sample_memory" by code_simp
  ultimately show ?thesis
    using mergeSpec_in_memory [OF map_lib_copies base override run] run by auto
qed

text \<open>C23: A deep copy of a list of builders, and so of each builder in it, reads as the same
  value, reaches new memory only and leaves the old as it is; whatever is later written
  through the copy the original stands for what it did, and the other way round.\<close>

theorem builders_deep_copy:
  assumes "lib_copies L"
    and "valid_ptr ct_List (list_valid L ct_Builders (Builder_valid L)) h p"
    and "BuilderList_DeepCopyObject L p h = (q, h')"
  shows "let cells = cells_ptr ct_List (list_cells L ct_Builders (Builder_cells L));
      view = view_ptr ct_List (list_view L ct_Builders (Builder_view L)) in
      (q = None \<longleftrightarrow> p = None) \<and> prefix h h' \<and> view h' q = view h p \<and> cells h' q \<inter> {..<length h} = {}
      \<and> (\<forall>h''. writes_only (cells h' q) h' h'' \<longrightarrow> view h'' p = view h p)
      \<and> (\<forall>h''. writes_only {..<length h} h' h'' \<longrightarrow> view h'' q = view h p)"
  using pointer_copy [OF ct_oks(18) copier_items [OF assms(1) ct_oks(17) copier_Builder [OF assms(1)]] assms(2)]
    assms(3)
  by (simp add: BuilderList_DeepCopyObject_def BuilderList_DeepCopy_def BuilderList_DeepCopyInto_def Let_def)

definition sample_builders :: "addr option memory" where
  "sample_builders = [MapCell [(''pool'', ''ci'')], StringCell ''default'', Int32Cell 2,
     BuildersCell [\<lparr>mb_type = (''BuildkitBuilder'', ''v1alpha1''), mb_meta = Some 0,
       mb_spec = \<lparr>mbs_templateRef = Some 1, mbs_template = None, mbs_mode = ''sleepy'', mbs_replicas = Some 2,
         mbs_idleTimeoutSeconds = None, mbs_labels = Some 0, mbs_exposure = None\<rparr>,
       mb_status = \<lparr>mst_endpoint = [], mst_nodePort = 0, mst_externalEndpoint = [], mst_tlsSecretName = [],
         mst_conditions = None, mst_phase = [], mst_readyReplicas = 0, mst_desiredReplicas = 0,
         mst_lastScaledAt = None\<rparr>\<rparr>],
     ListCell \<lparr>ml_type = (''BuildkitBuilderList'', ''v1alpha1''), ml_meta = None, ml_items = Some (Slice 3 0 1)\<rparr>]"

theorem builders_deep_copy_witness:
  "\<exists>q h'. BuilderList_DeepCopyObject map_lib (Some 4) sample_builders = (q, h')
    \<and> q \<noteq> None
    \<and> view_ptr ct_List (list_view map_lib ct_Builders (Builder_view map_lib))
        (h'[0 := MapCell [], 2 := Int32Cell 7]) q
      = view_ptr ct_List (list_view map_lib ct_Builders (Builder_view map_lib)) sample_builders (Some 4)"
proof -
  obtain q h' where run: "BuilderList_DeepCopyObject map_lib (Some 4) sample_builders = (q, h')"
    by (cases "BuilderList_DeepCopyObject map_lib (Some 4) sample_builders")
  have valid: "valid_ptr ct_List (list_valid map_lib ct_Builders (Builder_valid map_lib)) sample_builders (Some 4)"
    by code_simp
  have "writes_only {..<length sample_builders} h' (h'[0 := MapCell [], 2 := Int32Cell 7])"
    by (auto simp: writes_only_def sample_builders_def nth_list_update)
  with builders_deep_copy [OF map_lib_copies valid run] run show ?thesis by (auto simp: Let_def)
qed

text \<open>C24: And so does a deep copy of a list of templates.\<close>

theorem templates_deep_copy:
  assumes "lib_copies L"
    and "valid_ptr ct_List (list_valid L ct_Templates (Template_valid L)) h p"
    and "TemplateList_DeepCopyObject L p h = (q, h')"
  shows "let cells = cells_ptr ct_List (list_cells L ct_Templates (Template_cells L));
      view = view_ptr ct_List (list_view L ct_Templates (Template_view L)) in
      (q = None \<longleftrightarrow> p = None) \<and> prefix h h' \<and> view h' q = view h p \<and> cells h' q \<inter> {..<length h} = {}
      \<and> (\<forall>h''. writes_only (cells h' q) h' h'' \<longrightarrow> view h'' p = view h p)
      \<and> (\<forall>h''. writes_only {..<length h} h' h'' \<longrightarrow> view h'' q = view h p)"
  using pointer_copy [OF ct_oks(18) copier_items [OF assms(1) ct_oks(12) copier_Template [OF assms(1)]] assms(2)]
    assms(3)
  by (simp add: TemplateList_DeepCopyObject_def TemplateList_DeepCopy_def TemplateList_DeepCopyInto_def Let_def)

definition sample_templates :: "addr option memory" where
  "sample_templates = [MapCell [(''disk'', ''ssd'')],
     TemplatesCell [\<lparr>mbt_type = (''BuildkitBuilderTemplate'', ''v1alpha1''), mbt_meta = None,
       mbt_spec = sample_template\<rparr>],
     ListCell \<lparr>ml_type = (''BuildkitBuilderTemplateList'', ''v1alpha1''), ml_meta = Some 0,
       ml_items = Some (Slice 1 0 1)\<rparr>]"

theorem templates_deep_copy_witness:
  "\<exists>q h'. TemplateList_DeepCopyObject map_lib (Some 2) sample_templates = (q, h') \<and> q \<noteq> None
    \<and> 0 \<notin> cells_ptr ct_List (list_cells map_lib ct_Templates (Template_cells map_lib)) h' q"
proof -
  obtain q h' where run: "TemplateList_DeepCopyObject map_lib (Some 2) sample_templates = (q, h')"
    by (cases "TemplateList_DeepCopyObject map_lib (Some 2) sample_templates")
  have valid: "valid_ptr ct_List (list_valid map_lib ct_Templates (Template_valid map_lib)) sample_templates (Some 2)"
    by code_simp
  have "0 < length sample_templates" by code_simp
  with templates_deep_copy [OF map_lib_copies valid run] run show ?thesis by (auto simp: Let_def)
qed

end
