(* ===== verification/Ordering.thy ===== *)
theory Ordering
  imports Samples
begin

text \<open>
  The order in which a reconciliation writes: whatever goes wrong and wherever, the stateful
  set is touched only when everything its pods mount and answer to is in place.
\<close>

definition sts_last :: "'w env \<Rightarrow> time \<Rightarrow> Builder \<Rightarrow> TemplateSpec \<Rightarrow> store \<Rightarrow> store \<Rightarrow> bool" where
  "sts_last E t0 b spec st st' \<longleftrightarrow>
     st' KStatefulSet (ObjectKey (b_namespace b) (builderObjectName b))
       = st KStatefulSet (ObjectKey (b_namespace b) (builderObjectName b))
     \<or> provisioned E t0 b spec st'"

lemma footprint_no_sts: "(KStatefulSet, key) \<notin> footprint b"
  by (auto simp: footprint_def)

lemma wp_apply_provisioned:
  assumes env: "good_env E obs t0" and "provisioned E t0 b spec (stored obs s)"
    and "stored obs s KBuilder (meta_key (b_meta b)) = Some (OBuilder b)"
    and rest: "\<And>s'. stored obs s' KBuilder (meta_key (b_meta b)) = Some (OBuilder b) \<Longrightarrow>
      wp m (\<lambda>_ s''. touches {(KBuilder, meta_key (b_meta b))} (stored obs s') (stored obs s''))
        (\<lambda>_ s''. touches {(KBuilder, meta_key (b_meta b))} (stored obs s') (stored obs s'')) s'"
  shows "wp (seqP (applyStatefulSet E b spec n) m) (\<lambda>_ s'. provisioned E t0 b spec (stored obs s'))
    (\<lambda>_ s'. provisioned E t0 b spec (stored obs s')) s"
  unfolding wp_seq
proof (rule wp_applyStatefulSet [OF good_envD(1,2) [OF env]], goal_cases)
  case (1 s')
  have p: "provisioned E t0 b spec (stored obs s')" by (simp add: provisioned_frame(1) [OF 1(2)] assms(2))
  have "stored obs s' KBuilder (meta_key (b_meta b)) = Some (OBuilder b)"
    using touchesD [OF 1(2)] assms(3) by simp
  from rest [OF this] show ?case
    by (rule wp_mono) (simp_all add: p provisioned_frame(2))
next
  case (2 e s')
  then show ?case by (simp add: provisioned_frame(1) assms(2))
qed

lemma wp_persistent_order:
  assumes env: "good_env E obs t0"
    and present: "stored obs s KBuilder (meta_key (b_meta b)) = Some (OBuilder b)"
  shows "wp (reconcilePersistent E b spec) (\<lambda>_ s'. sts_last E t0 b spec (stored obs s) (stored obs s'))
    (\<lambda>_ s'. sts_last E t0 b spec (stored obs s) (stored obs s')) s"
  unfolding reconcilePersistent_eq wp_seq [of "provision E b spec"]
proof (rule wp_provision [OF env], goal_cases)
  case (1 s1)
  have "stored obs s1 KBuilder (meta_key (b_meta b)) = Some (OBuilder b)"
    using touchesD [OF 1(2) reach_parts(4)] present by simp
  from wp_apply_provisioned [OF env 1(1) this wp_persistentStatus [OF good_envD(1) [OF env]]] show ?case
    by (rule wp_mono) (simp_all add: sts_last_def)
next
  case (2 e s1)
  then show ?case using touchesD [OF _ footprint_no_sts] by (simp add: sts_last_def)
qed

lemma wp_sleepy_order:
  assumes env: "good_env E obs t0"
    and present: "stored obs s KBuilder (meta_key (b_meta b)) = Some (OBuilder b)"
  shows "wp (reconcileSleepy E b spec) (\<lambda>_ s'. sts_last E t0 b spec (stored obs s) (stored obs s'))
    (\<lambda>_ s'. sts_last E t0 b spec (stored obs s) (stored obs s')) s"
  unfolding reconcileSleepy_eq wp_seq [of "provision E b spec"] wp_bind [of "sleepyDesiredReplicas E b t" for t]
proof (rule wp_provision [OF env], rule wp_sleepyDesiredReplicas [OF good_envD(1) [OF env]], goal_cases)
  case (1 s1 w s2)
  have "stored obs s2 KBuilder (meta_key (b_meta b)) = Some (OBuilder b)"
    using touchesD [OF 1(2) reach_parts(4)] present 1(3) by simp
  moreover have "provisioned E t0 b spec (stored obs s2)" using 1 by simp
  ultimately show ?case
    by (intro wp_mono [OF wp_apply_provisioned [OF env _ _ wp_sleepyStatus [OF good_envD(1) [OF env]]]])
      (simp_all add: sts_last_def)
next
  case (2 e s1)
  then show ?case using touchesD [OF _ footprint_no_sts] by (simp add: sts_last_def)
qed

lemma wp_found_order:
  assumes env: "good_env E obs t0"
    and present: "stored obs s KBuilder (meta_key (b_meta b)) = Some (OBuilder b)"
    and live: "om_deletionTimestamp (b_meta b) = None"
  shows "wp (reconcileFound E b)
    (\<lambda>_ s'. \<exists>spec. spec_in (stored obs s) b spec \<and> sts_last E t0 b spec (stored obs s) (stored obs s'))
    (\<lambda>_ s'. stored obs s' = stored obs s
       \<or> (\<exists>spec. spec_in (stored obs s) b spec \<and> sts_last E t0 b spec (stored obs s) (stored obs s'))) s"
  (is "wp _ (\<lambda>_. ?Q) (\<lambda>_. ?X) s")
  unfolding reconcileFound_def wp_handle
proof (rule wp_resolveSpec [OF good_envD(1) [OF env]], goal_cases)
  case (1 spec s1)
  have here: "stored obs s1 KBuilder (meta_key (b_meta b)) = Some (OBuilder b)" using present 1 by simp
  have "wp (reconcilePersistent E b spec) (\<lambda>_. ?Q) (\<lambda>_. ?X) s1"
    by (rule wp_mono [OF wp_persistent_order [OF env here]]) (use 1 in auto)
  moreover have "wp (reconcileSleepy E b spec) (\<lambda>_. ?Q) (\<lambda>_. ?X) s1"
    by (rule wp_mono [OF wp_sleepy_order [OF env here]]) (use 1 in auto)
  ultimately show ?case using live 1 by simp
next
  case (2 e s1)
  then show ?case by (simp add: wp_Event)
qed



end
