(* ===== verification/Request_Bounds.thy ===== *)
theory Request_Bounds
  imports Requests Samples
begin

text \<open>
  How long a reconciliation can take: \<open>asks_at_most n m\<close> bounds the requests of a program,
  whatever is answered. The code has no loop over requests and no retry, so a reconciliation
  ends after a fixed number of them.
\<close>

definition asks_at_most :: "nat \<Rightarrow> ('w, 'a) prog \<Rightarrow> bool" where
  "asks_at_most n m \<longleftrightarrow> (\<forall>s. length (calls (snd (m s))) \<le> length (calls s) + n)"

named_theorems bound_intros \<open>bounds on the requests of a program\<close>

section \<open>The calculus\<close>

lemma asks_more: "asks_at_most m p \<Longrightarrow> m \<le> n \<Longrightarrow> asks_at_most n p"
  unfolding asks_at_most_def by (meson add_left_mono le_trans)

lemma asks_end [bound_intros]: "asks_at_most n (ret x)" "asks_at_most n (throw e)" "asks_at_most n (panic p)"
  by (simp_all add: asks_at_most_def ret_def throw_def panic_def)

lemma asks_bind:
  assumes "asks_at_most a m" and "\<And>x. asks_at_most b (f x)"
  shows "asks_at_most (a + b) (bindP m f)"
  unfolding asks_at_most_def
proof
  fix s
  obtain r s1 where ms: "m s = (r, s1)" by (cases "m s")
  have "length (calls s1) \<le> length (calls s) + a" using assms(1) ms by (metis asks_at_most_def snd_conv)
  moreover from this have "length (calls (snd (f x s1))) \<le> length (calls s) + (a + b)" for x
    using assms(2) [of x, unfolded asks_at_most_def, rule_format, of s1] by simp
  ultimately show "length (calls (snd (bindP m f s))) \<le> length (calls s) + (a + b)"
    by (cases r) (simp_all add: bindP_def ms)
qed

lemma asks_seq: "asks_at_most a m \<Longrightarrow> asks_at_most b p \<Longrightarrow> asks_at_most (a + b) (seqP m p)"
  by (simp add: seqP_def asks_bind)

lemma asks_handle:
  assumes "asks_at_most a m" and "\<And>e. asks_at_most b (g e)" and "\<And>x. asks_at_most b (f x)"
  shows "asks_at_most (a + b) (handleP m g f)"
  unfolding asks_at_most_def
proof
  fix s
  obtain r s1 where ms: "m s = (r, s1)" by (cases "m s")
  have "length (calls s1) \<le> length (calls s) + a" using assms(1) ms by (metis asks_at_most_def snd_conv)
  moreover from this have "length (calls (snd (f x s1))) \<le> length (calls s) + (a + b)"
    "length (calls (snd (g e s1))) \<le> length (calls s) + (a + b)" for x e
    using assms(3) [of x, unfolded asks_at_most_def, rule_format, of s1]
      assms(2) [of e, unfolded asks_at_most_def, rule_format, of s1] by simp_all
  ultimately show "length (calls (snd (handleP m g f s))) \<le> length (calls s) + (a + b)"
    by (cases r) (simp_all add: handleP_def ms)
qed

text \<open>A call counts one, and one is left less for what follows; the rest asks for nothing.\<close>

lemma asks_client [bound_intros]:
  "asks_at_most (Suc 0) (client_Get E k key)" "asks_at_most (Suc 0) (client_ListPods E ns ls)"
  "asks_at_most (Suc 0) (client_Create E ob)" "asks_at_most (Suc 0) (client_Update E ob)"
  "asks_at_most (Suc 0) (client_Delete E k key)" "asks_at_most (Suc 0) (client_StatusUpdate E ob)"
  "asks_at_most (Suc 0) (recorder_Event key reason e)"
  by (simp_all add: asks_at_most_def client_Get_def client_ListPods_def client_Create_def client_Update_def
      client_Delete_def client_StatusUpdate_def recorder_Event_def split: prod.split)

lemma asks_quiet [bound_intros]:
  "asks_at_most 0 (time_Now E)" "asks_at_most 0 (lib_call f)" "asks_at_most 0 (SetControllerReference E b m)"
  by (simp_all add: asks_at_most_def time_Now_def lib_call_def SetControllerReference_def ret_def throw_def
      split: prod.split sum.split)

lemma asks_bind_quiet [bound_intros]:
  "asks_at_most 0 m \<Longrightarrow> (\<And>x. asks_at_most n (f x)) \<Longrightarrow> asks_at_most n (bindP m f)"
  using asks_bind [of 0 m n f] by simp

lemma asks_bind_one [bound_intros]:
  "asks_at_most (Suc 0) m \<Longrightarrow> (\<And>x. asks_at_most n (f x)) \<Longrightarrow> asks_at_most (Suc n) (bindP m f)"
  using asks_bind [of "Suc 0" m n f] by simp

lemma asks_seq_one [bound_intros]:
  "asks_at_most (Suc 0) m \<Longrightarrow> asks_at_most n p \<Longrightarrow> asks_at_most (Suc n) (seqP m p)"
  using asks_seq [of "Suc 0" m n p] by simp

lemma asks_get_as [bound_intros]: "asks_at_most (Suc 0) (get_as E k dec key)"
  unfolding get_as_def by (intro bound_intros)

lemma asks_return_err [bound_intros]: "asks_at_most n m \<Longrightarrow> asks_at_most n (return_err m)"
  unfolding return_err_def
  by (rule asks_bind [of n m 0, simplified]) (simp_all add: asks_end split: option.split)

lemma asks_cases [bound_intros]:
  "(\<And>e. asks_at_most n (f e)) \<Longrightarrow> (\<And>x. asks_at_most n (g x)) \<Longrightarrow>
     asks_at_most n (case r of Inl e \<Rightarrow> f e | Inr x \<Rightarrow> g x)"
  "asks_at_most n p \<Longrightarrow> (\<And>x. asks_at_most n (h x)) \<Longrightarrow> asks_at_most n (case opt of None \<Rightarrow> p | Some x \<Rightarrow> h x)"
  "(\<And>x y. asks_at_most n (k x y)) \<Longrightarrow> asks_at_most n (case pair of (x, y) \<Rightarrow> k x y)"
  "asks_at_most n p \<Longrightarrow> asks_at_most n q \<Longrightarrow> asks_at_most n (if c then p else q)"
  "(\<And>x. asks_at_most n (u x)) \<Longrightarrow> (\<And>e. asks_at_most n (v e)) \<Longrightarrow> (\<And>e. asks_at_most n (w e)) \<Longrightarrow>
     asks_at_most n (case out of Ok x \<Rightarrow> u x | Err e \<Rightarrow> v e | Panic e \<Rightarrow> w e)"
  by (simp_all split: sum.split option.split prod.split outcome.split)

section \<open>The operations\<close>

lemma asks_createOrUpdate:
  "asks_at_most (Suc (Suc 0)) (createOrUpdateService E svc)"
  "asks_at_most (Suc (Suc 0)) (createOrUpdatePVC E p)"
  "asks_at_most (Suc (Suc 0)) (createOrUpdateStatefulSet E t)"
  "asks_at_most (Suc (Suc 0)) (createOrUpdateIngressRoute E r)"
  "asks_at_most (Suc (Suc 0)) (createOrUpdateConfigMap E cm)"
  unfolding createOrUpdateService_def createOrUpdatePVC_def createOrUpdateStatefulSet_def
    createOrUpdateIngressRoute_def createOrUpdateConfigMap_def Let_def
  by (intro bound_intros)+

lemma asks_configmap: "asks_at_most 2 (ensureBuildkitdConfigMap E b spec)"
  unfolding ensureBuildkitdConfigMap_def Let_def numeral_2_eq_2 by (intro bound_intros asks_createOrUpdate)

lemma asks_namespaceCA: "asks_at_most 3 (ensureNamespaceCA E ns)"
  unfolding ensureNamespaceCA_def generateCA_def randSerial_def Let_def numeral_3_eq_3
  by (intro bound_intros)

lemma asks_issue: "asks_at_most 1 (issueServerCert E b host ca found)"
  unfolding issueServerCert_def signServerCert_def randSerial_def Let_def One_nat_def
  by (intro bound_intros)

lemma asks_needsRenewal: "asks_at_most 0 (serverCertNeedsRenewal E sec host)"
  unfolding serverCertNeedsRenewal_def by (intro bound_intros)

lemma asks_serverCert: "asks_at_most 5 (ensureBuilderServerCert E b)"
  unfolding ensureBuilderServerCert_def Let_def
  by (intro asks_cases asks_end; rule asks_more [OF asks_bind [OF asks_namespaceCA, where b = "Suc (Suc 0)"]];
      (intro bound_intros asks_needsRenewal asks_issue [unfolded One_nat_def])?; simp)

lemma asks_deletes:
  "asks_at_most (Suc 0) (deleteBuilderServerCert E b)" "asks_at_most (Suc 0) (deleteIngressRouteIfExists E b)"
  unfolding deleteBuilderServerCert_def deleteIngressRouteIfExists_def by (intro bound_intros)+

lemma asks_exposure: "asks_at_most 7 (reconcileExposure E b)"
  unfolding reconcileExposure_def Let_def
  by (intro asks_cases asks_end; (rule asks_more [OF asks_seq [OF asks_deletes(2,1)]]
        | rule asks_more [OF asks_seq [OF asks_serverCert, where b = "Suc (Suc 0)"]]);
      (intro bound_intros asks_createOrUpdate)?; simp)

lemma asks_provision: "asks_at_most 15 (provision E b spec)"
proof -
  have cache: "asks_at_most 2 (ensureCache E b spec)"
    unfolding ensureCache_def numeral_2_eq_2 by (intro bound_intros asks_createOrUpdate)
  show ?thesis
    unfolding provision_def
    by (rule asks_more [OF asks_seq [OF asks_configmap asks_seq [OF asks_createOrUpdate(1)
          asks_seq [OF asks_createOrUpdate(1) asks_seq [OF asks_exposure cache]]]]]) simp
qed

lemma asks_applyStatefulSet: "asks_at_most 2 (applyStatefulSet E b spec n)"
  unfolding applyStatefulSet_def Let_def numeral_2_eq_2 by (intro bound_intros asks_createOrUpdate)

lemma asks_status:
  "asks_at_most (Suc 0) (updateStatus E b p ep r d np)"
  "asks_at_most (Suc 0) (updateStatusWithLastScaled E b p ep r d np t)"
  "asks_at_most (Suc 0) (resolveNodePort E b)" "asks_at_most (Suc 0) (resolveStatefulSetEndpoint E b)"
  unfolding updateStatus_eq updateStatusWithLastScaled_eq resolveNodePort_def resolveStatefulSetEndpoint_def
  by (intro bound_intros)+

lemma asks_persistent: "asks_at_most 20 (reconcilePersistent E b spec)"
proof -
  have "asks_at_most 3 (persistentStatus E b)"
    unfolding persistentStatus_def numeral_3_eq_3 by (intro bound_intros asks_status)
  from asks_seq [OF asks_provision asks_seq [OF asks_applyStatefulSet this]]
  show ?thesis unfolding reconcilePersistent_eq by simp
qed

lemma asks_sleepy: "asks_at_most 20 (reconcileSleepy E b spec)"
proof -
  have replicas: "asks_at_most 0 (sleepyDesiredReplicas E b t)" for t
    unfolding sleepyDesiredReplicas_def Let_def by (intro bound_intros)
  have "asks_at_most 3 (sleepyStatus E b n)" for n
    unfolding sleepyStatus_def numeral_3_eq_3
    by (intro bound_intros asks_status)
  from asks_seq [OF asks_provision asks_bind [OF replicas asks_seq [OF asks_applyStatefulSet this]]]
  show ?thesis unfolding reconcileSleepy_eq by simp
qed

lemma asks_reconcileFound: "asks_at_most 21 (reconcileFound E b)"
proof -
  have spec: "asks_at_most (Suc 0) (resolveSpec E b)"
    unfolding resolveSpec_def Let_def by (intro bound_intros)
  have delete: "asks_at_most 20 (reconcileDelete E b)"
    unfolding reconcileDelete_def Let_def
    by (intro asks_cases asks_end asks_more [OF asks_seq [OF asks_return_err [OF asks_client(4)] asks_end(1), of 0]]) simp
  have "asks_at_most 20 (seqP (recorder_Event key reason e) (throw err))" for key reason e err
    by (rule asks_more [OF asks_seq [OF asks_client(7) asks_end(2), of 0]]) simp
  with asks_handle [OF spec this, of "\<lambda>spec. if om_deletionTimestamp (b_meta b) \<noteq> None then reconcileDelete E b
      else if bs_mode (b_spec b) = BuilderModePersistent then reconcilePersistent E b spec
      else if bs_mode (b_spec b) = BuilderModeSleepy then reconcileSleepy E b spec
      else throw (UnknownMode (bs_mode (b_spec b)))"]
  show ?thesis
    unfolding reconcileFound_def
    by (simp add: asks_cases(4) asks_end delete asks_persistent asks_sleepy)
qed

text \<open>C13: A reconciliation ends, with a result, an error or a panic, after at most 22 requests,
  from any state, for any builder and whatever the API server answers.\<close>

theorem reconcile_ends:
  "length (calls (snd (Reconcile E req s))) \<le> length (calls s) + 22"
proof -
  have "asks_at_most 21 (case r of Inl e \<Rightarrow> if IsNotFound e then ret no_requeue else throw (ApiError e)
       | Inr b \<Rightarrow> reconcileFound E b)" for r
    by (intro asks_cases asks_end asks_reconcileFound)
  from asks_bind [OF asks_get_as [of E KBuilder as_builder req] this]
  show ?thesis unfolding Reconcile_eq asks_at_most_def by simp
qed

text \<open>
  The bound is reached: a first reconciliation of an exposed builder with a template and a
  claim, while another creates the namespace's authority between the look for it and the
  creation.
\<close>

definition racing_create :: "kobj \<Rightarrow> mem \<Rightarrow> api_err option \<times> mem" where
  "racing_create ob w =
     (if kobj_kind ob = KSecret \<and> key_name (kobj_key ob) = caSecretName
      then (Some AlreadyExists, snd (cl_create mem_env ob w))
      else cl_create mem_env ob w)"

definition busy :: Builder where
  "busy = named_builder ''ci'' ''busy'' (zero_BuilderSpec\<lparr>bs_mode := ''persistent'', bs_templateRef := Some ''t'',
     bs_exposure := Some \<lparr>ex_enabled = True, ex_host = ''b.io'', ex_ingressController = [],
       ex_entryPoint = [], ex_annotations = []\<rparr>\<rparr>)"

definition busy_world :: "mem sys" where
  "busy_world = start [OBuilder busy, OTemplate \<lparr>bt_meta = meta_of ''ci'' ''t'', bt_spec = claim_template\<rparr>]
     [pod_of busy] 0"

lemma bound_reached:
  "length (calls (snd (Reconcile ((still_env noon)\<lparr>cl_create := racing_create\<rparr>)
     (ObjectKey ''ci'' ''busy'') busy_world))) = 22"
  by code_simp

end
