(* ===== verification/Authority.thy ===== *)
theory Authority
  imports Samples
begin

text \<open>
  The authority of a namespace over time: what \<open>ensureNamespaceCA\<close> creates and stores is what
  every later call parses back, so all builders of a namespace are signed for by one key.
\<close>

lemma ca_in_unique: "ca_in E st ns ca \<Longrightarrow> ca_in E st ns ca' \<Longrightarrow> ca' = ca"
  by (auto simp: ca_in_def split: prod.splits)

lemma ca_in_frame: "st' KSecret (ca_key ns) = st KSecret (ca_key ns) \<Longrightarrow> ca_in E st' ns ca = ca_in E st ns ca"
  by (simp add: ca_in_def)

lemma wp_read_back:
  assumes "api_laws E obs" and "crypto_laws E" and known: "ca_in E (stored obs s) ns ca"
  shows "wp (ensureNamespaceCA E ns) (\<lambda>ca' s'. ca' = ca \<and> stored obs s' = stored obs s)
    (\<lambda>e s'. stored obs s' = stored obs s \<and> (\<exists>err. e = Some err \<and> hiccup E obs err)) s"
proof (rule wp_ensureNamespaceCA [OF assms(1)], goal_cases)
  from known obtain sec where sec: "stored obs s KSecret (ca_key ns) = Some (OSecret sec)"
    by (auto simp: ca_in_def split: prod.splits)
  {
    case (1 ca' ob s')
    have "stored obs s' = stored obs s"
      using 1(1,2) sec store_put_id [of KSecret "ca_key ns" "stored obs s"] by simp
    with 1(3) [OF assms(2)] known show ?case by (simp add: ca_in_unique)
  next
    case (2 e v s')
    have "\<not> ca_unreadable E (stored obs s) ns" 
      by (rule ca_known_readable, unfold ca_known_def, rule exI, rule known)
    with 2 sec store_put_id [of KSecret "ca_key ns" "stored obs s"] show ?case by (simp add: fault_def)
  }
qed

text \<open>C17: The authority is read back as it was written. As long as the secret stays as a first
  call left it, every later call returns the same PEM text, certificate and key and writes
  nothing, unless the server or a library fails.\<close>

theorem authority_read_back:
  assumes "api_laws E obs" and "crypto_laws E"
    and "ensureNamespaceCA E ns s = (Ok ca, s')"
    and "stored obs t KSecret (ObjectKey ns caSecretName) = stored obs s' KSecret (ObjectKey ns caSecretName)"
    and "ensureNamespaceCA E ns t = (r, t')"
  shows "stored obs t' = stored obs t \<and> (r = Ok ca \<or> (\<exists>e. r = Err e \<and> hiccup E obs e))"
proof -
  have "wp (ensureNamespaceCA E ns) (\<lambda>ca s'. ca_in E (stored obs s') ns ca) (\<lambda>_ _. True) s"
    by (rule wp_ensureNamespaceCA [OF assms(1)]) (simp_all add: assms(2))
  from wp_Ok [OF this assms(3)] have "ca_in E (stored obs t) ns ca"
    by (rule iffD2 [OF ca_in_frame [of "stored obs t" ns "stored obs s'", OF assms(4)]])
  from wp_read_back [OF assms(1,2) this] assms(5) show ?thesis
    by (cases r) (simp_all add: wp_def)
qed

definition first_authority :: "(bytes \<times> certificate \<times> rsa_private_key) outcome \<times> mem sys" where
  "first_authority = ensureNamespaceCA (still_env noon) ''ci'' (start [] [] 0)"

theorem authority_read_back_witness:
  "\<exists>ca. fst (ensureNamespaceCA (still_env noon) ''ci'' (start [] [] 0)) = Ok ca
    \<and> fst (ensureNamespaceCA (still_env noon) ''ci'' (snd first_authority)) = Ok ca"
proof -
  have ok: "case fst first_authority of Ok _ \<Rightarrow> True | _ \<Rightarrow> False"
    unfolding first_authority_def by code_simp
  then obtain ca where "fst first_authority = Ok ca" by (cases "fst first_authority") auto
  then have first: "ensureNamespaceCA (still_env noon) ''ci'' (start [] [] 0) = (Ok ca, snd first_authority)"
    unfolding first_authority_def [symmetric] by (metis prod.collapse)
  obtain r t' where again: "ensureNamespaceCA (still_env noon) ''ci'' (snd first_authority) = (r, t')"
    by (cases "ensureNamespaceCA (still_env noon) ''ci'' (snd first_authority)")
  have "\<not> hiccup (still_env noon) mem_objects e" for e
    using still_is_healthy [of noon] by (auto simp: healthy_faults)
  with authority_read_back [OF still_api_laws still_crypto_laws first refl again] have "r = Ok ca" by blast
  with first again show ?thesis by (intro exI [of _ ca]) simp
qed

end
