(* ===== verification/Well_Formed.thy ===== *)
theory Well_Formed
  imports Requests Samples
begin

text \<open>
  A well-formedness invariant of the API's objects: named and namespaced metadata, maps and JSON
  objects without duplicate keys, ports in range with distinct names, pods whose mounts have
  their volumes, selectors that match the pods they govern, one condition of a type. The
  operator keeps it: given well-formed objects it sends well-formed objects.
\<close>

section \<open>The invariant\<close>

definition map_wf :: "'v gomap option \<Rightarrow> bool" where
  "map_wf m \<longleftrightarrow> gomap_wf (gomap_entries m)"

definition meta_wf :: "object_meta \<Rightarrow> bool" where
  "meta_wf m \<longleftrightarrow> om_namespace m \<noteq> [] \<and> om_name m \<noteq> [] \<and> map_wf (om_labels m) \<and> map_wf (om_annotations m)"

definition resources_wf :: "resource_requirements \<Rightarrow> bool" where
  "resources_wf r \<longleftrightarrow> map_wf (rr_limits r) \<and> map_wf (rr_requests r)"

definition spec_wf :: "TemplateSpec \<Rightarrow> bool" where
  "spec_wf spec \<longleftrightarrow> resources_wf (ts_resources spec) \<and> map_wf (ts_nodeSelector spec)"

definition port_wf :: "int32 \<Rightarrow> bool" where
  "port_wf p \<longleftrightarrow> 0 < sint p \<and> sint p < 2 ^ 16"

definition container_wf :: "string list \<Rightarrow> container \<Rightarrow> bool" where
  "container_wf volumes c \<longleftrightarrow> resources_wf (ct_resources c)
     \<and> list_all (\<lambda>m. List.member volumes (vm_name m)) (ct_volumeMounts c)
     \<and> distinct (map vm_mountPath (ct_volumeMounts c))
     \<and> distinct (map cp_name (ct_ports c)) \<and> list_all (\<lambda>p. port_wf (cp_containerPort p)) (ct_ports c)"

definition pod_wf :: "pod_spec \<Rightarrow> bool" where
  "pod_wf ps \<longleftrightarrow> gomap_wf (ps_nodeSelector ps) \<and> distinct (map vol_name (ps_volumes ps))
     \<and> ps_containers ps \<noteq> [] \<and> distinct (map ct_name (ps_containers ps))
     \<and> list_all (container_wf (map vol_name (ps_volumes ps))) (ps_containers ps)"

fun json_wf :: "json \<Rightarrow> bool" where
  "json_wf (JList js) \<longleftrightarrow> list_all json_wf js"
| "json_wf (JObject members) \<longleftrightarrow> distinct (map fst members) \<and> list_all json_wf (map snd members)"
| "json_wf _ \<longleftrightarrow> True"

fun obj_wf :: "kobj \<Rightarrow> bool" where
  "obj_wf (OBuilder b) \<longleftrightarrow> meta_wf (b_meta b)
     \<and> (case bs_template (b_spec b) of None \<Rightarrow> True | Some spec \<Rightarrow> spec_wf spec)
     \<and> gomap_wf (bs_labels (b_spec b)) \<and> distinct (map cond_type (st_conditions (b_status b)))"
| "obj_wf (OTemplate t) \<longleftrightarrow> meta_wf (bt_meta t) \<and> spec_wf (bt_spec t)"
| "obj_wf (OConfigMap c) \<longleftrightarrow> meta_wf (cm_meta c) \<and> gomap_wf (cm_data c)"
| "obj_wf (OService s) \<longleftrightarrow> meta_wf (svc_meta s) \<and> gomap_wf (svc_selector s) \<and> svc_selector s \<noteq> []
     \<and> distinct (map sp_name (svc_ports s)) \<and> list_all (\<lambda>p. port_wf (sp_port p) \<and> port_wf (sp_targetPort p)) (svc_ports s)"
| "obj_wf (OPVC p) \<longleftrightarrow> meta_wf (pvc_meta p) \<and> gomap_wf (pvc_requests p) \<and> pvc_accessModes p \<noteq> []"
| "obj_wf (OStatefulSet t) \<longleftrightarrow> meta_wf (sts_meta t) \<and> gomap_wf (sts_matchLabels t) \<and> sts_matchLabels t \<noteq> []
     \<and> list_all (\<lambda>(k, v). map_of (sts_templateLabels t) k = Some v) (sts_matchLabels t)
     \<and> gomap_wf (sts_templateLabels t) \<and> sts_serviceName t \<noteq> [] \<and> pod_wf (sts_podSpec t)"
| "obj_wf (OSecret s) \<longleftrightarrow> meta_wf (sec_meta s) \<and> gomap_wf (sec_data s)"
| "obj_wf (OIngressRoute i) \<longleftrightarrow> meta_wf (ir_meta i) \<and> json_wf (ir_spec i)"

fun request_wf :: "request \<Rightarrow> bool" where
  "request_wf (ReqCreate ob) \<longleftrightarrow> obj_wf ob"
| "request_wf (ReqUpdate ob) \<longleftrightarrow> obj_wf ob"
| "request_wf (ReqStatusUpdate ob) \<longleftrightarrow> obj_wf ob"
| "request_wf _ \<longleftrightarrow> True"

text \<open>A server that hands out well-formed objects, of the key asked for.\<close>

definition server_wf :: "'w env \<Rightarrow> bool" where
  "server_wf E \<longleftrightarrow> (\<forall>k key w ob. fst (cl_get E k key w) = Inr ob \<longrightarrow> obj_wf ob)"

section \<open>What the operator makes is well-formed\<close>

lemma gomap_wf_Nil [simp]: "gomap_wf []"
  by (simp add: gomap_wf_def)

lemma meta_wf_simps [simp]:
  "meta_wf (m\<lparr>om_ownerReferences := refs\<rparr>) = meta_wf m"
  "meta_wf (m\<lparr>om_resourceVersion := v\<rparr>) = meta_wf m"
  "meta_wf (m\<lparr>om_finalizers := fs\<rparr>) = meta_wf m"
  "meta_wf (meta_of ns n) \<longleftrightarrow> ns \<noteq> [] \<and> n \<noteq> []"
  by (simp_all add: meta_wf_def map_wf_def gomap_wf_def)

lemma meta_wf_names: "meta_wf m \<Longrightarrow> om_namespace m \<noteq> [] \<and> om_name m \<noteq> []"
  by (simp add: meta_wf_def)

lemma port_wfs [simp]: "port_wf 1234" "port_wf 1235"
  by (simp_all add: port_wf_def)

lemma own_names [simp]: "builderObjectName b \<noteq> []" "builderSubName b x \<noteq> []" "builderTLSSecretName b \<noteq> []"
  "ingressRouteName b \<noteq> []" "caSecretName \<noteq> []"
  by (simp_all add: builderSubName_def builderObjectName_def builderTLSSecretName_def ingressRouteName_def
      caSecretName_def)

lemma gomap_put_nonempty: "gomap_put k v m \<noteq> []"
  by (cases m) (auto simp: gomap_put_def)

lemma gomap_copy_if_nonempty: "dst \<noteq> [] \<Longrightarrow> gomap_copy_if keep src dst \<noteq> []"
  unfolding gomap_copy_if_def
  by (induction src arbitrary: dst) (simp_all add: gomap_put_nonempty split: prod.split)

lemma labels_nonempty [simp]: "labelsForBuilder b mode \<noteq> []"
  unfolding labelsForBuilder_def by (rule gomap_copy_if_nonempty) simp

lemma labels_wf [simp]: "gomap_wf (labelsForBuilder b mode)"
  unfolding labelsForBuilder_def
  by (rule gomap_wf_copy_if) (simp add: gomap_wf_def names_simps)

lemma labels_select [simp]:
  "list_all (\<lambda>(k, v). map_of (labelsForBuilder b mode) k = Some v) (labelsForBuilder b mode)"
  using labels_wf [of b mode] by (auto simp: list_all_iff gomap_wf_def)

lemma services_wf:
  assumes "meta_wf (b_meta b)"
  shows "obj_wf (OService (headlessServiceForBuilder b))" "obj_wf (OService (nodePortServiceForBuilder b))"
  using assms by (simp_all add: headlessServiceForBuilder_def nodePortServiceForBuilder_def meta_wf_names)

lemma route_wf:
  assumes "meta_wf (b_meta b)"
  shows "obj_wf (OIngressRoute (ingressRouteForBuilder b e))"
proof -
  have "gomap_wf (gomap_copy_if (\<lambda>_. True) (ex_annotations e) [(externalDNSHostnameAnnotation, ex_host e)])"
    by (rule gomap_wf_copy_if) (simp add: gomap_wf_def)
  then show ?thesis
    using meta_wf_names [OF assms] by (simp add: ingressRouteForBuilder_def Let_def meta_wf_def map_wf_def)
qed

lemma podSpec_wf:
  assumes "spec_wf spec"
  shows "pod_wf (buildPodSpec spec b n)"
proof -
  have mounts: "list_all (\<lambda>m. List.member (map (vol_name \<circ> fst) vs) (vm_name m)) (map snd vs)"
    if "map (vm_name \<circ> snd) vs = map (vol_name \<circ> fst) vs" for vs :: "(volume \<times> volume_mount) list"
  proof -
    have "vm_name m \<in> set (map (vol_name \<circ> fst) vs)" if "m \<in> set (map snd vs)" for m
      using that unfolding \<open>map (vm_name \<circ> snd) vs = map (vol_name \<circ> fst) vs\<close> [symmetric] by force
    then show ?thesis by (simp add: list_all_iff)
  qed
  have "gomap_wf (podNodeSelector spec)"
    unfolding podNodeSelector_def by (rule gomap_wf_copy_if) (simp add: gomap_wf_def)
  then show ?thesis
    using assms volume_names_distinct [of spec b n] mount_paths_distinct [of spec b n]
      mounts [OF volume_names [of spec b n]]
    by (simp add: buildPodSpec_def pod_wf_def container_wf_def spec_wf_def Let_def)
qed

lemma mergeSpec_wf:
  assumes "pred_option spec_wf base" and "spec_wf ov"
  shows "spec_wf (mergeSpec base (Some ov))"
proof -
  have "spec_wf zero_TemplateSpec"
    by (simp add: spec_wf_def resources_wf_def map_wf_def zero_TemplateSpec_def)
  then have "spec_wf (case base of None \<Rightarrow> zero_TemplateSpec | Some b \<Rightarrow> b)"
    using assms(1) by (cases base) simp_all
  moreover have "mergeSpec base (Some ov) = override_with ov (case base of None \<Rightarrow> zero_TemplateSpec | Some b \<Rightarrow> b)"
    by (cases base) (simp_all add: mergeSpec_override mergeSpec_no_base)
  ultimately show ?thesis
    using assms(2) by (simp add: spec_wf_def override_with_def orElse_def)
qed

section \<open>What the operator sends is well-formed\<close>

lemma emits_get_as_wf:
  assumes "server_wf E" and dec: "\<And>ob x. dec ob = Some x \<longleftrightarrow> ob = wrap x"
  shows "emits E request_wf (get_as E k dec key) (\<lambda>r. \<forall>x. r = Inr x \<longrightarrow> obj_wf (wrap x))"
  unfolding get_as_def
proof (rule emits_bind)
  show "emits E request_wf (client_Get E k key) (\<lambda>r. \<forall>ob. r = Inr ob \<longrightarrow> obj_wf ob)"
    by (rule emits_post [OF emits_client(1) [where P = request_wf]])
      (use assms(1) in \<open>auto simp: fst_client_Get server_wf_def\<close>)
qed (auto intro!: emits_ret simp: dec split: sum.splits option.splits)

text \<open>The create-or-update protocol: both the object asked for and the one made from it and the
  object found are well-formed.\<close>

context upsert begin

lemma protocol_wf:
  assumes "server_wf E" and "obj_wf (wrap x)"
    and "\<And>old. obj_wf (wrap old) \<Longrightarrow> obj_wf (wrap (carry old x))"
  shows "emits E request_wf (op E x) (\<lambda>_. True)"
  unfolding protocol
  by (rule emits_bind [OF emits_get_as_wf [OF assms(1) dec_wrap]])
    (auto intro!: keeps_intros simp: assms(2,3))

end

lemma emits_wf_services:
  assumes "server_wf E" and "meta_wf (b_meta b)"
  shows "emits E request_wf (createOrUpdateService E (headlessServiceForBuilder b)) (\<lambda>_. True)"
    and "emits E request_wf (createOrUpdateService E (nodePortServiceForBuilder b)) (\<lambda>_. True)"
  by (rule svc_upsert.protocol_wf [OF assms(1)], use services_wf [OF assms(2)] in simp_all)+

lemma emits_wf_configmap:
  assumes "server_wf E" and "owner_refs_only E" and "meta_wf (b_meta b)"
  shows "emits E request_wf (ensureBuildkitdConfigMap E b spec) (\<lambda>_. True)"
  unfolding ensureBuildkitdConfigMap_def Let_def
  by (intro emits_owned assms cm_upsert.protocol_wf)
    (use meta_wf_names [OF assms(3)] in \<open>simp_all add: gomap_wf_def\<close>)

lemma emits_wf_statefulset:
  assumes "server_wf E" and "owner_refs_only E" and "meta_wf (b_meta b)" and "spec_wf spec"
  shows "emits E request_wf (applyStatefulSet E b spec n) (\<lambda>_. True)"
proof -
  have "meta_wf (sts_meta (statefulSetForBuilder E b spec n))"
    using assms(2) meta_wf_names [OF assms(3)] unfolding owner_refs_only_def
    by (fastforce simp: sts_meta_statefulSetForBuilder split: sum.split)
  then show ?thesis
    unfolding applyStatefulSet_def Let_def
    by (intro emits_owned assms(1,2) sts_upsert.protocol_wf) (simp_all add: podSpec_wf [OF assms(4)])
qed

lemma emits_wf_cache:
  assumes "server_wf E" and "owner_refs_only E" and "meta_wf (b_meta b)"
  shows "emits E request_wf (ensureCache E b spec) (\<lambda>_. True)"
proof -
  have "obj_wf (OPVC p)" if "pvcForBuilder E b spec = Ok p" for p
    using that meta_wf_names [OF assms(3)]
    by (auto simp: pvcForBuilder_def toAccessModes_def gomap_wf_def Let_def split: option.splits if_splits)
  then show ?thesis
    unfolding ensureCache_def createOrUpdatePVC_def
    by (intro keeps_intros emits_owned assms(2)) simp_all
qed

lemma certificate_data_wf: "gomap_wf [(''ca.crt'', a), (''tls.crt'', b), (''tls.key'', c)]"
  and host_annotation_wf: "gomap_wf [(certHostAnnotation, h)]"
  by (simp_all add: gomap_wf_def)

lemma emits_wf_ca:
  assumes "ns \<noteq> []"
  shows "emits E request_wf (ensureNamespaceCA E ns) (\<lambda>_. True)"
  unfolding ensureNamespaceCA_def
  by (intro keeps_intros emits_generateCA) (simp_all add: caSecret_def gomap_wf_def assms)

lemma emits_wf_issue:
  assumes "owner_refs_only E" and "meta_wf (b_meta b)"
    and "\<And>old. found = Some old \<Longrightarrow> obj_wf (OSecret old)"
  shows "emits E request_wf (issueServerCert E b host ca found) (\<lambda>_. True)"
  unfolding issueServerCert_def Let_def
  by (intro keeps_intros emits_signServerCert emits_owned assms(1))
    (use meta_wf_names [OF assms(2)] assms(3) in
      \<open>simp_all add: serverSecret_def certificate_data_wf meta_wf_def map_wf_def host_annotation_wf\<close>)

lemma emits_wf_server_cert:
  assumes "server_wf E" and "owner_refs_only E" and "meta_wf (b_meta b)"
  shows "emits E request_wf (ensureBuilderServerCert E b) (\<lambda>_. True)"
  unfolding ensureBuilderServerCert_def Let_def
  by (intro keeps_intros emits_wf_ca emits_bind [OF emits_get_as_wf [OF assms(1) as_secret_iff]]
      emits_wf_issue emits_serverCertNeedsRenewal)
    (use assms meta_wf_names [OF assms(3)] in simp_all)

lemma emits_wf_deletes:
  "emits E request_wf (deleteBuilderServerCert E b) (\<lambda>_. True)"
  "emits E request_wf (deleteIngressRouteIfExists E b) (\<lambda>_. True)"
  unfolding deleteBuilderServerCert_def deleteIngressRouteIfExists_def
  by (intro keeps_intros; simp)+

lemma emits_wf_exposure:
  assumes "server_wf E" and "owner_refs_only E" and "meta_wf (b_meta b)"
  shows "emits E request_wf (reconcileExposure E b) (\<lambda>_. True)"
  unfolding reconcileExposure_def Let_def
  by (intro keeps_intros emits_owned emits_wf_deletes emits_wf_server_cert route_upsert.protocol_wf assms)
    (use route_wf [OF assms(3)] in simp_all)

lemma emits_wf_provision:
  assumes "server_wf E" and "owner_refs_only E" and "meta_wf (b_meta b)"
  shows "emits E request_wf (provision E b spec) (\<lambda>_. True)"
  unfolding provision_def
  by (intro keeps_intros emits_wf_configmap emits_wf_services emits_wf_exposure emits_wf_cache assms)

lemma emits_wf_readbacks:
  "emits E request_wf (resolveStatefulSetEndpoint E b) (\<lambda>_. True)"
  "emits E request_wf (resolveNodePort E b) (\<lambda>_. True)"
  unfolding resolveStatefulSetEndpoint_def resolveNodePort_def by (intro keeps_intros; simp)+

lemma withCondition_wf:
  "distinct (map cond_type cs) \<Longrightarrow> distinct (map cond_type (withCondition now t v r m cs))"
  by (simp add: withCondition_types)

lemma emits_wf_status:
  assumes "obj_wf (OBuilder b)"
  shows "emits E request_wf (updateStatus E b p ep r d np) (\<lambda>_. True)"
    and "emits E request_wf (updateStatusWithLastScaled E b p ep r d np t) (\<lambda>_. True)"
  unfolding updateStatus_eq updateStatusWithLastScaled_eq
  by (intro keeps_intros; use assms in \<open>simp add: withCondition_wf statusFor_def readyCondition_def
      endpointCondition_def scaledCondition_def\<close>)+

lemma emits_wf_modes:
  assumes "server_wf E" and "owner_refs_only E" and "obj_wf (OBuilder b)" and "spec_wf spec"
  shows "emits E request_wf (reconcilePersistent E b spec) (\<lambda>_. True)"
    and "emits E request_wf (reconcileSleepy E b spec) (\<lambda>_. True)"
proof -
  have "meta_wf (b_meta b)" using assms(3) by simp
  then show "emits E request_wf (reconcilePersistent E b spec) (\<lambda>_. True)"
    and "emits E request_wf (reconcileSleepy E b spec) (\<lambda>_. True)"
    unfolding reconcilePersistent_eq persistentStatus_def reconcileSleepy_eq sleepyStatus_def
    by (intro keeps_intros emits_wf_provision emits_wf_statefulset emits_wf_readbacks emits_wf_status
        emits_sleepyDesiredReplicas assms; simp)+
qed

lemma emits_wf_delete:
  assumes "finalizers_only E" and "obj_wf (OBuilder b)"
  shows "emits E request_wf (reconcileDelete E b) (\<lambda>_. True)"
  unfolding reconcileDelete_def Let_def
  by (intro keeps_intros) (use assms in \<open>simp_all add: finalizers_only_def\<close>)

lemma emits_wf_resolve:
  assumes "server_wf E" and "obj_wf (OBuilder b)"
  shows "emits E request_wf (resolveSpec E b) spec_wf"
  unfolding resolveSpec_def Let_def
proof (rule emits_bind [where R = "pred_option spec_wf"])
  show "emits E request_wf
     (case bs_templateRef (b_spec b) of None \<Rightarrow> ret None
      | Some ref \<Rightarrow> bindP (get_as E KTemplate as_template (ObjectKey (b_namespace b) ref)) (\<lambda>r.
          case r of Inl e \<Rightarrow> throw (TemplateNotFound ref (b_namespace b) e)
          | Inr tmpl \<Rightarrow> ret (Some (bt_spec tmpl)))) (pred_option spec_wf)"
    by (intro emits_case_option emits_ret emits_bind [OF emits_get_as_wf [OF assms(1) as_template_iff]]
        emits_case_sum emits_throw) simp_all
qed (use assms(2) in \<open>auto intro!: emits_ret emits_throw mergeSpec_wf split: option.splits\<close>)

lemma emits_wf_found:
  assumes "server_wf E" and "owner_refs_only E" and "finalizers_only E" and "obj_wf (OBuilder b)"
  shows "emits E request_wf (reconcileFound E b) (\<lambda>_. True)"
  unfolding reconcileFound_def
  by (intro emits_handle_with [OF emits_wf_resolve] keeps_intros emits_wf_modes emits_wf_delete assms) simp_all

lemma emits_wf_Reconcile:
  assumes "server_wf E" and "owner_refs_only E" and "finalizers_only E"
  shows "emits E request_wf (Reconcile E req) (\<lambda>_. True)"
  unfolding Reconcile_eq
  by (intro emits_bind [OF emits_get_as_wf [OF assms(1) as_builder_iff]] emits_case_sum emits_if emits_ret
      emits_throw emits_wf_found assms) simp_all

section \<open>Properties\<close>

text \<open>C12: Objects keep their invariant. If the API server hands out well-formed objects, a
  reconciliation sends well-formed ones only, whatever it is answered: names, maps and ports in
  order, selectors that select their own pods, pods whose mounts have their volumes and do not
  overlap, one condition of a type. A merged template is well-formed if its parts are.\<close>

theorem requests_well_formed:
  assumes "server_wf E" and "owner_refs_only E" and "finalizers_only E"
  shows "\<exists>cs. calls (snd (Reconcile E req s)) = calls s @ cs \<and> list_all (\<lambda>c. request_wf (fst c)) cs"
  using emits_calls [OF emits_wf_Reconcile [OF assms], of req s] by (simp add: list_all_iff)

text \<open>The world of theory \<open>Cluster\<close> behind a server that refuses to hand out anything else.\<close>

definition strict_env :: "mem env" where
  "strict_env = (still_env noon)\<lparr>cl_get := (\<lambda>k key w. case mem_get k key w of
     (Inl e, w') \<Rightarrow> (Inl e, w')
   | (Inr ob, w') \<Rightarrow> if obj_wf ob then (Inr ob, w') else (Inl (OtherApiErr ''malformed''), w'))\<rparr>"

lemma strict_wf: "server_wf strict_env"
  by (auto simp: server_wf_def strict_env_def split: prod.split sum.split)

theorem requests_well_formed_witness:
  "fst (Reconcile strict_env (meta_key (b_meta web)) (world_of web)) = Ok no_requeue
   \<and> list_all (\<lambda>c. request_wf (fst c)) (calls (snd (Reconcile strict_env (meta_key (b_meta web)) (world_of web))))"
proof -
  have "owner_refs_only strict_env" "finalizers_only strict_env"
    using still_owner_refs [of noon]
    by (simp_all add: strict_env_def owner_refs_only_def finalizers_only_def still_env_def mem_env_def)
  from requests_well_formed [OF strict_wf this, of "meta_key (b_meta web)" "world_of web"]
  have "list_all (\<lambda>c. request_wf (fst c)) (calls (snd (Reconcile strict_env (meta_key (b_meta web)) (world_of web))))"
    by (auto simp: world_of_def start_def)
  moreover have "fst (Reconcile strict_env (meta_key (b_meta web)) (world_of web)) = Ok no_requeue"
    by code_simp
  ultimately show ?thesis by simp
qed

end
