(* ===== verification/Spec2Isabelle.thy ===== *)
theory Spec2Isabelle
  imports Lifecycle Manager Memory_Facts Ordering Request_Bounds Authority Well_Formed
begin

text \<open>
  The BuildKit builder operator: a Kubernetes operator that keeps, for every custom resource
  \<open>BuildkitBuilder\<close>, a running \<open>buildkitd\<close> with its services, its configuration, its cache and, if
  it is exposed, a TLS route and certificate. This development models the whole of its Go code
  and proves what its reconciliation guarantees. It rests on no axiom beyond those of HOL.

  \<^bold>\<open>How the program works.\<close> \<open>cmd/main.go\<close> starts a manager, which calls \<open>Reconcile\<close> with the key of a
  builder whenever the builder or an object it owns changes, or a requested delay is over.
  \<open>Reconcile\<close> reads the builder, resolves its specification (the template it names, overridden
  by its inline one), and then deletes, or provisions: config map, headless and client
  service, route and certificate, cache claim, and last the stateful set, with one replica in
  persistent mode or one or none by the idle rule in sleepy mode. It reads the pods back and
  writes the status. The state is that of the API server; the operator keeps none.

  \<^bold>\<open>Programs.\<close> The API client, the clock, the random source and the certificate libraries are not
  part of the repository: they are the record \<open>env\<close> (theory \<open>Effects\<close>), over a world of any
  type, and every operation that uses them is a function of it, a program over the world and
  the log of the calls made. An error or a panic is an outcome (\<open>Go_Errors\<close>). \<open>Program_Logic\<close> has
  two calculi: \<open>emits\<close>, for what a program asks of any environment, and \<open>wp\<close>, for what it leaves
  in the store of one that keeps the laws of \<open>Api_Laws\<close>.

  \<^bold>\<open>Theories and sources.\<close>
  \<^item> \<open>Prelude\<close>, \<open>Kube_Objects\<close>, \<open>Api_Types\<close>: strings, maps, the objects of the API, and the types of
    \<open>api/*/v1alpha1/*_types.go\<close> and \<open>internal/controller/metadata.go\<close>.
  \<^item> \<open>Labels\<close> (\<open>labelsForBuilder\<close>, with its regular expression and a derivative matcher),
    \<open>Buildkitd_Config\<close> (the text of \<open>buildkitd.toml\<close>), \<open>Workload\<close> (services, claim, pod and stateful
    set), \<open>Exposure\<close> (route and names), \<open>Spec_Merge\<close> (\<open>mergeSpec\<close>), \<open>Go_Time\<close> (RFC 3339, \<open>Duration\<close> in
    64 bits): the pure parts of \<open>internal/controller\<close>.
  \<^item> \<open>Upsert\<close> (the create-or-update operations of \<open>helpers.go\<close> and \<open>ingress.go\<close>), \<open>Tls\<close> (\<open>tls.go\<close>), \<open>Status\<close>
    (read-back and status writers of \<open>helpers.go\<close>), \<open>Reconcile\<close> (exposure, deletion and
    \<open>buildkitbuilder_controller.go\<close>): the operations with effects, each a definition with all
    its calls and branches.
  \<^item> \<open>Admission\<close>: the defaulting and validating webhooks (\<open>*_webhook.go\<close>).
  \<^item> \<open>Go_Memory\<close> and \<open>Deep_Copy\<close>: the generated deep copies (\<open>zz_generated.deepcopy.go\<close>) and
    \<open>mergeSpec\<close>, with their pointers over a memory of cells.
  \<^item> \<open>Manager\<close>: API groups, scheme, \<open>main\<close>, \<open>SetupWithManager\<close> and the RBAC markers.
  \<^item> \<open>Codec\<close>, \<open>Cluster\<close>, \<open>Samples\<close>: an environment that keeps all laws, for the witnesses.

  \<^bold>\<open>What is shown.\<close>
  \<^item> \<open>Convergence\<close> and this theory: a reconciliation that returns nil leaves the builder \<open>settled\<close>, the
    abstract specification of what builder and template ask for (\<open>persistent_converges\<close>,
    \<open>sleepy_converges\<close>); with a healthy environment it does return nil (\<open>reconcile_succeeds\<close>); the
    ways in which it can fail (\<open>admitted_failures\<close>); what it leaves alone (\<open>reconcile_frame\<close>).
  \<^item> \<open>Ordering\<close>: the stateful set is written last, on every path. \<open>Request_Bounds\<close>: at most 22
    requests, and 22 do occur. \<open>Well_Formed\<close>: well-formed objects in, well-formed objects out.
  \<^item> \<open>Lifecycle\<close>: over an unending sequence of reconciliations a sleepy builder is scaled down in
    time after its idle timeout, and not before.
  \<^item> \<open>Interleaving\<close>: reconciliations of any builders and other clients, call by call in any order:
    claims and authorities survive, foreign objects are untouched.
  \<^item> \<open>Requests\<close> and \<open>Manager\<close>: every request is among those \<open>allowed\<close>, and granted by the markers;
    which changes trigger a reconciliation.
  \<^item> \<open>Tls_Facts\<close> and \<open>Authority\<close>: certificates that are valid, signed by the namespace's authority
    and renewed in time; the authority is read back as it was made.
  \<^item> \<open>Memory_Facts\<close>: deep copies read the same and share nothing; \<open>mergeSpec\<close> on pointers refines
    \<open>mergeSpec\<close> on values.

  \<^bold>\<open>What is assumed.\<close> Each statement names its hypotheses; a witness in the world of \<open>Cluster\<close> meets
  them. \<open>api_laws\<close>: what a call of the API server does to the store, errors of which it is not
  known whether they took effect included; the server may fill in fields the operator does
  not set. \<open>owner_refs_only\<close>, \<open>controls\<close>, \<open>finalizers_only\<close>: the documented effects of
  controller-runtime's helpers. \<open>crypto_laws\<close>: PEM, PKCS #1 and X.509 round trips. \<open>healthy\<close>: no
  call fails without a cause. \<open>lib_copies\<close>: the deep copies of library structs.
  \<open>follows_setup\<close>: what the controller builder makes of its set-up. \<open>watching\<close>: the work queue
  repeats a reconciliation within a slack of the delay asked for. The \<open>wp\<close> statements take one
  reconciliation in a store that only its own calls change; the theory \<open>Interleaving\<close> and the
  \<open>emits\<close> statements do not.

  \<^bold>\<open>Integers, time and fuel.\<close> \<open>int32\<close>, \<open>int64\<close> and \<open>Duration\<close> are words, so that the idle rule and
  the requeue delays hold with their wrap-around; times are integers in nanoseconds. No
  program needs fuel: the operator has no unbounded loop, and all definitions compute.

  \<^bold>\<open>Not modelled.\<close> Log lines, contexts and the flag parser, which have no effect on what is
  proved; the bodies of the libraries; \<open>doc.go\<close>; the test suite, which has no test;
  \<open>randomSuffix\<close>, which nothing calls. \<open>ptr\<close> is \<open>Some\<close>. Toleration and affinity are opaque values.
\<close>

section \<open>Properties\<close>







text \<open>C18: The idle rule. Without the annotation a sleepy builder has one replica; with one that
  is no RFC 3339 time it has none; otherwise it has one exactly as long as the time since
  the last use is less than the timeout, for every 32-bit timeout and any two times.\<close>

theorem idle_rule:
  "fst (sleepyDesiredReplicas E b timeout s) =
     Ok (let used = gomap_get (om_annotations (b_meta b)) AnnotationLastUsed in
         if used = [] then 1
         else case parseRFC3339 used of
           None \<Rightarrow> 0
         | Some t \<Rightarrow> if fst (clock E (world s)) - t < sint timeout * 10 ^ 9 then 1 else 0)"
  by (simp add: sleepyDesiredReplicas_def Let_def bindP_def time_Now_def ret_def
      time_Sub_less_seconds32 split: option.split prod.split)

text \<open>C19: For an annotation written as a UTC time, the replica is kept up to the second before
  last use plus timeout and not from then on.\<close>

theorem idle_rule_utc:
  assumes "gomap_get (om_annotations (b_meta b)) AnnotationLastUsed = formatRFC3339 y m d hh mm ss"
    and "0 \<le> y" "y \<le> 9999" "1 \<le> m" "m \<le> 12" "1 \<le> d" "d \<le> monthLength y m"
    and "0 \<le> hh" "hh \<le> 23" "0 \<le> mm" "mm \<le> 59" "0 \<le> ss" "ss \<le> 59"
  shows "fst (sleepyDesiredReplicas E b timeout s) =
    Ok (if fst (clock E (world s)) < unixTime y m d hh mm ss (sint timeout * 10 ^ 9) then 1 else 0)"
proof -
  have p: "parseRFC3339 (formatRFC3339 y m d hh mm ss) = Some (unixTime y m d hh mm ss 0)"
    by (rule parse_format) (fact assms)+
  have "formatRFC3339 y m d hh mm ss \<noteq> []" by (simp add: formatRFC3339_def fourDigits_def twoDigits_def)
  then show ?thesis
    by (auto simp: sleepyDesiredReplicas_def Let_def bindP_def time_Now_def ret_def assms(1) p
        time_Sub_less_seconds32 unixTime_def split: prod.split)
qed

theorem idle_rule_utc_witness:
  "fst (sleepyDesiredReplicas (still_env noon) nap 300 (world_of nap)) = Ok 0"
proof -
  have "gomap_get (om_annotations (b_meta nap)) AnnotationLastUsed = formatRFC3339 2024 5 1 10 0 0"
    by code_simp
  from idle_rule_utc [OF this, of "still_env noon" 300 "world_of nap"]
  show ?thesis by (simp add: monthLength_def noon_def unixTime_def)
qed

text \<open>C8: Whatever the API server answers, a reconciliation asks only for what \<open>allowed\<close> lists:
  it reads what the builder refers to, writes the builder's own objects under their own
  names, its status and finalizers, and creates the namespace's authority.\<close>

theorem requests_confined:
  assumes "get_keyed E" and "owner_refs_only E" and "finalizers_only E"
  shows "\<exists>cs. calls (snd (Reconcile E (meta_key (b_meta b)) s)) = calls s @ cs
    \<and> list_all (\<lambda>c. allowed b (fst c)) cs"
  using emits_calls [OF emits_Reconcile [OF assms refl, of b]] unfolding list_all_iff by blast

theorem requests_confined_witness:
  "\<exists>cs. calls (snd (run_of web)) = calls (world_of web) @ cs \<and> list_all (\<lambda>c. allowed web (fst c)) cs"
  unfolding run_of_def
  by (rule requests_confined [OF api_laws_keyed [OF still_api_laws] still_owner_refs still_finalizers])

text \<open>The cache claims and the authority's key outlive every reconciliation: no request
  updates or deletes a claim or the secret of the authority.\<close>

lemma durable_data_untouched:
  assumes "get_keyed E" and "owner_refs_only E" and "finalizers_only E"
  shows "\<exists>cs. calls (snd (Reconcile E (ObjectKey ns n) s)) = calls s @ cs
    \<and> list_all (\<lambda>c. case fst c of
         ReqUpdate ob \<Rightarrow> kobj_kind ob \<noteq> KPVC \<and> \<not> (kobj_kind ob = KSecret \<and> key_name (kobj_key ob) = caSecretName)
       | ReqDelete k key \<Rightarrow> k \<noteq> KPVC \<and> \<not> (k = KSecret \<and> key_name key = caSecretName)
       | _ \<Rightarrow> True) cs"
proof -
  let ?b = "named_builder ns n zero_BuilderSpec"
  have key: "meta_key (b_meta ?b) = ObjectKey ns n" by simp
  have "case r of
         ReqUpdate ob \<Rightarrow> kobj_kind ob \<noteq> KPVC \<and> \<not> (kobj_kind ob = KSecret \<and> key_name (kobj_key ob) = caSecretName)
       | ReqDelete k key \<Rightarrow> k \<noteq> KPVC \<and> \<not> (k = KSecret \<and> key_name key = caSecretName)
       | _ \<Rightarrow> True" if "allowed ?b r" for r
    using that by (cases r) (auto simp: builderTLSSecretName_def caSecretName_def)
  with emits_calls [OF emits_Reconcile [OF assms key], of s] show ?thesis
    unfolding list_all_iff by blast
qed

text \<open>C9: How the reconciliation of an admitted builder can fail: with an error the API server or
  a library had no cause for or with an unreadable authority, because the template it names is
  absent or could not be read, because its mode is neither of the two, or by a panic, and
  that only when the cache claim's size is no quantity, which no webhook checks.\<close>

theorem admitted_failures:
  assumes "good_env E obs t0"
    and "stored obs s KBuilder req = Some (OBuilder b)"
    and "om_deletionTimestamp (b_meta b) = None"
    and "builder_ValidateCreate b = None"
  shows "case fst (Reconcile E req s) of
      Ok r \<Rightarrow> True
    | Err e \<Rightarrow> fault E obs (stored obs s) (b_namespace b) e
        \<or> (\<exists>ref a. bs_templateRef (b_spec b) = Some ref \<and> e = TemplateNotFound ref (b_namespace b) a
            \<and> template_unread E obs (stored obs s) (ObjectKey (b_namespace b) ref) a)
        \<or> e = UnknownMode (bs_mode (b_spec b))
          \<and> bs_mode (b_spec b) \<notin> {BuilderModePersistent, BuilderModeSleepy}
    | Panic m \<Rightarrow> \<exists>spec p. spec_in (stored obs s) b spec \<and> cc_pvc (ts_cacheConfig spec) = Some p
        \<and> lib_ParseQuantity E (claim_size p) = None"
proof -
  note valid = builder_ValidateCreateD [OF assms(4)]
  have panic: "\<exists>spec p. spec_in (stored obs s) b spec \<and> cc_pvc (ts_cacheConfig spec) = Some p
        \<and> lib_ParseQuantity E (claim_size p) = None"
    if "reconcile_failure E obs (stored obs s) b None"
    using that pvcForBuilder_panics by (fastforce simp: reconcile_failure_def failure_def)
  have "wp (Reconcile E req) (\<lambda>_ _. True) (\<lambda>e _. reconcile_failure E obs (stored obs s) b e) s"
    by (rule wp_Reconcile [OF assms(1-3)]) auto
  then show ?thesis
    using valid panic
    by (cases "Reconcile E req s"; cases "bs_templateRef (b_spec b)")
      (auto simp: wp_def reconcile_failure_def failure_def unresolved_def hiccup_fault split: outcome.splits)
qed

theorem admitted_failures_witness:
  "\<exists>spec p. spec_in (mem_objects (world (world_of big_web))) big_web spec
     \<and> cc_pvc (ts_cacheConfig spec) = Some p
     \<and> lib_ParseQuantity (still_env noon) (claim_size p) = None"
proof -
  have live: "om_deletionTimestamp (b_meta big_web) = None" by (simp add: big_web_def)
  have valid: "builder_ValidateCreate big_web = None" by code_simp
  have run: "fst (Reconcile (still_env noon) (meta_key (b_meta big_web)) (world_of big_web)) =
      Panic ''cannot parse quantity''" by code_simp
  from admitted_failures [OF still_good world_of_found live valid, of noon]
  show ?thesis unfolding run outcome.case .
qed

text \<open>C14: Whatever its outcome, a reconciliation leaves every stored object as it was that is
  neither the builder itself, nor one of its own objects, nor the namespace's authority.\<close>

theorem reconcile_frame:
  assumes "good_env E obs t0"
    and "stored obs s KBuilder req = Some (OBuilder b)"
    and "om_deletionTimestamp (b_meta b) = None"
    and "(k, key) \<notin> set (own_keys b)" and "(k, key) \<noteq> (KBuilder, meta_key (b_meta b))"
    and "(k, key) \<noteq> (KSecret, ObjectKey (b_namespace b) caSecretName)"
  shows "stored obs (snd (Reconcile E req s)) k key = stored obs s k key"
proof -
  have "(k, key) \<notin> reach b" using assms(4-6) by (auto simp: reach_def footprint_def)
  moreover have "wp (Reconcile E req) (\<lambda>_ s'. touches (reach b) (stored obs s) (stored obs s'))
      (\<lambda>_ s'. touches (reach b) (stored obs s) (stored obs s')) s"
    by (rule wp_Reconcile [OF assms(1-3)]) auto
  then have "touches (reach b) (stored obs s) (stored obs (snd (Reconcile E req s)))"
    by (cases "Reconcile E req s") (auto simp: wp_def split: outcome.splits)
  ultimately show ?thesis by (simp add: touchesD)
qed

theorem reconcile_frame_witness:
  "mem_objects (world (snd (run_of web))) KService (ObjectKey ''ci'' ''builder-nap'')
    = mem_objects (world (world_of web)) KService (ObjectKey ''ci'' ''builder-nap'')"
  unfolding run_of_def
  by (rule reconcile_frame [OF still_good world_of_found web_fields(1)])
    (simp_all add: web_def builderObjectName_def builderSubName_def)

text \<open>A builder that is gone ends the reconciliation at once: no error, no requeue, and one
  read is all that was asked.\<close>

lemma absent_builder:
  assumes "fst (cl_get E KBuilder req (world s)) = Inl NotFound"
  shows "fst (Reconcile E req s) = Ok no_requeue
    \<and> calls (snd (Reconcile E req s)) = calls s @ [(ReqGet KBuilder req, Some NotFound)]"
  using assms
  by (cases "cl_get E KBuilder req (world s)")
    (auto simp: Reconcile_def get_as_def client_Get_def bindP_def ret_def err_of_def)

text \<open>A deleted builder that has the claim finalizer is written back once, without that
  finalizer and otherwise unchanged, and the error of the write is returned; one that does
  not have it is left alone.\<close>

lemma deletion_removes_finalizer:
  assumes "finalizers_only E" and "\<And>m f. lib_ContainsFinalizer E m f = (f \<in> set (om_finalizers m))"
  shows "if FinalizerPVC \<in> set (om_finalizers (b_meta b))
    then (\<exists>e. calls (snd (reconcileDelete E b s)) = calls s @ [(ReqUpdate (OBuilder (b\<lparr>b_meta :=
             (b_meta b)\<lparr>om_finalizers := filter (\<lambda>f. f \<noteq> FinalizerPVC) (om_finalizers (b_meta b))\<rparr>\<rparr>)), e)]
           \<and> fst (reconcileDelete E b s) = (case e of None \<Rightarrow> Ok no_requeue | Some e \<Rightarrow> Err (ApiError e)))
    else reconcileDelete E b s = (Ok no_requeue, s)"
proof -
  let ?b = "b\<lparr>b_meta := lib_RemoveFinalizer E (b_meta b) FinalizerPVC\<rparr>"
  obtain e w where "cl_update E (OBuilder ?b) (world s) = (e, w)" by fastforce
  then show ?thesis
    using assms(1)
    by (auto simp: reconcileDelete_def assms(2) return_err_def client_Update_def bindP_def seqP_def
        ret_def throw_def finalizers_only_def split: option.split)
qed

text \<open>C21: The specification is resolved before the deletion is looked at, so a deleted builder
  whose template is gone keeps its finalizer: every reconciliation ends with the
  resolution's error, after two reads and an event, and nothing is written.\<close>

theorem deletion_blocked_by_template:
  assumes "fst (cl_get E KBuilder req (world s)) = Inr (OBuilder b)"
    and "om_deletionTimestamp (b_meta b) \<noteq> None"
    and "bs_templateRef (b_spec b) = Some ref"
    and "fst (cl_get E KTemplate (ObjectKey (b_namespace b) ref) (snd (cl_get E KBuilder req (world s))))
      = Inl NotFound"
  shows "fst (Reconcile E req s) = Err (TemplateNotFound ref (b_namespace b) NotFound)
    \<and> calls (snd (Reconcile E req s)) = calls s @
        [(ReqGet KBuilder req, None),
         (ReqGet KTemplate (ObjectKey (b_namespace b) ref), Some NotFound),
         (ReqEvent (meta_key (b_meta b)) ''SpecResolution''
            (TemplateNotFound ref (b_namespace b) NotFound), None)]"
proof -
  obtain w1 where get: "cl_get E KBuilder req (world s) = (Inr (OBuilder b), w1)"
    using assms(1) by (cases "cl_get E KBuilder req (world s)") auto
  obtain w2 where tmpl: "cl_get E KTemplate (ObjectKey (b_namespace b) ref) w1 = (Inl NotFound, w2)"
    using assms(4) get by (cases "cl_get E KTemplate (ObjectKey (b_namespace b) ref) w1") auto
  show ?thesis
    by (simp add: Reconcile_def get_as_def client_Get_def bindP_def ret_def get resolveSpec_def assms(3)
        tmpl throw_def handleP_def seqP_def recorder_Event_def err_of_def)
qed

theorem deletion_blocked_by_template_witness:
  "fst (Reconcile mem_env (ObjectKey ''ci'' ''old'') (start [OBuilder old_builder] [] 0))
     = Err (TemplateNotFound ''base'' ''ci'' NotFound)"
proof -
  have "fst (Reconcile mem_env (ObjectKey ''ci'' ''old'') (start [OBuilder old_builder] [] 0))
      = Err (TemplateNotFound ''base'' (b_namespace old_builder) NotFound)"
    by (rule deletion_blocked_by_template [THEN conjunct1])
      (simp_all add: mem_env_def mem_get_def old_builder_def)
  then show ?thesis by (simp add: old_builder_def)
qed



end
